(* ===== verification/Keychain_Prelude.thy ===== *)
theory Keychain_Prelude
  imports Main "HOL-Library.Word" "HOL-Library.Sublist"
begin

text \<open>
  Shared vocabulary of the development: machine integers, byte strings, the
  operations of Rust's \<^verbatim>\<open>str\<close> that the crate uses, and results.

  A Rust \<^verbatim>\<open>String\<close> or \<^verbatim>\<open>&str\<close> is its UTF-8 byte sequence, written as a
  HOL \<^typ>\<open>string\<close> (one \<^typ>\<open>char\<close> per byte), so \<open>length\<close> is Rust's \<^verbatim>\<open>len()\<close>.
  A \<^verbatim>\<open>Vec<u8>\<close>, \<^verbatim>\<open>&[u8]\<close> or \<^verbatim>\<open>[u8; N]\<close> is a list of \<open>8 word\<close>.
  Every \<^verbatim>\<open>Result\<close> is a sum with the error on the left.
\<close>

unbundle bit_operations_syntax

section \<open>Machine integers and bytes\<close>

type_synonym u8 = "8 word"
type_synonym u16 = "16 word"
type_synonym u32 = "32 word"
type_synonym u64 = "64 word"
type_synonym bytes = "u8 list"

named_theorems result_simps \<open>elimination of the result and effect combinators\<close>
named_theorems str_simps \<open>facts about the modelled string operations\<close>

definition str_bytes :: "string \<Rightarrow> bytes" where
  "str_bytes s = map (\<lambda>c. word_of_nat (of_char c)) s"

definition bytes_str :: "bytes \<Rightarrow> string" where
  "bytes_str bs = map (\<lambda>b. char_of (unat b)) bs"

lemma length_str_bytes [simp]: "length (str_bytes s) = length s"
  by (simp add: str_bytes_def)

lemma length_bytes_str [simp]: "length (bytes_str bs) = length bs"
  by (simp add: bytes_str_def)

lemma bytes_str_str_bytes [simp]: "bytes_str (str_bytes s) = s"
proof -
  have "char_of (unat (word_of_nat (of_char c) :: u8)) = c" for c :: char
    by (simp add: unat_of_nat take_bit_eq_mod)
  then show ?thesis by (simp add: str_bytes_def bytes_str_def comp_def)
qed

lemma str_bytes_bytes_str [simp]: "str_bytes (bytes_str bs) = bs"
proof -
  have "(word_of_nat (of_char (char_of (unat b) :: char)) :: u8) = b" for b :: u8
  proof -
    have "unat b < 256" using unsigned_less [of b, where 'a = nat] by simp
    then show ?thesis by simp
  qed
  then show ?thesis by (simp add: str_bytes_def bytes_str_def comp_def)
qed

lemma str_bytes_inject [simp]: "str_bytes s = str_bytes t \<longleftrightarrow> s = t"
  by (metis bytes_str_str_bytes)

lemma str_bytes_append [simp]: "str_bytes (s @ t) = str_bytes s @ str_bytes t"
  by (simp add: str_bytes_def)

section \<open>Formatting\<close>

text \<open>\<^verbatim>\<open>format!("{n}")\<close> for an unsigned integer, and \<^verbatim>\<open>{byte:02x}\<close> / \<^verbatim>\<open>{byte:02X}\<close>.\<close>

definition digit_char :: "nat \<Rightarrow> char" where
  "digit_char d = char_of (48 + d)"

fun show_nat :: "nat \<Rightarrow> string" where
  "show_nat n = (if n < 10 then [digit_char n] else show_nat (n div 10) @ [digit_char (n mod 10)])"

declare show_nat.simps [simp del]

definition show_int :: "int \<Rightarrow> string" where
  "show_int i = (if i < 0 then CHR ''-'' # show_nat (nat (- i)) else show_nat (nat i))"

definition hex_lower :: "nat \<Rightarrow> char" where
  "hex_lower d = (if d < 10 then char_of (48 + d) else char_of (87 + d))"

definition hex_upper :: "nat \<Rightarrow> char" where
  "hex_upper d = (if d < 10 then char_of (48 + d) else char_of (55 + d))"

definition hex2 :: "u8 \<Rightarrow> string" where
  "hex2 b = [hex_lower (unat b div 16), hex_lower (unat b mod 16)]"

definition hex2_upper :: "u8 \<Rightarrow> string" where
  "hex2_upper b = [hex_upper (unat b div 16), hex_upper (unat b mod 16)]"

lemma length_hex2 [simp]: "length (hex2 b) = 2" "length (hex2_upper b) = 2"
  by (simp_all add: hex2_def hex2_upper_def)

definition is_digit_char :: "char \<Rightarrow> bool" where
  "is_digit_char c \<longleftrightarrow> 48 \<le> (of_char c :: nat) \<and> (of_char c :: nat) \<le> 57"

definition digit_val :: "char \<Rightarrow> nat" where
  "digit_val c = of_char c - 48"

lemma digit_char_roundtrip [simp]:
  "d < 10 \<Longrightarrow> is_digit_char (digit_char d)" "d < 10 \<Longrightarrow> digit_val (digit_char d) = d"
  by (simp_all add: is_digit_char_def digit_char_def digit_val_def)

fun digits_val :: "nat \<Rightarrow> string \<Rightarrow> nat" where
  "digits_val acc [] = acc"
| "digits_val acc (c # cs) = digits_val (acc * 10 + digit_val c) cs"

lemma digits_val_append: "digits_val acc (s @ t) = digits_val (digits_val acc s) t"
  by (induction s arbitrary: acc) auto

lemma show_nat_digits: "list_all is_digit_char (show_nat n)"
proof (induction n rule: show_nat.induct)
  case (1 n)
  then show ?case by (subst show_nat.simps) simp
qed

lemma show_nat_nonempty [simp]: "show_nat n \<noteq> []"
  by (subst show_nat.simps) simp

lemma digits_val_show_nat [simp]: "digits_val 0 (show_nat n) = n"
proof (induction n rule: show_nat.induct)
  case (1 n)
  then show ?case by (subst show_nat.simps) (simp add: digits_val_append)
qed

lemma show_nat_inject [simp]: "show_nat m = show_nat n \<longleftrightarrow> m = n"
  by (metis digits_val_show_nat)

text \<open>\<^verbatim>\<open>str::parse\<close> into an unsigned integer below the bound: an optional plus sign, then digits.\<close>

definition parse_uint :: "nat \<Rightarrow> string \<Rightarrow> nat option" where
  "parse_uint bound s =
     (let ds = (case s of [] \<Rightarrow> [] | c # cs \<Rightarrow> if c = CHR ''+'' then cs else s)
      in if ds = [] \<or> \<not> list_all is_digit_char ds \<or> digits_val 0 ds \<ge> bound then None
         else Some (digits_val 0 ds))"

section \<open>String slices\<close>

definition strip_prefix :: "string \<Rightarrow> string \<Rightarrow> string option" where
  "strip_prefix p s = (if prefix p s then Some (drop (length p) s) else None)"

definition strip_suffix :: "string \<Rightarrow> string \<Rightarrow> string option" where
  "strip_suffix p s = (if suffix p s then Some (take (length s - length p) s) else None)"

text \<open>\<^verbatim>\<open>s.contains(needle)\<close>.\<close>

definition str_contains :: "string \<Rightarrow> string \<Rightarrow> bool" where
  "str_contains needle s \<longleftrightarrow> sublist needle s"

text \<open>\<^verbatim>\<open>s.split(c)\<close>: always at least one piece.\<close>

fun split_on :: "char \<Rightarrow> string \<Rightarrow> string list" where
  "split_on d [] = [[]]"
| "split_on d (c # cs) =
     (if c = d then [] # split_on d cs
      else case split_on d cs of [] \<Rightarrow> [[c]] | p # ps \<Rightarrow> (c # p) # ps)"

lemma split_on_nonempty [simp]: "split_on d s \<noteq> []"
  by (induction s) (auto split: list.split)

lemma split_on_no_sep: "d \<notin> set s \<Longrightarrow> split_on d s = [s]"
  by (induction s) auto

lemma split_on_append_sep: "d \<notin> set s \<Longrightarrow> split_on d (s @ d # t) = s # split_on d t"
  by (induction s) auto

lemma split_on_pieces_no_sep: "p \<in> set (split_on d s) \<Longrightarrow> d \<notin> set p"
  by (induction s arbitrary: p) (auto split: if_splits list.splits)

text \<open>Pieces joined by a separator, as \<^verbatim>\<open>join\<close> does.\<close>

fun join_with :: "string \<Rightarrow> string list \<Rightarrow> string" where
  "join_with sep [] = []"
| "join_with sep [p] = p"
| "join_with sep (p # q # ps) = p @ sep @ join_with sep (q # ps)"

lemma split_on_join:
  "ps \<noteq> [] \<Longrightarrow> (\<And>p. p \<in> set ps \<Longrightarrow> d \<notin> set p) \<Longrightarrow> split_on d (join_with [d] ps) = ps"
  by (induction "[d]" ps rule: join_with.induct) (auto simp: split_on_no_sep split_on_append_sep)

lemma join_split_on: "join_with [d] (split_on d s) = s"
proof (induction s)
  case (Cons c s)
  have "join_with [d] ((c # p) # ps) = c # join_with [d] (p # ps)" for p ps by (cases ps) simp_all
  with Cons show ?case by (cases "split_on d s") auto
qed simp

text \<open>
  \<^verbatim>\<open>str::trim\<close> removes Unicode \<^verbatim>\<open>White_Space\<close> at both ends. The table lists the UTF-8
  encodings of those code points: U+0009..U+000D, U+0020, U+0085, U+00A0, U+1680,
  U+2000..U+200A, U+2028, U+2029, U+202F, U+205F and U+3000.
\<close>

definition ws_encodings :: "string list" where
  "ws_encodings =
     [[CHR 0x09], [CHR 0x0A], [CHR 0x0B], [CHR 0x0C], [CHR 0x0D], [CHR 0x20],
      [CHR 0xC2, CHR 0x85], [CHR 0xC2, CHR 0xA0], [CHR 0xE1, CHR 0x9A, CHR 0x80],
      [CHR 0xE2, CHR 0x80, CHR 0x80], [CHR 0xE2, CHR 0x80, CHR 0x81], [CHR 0xE2, CHR 0x80, CHR 0x82],
      [CHR 0xE2, CHR 0x80, CHR 0x83], [CHR 0xE2, CHR 0x80, CHR 0x84], [CHR 0xE2, CHR 0x80, CHR 0x85],
      [CHR 0xE2, CHR 0x80, CHR 0x86], [CHR 0xE2, CHR 0x80, CHR 0x87], [CHR 0xE2, CHR 0x80, CHR 0x88],
      [CHR 0xE2, CHR 0x80, CHR 0x89], [CHR 0xE2, CHR 0x80, CHR 0x8A], [CHR 0xE2, CHR 0x80, CHR 0xA8],
      [CHR 0xE2, CHR 0x80, CHR 0xA9], [CHR 0xE2, CHR 0x80, CHR 0xAF], [CHR 0xE2, CHR 0x81, CHR 0x9F],
      [CHR 0xE3, CHR 0x80, CHR 0x80]]"

function strip_any :: "string list \<Rightarrow> string \<Rightarrow> string" where
  "strip_any ws s =
     (case find (\<lambda>w. w \<noteq> [] \<and> prefix w s) ws of
        None \<Rightarrow> s
      | Some w \<Rightarrow> strip_any ws (drop (length w) s))"
  by pat_completeness auto
termination
  by (relation "measure (\<lambda>(ws, s). length s)")
     (auto simp: find_Some_iff prefix_def)

declare strip_any.simps [simp del]

definition trim_start :: "string \<Rightarrow> string" where
  "trim_start s = strip_any ws_encodings s"

definition trim_end :: "string \<Rightarrow> string" where
  "trim_end s = rev (strip_any (map rev ws_encodings) (rev s))"

definition trim :: "string \<Rightarrow> string" where
  "trim s = trim_end (trim_start s)"

text \<open>\<^verbatim>\<open>s.trim_end_matches(c)\<close> for one ASCII character.\<close>

definition trim_end_matches :: "char \<Rightarrow> string \<Rightarrow> string" where
  "trim_end_matches c s = rev (dropWhile (\<lambda>x. x = c) (rev s))"

lemma strip_any_id: "(\<And>w. w \<in> set ws \<Longrightarrow> w \<noteq> [] \<Longrightarrow> \<not> prefix w s) \<Longrightarrow> strip_any ws s = s"
  by (subst strip_any.simps) (auto split: option.split simp: find_Some_iff)

lemma strip_any_no_prefix:
  "w \<in> set ws \<Longrightarrow> w \<noteq> [] \<Longrightarrow> \<not> prefix w (strip_any ws s)"
proof (induction ws s rule: strip_any.induct)
  case (1 ws s)
  show ?case
  proof (cases "find (\<lambda>w. w \<noteq> [] \<and> prefix w s) ws")
    case None
    then have "strip_any ws s = s" by (subst strip_any.simps) simp
    with None 1(2,3) show ?thesis by (auto simp: find_None_iff)
  next
    case (Some v)
    then have "strip_any ws s = strip_any ws (drop (length v) s)" by (subst strip_any.simps) simp
    with 1 Some show ?thesis by simp
  qed
qed

lemma strip_any_suffix: "suffix (strip_any ws s) s"
proof (induction ws s rule: strip_any.induct)
  case (1 ws s)
  show ?case
  proof (cases "find (\<lambda>w. w \<noteq> [] \<and> prefix w s) ws")
    case None
    then show ?thesis by (subst strip_any.simps) simp
  next
    case (Some v)
    then have "strip_any ws s = strip_any ws (drop (length v) s)" by (subst strip_any.simps) simp
    with 1 Some show ?thesis by (metis suffix_drop suffix_order.trans)
  qed
qed

text \<open>
  Characters of ordinary text: ASCII, and no white space. A string that starts and
  ends with such a character is left alone by \<^const>\<open>trim\<close>.
\<close>

definition is_graphic :: "char \<Rightarrow> bool" where
  "is_graphic c \<longleftrightarrow> 33 \<le> (of_char c :: nat) \<and> (of_char c :: nat) \<le> 126"

lemma ws_encodings_first: "w \<in> set ws_encodings \<Longrightarrow> w \<noteq> [] \<and> \<not> is_graphic (hd w) \<and> \<not> is_graphic (last w)"
  by (auto simp: ws_encodings_def is_graphic_def)

lemma trim_start_graphic: "is_graphic c \<Longrightarrow> trim_start (c # s) = c # s"
  unfolding trim_start_def
  by (rule strip_any_id) (use ws_encodings_first in \<open>force simp: prefix_Cons\<close>)

lemma trim_end_graphic: "is_graphic c \<Longrightarrow> trim_end (s @ [c]) = s @ [c]"
proof -
  assume c: "is_graphic c"
  have "strip_any (map rev ws_encodings) (c # rev s) = c # rev s"
    by (rule strip_any_id)
       (use c ws_encodings_first in \<open>force simp: prefix_Cons hd_rev [symmetric]\<close>)
  then show ?thesis by (simp add: trim_end_def)
qed

lemma trim_graphic_ends:
  "s \<noteq> [] \<Longrightarrow> is_graphic (hd s) \<Longrightarrow> is_graphic (last s) \<Longrightarrow> trim s = s"
  using trim_start_graphic [of "hd s" "tl s"] trim_end_graphic [of "last s" "butlast s"]
  by (simp add: trim_def)

lemma strip_any_Nil [simp]: "strip_any ws [] = []"
  by (rule strip_any_id) simp

lemma trim_Nil [simp]: "trim [] = []"
  by (simp add: trim_def trim_start_def trim_end_def)

lemma trim_start_space: "trim_start (CHR '' '' # s) = trim_start s"
  unfolding trim_start_def
  by (subst strip_any.simps) (simp add: ws_encodings_def)

lemma split_first_eq:
  "c \<notin> set xs \<Longrightarrow> c \<notin> set xs' \<Longrightarrow> xs @ c # ys = xs' @ c # ys' \<longleftrightarrow> xs = xs' \<and> ys = ys'"
proof (induction xs arbitrary: xs')
  case Nil
  then show ?case by (cases xs') auto
next
  case (Cons x xs)
  then show ?case by (cases xs') auto
qed

lemma bytes_str_append [simp]: "bytes_str (a @ b) = bytes_str a @ bytes_str b"
  by (simp add: bytes_str_def)

lemma bytes_str_inject [simp]: "bytes_str a = bytes_str b \<longleftrightarrow> a = b"
  by (metis str_bytes_bytes_str)

section \<open>Results\<close>

definition res_bind :: "'e + 'a \<Rightarrow> ('a \<Rightarrow> 'e + 'b) \<Rightarrow> 'e + 'b" where
  "res_bind r f = (case r of Inl e \<Rightarrow> Inl e | Inr x \<Rightarrow> f x)"

definition map_err :: "('e \<Rightarrow> 'f) \<Rightarrow> 'e + 'a \<Rightarrow> 'f + 'a" where
  "map_err g r = (case r of Inl e \<Rightarrow> Inl (g e) | Inr x \<Rightarrow> Inr x)"

definition ok_or :: "'e \<Rightarrow> 'a option \<Rightarrow> 'e + 'a" where
  "ok_or e v = (case v of None \<Rightarrow> Inl e | Some x \<Rightarrow> Inr x)"

definition is_ok :: "'e + 'a \<Rightarrow> bool" where
  "is_ok r = (case r of Inl _ \<Rightarrow> False | Inr _ \<Rightarrow> True)"

lemma res_bind_simps [simp]: "res_bind (Inl e) f = Inl e" "res_bind (Inr x) f = f x"
  by (simp_all add: res_bind_def)

lemma map_err_simps [simp]: "map_err g (Inl e) = Inl (g e)" "map_err g (Inr x) = Inr x"
  by (simp_all add: map_err_def)

lemma ok_or_simps [simp]: "ok_or e None = Inl e" "ok_or e (Some x) = Inr x"
  by (simp_all add: ok_or_def)

lemma is_ok_simps [simp]: "\<not> is_ok (Inl e)" "is_ok (Inr x)"
  by (simp_all add: is_ok_def)

lemma is_ok_iff: "is_ok r \<longleftrightarrow> (\<exists>x. r = Inr x)"
  by (cases r) simp_all

lemma res_bind_Inr [result_simps]: "res_bind r f = Inr y \<longleftrightarrow> (\<exists>x. r = Inr x \<and> f x = Inr y)"
  by (cases r) auto

lemma res_bind_Inl [result_simps]:
  "res_bind r f = Inl e \<longleftrightarrow> r = Inl e \<or> (\<exists>x. r = Inr x \<and> f x = Inl e)"
  by (cases r) auto

lemma map_err_Inr [result_simps]: "map_err g r = Inr x \<longleftrightarrow> r = Inr x"
  by (cases r) auto

lemma map_err_Inl [result_simps]: "map_err g r = Inl f \<longleftrightarrow> (\<exists>e. r = Inl e \<and> f = g e)"
  by (cases r) auto

lemma ok_or_Inr [result_simps]: "ok_or e v = Inr x \<longleftrightarrow> v = Some x"
  by (cases v) auto

lemma ok_or_Inl [result_simps]: "ok_or e v = Inl f \<longleftrightarrow> v = None \<and> f = e"
  by (cases v) auto

section \<open>Effects\<close>

text \<open>
  A fallible \<^verbatim>\<open>async fn\<close>: it runs in a world of type \<open>'w\<close>, and returns its
  \<^verbatim>\<open>Result\<close> with the world it leaves behind. \<open>io_bind\<close> is \<^verbatim>\<open>?\<close>: an error returns
  at once and keeps the effects made so far.
\<close>

type_synonym ('w, 'e, 'a) io = "'w \<Rightarrow> ('e + 'a) \<times> 'w"

definition io_bind :: "('w, 'e, 'a) io \<Rightarrow> ('a \<Rightarrow> ('w, 'e, 'b) io) \<Rightarrow> ('w, 'e, 'b) io" where
  "io_bind m f w = (case m w of (Inl e, w1) \<Rightarrow> (Inl e, w1) | (Inr x, w1) \<Rightarrow> f x w1)"

definition io_lift :: "'e + 'a \<Rightarrow> ('w, 'e, 'a) io" where
  "io_lift r w = (r, w)"

definition io_map_err :: "('e \<Rightarrow> 'f) \<Rightarrow> ('w, 'e, 'a) io \<Rightarrow> ('w, 'f, 'a) io" where
  "io_map_err g m w = (case m w of (r, w1) \<Rightarrow> (map_err g r, w1))"

text \<open>Run a computation of one world inside a pair of a mutable place and that world.\<close>

definition io_world :: "('w, 'e, 'a) io \<Rightarrow> ('s \<times> 'w, 'e, 'a) io" where
  "io_world m sw = (case m (snd sw) of (r, w1) \<Rightarrow> (r, (fst sw, w1)))"

definition io_place :: "('s, 'e, 'a) io \<Rightarrow> ('s \<times> 'w, 'e, 'a) io" where
  "io_place m sw = (case m (fst sw) of (r, s1) \<Rightarrow> (r, (s1, snd sw)))"

lemma io_bind_Inr [result_simps]:
  "io_bind m f w = (Inr y, w') \<longleftrightarrow> (\<exists>x w1. m w = (Inr x, w1) \<and> f x w1 = (Inr y, w'))"
  by (auto simp: io_bind_def split: prod.splits sum.splits)

lemma io_bind_Inl [result_simps]:
  "io_bind m f w = (Inl e, w') \<longleftrightarrow>
     m w = (Inl e, w') \<or> (\<exists>x w1. m w = (Inr x, w1) \<and> f x w1 = (Inl e, w'))"
  by (auto simp: io_bind_def split: prod.splits sum.splits)

lemma io_bind_lift: "io_bind (io_lift r) f t = (case r of Inl e \<Rightarrow> (Inl e, t) | Inr x \<Rightarrow> f x t)"
  by (simp add: io_bind_def io_lift_def split: sum.split)

lemma io_lift_iff [result_simps]: "io_lift r w = (r', w') \<longleftrightarrow> r = r' \<and> w = w'"
  by (auto simp: io_lift_def)

lemma io_map_err_Inr [result_simps]: "io_map_err g m w = (Inr x, w') \<longleftrightarrow> m w = (Inr x, w')"
  by (auto simp: io_map_err_def result_simps split: prod.splits)

lemma io_map_err_Inl [result_simps]:
  "io_map_err g m w = (Inl f, w') \<longleftrightarrow> (\<exists>e. m w = (Inl e, w') \<and> f = g e)"
  by (auto simp: io_map_err_def result_simps split: prod.splits)

lemma io_world_iff [result_simps]:
  "io_world m (s, w) = (r, (s', w')) \<longleftrightarrow> s' = s \<and> m w = (r, w')"
  by (auto simp: io_world_def split: prod.splits)

lemma io_place_iff [result_simps]:
  "io_place m (s, w) = (r, (s', w')) \<longleftrightarrow> w' = w \<and> m s = (r, s')"
  by (auto simp: io_place_def split: prod.splits)

text \<open>
  A world that is a list of events: \<open>emits P m\<close> says that \<open>m\<close> only appends events, each of which
  satisfies \<open>P\<close>.
\<close>

named_theorems emits_intros

definition emits :: "('ev \<Rightarrow> bool) \<Rightarrow> ('ev list, 'e, 'a) io \<Rightarrow> bool" where
  "emits P m \<longleftrightarrow> (\<forall>t. \<exists>es. snd (m t) = t @ es \<and> list_all P es)"

lemma emitsI: "(\<And>t. \<exists>es. snd (m t) = t @ es \<and> list_all P es) \<Longrightarrow> emits P m"
  by (simp add: emits_def)

lemma emitsE:
  assumes "emits P m" "m t = (r, t')"
  obtains es where "t' = t @ es" "list_all P es"
  using assms by (metis emits_def snd_conv)

lemma emits_mono: "emits P m \<Longrightarrow> (\<And>e. P e \<Longrightarrow> Q e) \<Longrightarrow> emits Q m"
  unfolding emits_def by (metis list.pred_mono_strong)

lemma emits_bind [emits_intros]:
  assumes "emits P m" "\<And>x. emits P (f x)"
  shows "emits P (io_bind m f)"
proof (rule emitsI)
  fix t
  obtain r t1 where m: "m t = (r, t1)" by fastforce
  then obtain es where es: "t1 = t @ es" "list_all P es" using assms(1) by (auto elim: emitsE)
  show "\<exists>es. snd (io_bind m f t) = t @ es \<and> list_all P es"
  proof (cases r)
    case (Inr x)
    obtain fs where "snd (f x t1) = t1 @ fs" "list_all P fs" using assms(2) by (auto simp: emits_def)
    then show ?thesis using m es Inr by (auto simp: io_bind_def)
  qed (use m es in \<open>auto simp: io_bind_def\<close>)
qed

lemma emits_lift [emits_intros]: "emits P (io_lift r)"
  by (auto simp: emits_def io_lift_def)

lemma emits_append [emits_intros]: "P e \<Longrightarrow> emits P (\<lambda>t. (r t, t @ [e]))"
  by (auto simp: emits_def)

lemma emits_map_err [emits_intros]: "emits P m \<Longrightarrow> emits P (io_map_err g m)"
  unfolding emits_def io_map_err_def by (metis (no_types, lifting) case_prod_unfold snd_conv)

lemma appended_after:
  "\<exists>es. x = (t @ [e]) @ es \<and> list_all P es \<Longrightarrow> P e \<Longrightarrow> \<exists>es. x = t @ es \<and> list_all P es"
  by (metis append.assoc append_Cons append_Nil list.pred_inject(2))

section \<open>UTF-8\<close>

text \<open>
  \<^verbatim>\<open>std::str::from_utf8\<close>. One step takes a well-formed character off the front; its error is the length of the
  bad sequence, or none when the input ends inside a character.
\<close>

definition is_cont :: "u8 \<Rightarrow> bool" where
  "is_cont b \<longleftrightarrow> 0x80 \<le> b \<and> b \<le> 0xBF"

fun take_conts :: "nat \<Rightarrow> nat \<Rightarrow> bytes \<Rightarrow> nat option + bytes" where
  "take_conts seen 0 bs = Inr bs"
| "take_conts seen (Suc n) [] = Inl None"
| "take_conts seen (Suc n) (b # bs) = (if is_cont b then take_conts (Suc seen) n bs else Inl (Some seen))"

definition second_ok :: "u8 \<Rightarrow> u8 \<Rightarrow> bool" where
  "second_ok b c \<longleftrightarrow> is_cont c \<and> (b = 0xE0 \<longrightarrow> 0xA0 \<le> c) \<and> (b = 0xED \<longrightarrow> c \<le> 0x9F) \<and>
     (b = 0xF0 \<longrightarrow> 0x90 \<le> c) \<and> (b = 0xF4 \<longrightarrow> c \<le> 0x8F)"

fun utf8_step :: "bytes \<Rightarrow> nat option + bytes" where
  "utf8_step [] = Inl None"
| "utf8_step (b # bs) =
     (if b \<le> 0x7F then Inr bs
      else if b < 0xC2 \<or> 0xF4 < b then Inl (Some 1)
      else case bs of
        [] \<Rightarrow> Inl None
      | c # cs \<Rightarrow>
          if \<not> second_ok b c then Inl (Some 1)
          else take_conts 2 (if b \<le> 0xDF then 0 else if b \<le> 0xEF then 1 else 2) cs)"

lemma take_conts_length: "take_conts seen n bs = Inr cs \<Longrightarrow> length cs \<le> length bs"
  by (induction seen n bs rule: take_conts.induct) (auto split: if_splits)

lemma utf8_step_shorter: "utf8_step bs = Inr cs \<Longrightarrow> length cs < length bs"
  by (cases bs) (auto split: if_splits list.splits dest!: take_conts_length)

text \<open>The error of the whole check: the index up to which the input is valid, and the error of the step there.\<close>

function utf8_check :: "nat \<Rightarrow> bytes \<Rightarrow> (nat \<times> nat option) + unit" where
  "utf8_check i bs =
     (if bs = [] then Inr ()
      else case utf8_step bs of
        Inl e \<Rightarrow> Inl (i, e)
      | Inr cs \<Rightarrow> utf8_check (i + (length bs - length cs)) cs)"
  by pat_completeness auto
termination
  by (relation "measure (\<lambda>(i, bs). length bs)") (auto dest: utf8_step_shorter)

declare utf8_check.simps [simp del]

definition utf8_valid :: "bytes \<Rightarrow> bool" where
  "utf8_valid bs \<longleftrightarrow> is_ok (utf8_check 0 bs)"

definition utf8_error_text :: "nat \<times> nat option \<Rightarrow> string" where
  "utf8_error_text e = (case e of
     (i, Some n) \<Rightarrow> ''invalid utf-8 sequence of '' @ show_nat n @ '' bytes from index '' @ show_nat i
   | (i, None) \<Rightarrow> ''incomplete utf-8 byte sequence from index '' @ show_nat i)"

lemma utf8_check_index: "is_ok (utf8_check i bs) \<longleftrightarrow> is_ok (utf8_check j bs)"
proof (induction i bs arbitrary: j rule: utf8_check.induct)
  case (1 i bs)
  show ?case
  proof (cases "bs = [] \<or> (\<exists>e. utf8_step bs = Inl e)")
    case True
    then show ?thesis by (subst (1 2) utf8_check.simps) (auto simp: is_ok_def)
  next
    case False
    then obtain cs where cs: "bs \<noteq> []" "utf8_step bs = Inr cs" by (cases "utf8_step bs") auto
    then have "utf8_check k bs = utf8_check (k + (length bs - length cs)) cs" for k
      by (subst utf8_check.simps) simp
    then show ?thesis using 1 cs by metis
  qed
qed

lemma utf8_valid_Nil [simp]: "utf8_valid []"
  by (simp add: utf8_valid_def utf8_check.simps is_ok_def)

lemma utf8_valid_Cons_ascii: "b \<le> 0x7F \<Longrightarrow> utf8_valid (b # bs) = utf8_valid bs"
  unfolding utf8_valid_def by (subst utf8_check.simps) (simp add: utf8_check_index [of "Suc 0" bs 0])

text \<open>\<^verbatim>\<open>String::from_utf8_lossy\<close>: every bad sequence becomes U+FFFD.\<close>

lemma take_conts_error_pos: "take_conts seen n bs = Inl (Some k) \<Longrightarrow> seen \<le> k"
  by (induction seen n bs rule: take_conts.induct) (auto split: if_splits)

lemma utf8_step_error_pos: "utf8_step bs = Inl (Some k) \<Longrightarrow> 1 \<le> k \<and> bs \<noteq> []"
  by (cases bs) (auto split: if_splits list.splits dest!: take_conts_error_pos)

function utf8_lossy :: "bytes \<Rightarrow> bytes" where
  "utf8_lossy bs =
     (if bs = [] then []
      else case utf8_step bs of
        Inr cs \<Rightarrow> take (length bs - length cs) bs @ utf8_lossy cs
      | Inl (Some k) \<Rightarrow> [0xEF, 0xBF, 0xBD] @ utf8_lossy (drop k bs)
      | Inl None \<Rightarrow> [0xEF, 0xBF, 0xBD])"
  by pat_completeness auto
termination
  by (relation "measure length") (auto dest: utf8_step_shorter utf8_step_error_pos)

declare utf8_lossy.simps [simp del]

text \<open>\<^verbatim>\<open>str::replace\<close> with a pattern that is not empty, and \<^verbatim>\<open>str::rsplit_once\<close>.\<close>

function str_replace :: "string \<Rightarrow> string \<Rightarrow> string \<Rightarrow> string" where
  "str_replace pat rep s =
     (case s of
        [] \<Rightarrow> []
      | c # cs \<Rightarrow> if pat \<noteq> [] \<and> prefix pat s then rep @ str_replace pat rep (drop (length pat) s) else c # str_replace pat rep cs)"
  by pat_completeness auto
termination
  by (relation "measure (\<lambda>(pat, rep, s). length s)") auto

declare str_replace.simps [simp del]

definition rsplit_once :: "string \<Rightarrow> string \<Rightarrow> (string \<times> string) option" where
  "rsplit_once pat s =
     map_option (\<lambda>i. (take i s, drop (i + length pat) s)) (List.find (\<lambda>i. prefix pat (drop i s)) (rev [0..<length s]))"

text \<open>\<^verbatim>\<open>str::eq_ignore_ascii_case\<close>.\<close>

definition ascii_lower :: "char \<Rightarrow> char" where
  "ascii_lower c = (if of_char c \<ge> (65 :: nat) \<and> of_char c \<le> (90 :: nat) then char_of (of_char c + (32 :: nat)) else c)"

definition eq_ignore_ascii_case :: "string \<Rightarrow> string \<Rightarrow> bool" where
  "eq_ignore_ascii_case s t \<longleftrightarrow> map ascii_lower s = map ascii_lower t"

definition unwrap_or :: "'a \<Rightarrow> 'a option \<Rightarrow> 'a" where
  "unwrap_or d v = (case v of None \<Rightarrow> d | Some x \<Rightarrow> x)"

end
