(* ===== verification/Sdk_Types.thy ===== *)
theory Sdk_Types
  imports Keychain_Prelude
begin

text \<open>
  The Solana SDK values the crate handles (\<^verbatim>\<open>src/rust/src/sdk_adapter\<close>) and the functions of
  third-party crates it calls.

  \<^item> \<^verbatim>\<open>Pubkey\<close> and \<^verbatim>\<open>Signature\<close> wrap byte arrays; of a \<^verbatim>\<open>VersionedTransaction\<close> the crate reads
    the signature list, the header's \<^verbatim>\<open>num_required_signatures\<close> and the static account keys.
    Everything else a message carries stays in \<open>msg_rest\<close>, which no definition inspects.
  \<^item> Code outside the repository is the record \<open>sdk\<close>, an argument of every definition that
    calls it: message and wire serialization (the Solana SDK with bincode or wincode),
    ZIP-215 verification (ed25519-zebra), base58, base64, hex and SHA-256. Nothing is assumed of
    these functions except where a theorem says so.
\<close>

section \<open>Keys, signatures and transactions\<close>

datatype pubkey = Pubkey (pubkey_bytes: bytes)

datatype signature = Signature (signature_ref: bytes)

text \<open>\<^verbatim>\<open>Signature::default()\<close>: 64 zero bytes, the placeholder of an unsigned slot.\<close>

definition default_signature :: signature where
  "default_signature = Signature (replicate 64 0)"

record versioned_message =
  msg_num_required_signatures :: u8
  msg_static_account_keys :: "pubkey list"
  msg_rest :: bytes

record versioned_transaction =
  tx_signatures :: "signature list"
  tx_message :: versioned_message

abbreviation num_required :: "versioned_transaction \<Rightarrow> nat" where
  "num_required tx \<equiv> unat (msg_num_required_signatures (tx_message tx))"

abbreviation account_keys :: "versioned_transaction \<Rightarrow> pubkey list" where
  "account_keys tx \<equiv> msg_static_account_keys (tx_message tx)"

text \<open>\<^verbatim>\<open>slice.first().copied()\<close>.\<close>

definition first :: "'a list \<Rightarrow> 'a option" where
  "first xs = (case xs of [] \<Rightarrow> None | x # _ \<Rightarrow> Some x)"

text \<open>\<^verbatim>\<open>iter().position(|x| p(x))\<close>.\<close>

fun position :: "('a \<Rightarrow> bool) \<Rightarrow> 'a list \<Rightarrow> nat option" where
  "position p [] = None"
| "position p (x # xs) = (if p x then Some 0 else map_option Suc (position p xs))"

lemma position_Some_iff:
  "position p xs = Some i \<longleftrightarrow> i < length xs \<and> p (xs ! i) \<and> (\<forall>j < i. \<not> p (xs ! j))"
proof (induction xs arbitrary: i)
  case Nil
  then show ?case by simp
next
  case (Cons x xs)
  show ?case
  proof (cases i)
    case 0
    then show ?thesis by (auto split: if_splits)
  next
    case (Suc k)
    then show ?thesis using Cons.IH [of k] by (auto simp: All_less_Suc2)
  qed
qed

lemma position_None_iff: "position p xs = None \<longleftrightarrow> (\<forall>x \<in> set xs. \<not> p x)"
  by (induction xs) auto

lemma first_simps [simp]: "first [] = None" "first (x # xs) = Some x"
  by (simp_all add: first_def)

lemma first_Some_iff: "first xs = Some x \<longleftrightarrow> xs \<noteq> [] \<and> x = xs ! 0"
  by (cases xs) auto

section \<open>Third-party functions\<close>

record sdk =
  message_serialize :: "versioned_message \<Rightarrow> bytes"
  wire_serialize :: "versioned_transaction \<Rightarrow> string + bytes"
  wire_deserialize :: "bytes \<Rightarrow> string + versioned_transaction"
  zebra_key_ok :: "bytes \<Rightarrow> bool"
  zebra_verify :: "bytes \<Rightarrow> bytes \<Rightarrow> bytes \<Rightarrow> bool"
  bs58_encode :: "bytes \<Rightarrow> string"
  bs58_decode :: "string \<Rightarrow> string + bytes"
  b64_encode :: "bytes \<Rightarrow> string"
  b64_decode :: "string \<Rightarrow> string + bytes"
  hex_decode :: "string \<Rightarrow> string + bytes"
  sha256 :: "bytes \<Rightarrow> bytes"
  pubkey_from_str :: "string \<Rightarrow> string + pubkey"

text \<open>
  A concrete instance, used by witnesses only: the wire format is the number of signatures and
  the opaque part of the message; base64 is played by two hex digits per byte, base58 by the
  bytes themselves; a signature verifies when it is the public key followed by the padded
  message, cut to 64 bytes.
\<close>

definition hex_digit_val :: "char \<Rightarrow> nat" where
  "hex_digit_val c = (if of_char c < (58 :: nat) then of_char c - 48 else of_char c - 87)"

fun demo_unhex :: "string \<Rightarrow> string + bytes" where
  "demo_unhex [] = Inr []"
| "demo_unhex [c] = Inl ''odd length''"
| "demo_unhex (c # d # cs) =
     res_bind (demo_unhex cs)
       (\<lambda>bs. Inr (word_of_nat (16 * hex_digit_val c + hex_digit_val d) # bs))"

definition demo_seal :: "bytes \<Rightarrow> bytes \<Rightarrow> bytes" where
  "demo_seal pk m = take 64 (take 32 pk @ m @ replicate 64 9)"

definition demo_sdk :: sdk where
  "demo_sdk =
     \<lparr>message_serialize = (\<lambda>m. msg_num_required_signatures m # msg_rest m),
      wire_serialize = (\<lambda>tx. Inr (word_of_nat (length (tx_signatures tx)) # msg_rest (tx_message tx))),
      wire_deserialize = (\<lambda>bs. Inl ''unsupported''),
      zebra_key_ok = (\<lambda>pk. length pk = 32),
      zebra_verify = (\<lambda>pk sig m. sig = demo_seal pk m),
      bs58_encode = bytes_str,
      bs58_decode = (\<lambda>s. Inr (str_bytes s)),
      b64_encode = (\<lambda>bs. concat (map hex2 bs)),
      b64_decode = demo_unhex,
      hex_decode = demo_unhex,
      sha256 = (\<lambda>m. take 32 (m @ replicate 32 0)),
      pubkey_from_str = (\<lambda>s. if length s = 32 then Inr (Pubkey (str_bytes s)) else Inl ''length'')\<rparr>"

lemma hex_digit_val_hex_lower: "d < 16 \<Longrightarrow> hex_digit_val (hex_lower d) = d"
  by (auto simp: hex_digit_val_def hex_lower_def)

lemma demo_unhex_hex2: "demo_unhex (concat (map hex2 bs)) = Inr bs"
proof (induction bs)
  case (Cons b bs)
  have "unat b < 256" using unsigned_less [of b, where 'a = nat] by simp
  then have "16 * (unat b div 16) + unat b mod 16 = unat b" "unat b div 16 < 16" by auto
  then show ?case using Cons by (simp add: hex2_def hex_digit_val_hex_lower)
qed simp

definition demo_key :: "u8 \<Rightarrow> pubkey" where
  "demo_key k = Pubkey (replicate 32 k)"

text \<open>A two-signer transaction that nobody has signed yet.\<close>

definition demo_tx :: versioned_transaction where
  "demo_tx = \<lparr>tx_signatures = [],
     tx_message = \<lparr>msg_num_required_signatures = 2,
       msg_static_account_keys = [demo_key 1, demo_key 2, demo_key 3], msg_rest = [42]\<rparr>\<rparr>"

text \<open>The same message with a single required signer.\<close>

definition demo_tx1 :: versioned_transaction where
  "demo_tx1 = \<lparr>tx_signatures = [],
     tx_message = \<lparr>msg_num_required_signatures = 1,
       msg_static_account_keys = [demo_key 1, demo_key 3], msg_rest = [42]\<rparr>\<rparr>"

end
