(* ===== verification/Signer_Error.thy ===== *)
theory Signer_Error
  imports Sdk_Types
begin

text \<open>
  \<^verbatim>\<open>src/rust/src/error.rs\<close>: the error type of every operation, with its \<^verbatim>\<open>Display\<close> and its redacting
  \<^verbatim>\<open>Debug\<close>. Theorem \<open>rendering_hides_detail\<close> shows that neither reveals the detail text.
\<close>

section \<open>The error type\<close>

datatype signer_error =
    InvalidPrivateKey string
  | InvalidPublicKey string
  | SigningFailed string
  | RemoteApiError (remote_detail: string) (remote_provider_tx_id: "string option")
  | HttpError string
  | SerializationError string
  | ConfigError string
  | NotAvailable string
  | UserRejected string
  | IoError string
  | BroadcastUnconfirmed (provider_tx_id: "string option") (provider_status: "u16 option")
      (idempotency_key: "string option") (transaction_signature: "signature option")
      (unconfirmed_detail: string)
  | Other string

type_synonym 'a result = "signer_error + 'a"
type_synonym ('w, 'a) signer_io = "('w, signer_error, 'a) io"

definition remote_api :: "string \<Rightarrow> signer_error" where
  "remote_api detail = RemoteApiError detail None"

fun detail_string :: "signer_error \<Rightarrow> string" where
  "detail_string (InvalidPrivateKey d) = d"
| "detail_string (InvalidPublicKey d) = d"
| "detail_string (SigningFailed d) = d"
| "detail_string (HttpError d) = d"
| "detail_string (SerializationError d) = d"
| "detail_string (ConfigError d) = d"
| "detail_string (NotAvailable d) = d"
| "detail_string (UserRejected d) = d"
| "detail_string (IoError d) = d"
| "detail_string (Other d) = d"
| "detail_string (RemoteApiError d _) = d"
| "detail_string (BroadcastUnconfirmed _ _ _ _ d) = d"

text \<open>The \<^verbatim>\<open>#[error(...)]\<close> attributes.\<close>

fun display_error :: "signer_error \<Rightarrow> string" where
  "display_error (InvalidPrivateKey _) = ''Invalid private key format''"
| "display_error (InvalidPublicKey _) = ''Invalid public key''"
| "display_error (SigningFailed _) = ''Signing failed''"
| "display_error (RemoteApiError _ _) = ''Remote API error''"
| "display_error (HttpError _) = ''HTTP request failed''"
| "display_error (SerializationError _) = ''Serialization error''"
| "display_error (ConfigError _) = ''Configuration error''"
| "display_error (NotAvailable _) = ''Signer not available''"
| "display_error (UserRejected _) = ''Request rejected by user''"
| "display_error (IoError _) = ''IO error''"
| "display_error (BroadcastUnconfirmed tid _ _ _ _) =
     ''Broadcast unconfirmed; the provider may have executed the transaction'' @
     (case tid of None \<Rightarrow> '''' | Some i \<Rightarrow> '' (provider transaction id: '' @ i @ '')'')"
| "display_error (Other _) = ''Signer error''"

fun debug_error :: "signer_error \<Rightarrow> string" where
  "debug_error (InvalidPrivateKey _) = ''SignerError::InvalidPrivateKey([REDACTED])''"
| "debug_error (InvalidPublicKey _) = ''SignerError::InvalidPublicKey([REDACTED])''"
| "debug_error (SigningFailed _) = ''SignerError::SigningFailed([REDACTED])''"
| "debug_error (RemoteApiError _ tid) =
     (case tid of
        Some i \<Rightarrow> ''SignerError::RemoteApiError(provider_tx_id: '' @ i @ '', [REDACTED])''
      | None \<Rightarrow> ''SignerError::RemoteApiError([REDACTED])'')"
| "debug_error (HttpError _) = ''SignerError::HttpError([REDACTED])''"
| "debug_error (SerializationError _) = ''SignerError::SerializationError([REDACTED])''"
| "debug_error (ConfigError _) = ''SignerError::ConfigError([REDACTED])''"
| "debug_error (NotAvailable _) = ''SignerError::NotAvailable([REDACTED])''"
| "debug_error (UserRejected _) = ''SignerError::UserRejected([REDACTED])''"
| "debug_error (IoError _) = ''SignerError::IoError([REDACTED])''"
| "debug_error (BroadcastUnconfirmed tid _ key _ _) =
     ''SignerError::BroadcastUnconfirmed(provider_tx_id: '' @
     (case tid of None \<Rightarrow> ''unknown'' | Some i \<Rightarrow> i) @ '', idempotency_key: '' @
     (case key of None \<Rightarrow> ''unknown'' | Some k \<Rightarrow> k) @ '', [REDACTED])''"
| "debug_error (Other _) = ''SignerError::Other([REDACTED])''"

section \<open>Redaction\<close>

text \<open>The same error with another detail text (not code of the crate: it states redaction).\<close>

fun with_detail :: "string \<Rightarrow> signer_error \<Rightarrow> signer_error" where
  "with_detail d (InvalidPrivateKey _) = InvalidPrivateKey d"
| "with_detail d (InvalidPublicKey _) = InvalidPublicKey d"
| "with_detail d (SigningFailed _) = SigningFailed d"
| "with_detail d (RemoteApiError _ tid) = RemoteApiError d tid"
| "with_detail d (HttpError _) = HttpError d"
| "with_detail d (SerializationError _) = SerializationError d"
| "with_detail d (ConfigError _) = ConfigError d"
| "with_detail d (NotAvailable _) = NotAvailable d"
| "with_detail d (UserRejected _) = UserRejected d"
| "with_detail d (IoError _) = IoError d"
| "with_detail d (BroadcastUnconfirmed tid st key sig _) = BroadcastUnconfirmed tid st key sig d"
| "with_detail d (Other _) = Other d"

lemma with_detail_detail [simp]: "detail_string (with_detail d e) = d"
  by (cases e) simp_all

lemma with_detail_own [simp]: "with_detail (detail_string e) e = e"
  by (cases e) simp_all

lemma rendering_with_detail [simp]:
  "display_error (with_detail d e) = display_error e"
  "debug_error (with_detail d e) = debug_error e"
  by (cases e; simp)+

text \<open>Is an error the one that says the transaction may have been broadcast?\<close>

definition is_unconfirmed :: "signer_error \<Rightarrow> bool" where
  "is_unconfirmed e = (case e of BroadcastUnconfirmed _ _ _ _ _ \<Rightarrow> True | _ \<Rightarrow> False)"

lemma is_unconfirmed_simps [simp]:
  "is_unconfirmed (BroadcastUnconfirmed a b c s d)"
  "\<not> is_unconfirmed (SigningFailed m)"
  "\<not> is_unconfirmed (RemoteApiError m i)"
  "\<not> is_unconfirmed (ConfigError m)"
  by (simp_all add: is_unconfirmed_def)

section \<open>Properties\<close>

text \<open>
  Neither rendering of an error depends on its detail text: \<^verbatim>\<open>Display\<close> and \<^verbatim>\<open>Debug\<close> of an error are
  those of the same error with any other detail, so response bodies and key material that end up there never reach
  a log through formatting, while the detail itself stays readable to code that asks for it.
\<close>

theorem rendering_hides_detail:
  "display_error (with_detail d e) = display_error e \<and> debug_error (with_detail d e) = debug_error e \<and>
   detail_string (with_detail d e) = d"
  by simp

end
