(* ===== verification/Transaction_Util.thy ===== *)
theory Transaction_Util
  imports Signer_Error "HOL-Library.Multiset"
begin

text \<open>
  \<^verbatim>\<open>src/rust/src/transaction_util.rs\<close> and the result type of \<^verbatim>\<open>traits.rs\<close>: signature slots, wire
  encoding, the complete/partial classification, idempotency keys, the classification of
  ambiguous creates, and the slot that keeps provider ids of cancelled calls.
\<close>

section \<open>Signed transactions\<close>

type_synonym signed_transaction = "string \<times> signature"

datatype sign_transaction_result =
    Complete signed_transaction
  | Partial signed_transaction

fun into_signed_transaction :: "sign_transaction_result \<Rightarrow> signed_transaction" where
  "into_signed_transaction (Complete st) = st"
| "into_signed_transaction (Partial st) = st"

definition serialize_wire_transaction :: "('x sdk_scheme) \<Rightarrow> versioned_transaction \<Rightarrow> bytes result" where
  "serialize_wire_transaction S tx =
     map_err (\<lambda>e. SerializationError (''Failed to serialize transaction: '' @ e)) (wire_serialize S tx)"

definition deserialize_wire_transaction :: "('x sdk_scheme) \<Rightarrow> bytes \<Rightarrow> versioned_transaction result" where
  "deserialize_wire_transaction S bs =
     map_err (\<lambda>e. SerializationError (''Failed to deserialize transaction: '' @ e)) (wire_deserialize S bs)"

definition serialize_transaction :: "('x sdk_scheme) \<Rightarrow> versioned_transaction \<Rightarrow> string result" where
  "serialize_transaction S tx =
     res_bind (serialize_wire_transaction S tx) (\<lambda>bs. Inr (b64_encode S bs))"

definition get_signing_keypair_position ::
  "('x sdk_scheme) \<Rightarrow> versioned_transaction \<Rightarrow> pubkey \<Rightarrow> nat result" where
  "get_signing_keypair_position S tx pk =
     (let n = num_required tx in
      if length (account_keys tx) < n
      then Inl (SigningFailed ''Invalid account index: not enough account keys'')
      else ok_or
        (SigningFailed (''Pubkey '' @ bs58_encode S (pubkey_bytes pk) @
           '' not found in transaction signers''))
        (position (\<lambda>x. x = pk) (take n (account_keys tx))))"

text \<open>\<^verbatim>\<open>Vec::resize\<close> to a larger length.\<close>

definition resize_to :: "nat \<Rightarrow> 'a \<Rightarrow> 'a list \<Rightarrow> 'a list" where
  "resize_to n x xs = xs @ replicate (n - length xs) x"

text \<open>
  The in-place update of the caller's transaction. \<^verbatim>\<open>signatures[position] = signature\<close> would panic out
  of range; \<open>add_signature_slot_in_range\<close> below shows that it never is.
\<close>

definition add_signature_to_transaction ::
  "('x sdk_scheme) \<Rightarrow> pubkey \<Rightarrow> signature \<Rightarrow> (versioned_transaction, unit) signer_io" where
  "add_signature_to_transaction S pk sig tx =
     (case get_signing_keypair_position S tx pk of
        Inl e \<Rightarrow> (Inl e, tx)
      | Inr p \<Rightarrow>
          let n = num_required tx;
              sigs = (if length (tx_signatures tx) < n
                      then resize_to n default_signature (tx_signatures tx)
                      else tx_signatures tx)
          in (Inr (), tx\<lparr>tx_signatures := sigs[p := sig]\<rparr>))"

definition has_all_required_signatures :: "versioned_transaction \<Rightarrow> bool" where
  "has_all_required_signatures tx =
     (if length (tx_signatures tx) < num_required tx then False
      else list_all (\<lambda>s. s \<noteq> default_signature) (take (num_required tx) (tx_signatures tx)))"

definition classify_signed_transaction ::
  "versioned_transaction \<Rightarrow> signed_transaction \<Rightarrow> sign_transaction_result" where
  "classify_signed_transaction tx st =
     (if has_all_required_signatures tx then Complete st else Partial st)"

section \<open>Creates: idempotency keys and ambiguous outcomes\<close>

definition str_slice :: "nat \<Rightarrow> nat \<Rightarrow> 'a list \<Rightarrow> 'a list" where
  "str_slice a b s = take (b - a) (drop a s)"

definition idempotency_key_from_message :: "('x sdk_scheme) \<Rightarrow> bytes \<Rightarrow> string" where
  "idempotency_key_from_message S message_bytes =
     (let digest = sha256 S message_bytes;
          key0 = take 16 digest;
          key1 = key0[6 := (key0 ! 6 AND 0x0f) OR 0x40];
          key = key1[8 := (key1 ! 8 AND 0x3f) OR 0x80];
          hex = concat (map hex2 key)
      in str_slice 0 8 hex @ ''-'' @ str_slice 8 12 hex @ ''-'' @ str_slice 12 16 hex @ ''-'' @
         str_slice 16 20 hex @ ''-'' @ str_slice 20 32 hex)"

definition opt_filter :: "('a \<Rightarrow> bool) \<Rightarrow> 'a option \<Rightarrow> 'a option" where
  "opt_filter p v = (case v of None \<Rightarrow> None | Some x \<Rightarrow> if p x then Some x else None)"

definition unconfirmed_unless_rejected ::
  "u16 option \<Rightarrow> string option \<Rightarrow> string option \<Rightarrow> signer_error \<Rightarrow> signer_error" where
  "unconfirmed_unless_rejected status tid key err =
     (if (case status of Some s \<Rightarrow> 400 \<le> s \<and> s < 500 \<and> s \<noteq> 408 | None \<Rightarrow> False) then err
      else BroadcastUnconfirmed tid (opt_filter (\<lambda>s. 400 \<le> s) status) key None (detail_string err))"

section \<open>Pending provider ids\<close>

text \<open>
  \<^verbatim>\<open>PendingTransactionId(Arc<Mutex<Vec<String>>>)\<close>. The mutex is poisoned when a thread panicked
  while holding it; every access then falls through.
\<close>

record pending_slot =
  slot_ids :: "string list"
  slot_poisoned :: bool

definition pending_new :: pending_slot where
  "pending_new = \<lparr>slot_ids = [], slot_poisoned = False\<rparr>"

definition pending_ids :: "pending_slot \<Rightarrow> string list" where
  "pending_ids p = (if slot_poisoned p then [] else slot_ids p)"

definition pending_get :: "pending_slot \<Rightarrow> string option" where
  "pending_get p = (if pending_ids p = [] then None else Some (last (pending_ids p)))"

definition pending_set :: "string \<Rightarrow> pending_slot \<Rightarrow> pending_slot" where
  "pending_set i p = (if slot_poisoned p then p else p\<lparr>slot_ids := slot_ids p @ [i]\<rparr>)"

definition pending_clear :: "string \<Rightarrow> pending_slot \<Rightarrow> pending_slot" where
  "pending_clear i p =
     (if slot_poisoned p then p
      else case position (\<lambda>x. x = i) (slot_ids p) of
             None \<Rightarrow> p
           | Some k \<Rightarrow> p\<lparr>slot_ids := take k (slot_ids p) @ drop (Suc k) (slot_ids p)\<rparr>)"

section \<open>Signature slots\<close>

lemma opt_filter_simps [simp]:
  "opt_filter p None = None" "opt_filter p (Some x) = (if p x then Some x else None)"
  by (simp_all add: opt_filter_def)

lemma opt_filter_Some_iff: "opt_filter p v = Some x \<longleftrightarrow> v = Some x \<and> p x"
  by (cases v) auto

lemma length_resize_to [simp]: "length (resize_to n x xs) = max n (length xs)"
  by (simp add: resize_to_def max_def)

lemma nth_resize_to: "i < n \<Longrightarrow> resize_to n x xs ! i = (if i < length xs then xs ! i else x)"
  by (simp add: resize_to_def nth_append)

lemma signing_position_iff:
  "get_signing_keypair_position S tx pk = Inr p \<longleftrightarrow>
     num_required tx \<le> length (account_keys tx) \<and> p < num_required tx \<and>
     account_keys tx ! p = pk \<and> (\<forall>j < p. account_keys tx ! j \<noteq> pk)"
  by (auto simp: get_signing_keypair_position_def Let_def position_Some_iff result_simps)

lemma signing_position_exists_iff:
  "(\<exists>p. get_signing_keypair_position S tx pk = Inr p) \<longleftrightarrow>
     num_required tx \<le> length (account_keys tx) \<and> pk \<in> set (take (num_required tx) (account_keys tx))"
proof -
  have "(\<exists>p. position (\<lambda>x. x = pk) ks = Some p) \<longleftrightarrow> pk \<in> set ks" for ks
    using position_None_iff [of "\<lambda>x. x = pk" ks] by (cases "position (\<lambda>x. x = pk) ks") auto
  then show ?thesis
    by (auto simp: get_signing_keypair_position_def Let_def result_simps)
qed

lemma add_signature_Inr:
  "add_signature_to_transaction S pk sig tx = (Inr u, tx') \<longleftrightarrow>
     (\<exists>p. get_signing_keypair_position S tx pk = Inr p \<and>
        tx' = tx\<lparr>tx_signatures := (resize_to (num_required tx) default_signature (tx_signatures tx))[p := sig]\<rparr>)"
  by (auto simp: add_signature_to_transaction_def Let_def resize_to_def split: sum.splits)

lemma add_signature_Inl:
  "add_signature_to_transaction S pk sig tx = (Inl e, tx') \<longleftrightarrow>
     get_signing_keypair_position S tx pk = Inl e \<and> tx' = tx"
  by (auto simp: add_signature_to_transaction_def Let_def split: sum.splits)

lemma add_signature_slot_in_range:
  assumes "get_signing_keypair_position S tx pk = Inr p"
  shows "p < length (resize_to (num_required tx) default_signature (tx_signatures tx))"
  using assms by (simp add: signing_position_iff less_max_iff_disj)

lemma add_signature_message [simp]:
  "tx_message (snd (add_signature_to_transaction S pk sig tx)) = tx_message tx"
  by (auto simp: add_signature_to_transaction_def Let_def split: sum.splits)

lemma add_signature_slots:
  assumes "add_signature_to_transaction S pk sig tx = (Inr u, tx')"
  shows "tx_message tx' = tx_message tx"
    and "length (tx_signatures tx') = max (num_required tx) (length (tx_signatures tx))"
    and "\<exists>p. get_signing_keypair_position S tx pk = Inr p \<and> p < length (tx_signatures tx') \<and>
      tx_signatures tx' ! p = sig \<and>
      (\<forall>i < length (tx_signatures tx'). i \<noteq> p \<longrightarrow> tx_signatures tx' ! i =
         (if i < length (tx_signatures tx) then tx_signatures tx ! i else default_signature))"
  using assms by (auto simp: add_signature_Inr signing_position_iff resize_to_def nth_append nth_list_update)

lemma has_all_required_iff:
  "has_all_required_signatures tx \<longleftrightarrow>
     num_required tx \<le> length (tx_signatures tx) \<and>
     (\<forall>i < num_required tx. tx_signatures tx ! i \<noteq> default_signature)"
  by (auto simp: has_all_required_signatures_def list_all_length)

lemma classify_cases:
  "classify_signed_transaction tx st = Complete st' \<longleftrightarrow> has_all_required_signatures tx \<and> st' = st"
  "classify_signed_transaction tx st = Partial st' \<longleftrightarrow> \<not> has_all_required_signatures tx \<and> st' = st"
  by (auto simp: classify_signed_transaction_def)

lemma into_signed_classify [simp]:
  "into_signed_transaction (classify_signed_transaction tx st) = st"
  by (simp add: classify_signed_transaction_def)

section \<open>The pending slot as a bag of ids\<close>

text \<open>
  A run of registrations (\<open>True\<close>) and clears (\<open>False\<close>) in the order concurrent calls make them,
  the ids in flight after it, and the side condition that every clear answers an id in flight.
\<close>

fun run_ids :: "(string \<Rightarrow> 's \<Rightarrow> 's) \<Rightarrow> (string \<Rightarrow> 's \<Rightarrow> 's) \<Rightarrow> (bool \<times> string) list \<Rightarrow> 's \<Rightarrow> 's" where
  "run_ids put out [] s = s"
| "run_ids put out ((b, i) # es) s = run_ids put out es (if b then put i s else out i s)"

fun in_flight :: "string multiset \<Rightarrow> (bool \<times> string) list \<Rightarrow> string multiset" where
  "in_flight M [] = M"
| "in_flight M ((b, i) # es) = in_flight (if b then add_mset i M else M - {#i#}) es"

fun answered :: "string multiset \<Rightarrow> (bool \<times> string) list \<Rightarrow> bool" where
  "answered M [] = True"
| "answered M ((b, i) # es) =
     (if b then answered (add_mset i M) es else i \<in># M \<and> answered (M - {#i#}) es)"

lemma in_flight_add:
  "answered M es \<Longrightarrow> in_flight (add_mset i M) es = add_mset i (in_flight M es)"
proof (induction M es rule: answered.induct)
  case (2 M b j es)
  then show ?case
    by (cases b) (auto simp: add_mset_commute diff_add_mset_swap dest!: multi_member_split)
qed simp

text \<open>
  What the callers of the slot rely on: registering an id adds one occurrence at the end,
  clearing an id removes one occurrence and keeps the order, whatever other calls do.
\<close>

locale id_bag =
  fixes ids :: "'s \<Rightarrow> string list"
    and put :: "string \<Rightarrow> 's \<Rightarrow> 's"
    and out :: "string \<Rightarrow> 's \<Rightarrow> 's"
    and live :: "'s \<Rightarrow> bool"
  assumes ids_put: "live s \<Longrightarrow> ids (put i s) = ids s @ [i]"
    and ids_out: "live s \<Longrightarrow> ids (out i s) = remove1 i (ids s)"
    and live_put: "live s \<Longrightarrow> live (put i s)"
    and live_out: "live s \<Longrightarrow> live (out i s)"
begin

lemma live_run: "live s \<Longrightarrow> live (run_ids put out es s)"
  by (induction es arbitrary: s) (auto simp: live_put live_out)

lemma run_in_flight: "live s \<Longrightarrow> mset (ids (run_ids put out es s)) = in_flight (mset (ids s)) es"
  by (induction es arbitrary: s) (auto simp: live_put live_out ids_put ids_out)

lemma own_id_survives:
  assumes "live s" and "answered (mset (ids s)) es"
  shows "i \<in> set (ids (run_ids put out es (put i s)))"
    and "mset (ids (out i (run_ids put out es (put i s)))) = mset (ids (run_ids put out es s))"
proof -
  have eq: "mset (ids (run_ids put out es (put i s))) = add_mset i (in_flight (mset (ids s)) es)"
    using assms by (simp add: run_in_flight live_put ids_put in_flight_add)
  then show "i \<in> set (ids (run_ids put out es (put i s)))"
    by (metis set_mset_mset union_single_eq_member)
  show "mset (ids (out i (run_ids put out es (put i s)))) = mset (ids (run_ids put out es s))"
    using assms by (simp add: ids_out live_run live_put eq run_in_flight)
qed

lemma undisturbed: "live s \<Longrightarrow> i \<notin> set (ids s) \<Longrightarrow> ids (out i (put i s)) = ids s"
  by (simp add: ids_put ids_out live_put remove1_append)

end

lemma remove_position_remove1:
  "(case position (\<lambda>x. x = i) xs of None \<Rightarrow> xs | Some k \<Rightarrow> take k xs @ drop (Suc k) xs) = remove1 i xs"
  by (induction xs) (auto split: option.splits)

lemma pending_clear_ids:
  "\<not> slot_poisoned p \<Longrightarrow> slot_ids (pending_clear i p) = remove1 i (slot_ids p)"
  unfolding remove_position_remove1 [symmetric]
  by (auto simp: pending_clear_def split: option.splits)

interpretation pending: id_bag pending_ids pending_set pending_clear "\<lambda>p. \<not> slot_poisoned p"
proof
  fix i and p :: pending_slot
  assume live: "\<not> slot_poisoned p"
  show "pending_ids (pending_set i p) = pending_ids p @ [i]"
    using live by (simp add: pending_ids_def pending_set_def)
  have keep: "slot_poisoned (pending_clear i p) = slot_poisoned p"
    by (simp add: pending_clear_def split: option.split)
  with live show "pending_ids (pending_clear i p) = remove1 i (pending_ids p)"
    by (simp add: pending_ids_def pending_clear_ids)
  show "\<not> slot_poisoned (pending_set i p)"
    using live by (simp add: pending_set_def)
  show "\<not> slot_poisoned (pending_clear i p)"
    using live keep by simp
qed

section \<open>Idempotency keys\<close>

lemma nth_concat_hex2:
  "i < length ks \<Longrightarrow> concat (map hex2 ks) ! (2 * i) = hex_lower (unat (ks ! i) div 16)"
proof (induction ks arbitrary: i)
  case (Cons k ks)
  then show ?case by (cases i) (auto simp: hex2_def)
qed simp

lemma length_concat_hex2 [simp]: "length (concat (map hex2 ks)) = 2 * length ks"
  by (induction ks) auto

lemma unat_div_16: "unat (b :: u8) div 16 = unat (drop_bit 4 b)"
  by (simp add: unat_drop_bit_eq drop_bit_eq_div [where 'a = nat])

lemma uuid_version_nibble: "unat (((b :: u8) AND 0x0f) OR 0x40) div 16 = 4"
proof -
  have "drop_bit 4 ((b AND 0x0f) OR 0x40) = (4 :: u8)"
    by (simp add: drop_bit_or drop_bit_and)
  then show ?thesis by (simp add: unat_div_16)
qed

lemma uuid_variant_nibble: "unat (((b :: u8) AND 0x3f) OR 0x80) div 16 \<in> {8, 9, 10, 11}"
proof -
  have "drop_bit 4 ((b AND 0x3f) OR 0x80) = (drop_bit 4 b AND 3) OR 8"
    by (simp add: drop_bit_or drop_bit_and)
  moreover have "drop_bit 4 b AND 3 \<in> {0, 1, 2, 3}"
  proof -
    have "drop_bit 4 b AND 3 = take_bit 2 (drop_bit 4 b)"
      by (simp add: take_bit_eq_mask mask_eq_exp_minus_1 and.commute)
    moreover have "unat (take_bit 2 (drop_bit 4 b)) < 4"
      by (simp add: unsigned_take_bit_eq take_bit_eq_mod [where 'a = nat])
    ultimately have "unat (drop_bit 4 b AND 3) \<in> {0, 1, 2, 3}" by auto
    then show ?thesis by (simp add: word_unat_eq_iff)
  qed
  ultimately show ?thesis by (auto simp: unat_div_16)
qed

lemma hex_lower_uuid [simp]:
  "hex_lower 4 = CHR ''4''" "hex_lower 8 = CHR ''8''" "hex_lower 9 = CHR ''9''"
  "hex_lower 10 = CHR ''a''" "hex_lower 11 = CHR ''b''"
  by code_simp+

lemma idempotency_key_chars:
  assumes "length (sha256 S m) = 32"
  shows "\<exists>hex. length hex = 32 \<and> hex ! 12 = CHR ''4'' \<and>
    hex ! 16 \<in> {CHR ''8'', CHR ''9'', CHR ''a'', CHR ''b''} \<and>
    idempotency_key_from_message S m =
      str_slice 0 8 hex @ ''-'' @ str_slice 8 12 hex @ ''-'' @ str_slice 12 16 hex @ ''-'' @
      str_slice 16 20 hex @ ''-'' @ str_slice 20 32 hex"
proof -
  define key0 where "key0 = take 16 (sha256 S m)"
  define key where "key = key0[6 := (key0 ! 6 AND 0x0f) OR 0x40,
     8 := (key0[6 := (key0 ! 6 AND 0x0f) OR 0x40] ! 8 AND 0x3f) OR 0x80]"
  have len: "length key0 = 16" "length key = 16"
    using assms by (simp_all add: key0_def key_def)
  have k6: "key ! 6 = (key0 ! 6 AND 0x0f) OR 0x40" and k8: "key ! 8 = (key0 ! 8 AND 0x3f) OR 0x80"
    using len(1) by (simp_all add: key_def)
  have "concat (map hex2 key) ! 12 = CHR ''4''"
    using nth_concat_hex2 [of 6 key] len(2)
    by (simp add: k6 uuid_version_nibble)
  moreover have "concat (map hex2 key) ! 16 \<in> {CHR ''8'', CHR ''9'', CHR ''a'', CHR ''b''}"
    using nth_concat_hex2 [of 8 key] len(2) uuid_variant_nibble [of "key0 ! 8"]
    by (auto simp: k8)
  ultimately show ?thesis
    using len(2)
    by (intro exI [of _ "concat (map hex2 key)"])
       (simp add: idempotency_key_from_message_def Let_def key_def key0_def)
qed

section \<open>Properties\<close>

text \<open>\<open>add_signature_to_transaction\<close> never changes the message. On success the signature is
  in the first required-signer slot that names the key, the slot list is padded with default
  signatures to the required count, and every other slot keeps its value; the write is in
  range, so it cannot panic. On failure the transaction is untouched, and the key is not a
  required signer or the account list is shorter than the header claims.\<close>
theorem add_signature_correct:
  assumes "add_signature_to_transaction S pk sig tx = (r, tx')"
  shows "tx_message tx' = tx_message tx \<and>
    (case r of
       Inl e \<Rightarrow> tx' = tx \<and> (length (account_keys tx) < num_required tx \<or>
                  pk \<notin> set (take (num_required tx) (account_keys tx)))
     | Inr u \<Rightarrow> \<exists>p < num_required tx. account_keys tx ! p = pk \<and>
         (\<forall>j < p. account_keys tx ! j \<noteq> pk) \<and> p < length (tx_signatures tx') \<and>
         tx_signatures tx' ! p = sig \<and>
         length (tx_signatures tx') = max (num_required tx) (length (tx_signatures tx)) \<and>
         (\<forall>i < length (tx_signatures tx'). i \<noteq> p \<longrightarrow> tx_signatures tx' ! i =
            (if i < length (tx_signatures tx) then tx_signatures tx ! i else default_signature)))"
proof (cases r)
  case (Inl e)
  with assms have "tx' = tx" "\<nexists>p. get_signing_keypair_position S tx pk = Inr p"
    by (auto simp: add_signature_Inl)
  with Inl show ?thesis by (auto simp: signing_position_exists_iff)
next
  case (Inr u)
  with assms show ?thesis
    using add_signature_slots [of S pk sig tx u tx'] by (auto simp: signing_position_iff)
qed

theorem add_signature_correct_witness:
  "let s = Signature (replicate 64 5);
       tx' = demo_tx\<lparr>tx_signatures := [default_signature, s]\<rparr>
   in add_signature_to_transaction demo_sdk (demo_key 2) s demo_tx = (Inr (), tx') \<and>
      tx_message tx' = tx_message demo_tx"
proof -
  have eq: "add_signature_to_transaction demo_sdk (demo_key 2) (Signature (replicate 64 5)) demo_tx =
      (Inr (), demo_tx\<lparr>tx_signatures := [default_signature, Signature (replicate 64 5)]\<rparr>)"
    by code_simp
  show ?thesis using add_signature_correct [OF eq] eq by (simp add: Let_def)
qed

text \<open>A signed transaction is reported complete exactly when there is a signature slot for every
  required signer and none of those slots still holds the default signature; either way the
  encoded transaction and signature handed back are the ones given.\<close>
theorem classify_complete_iff:
  "(classify_signed_transaction tx st = Complete st \<longleftrightarrow>
      num_required tx \<le> length (tx_signatures tx) \<and>
      (\<forall>i < num_required tx. tx_signatures tx ! i \<noteq> default_signature)) \<and>
   into_signed_transaction (classify_signed_transaction tx st) = st"
  by (simp add: classify_cases has_all_required_iff)

theorem classify_complete_iff_witness:
  "classify_signed_transaction (demo_tx\<lparr>tx_signatures := [Signature [1], Signature [2]]\<rparr>) (''x'', Signature [1])
     = Complete (''x'', Signature [1]) \<and>
   classify_signed_transaction demo_tx (''x'', Signature [1]) \<noteq> Complete (''x'', Signature [1])"
proof -
  have "default_signature \<noteq> Signature [1]" "default_signature \<noteq> Signature [2]"
    by (simp_all add: default_signature_def numeral_eq_Suc)
  moreover have "num_required (demo_tx\<lparr>tx_signatures := ss\<rparr>) = 2" "tx_signatures demo_tx = []"
    "num_required demo_tx = 2" for ss
    by (simp_all add: demo_tx_def)
  ultimately show ?thesis
    by (simp add: classify_complete_iff less_2_cases_iff)
       (metis less_2_cases_iff)?
qed

text \<open>C28: The idempotency key is a UUID: 36 characters with dashes at positions 8, 13, 18 and 23, the
  version nibble 4 and a variant nibble of 8, 9, a or b. SHA-256 digests have 32 bytes.\<close>
theorem idempotency_key_is_uuid_v4:
  assumes "length (sha256 S m) = 32"
  shows "length (idempotency_key_from_message S m) = 36 \<and>
    (\<forall>i \<in> {8, 13, 18, 23}. idempotency_key_from_message S m ! i = CHR ''-'') \<and>
    idempotency_key_from_message S m ! 14 = CHR ''4'' \<and>
    idempotency_key_from_message S m ! 19 \<in> {CHR ''8'', CHR ''9'', CHR ''a'', CHR ''b''}"
proof -
  obtain hex where hex: "length hex = 32" "hex ! 12 = CHR ''4''"
    "hex ! 16 \<in> {CHR ''8'', CHR ''9'', CHR ''a'', CHR ''b''}"
    and key: "idempotency_key_from_message S m =
      str_slice 0 8 hex @ ''-'' @ str_slice 8 12 hex @ ''-'' @ str_slice 12 16 hex @ ''-'' @
      str_slice 16 20 hex @ ''-'' @ str_slice 20 32 hex"
    using idempotency_key_chars [OF assms] by (elim exE conjE) (rule that)
  have len: "length (str_slice 0 8 hex) = 8" "length (str_slice 8 12 hex) = 4"
    "length (str_slice 12 16 hex) = 4" "length (str_slice 16 20 hex) = 4"
    "length (str_slice 20 32 hex) = 12"
    using hex(1) by (simp_all add: str_slice_def)
  have nibbles: "str_slice 12 16 hex ! 0 = hex ! 12" "str_slice 16 20 hex ! 0 = hex ! 16"
    using hex(1) by (simp_all add: str_slice_def)
  show ?thesis
    unfolding key using hex(2,3) by (simp add: nth_append len nibbles)
qed

theorem idempotency_key_is_uuid_v4_witness:
  "length (sha256 demo_sdk [1, 2, 3]) = 32 \<and>
   length (idempotency_key_from_message demo_sdk [1, 2, 3]) = 36"
proof -
  have len: "length (sha256 demo_sdk [1, 2, 3]) = 32" by (simp add: demo_sdk_def)
  show ?thesis using len idempotency_key_is_uuid_v4 [OF len] by (elim conjE) (intro conjI)
qed

text \<open>C27: A call that registered its provider id still finds it in the slot whatever other calls
  register and clear meanwhile, as long as they clear only ids in flight; clearing it leaves
  exactly the ids the other calls have in flight.\<close>
theorem pending_id_survives_other_calls:
  assumes "\<not> slot_poisoned p" and "answered (mset (pending_ids p)) es"
  shows "i \<in> set (pending_ids (run_ids pending_set pending_clear es (pending_set i p))) \<and>
    mset (pending_ids (pending_clear i (run_ids pending_set pending_clear es (pending_set i p)))) =
    mset (pending_ids (run_ids pending_set pending_clear es p))"
  using pending.own_id_survives [OF assms] by blast

theorem pending_id_survives_other_calls_witness:
  "''a'' \<in> set (pending_ids (run_ids pending_set pending_clear
     [(True, ''b''), (True, ''a''), (False, ''b''), (False, ''a'')] (pending_set ''a'' pending_new)))"
proof -
  have "\<not> slot_poisoned pending_new"
    and "answered (mset (pending_ids pending_new)) [(True, ''b''), (True, ''a''), (False, ''b''), (False, ''a'')]"
    by (simp_all add: pending_new_def pending_ids_def)
  from pending_id_survives_other_calls [OF this, of "''a''"] show ?thesis by blast
qed

end
