(* ===== verification/Signature_Util.thy ===== *)
theory Signature_Util
  imports Transaction_Util
begin

text \<open>
  \<^verbatim>\<open>src/rust/src/signature_util.rs\<close>: decoding and verifying the signatures backends return, and
  reading Ed25519 keys out of SubjectPublicKeyInfo structures.
\<close>

section \<open>Decoding\<close>

definition EXPECTED_SIGNATURE_LENGTH :: nat where
  "EXPECTED_SIGNATURE_LENGTH = 64"

definition signature_from_bytes :: "bytes \<Rightarrow> signature result" where
  "signature_from_bytes bs =
     (if length bs = EXPECTED_SIGNATURE_LENGTH then Inr (Signature bs)
      else Inl (SigningFailed (''Invalid signature length: expected '' @
        show_nat EXPECTED_SIGNATURE_LENGTH @ '' bytes, got '' @ show_nat (length bs))))"

definition signature_from_base58 :: "('x sdk_scheme) \<Rightarrow> string \<Rightarrow> signature result" where
  "signature_from_base58 S encoded =
     res_bind (map_err (\<lambda>_. SerializationError ''Failed to decode base58 signature'') (bs58_decode S encoded))
       signature_from_bytes"

definition signature_from_base64 :: "('x sdk_scheme) \<Rightarrow> string \<Rightarrow> signature result" where
  "signature_from_base64 S encoded =
     res_bind (map_err (\<lambda>_. SerializationError ''Failed to decode base64 signature'') (b64_decode S encoded))
       signature_from_bytes"

definition signature_from_hex :: "('x sdk_scheme) \<Rightarrow> string \<Rightarrow> signature result" where
  "signature_from_hex S encoded =
     (let stripped = (case strip_prefix ''0x'' encoded of None \<Rightarrow> encoded | Some rest \<Rightarrow> rest)
      in res_bind (map_err (\<lambda>_. SerializationError ''Failed to decode hex signature'') (hex_decode S stripped))
           signature_from_bytes)"

section \<open>Verification\<close>

definition verifies :: "('x sdk_scheme) \<Rightarrow> signature \<Rightarrow> pubkey \<Rightarrow> bytes \<Rightarrow> bool" where
  "verifies S sig pk m =
     (if length (signature_ref sig) \<noteq> EXPECTED_SIGNATURE_LENGTH then False
      else zebra_key_ok S (pubkey_bytes pk) \<and> zebra_verify S (pubkey_bytes pk) (signature_ref sig) m)"

text \<open>The message contains an em dash, three UTF-8 bytes.\<close>

definition verification_failed_detail :: string where
  "verification_failed_detail =
     ''Signature verification failed '' @ [CHR 0xE2, CHR 0x80, CHR 0x94] @
     '' the returned signature does not match the public key''"

definition verify_or_reject :: "('x sdk_scheme) \<Rightarrow> signature \<Rightarrow> pubkey \<Rightarrow> bytes \<Rightarrow> unit result" where
  "verify_or_reject S sig pk m =
     (if verifies S sig pk m then Inr () else Inl (SigningFailed verification_failed_detail))"

definition signature_at_signer_position ::
  "('x sdk_scheme) \<Rightarrow> versioned_transaction \<Rightarrow> pubkey \<Rightarrow> signature result" where
  "signature_at_signer_position S tx pk =
     res_bind (get_signing_keypair_position S tx pk)
       (\<lambda>p. ok_or (SigningFailed ''Returned signed transaction is missing the signer's signature'')
          (opt_filter (\<lambda>s. s \<noteq> default_signature)
             (if p < length (tx_signatures tx) then Some (tx_signatures tx ! p) else None)))"

definition extract_and_verify_returned_signature ::
  "('x sdk_scheme) \<Rightarrow> bytes \<Rightarrow> pubkey \<Rightarrow> bytes \<Rightarrow> signature result" where
  "extract_and_verify_returned_signature S returned_tx_bytes pk original_message_bytes =
     res_bind (deserialize_wire_transaction S returned_tx_bytes)
       (\<lambda>returned. res_bind (signature_at_signer_position S returned pk)
          (\<lambda>sig. res_bind (verify_or_reject S sig pk original_message_bytes) (\<lambda>_. Inr sig)))"

definition extract_and_verify_rewritten_transaction ::
  "('x sdk_scheme) \<Rightarrow> bytes \<Rightarrow> pubkey \<Rightarrow> (versioned_transaction \<times> signature) result" where
  "extract_and_verify_rewritten_transaction S returned_tx_bytes pk =
     res_bind (deserialize_wire_transaction S returned_tx_bytes)
       (\<lambda>returned. res_bind (signature_at_signer_position S returned pk)
          (\<lambda>sig. res_bind (verify_or_reject S sig pk (message_serialize S (tx_message returned)))
             (\<lambda>_. Inr (returned, sig))))"

section \<open>SubjectPublicKeyInfo\<close>

definition ED25519_SPKI_PREFIX :: bytes where
  "ED25519_SPKI_PREFIX =
     [0x30, 0x2a, 0x30, 0x05, 0x06, 0x03, 0x2b, 0x65, 0x70, 0x03, 0x21, 0x00]"

definition ed25519_key_from_spki_der :: "bytes \<Rightarrow> bytes option" where
  "ed25519_key_from_spki_der der =
     (if length der \<noteq> length ED25519_SPKI_PREFIX + 32 \<or>
         take (length ED25519_SPKI_PREFIX) der \<noteq> ED25519_SPKI_PREFIX
      then None
      else Some (drop (length ED25519_SPKI_PREFIX) der))"

text \<open>\<^verbatim>\<open>str::lines\<close>: every line but the last ended in a newline, possibly after a carriage return.\<close>

definition strip_cr :: "string \<Rightarrow> string" where
  "strip_cr l = (if l \<noteq> [] \<and> last l = CHR 0x0D then butlast l else l)"

definition str_lines :: "string \<Rightarrow> string list" where
  "str_lines s =
     (let ps = split_on (CHR 0x0A) s
      in map strip_cr (butlast ps) @ (if last ps = [] then [] else [last ps]))"

text \<open>\<^verbatim>\<open>chars().filter(|c| !c.is_whitespace())\<close>.\<close>

function remove_ws :: "string \<Rightarrow> string" where
  "remove_ws s =
     (case s of
        [] \<Rightarrow> []
      | c # cs \<Rightarrow>
          (case find (\<lambda>w. w \<noteq> [] \<and> prefix w s) ws_encodings of
             None \<Rightarrow> c # remove_ws cs
           | Some w \<Rightarrow> remove_ws (drop (length w) s)))"
  by pat_completeness auto
termination
  by (relation "measure length") (auto simp: find_Some_iff prefix_def)

declare remove_ws.simps [simp del]

definition ed25519_key_from_spki_pem :: "('x sdk_scheme) \<Rightarrow> string \<Rightarrow> bytes option" where
  "ed25519_key_from_spki_pem S pem =
     (let body = concat (map remove_ws (filter (\<lambda>l. \<not> prefix ''-----'' l) (str_lines pem)))
      in case b64_decode S body of
           Inl _ \<Rightarrow> None
         | Inr der \<Rightarrow> ed25519_key_from_spki_der der)"

section \<open>Lemmas\<close>

lemma signature_from_bytes_Inr [result_simps]:
  "signature_from_bytes bs = Inr s \<longleftrightarrow> length bs = 64 \<and> s = Signature bs"
  by (auto simp: signature_from_bytes_def EXPECTED_SIGNATURE_LENGTH_def)

lemma signature_from_base64_Inr [result_simps]:
  "signature_from_base64 S e = Inr s \<longleftrightarrow> (\<exists>bs. b64_decode S e = Inr bs \<and> length bs = 64 \<and> s = Signature bs)"
  by (auto simp: signature_from_base64_def result_simps)

lemma signature_from_base58_Inr [result_simps]:
  "signature_from_base58 S e = Inr s \<longleftrightarrow> (\<exists>bs. bs58_decode S e = Inr bs \<and> length bs = 64 \<and> s = Signature bs)"
  by (auto simp: signature_from_base58_def result_simps)

lemma verify_or_reject_Inr [result_simps]:
  "verify_or_reject S sig pk m = Inr u \<longleftrightarrow> verifies S sig pk m"
  by (auto simp: verify_or_reject_def)

lemma verify_or_reject_Inl [result_simps]:
  "verify_or_reject S sig pk m = Inl e \<longleftrightarrow>
     \<not> verifies S sig pk m \<and> e = SigningFailed verification_failed_detail"
  by (auto simp: verify_or_reject_def)

lemma verifies_length: "verifies S sig pk m \<Longrightarrow> length (signature_ref sig) = 64"
  by (auto simp: verifies_def EXPECTED_SIGNATURE_LENGTH_def split: if_splits)

lemma deserialize_wire_Inr [result_simps]:
  "deserialize_wire_transaction S bs = Inr tx \<longleftrightarrow> wire_deserialize S bs = Inr tx"
  by (simp add: deserialize_wire_transaction_def result_simps)

lemma signature_at_position_Inr [result_simps]:
  "signature_at_signer_position S tx pk = Inr s \<longleftrightarrow>
     (\<exists>p. get_signing_keypair_position S tx pk = Inr p \<and> p < length (tx_signatures tx) \<and>
        tx_signatures tx ! p = s \<and> s \<noteq> default_signature)"
  by (auto simp: signature_at_signer_position_def result_simps opt_filter_Some_iff split: if_splits)

lemma returned_signature_verified:
  "extract_and_verify_returned_signature S wire pk m = Inr sig \<Longrightarrow> verifies S sig pk m"
  by (auto simp: extract_and_verify_returned_signature_def result_simps)

lemma remove_ws_graphic: "list_all is_graphic s \<Longrightarrow> remove_ws s = s"
proof (induction s)
  case Nil
  then show ?case by (subst remove_ws.simps) simp
next
  case (Cons c cs)
  have "find (\<lambda>w. w \<noteq> [] \<and> prefix w (c # cs)) ws_encodings = None"
    using Cons.prems ws_encodings_first by (force simp: find_None_iff prefix_Cons)
  with Cons show ?case by (subst remove_ws.simps) simp
qed

lemma split_on_lines:
  "(\<And>l. l \<in> set ls \<Longrightarrow> d \<notin> set l) \<Longrightarrow> split_on d (concat (map (\<lambda>l. l @ [d]) ls)) = ls @ [[]]"
  by (induction ls) (auto simp: split_on_append_sep)

lemma str_lines_terminated:
  assumes "\<And>l. l \<in> set ls \<Longrightarrow> CHR 0x0A \<notin> set l \<and> (l = [] \<or> last l \<noteq> CHR 0x0D)"
  shows "str_lines (concat (map (\<lambda>l. l @ [CHR 0x0A]) ls)) = ls"
proof -
  have "map strip_cr ls = ls"
    using assms by (intro map_idI) (auto simp: strip_cr_def)
  then show ?thesis
    using assms by (simp add: str_lines_def split_on_lines)
qed

section \<open>Properties\<close>

text \<open>A signature is extracted from a returned transaction exactly when the bytes decode, the
  signer's first required-signer slot exists and holds a non-default signature, and that
  signature verifies against the signer's key over the bytes that were submitted, not over
  whatever message the provider returned.\<close>
theorem extract_returned_signature_iff:
  "extract_and_verify_returned_signature S wire pk submitted = Inr s \<longleftrightarrow>
     (\<exists>tx p. wire_deserialize S wire = Inr tx \<and> get_signing_keypair_position S tx pk = Inr p \<and>
        p < length (tx_signatures tx) \<and> tx_signatures tx ! p = s \<and>
        s \<noteq> default_signature \<and> verifies S s pk submitted)"
  by (auto simp: extract_and_verify_returned_signature_def result_simps)

text \<open>For a provider that rewrites the message, the transaction handed back is the decoded one and
  the signature in the signer's slot verifies over the message that transaction carries.\<close>
theorem extract_rewritten_transaction_iff:
  "extract_and_verify_rewritten_transaction S wire pk = Inr (tx, s) \<longleftrightarrow>
     wire_deserialize S wire = Inr tx \<and>
     (\<exists>p. get_signing_keypair_position S tx pk = Inr p \<and> p < length (tx_signatures tx) \<and>
        tx_signatures tx ! p = s) \<and>
     s \<noteq> default_signature \<and> verifies S s pk (message_serialize S (tx_message tx))"
  by (auto simp: extract_and_verify_rewritten_transaction_def result_simps)

text \<open>The SPKI reader inverts the writer and accepts nothing else: a key comes out exactly when
  the input is the Ed25519 header followed by 32 bytes, and it is those bytes.\<close>
theorem spki_der_key_iff:
  "ed25519_key_from_spki_der der = Some k \<longleftrightarrow> der = ED25519_SPKI_PREFIX @ k \<and> length k = 32"
proof
  assume "ed25519_key_from_spki_der der = Some k"
  then have "length der = length ED25519_SPKI_PREFIX + 32"
    "take (length ED25519_SPKI_PREFIX) der = ED25519_SPKI_PREFIX"
    "k = drop (length ED25519_SPKI_PREFIX) der"
    by (auto simp: ed25519_key_from_spki_der_def split: if_splits)
  then show "der = ED25519_SPKI_PREFIX @ k \<and> length k = 32"
    by (metis add_diff_cancel_left' append_take_drop_id length_drop)
qed (simp add: ed25519_key_from_spki_der_def)

text \<open>A PEM file whose body lines, put together, are the base64 of an Ed25519 SPKI structure yields
  its key, however the base64 is wrapped into lines. The base64 codec is assumed to invert
  itself on this input; body lines hold visible ASCII and do not look like PEM markers.\<close>
theorem spki_pem_roundtrip:
  assumes "length k = 32"
    and "b64_decode S (concat body) = Inr (ED25519_SPKI_PREFIX @ k)"
    and "\<And>l. l \<in> set body \<Longrightarrow> list_all is_graphic l \<and> \<not> prefix ''-----'' l"
  shows "ed25519_key_from_spki_pem S
    (concat (map (\<lambda>l. l @ [CHR 0x0A])
       ([''-----BEGIN PUBLIC KEY-----''] @ body @ [''-----END PUBLIC KEY-----'']))) = Some k"
proof -
  let ?ls = "[''-----BEGIN PUBLIC KEY-----''] @ body @ [''-----END PUBLIC KEY-----'']"
  have graphic_line: "CHR 0x0A \<notin> set l \<and> (l = [] \<or> last l \<noteq> CHR 0x0D)" if "list_all is_graphic l" for l
    using that last_in_set [of l] by (fastforce simp: list_all_iff is_graphic_def)
  have "str_lines (concat (map (\<lambda>l. l @ [CHR 0x0A]) ?ls)) = ?ls"
  proof (rule str_lines_terminated)
    fix l assume "l \<in> set ?ls"
    then show "CHR 0x0A \<notin> set l \<and> (l = [] \<or> last l \<noteq> CHR 0x0D)"
      using assms(3) graphic_line by auto
  qed
  moreover have "filter (\<lambda>l. \<not> prefix ''-----'' l) ?ls = body"
    using assms(3) by (simp add: filter_id_conv)
  moreover have "map remove_ws body = body"
    using assms(3) by (intro map_idI) (simp add: remove_ws_graphic)
  ultimately show ?thesis
    using assms(1,2) by (simp add: ed25519_key_from_spki_pem_def ed25519_key_from_spki_der_def)
qed

theorem spki_pem_roundtrip_witness:
  "ed25519_key_from_spki_pem demo_sdk
    (concat (map (\<lambda>l. l @ [CHR 0x0A])
       ([''-----BEGIN PUBLIC KEY-----''] @
        [concat (map hex2 (ED25519_SPKI_PREFIX @ replicate 32 9))] @
        [''-----END PUBLIC KEY-----'']))) = Some (replicate 32 9)"
proof (rule spki_pem_roundtrip)
  show "b64_decode demo_sdk (concat [concat (map hex2 (ED25519_SPKI_PREFIX @ replicate 32 9))]) =
      Inr (ED25519_SPKI_PREFIX @ replicate 32 9)"
    by (simp add: demo_sdk_def demo_unhex_hex2 del: map_append)
  have "list_all is_graphic (concat (map hex2 (ED25519_SPKI_PREFIX @ replicate 32 9))) \<and>
      \<not> prefix ''-----'' (concat (map hex2 (ED25519_SPKI_PREFIX @ replicate 32 9)))"
    by code_simp
  then show "list_all is_graphic l \<and> \<not> prefix ''-----'' l"
    if "l \<in> set [concat (map hex2 (ED25519_SPKI_PREFIX @ replicate 32 9))]" for l
    using that by simp
qed simp

end
