(* ===== verification/Traits_Send.thy ===== *)
theory Traits_Send
  imports Signature_Util
begin

text \<open>
  \<^verbatim>\<open>src/rust/src/traits.rs\<close> and \<^verbatim>\<open>send.rs\<close>: the capability traits as locales, and getting a signed
  transaction on chain.

  A \<^verbatim>\<open>&mut VersionedTransaction\<close> argument is the first half of the state, so what a call leaves in
  the caller's transaction is visible on the error paths too. The caller's \<^verbatim>\<open>send\<close> closure is a
  computation in the same world as the signer.
\<close>

section \<open>Broadcasting (send.rs)\<close>

definition broadcast_complete ::
  "sign_transaction_result \<Rightarrow> signature option \<Rightarrow> (string \<Rightarrow> ('w, signature) signer_io) \<Rightarrow>
   ('w, signature) signer_io" where
  "broadcast_complete res tx_sig send =
     (let complete = (case res of Complete _ \<Rightarrow> True | Partial _ \<Rightarrow> False);
          encoded = fst (into_signed_transaction res)
      in if \<not> complete
         then io_lift (Inl (SigningFailed
           ''Transaction is still missing signatures after signing and cannot be broadcast''))
         else io_bind
           (io_lift (ok_or
              (SigningFailed ''Broadcast transaction has no fee payer signature to identify it by'')
              (opt_filter (\<lambda>s. s \<noteq> default_signature) tx_sig)))
           (\<lambda>s. io_map_err
              (\<lambda>e. BroadcastUnconfirmed None None None (Some s) (detail_string e))
              (send encoded)))"

definition sign_and_send ::
  "(versioned_transaction \<times> 'w, sign_transaction_result) signer_io \<Rightarrow>
   (string \<Rightarrow> ('w, signature) signer_io) \<Rightarrow> (versioned_transaction \<times> 'w, signature) signer_io" where
  "sign_and_send sign_transaction send =
     io_bind sign_transaction
       (\<lambda>res st. io_world (broadcast_complete res (first (tx_signatures (fst st))) send) st)"

definition modify_and_send ::
  "(versioned_transaction \<times> 'w, sign_transaction_result) signer_io \<Rightarrow>
   (string \<Rightarrow> ('w, signature) signer_io) \<Rightarrow> (versioned_transaction \<times> 'w, signature) signer_io" where
  "modify_and_send modify_and_sign_transaction send =
     io_bind modify_and_sign_transaction
       (\<lambda>res st. io_world (broadcast_complete res (first (tx_signatures (fst st))) send) st)"

definition require_broadcast_signature :: "signature \<Rightarrow> signature result" where
  "require_broadcast_signature s =
     (if s = default_signature
      then Inl (SigningFailed ''Signer returned no signature for the transaction it broadcast'')
      else Inr s)"

lemma broadcast_complete_Inr:
  "broadcast_complete res tx_sig send w = (Inr s, w') \<longleftrightarrow>
     (\<exists>st fee. res = Complete st \<and> tx_sig = Some fee \<and> fee \<noteq> default_signature \<and>
        send (fst st) w = (Inr s, w'))"
  by (cases res) (auto simp: broadcast_complete_def Let_def result_simps opt_filter_Some_iff)

lemma broadcast_complete_Inl:
  "broadcast_complete res tx_sig send w = (Inl e, w') \<longleftrightarrow>
     (\<exists>st. res = Partial st \<and> w' = w \<and> e = SigningFailed
        ''Transaction is still missing signatures after signing and cannot be broadcast'') \<or>
     (\<exists>st. res = Complete st \<and> w' = w \<and> tx_sig \<in> {None, Some default_signature} \<and> e = SigningFailed
        ''Broadcast transaction has no fee payer signature to identify it by'') \<or>
     (\<exists>st fee e0. res = Complete st \<and> tx_sig = Some fee \<and> fee \<noteq> default_signature \<and>
        send (fst st) w = (Inl e0, w') \<and>
        e = BroadcastUnconfirmed None None None (Some fee) (detail_string e0))"
  by (cases res; cases tx_sig)
     (auto simp: broadcast_complete_def Let_def result_simps)

section \<open>Attaching a signature\<close>

text \<open>
  The tail every transaction-signing backend ends with: put the signature into the caller's
  transaction, encode it, classify it. A failure to encode leaves the signature in place.
\<close>

definition attach_and_serialize ::
  "('x sdk_scheme) \<Rightarrow> pubkey \<Rightarrow> signature \<Rightarrow> (versioned_transaction, signed_transaction) signer_io" where
  "attach_and_serialize S pk sig =
     io_bind (add_signature_to_transaction S pk sig)
       (\<lambda>_ tx. (res_bind (serialize_transaction S tx) (\<lambda>enc. Inr (enc, sig)), tx))"

definition attach_and_classify ::
  "('x sdk_scheme) \<Rightarrow> pubkey \<Rightarrow> signature \<Rightarrow> (versioned_transaction, sign_transaction_result) signer_io" where
  "attach_and_classify S pk sig =
     io_bind (attach_and_serialize S pk sig) (\<lambda>signed tx. (Inr (classify_signed_transaction tx signed), tx))"

section \<open>The traits as contracts\<close>

text \<open>
  What a transaction-signing backend may do to the caller's transaction: write a signature it
  vouches for into its own slot, and nothing else.
\<close>

definition own_slot_signed ::
  "('x sdk_scheme) \<Rightarrow> pubkey \<Rightarrow> signature \<Rightarrow> versioned_transaction \<Rightarrow> versioned_transaction \<Rightarrow> bool" where
  "own_slot_signed S pk sig tx tx' \<longleftrightarrow>
     (\<exists>p. get_signing_keypair_position S tx pk = Inr p \<and>
        tx' = tx\<lparr>tx_signatures := (resize_to (num_required tx) default_signature (tx_signatures tx))[p := sig]\<rparr>)"

lemma own_slot_signed_message: "own_slot_signed S pk sig tx tx' \<Longrightarrow> tx_message tx' = tx_message tx"
  by (auto simp: own_slot_signed_def)

lemma add_signature_own_slot [result_simps]:
  "add_signature_to_transaction S pk sig tx = (Inr u, tx') \<longleftrightarrow> own_slot_signed S pk sig tx tx'"
  by (auto simp: add_signature_Inr own_slot_signed_def)

lemma attach_and_classify_Inr [result_simps]:
  "attach_and_classify S pk sig tx = (Inr res, tx') \<longleftrightarrow>
     own_slot_signed S pk sig tx tx' \<and>
     (\<exists>enc. serialize_transaction S tx' = Inr enc \<and> res = classify_signed_transaction tx' (enc, sig))"
  by (auto simp: attach_and_classify_def attach_and_serialize_def result_simps)

lemma attach_and_classify_Inl:
  "attach_and_classify S pk sig tx = (Inl e, tx') \<Longrightarrow> tx' = tx \<or> own_slot_signed S pk sig tx tx'"
  by (auto simp: attach_and_classify_def attach_and_serialize_def result_simps add_signature_Inl)

text \<open>
  \<^verbatim>\<open>SolanaSigner\<close>: a returned message signature is one the backend vouches for, over the bytes it
  says it covers (the message itself, or the hardware envelope around it).
\<close>

locale solana_signer =
  fixes vouched :: "signature \<Rightarrow> bytes \<Rightarrow> bool"
    and covers :: "bytes \<Rightarrow> bytes \<Rightarrow> bool"
    and sign_message :: "bytes \<Rightarrow> ('w, signature) signer_io"
  assumes sign_message_vouched:
    "sign_message m w = (Inr sig, w') \<Longrightarrow> \<exists>b. covers m b \<and> vouched sig b"

text \<open>\<^verbatim>\<open>TransactionSigner\<close>: signs the caller's message exactly as given.\<close>

locale transaction_signer = solana_signer vouched covers sign_message
  for vouched :: "signature \<Rightarrow> bytes \<Rightarrow> bool"
    and covers :: "bytes \<Rightarrow> bytes \<Rightarrow> bool"
    and sign_message :: "bytes \<Rightarrow> ('w, signature) signer_io" +
  fixes S :: "'x sdk_scheme"
    and pubkey :: pubkey
    and sign_transaction :: "(versioned_transaction \<times> 'w, sign_transaction_result) signer_io"
  assumes sign_transaction_ok:
    "sign_transaction (tx, w) = (Inr res, (tx', w')) \<Longrightarrow>
       \<exists>enc sig. own_slot_signed S pubkey sig tx tx' \<and>
         vouched sig (message_serialize S (tx_message tx)) \<and>
         serialize_transaction S tx' = Inr enc \<and>
         res = classify_signed_transaction tx' (enc, sig)"
    and sign_transaction_error:
    "sign_transaction (tx, w) = (Inl e, (tx', w')) \<Longrightarrow>
       tx' = tx \<or> (\<exists>sig. own_slot_signed S pubkey sig tx tx' \<and>
         vouched sig (message_serialize S (tx_message tx)))"
begin

lemma sign_transaction_message:
  "sign_transaction (tx, w) = (r, (tx', w')) \<Longrightarrow> tx_message tx' = tx_message tx"
  by (cases r) (auto dest: sign_transaction_ok sign_transaction_error own_slot_signed_message)

lemma sign_and_send_ok:
  assumes "sign_and_send sign_transaction send (tx, w) = (Inr s, (tx', w'))"
  shows "tx_message tx' = tx_message tx \<and> has_all_required_signatures tx' \<and>
    (\<exists>w1 enc sig. sign_transaction (tx, w) = (Inr (Complete (enc, sig)), (tx', w1)) \<and>
      own_slot_signed S pubkey sig tx tx' \<and> vouched sig (message_serialize S (tx_message tx)) \<and>
      serialize_transaction S tx' = Inr enc \<and> send enc w1 = (Inr s, w'))"
proof -
  from assms obtain res w1 where sign: "sign_transaction (tx, w) = (Inr res, (tx', w1))"
    and send: "broadcast_complete res (first (tx_signatures tx')) send w1 = (Inr s, w')"
    by (auto simp: sign_and_send_def result_simps)
  from send obtain st where "res = Complete st" "send (fst st) w1 = (Inr s, w')"
    by (auto simp: broadcast_complete_Inr)
  with sign_transaction_ok [OF sign] sign show ?thesis
    by (auto simp: classify_signed_transaction_def own_slot_signed_message split: if_splits)
qed

lemma sign_and_send_error:
  assumes "sign_and_send sign_transaction send (tx, w) = (Inl e, (tx', w'))"
  shows "tx_message tx' = tx_message tx \<and>
    (sign_transaction (tx, w) = (Inl e, (tx', w')) \<or>
     (\<exists>d res. sign_transaction (tx, w) = (Inr res, (tx', w')) \<and> e = SigningFailed d) \<or>
     (\<exists>w1 enc e0. has_all_required_signatures tx' \<and> serialize_transaction S tx' = Inr enc \<and>
        send enc w1 = (Inl e0, w') \<and> tx_signatures tx' \<noteq> [] \<and>
        tx_signatures tx' ! 0 \<noteq> default_signature \<and>
        e = BroadcastUnconfirmed None None None (Some (tx_signatures tx' ! 0)) (detail_string e0)))"
proof -
  from assms consider (sign) "sign_transaction (tx, w) = (Inl e, (tx', w'))"
    | (send) res w1 where "sign_transaction (tx, w) = (Inr res, (tx', w1))"
        "broadcast_complete res (first (tx_signatures tx')) send w1 = (Inl e, w')"
    by (auto simp: sign_and_send_def result_simps)
  then show ?thesis
  proof cases
    case sign
    then show ?thesis using sign_transaction_message by blast
  next
    case send
    note ok = sign_transaction_ok [OF send(1)]
    from send(2) ok show ?thesis
      using send(1) sign_transaction_message [OF send(1)]
      by (auto simp: broadcast_complete_Inl first_Some_iff classify_signed_transaction_def split: if_splits)
  qed
qed

end

text \<open>
  The shape most remote backends have: \<^verbatim>\<open>sign_and_serialize\<close> obtains a signature for the caller's transaction, which
  the backend has verified over the transaction's own message, and attaches it.
\<close>

definition serialize_obtained ::
  "('x sdk_scheme) \<Rightarrow> pubkey \<Rightarrow> (versioned_transaction \<Rightarrow> ('w, signature) signer_io) \<Rightarrow>
   (versioned_transaction \<times> 'w, signed_transaction) signer_io" where
  "serialize_obtained S pk obtain_signature st =
     io_bind (io_world (obtain_signature (fst st))) (\<lambda>sig. io_place (attach_and_serialize S pk sig)) st"

text \<open>The \<^verbatim>\<open>sign_transaction\<close> of these backends: \<^verbatim>\<open>Ok(classify_signed_transaction(tx, self.sign_and_serialize(tx).await?))\<close>.\<close>

definition classify_signed ::
  "(versioned_transaction \<times> 'w, signed_transaction) signer_io \<Rightarrow> (versioned_transaction \<times> 'w, sign_transaction_result) signer_io" where
  "classify_signed sign_and_serialize =
     io_bind sign_and_serialize (\<lambda>signed st. (Inr (classify_signed_transaction (fst st) signed), st))"

definition attach_obtained ::
  "('x sdk_scheme) \<Rightarrow> pubkey \<Rightarrow> (versioned_transaction \<Rightarrow> ('w, signature) signer_io) \<Rightarrow>
   (versioned_transaction \<times> 'w, sign_transaction_result) signer_io" where
  "attach_obtained S pk obtain_signature = classify_signed (serialize_obtained S pk obtain_signature)"

lemma attach_obtained_eq:
  "attach_obtained S pk obtain_signature st =
     io_bind (io_world (obtain_signature (fst st))) (\<lambda>sig. io_place (attach_and_classify S pk sig)) st"
  by (auto simp: attach_obtained_def classify_signed_def serialize_obtained_def attach_and_classify_def io_bind_def io_place_def
      split: prod.split sum.split)

locale verified_signer =
  fixes S :: "'x sdk_scheme"
    and pubkey :: pubkey
    and sign_bytes :: "bytes \<Rightarrow> ('w, signature) signer_io"
    and obtain_signature :: "versioned_transaction \<Rightarrow> ('w, signature) signer_io"
  assumes sign_bytes_verified: "sign_bytes m w = (Inr sig, w') \<Longrightarrow> verifies S sig pubkey m"
    and obtained_verified:
    "obtain_signature tx w = (Inr sig, w') \<Longrightarrow> verifies S sig pubkey (message_serialize S (tx_message tx))"

sublocale verified_signer \<subseteq>
  transaction_signer "\<lambda>sig b. verifies S sig pubkey b" "\<lambda>m b. b = m" sign_bytes S pubkey "attach_obtained S pubkey obtain_signature"
proof
  fix m sig w w'
  assume "sign_bytes m w = (Inr sig, w')"
  then show "\<exists>b. b = m \<and> verifies S sig pubkey b" using sign_bytes_verified by blast
next
  fix tx tx' res w w'
  assume "attach_obtained S pubkey obtain_signature (tx, w) = (Inr res, (tx', w'))"
  then show "\<exists>enc sig. own_slot_signed S pubkey sig tx tx' \<and> verifies S sig pubkey (message_serialize S (tx_message tx)) \<and>
      serialize_transaction S tx' = Inr enc \<and> res = classify_signed_transaction tx' (enc, sig)"
    using obtained_verified by (fastforce simp: attach_obtained_eq result_simps)
next
  fix tx tx' e w w'
  assume "attach_obtained S pubkey obtain_signature (tx, w) = (Inl e, (tx', w'))"
  then show "tx' = tx \<or> (\<exists>sig. own_slot_signed S pubkey sig tx tx' \<and> verifies S sig pubkey (message_serialize S (tx_message tx)))"
    using obtained_verified by (auto simp: attach_obtained_eq result_simps dest: attach_and_classify_Inl)
qed

text \<open>
  \<^verbatim>\<open>ModifyingSigner\<close>: the transaction left with the caller is the one the signature covers; a
  failed call leaves the caller's transaction alone.
\<close>

locale modifying_signer = solana_signer vouched covers sign_message
  for vouched :: "signature \<Rightarrow> bytes \<Rightarrow> bool"
    and covers :: "bytes \<Rightarrow> bytes \<Rightarrow> bool"
    and sign_message :: "bytes \<Rightarrow> ('w, signature) signer_io" +
  fixes S :: "'x sdk_scheme"
    and pubkey :: pubkey
    and modify_and_sign :: "(versioned_transaction \<times> 'w, sign_transaction_result) signer_io"
  assumes modify_ok:
    "modify_and_sign (tx, w) = (Inr res, (tx', w')) \<Longrightarrow>
       \<exists>enc sig p. get_signing_keypair_position S tx' pubkey = Inr p \<and>
         p < length (tx_signatures tx') \<and> tx_signatures tx' ! p = sig \<and>
         vouched sig (message_serialize S (tx_message tx')) \<and>
         serialize_transaction S tx' = Inr enc \<and>
         res = classify_signed_transaction tx' (enc, sig)"
    and modify_error:
    "modify_and_sign (tx, w) = (Inl e, (tx', w')) \<Longrightarrow> tx' = tx"
begin

lemma modify_and_send_ok:
  assumes "modify_and_send modify_and_sign send (tx, w) = (Inr s, (tx', w'))"
  shows "has_all_required_signatures tx' \<and>
    (\<exists>w1 enc sig. modify_and_sign (tx, w) = (Inr (Complete (enc, sig)), (tx', w1)) \<and>
      vouched sig (message_serialize S (tx_message tx')) \<and>
      sig \<in> set (tx_signatures tx') \<and> serialize_transaction S tx' = Inr enc \<and> send enc w1 = (Inr s, w'))"
proof -
  from assms obtain res w1 where sign: "modify_and_sign (tx, w) = (Inr res, (tx', w1))"
    and send: "broadcast_complete res (first (tx_signatures tx')) send w1 = (Inr s, w')"
    by (auto simp: modify_and_send_def result_simps)
  from send obtain st where "res = Complete st" "send (fst st) w1 = (Inr s, w')"
    by (auto simp: broadcast_complete_Inr)
  with modify_ok [OF sign] sign show ?thesis
    by (auto simp: classify_signed_transaction_def split: if_splits)
qed

end

text \<open>
  \<^verbatim>\<open>SendingSigner\<close>: the provider broadcasts. \<open>accepted tx w\<close> is the id under which the provider answers that it took the
  transaction on when the call is made in \<open>w\<close>, if it does, and \<open>refused w w'\<close> says that it refused every request of a call
  that led from \<open>w\<close> to \<open>w'\<close>. A call succeeds only for an accepted transaction, every failure after acceptance reports the
  broadcast as unconfirmed with that id, and every failure that is not reported so was a refusal.
\<close>

locale sending_signer =
  fixes sign_and_send_transaction :: "versioned_transaction \<Rightarrow> ('w, signature) signer_io"
    and accepted :: "versioned_transaction \<Rightarrow> 'w \<Rightarrow> string option"
    and refused :: "'w \<Rightarrow> 'w \<Rightarrow> bool"
  assumes success_accepted:
    "sign_and_send_transaction tx w = (Inr s, w') \<Longrightarrow> accepted tx w \<noteq> None"
    and failure_after_accept:
    "sign_and_send_transaction tx w = (Inl e, w') \<Longrightarrow> accepted tx w = Some i \<Longrightarrow>
       \<exists>st key sig d. e = BroadcastUnconfirmed (Some i) st key sig d"
    and definite_error_refused:
    "sign_and_send_transaction tx w = (Inl e, w') \<Longrightarrow> \<not> is_unconfirmed e \<Longrightarrow> refused w w'"
begin

text \<open>What a caller may rely on before sending again: a definite error means the provider took nothing on.\<close>

lemma definite_error_not_accepted:
  assumes "sign_and_send_transaction tx w = (Inl e, w')" "\<not> is_unconfirmed e"
  shows "accepted tx w = None"
proof (rule ccontr)
  assume "accepted tx w \<noteq> None"
  then obtain i where "accepted tx w = Some i" by blast
  with failure_after_accept [OF assms(1)] assms(2) show False by (auto simp: is_unconfirmed_def)
qed

lemma accepted_outcome:
  assumes "sign_and_send_transaction tx w = (r, w')" "accepted tx w = Some i"
  shows "(\<exists>s. r = Inr s) \<or> (\<exists>st key sig d. r = Inl (BroadcastUnconfirmed (Some i) st key sig d))"
  using failure_after_accept [of tx w _ w' i] assms by (cases r) auto

end

end
