(* ===== verification/Sdk_Adapter.thy ===== *)
theory Sdk_Adapter
  imports Signer_Error
begin

text \<open>
  \<^verbatim>\<open>src/rust/src/sdk_adapter\<close>: the crate is built against one of three versions of the Solana SDK. The SDK's keypair type is the
  type variable \<open>'k\<close>; what each version does with keypairs is a field of \<open>keypair_env\<close>, a function of the version, and
  \<open>sdk_version\<close> is the feature the crate was built with. The adapter gives the rest of the crate one set of functions.
\<close>

datatype sdk_version = SdkV2 | SdkV3 | SdkV4

record 'k keypair_env =
  sdk_version :: sdk_version
  kp_from_bytes :: "sdk_version \<Rightarrow> bytes \<Rightarrow> string + 'k"
  kp_from_seed :: "sdk_version \<Rightarrow> bytes \<Rightarrow> string + 'k"
  kp_pubkey :: "sdk_version \<Rightarrow> 'k \<Rightarrow> pubkey"
  kp_sign :: "sdk_version \<Rightarrow> 'k \<Rightarrow> bytes \<Rightarrow> signature"

definition keypair_from_bytes_v2 :: "('k, 'y) keypair_env_scheme \<Rightarrow> bytes \<Rightarrow> string + 'k" where
  "keypair_from_bytes_v2 L bs = map_err (\<lambda>e. e) (kp_from_bytes L SdkV2 bs)"

definition keypair_from_bytes_v3 :: "('k, 'y) keypair_env_scheme \<Rightarrow> bytes \<Rightarrow> string + 'k" where
  "keypair_from_bytes_v3 L bs = map_err (\<lambda>e. ''Invalid keypair bytes: '' @ e) (kp_from_bytes L SdkV3 bs)"

definition keypair_from_bytes_v4 :: "('k, 'y) keypair_env_scheme \<Rightarrow> bytes \<Rightarrow> string + 'k" where
  "keypair_from_bytes_v4 L bs = map_err (\<lambda>e. ''Invalid keypair bytes: '' @ e) (kp_from_bytes L SdkV4 bs)"

definition keypair_from_bytes :: "('k, 'y) keypair_env_scheme \<Rightarrow> bytes \<Rightarrow> string + 'k" where
  "keypair_from_bytes L =
     (case sdk_version L of
        SdkV2 \<Rightarrow> keypair_from_bytes_v2 L
      | SdkV3 \<Rightarrow> keypair_from_bytes_v3 L
      | SdkV4 \<Rightarrow> keypair_from_bytes_v4 L)"

text \<open>The other three functions are written alike for every version.\<close>

definition keypair_pubkey :: "('k, 'y) keypair_env_scheme \<Rightarrow> 'k \<Rightarrow> pubkey" where
  "keypair_pubkey L keypair = kp_pubkey L (sdk_version L) keypair"

definition keypair_from_seed :: "('k, 'y) keypair_env_scheme \<Rightarrow> bytes \<Rightarrow> string + 'k" where
  "keypair_from_seed L seed = map_err (\<lambda>e. e) (kp_from_seed L (sdk_version L) seed)"

definition keypair_sign_message :: "('k, 'y) keypair_env_scheme \<Rightarrow> 'k \<Rightarrow> bytes \<Rightarrow> signature" where
  "keypair_sign_message L keypair message = kp_sign L (sdk_version L) keypair message"

section \<open>What the adapter keeps of an SDK's answer\<close>

lemmas keypair_from_bytes_defs = keypair_from_bytes_def keypair_from_bytes_v2_def keypair_from_bytes_v3_def keypair_from_bytes_v4_def

lemma keypair_from_bytes_Inr [result_simps]: "keypair_from_bytes L bs = Inr k \<longleftrightarrow> kp_from_bytes L (sdk_version L) bs = Inr k"
  by (cases "sdk_version L") (auto simp: keypair_from_bytes_defs result_simps)

lemma map_err_keypair_from_bytes [simp]:
  "map_err (\<lambda>_. e) (keypair_from_bytes L bs) = map_err (\<lambda>_. e) (kp_from_bytes L (sdk_version L) bs)"
  by (cases "sdk_version L"; cases "kp_from_bytes L (sdk_version L) bs") (auto simp: keypair_from_bytes_defs)

end
