(* ===== verification/Memory_Signer.thy ===== *)
theory Memory_Signer
  imports Traits_Send Sdk_Adapter
begin

text \<open>
  \<^verbatim>\<open>src/rust/src/memory\<close>: the local keypair signer and its private-key parser. The environment \<open>local_env\<close> adds the JSON
  decoder and the file system to the SDK's keypairs.
\<close>

section \<open>Parsing private keys (keypair\_util.rs)\<close>

record 'k local_env = "'k keypair_env" +
  json_vec_u8 :: "string \<Rightarrow> string + bytes"
  read_to_string :: "string \<Rightarrow> string + string"

definition parse_u8 :: "string \<Rightarrow> u8 option" where
  "parse_u8 s = map_option word_of_nat (parse_uint 256 s)"

fun parse_u8_pieces :: "string list \<Rightarrow> bytes option" where
  "parse_u8_pieces [] = Some []"
| "parse_u8_pieces (p # ps) =
     (case parse_u8 (trim p) of
        None \<Rightarrow> None
      | Some b \<Rightarrow> map_option (\<lambda>bs. b # bs) (parse_u8_pieces ps))"

definition PRIVATE_KEY_LENGTH :: nat where
  "PRIVATE_KEY_LENGTH = 64"

definition starts_with :: "char \<Rightarrow> string \<Rightarrow> bool" where
  "starts_with c s = (case s of [] \<Rightarrow> False | x # _ \<Rightarrow> x = c)"

definition ends_with :: "char \<Rightarrow> string \<Rightarrow> bool" where
  "ends_with c s = starts_with c (rev s)"

definition keypair_or_invalid :: "('k, 'y) local_env_scheme \<Rightarrow> bytes \<Rightarrow> 'k result" where
  "keypair_or_invalid L bs =
     map_err (\<lambda>_. InvalidPrivateKey ''Invalid private key bytes'') (keypair_from_bytes L bs)"

definition from_base58_safe :: "('x sdk_scheme) \<Rightarrow> ('k, 'y) local_env_scheme \<Rightarrow> string \<Rightarrow> 'k result" where
  "from_base58_safe S L private_key =
     res_bind (map_err (\<lambda>_. InvalidPrivateKey ''Invalid private key format'') (bs58_decode S private_key))
       (\<lambda>decoded.
          if length decoded \<noteq> PRIVATE_KEY_LENGTH
          then Inl (InvalidPrivateKey (''Invalid private key length: expected '' @
            show_nat PRIVATE_KEY_LENGTH @ '' bytes, got '' @ show_nat (length decoded)))
          else keypair_or_invalid L decoded)"

definition from_u8_array_string :: "('k, 'y) local_env_scheme \<Rightarrow> string \<Rightarrow> 'k result" where
  "from_u8_array_string L array_str =
     (let trimmed = trim array_str in
      if \<not> starts_with (CHR ''['') trimmed \<or> \<not> ends_with (CHR '']'') trimmed
      then Inl (InvalidPrivateKey (''U8Array string must start with '[' and end with ']'' @ [CHR 0x27]))
      else let inner = str_slice 1 (length trimmed - 1) trimmed in
        if trim inner = [] then Inl (InvalidPrivateKey ''U8Array string cannot be empty'')
        else case parse_u8_pieces (split_on (CHR '','') inner) of
               None \<Rightarrow> Inl (InvalidPrivateKey ''Invalid U8Array private key format'')
             | Some byte_array \<Rightarrow>
                 if length byte_array \<noteq> PRIVATE_KEY_LENGTH
                 then Inl (InvalidPrivateKey (''Private key must be exactly '' @
                   show_nat PRIVATE_KEY_LENGTH @ '' bytes, got '' @ show_nat (length byte_array)))
                 else keypair_or_invalid L byte_array)"

definition from_private_key_string ::
  "('x sdk_scheme) \<Rightarrow> ('k, 'y) local_env_scheme \<Rightarrow> string \<Rightarrow> 'k result" where
  "from_private_key_string S L private_key =
     (if starts_with (CHR ''['') (trim private_key) \<and> ends_with (CHR '']'') (trim private_key)
      then from_u8_array_string L private_key
      else from_base58_safe S L private_key)"

definition from_json_keypair :: "('k, 'y) local_env_scheme \<Rightarrow> string \<Rightarrow> 'k result" where
  "from_json_keypair L json_content =
     (case json_vec_u8 L json_content of
        Inr byte_array \<Rightarrow>
          (if length byte_array \<noteq> PRIVATE_KEY_LENGTH
           then Inl (InvalidPrivateKey (''JSON keypair must be exactly '' @
             show_nat PRIVATE_KEY_LENGTH @ '' bytes, got '' @ show_nat (length byte_array)))
           else keypair_or_invalid L byte_array)
      | Inl _ \<Rightarrow>
          Inl (InvalidPrivateKey ''Invalid JSON keypair format. Expected a JSON array of 64 bytes''))"

definition from_private_key_file :: "('k, 'y) local_env_scheme \<Rightarrow> string \<Rightarrow> 'k result" where
  "from_private_key_file L path =
     res_bind (map_err (\<lambda>_. IoError ''Failed to read private key file'') (read_to_string L path))
       (from_json_keypair L)"

section \<open>The signer (memory/mod.rs)\<close>

record 'k memory_signer =
  memory_keypair :: 'k

record 'k memory_config =
  mc_keypair :: 'k

definition memory_from_config :: "'k memory_config \<Rightarrow> 'k memory_signer" where
  "memory_from_config config = \<lparr>memory_keypair = mc_keypair config\<rparr>"

definition memory_new :: "'k \<Rightarrow> 'k memory_signer" where
  "memory_new keypair = memory_from_config \<lparr>mc_keypair = keypair\<rparr>"

definition memory_from_bytes :: "('k, 'y) local_env_scheme \<Rightarrow> bytes \<Rightarrow> 'k memory_signer result" where
  "memory_from_bytes L private_key =
     res_bind (keypair_or_invalid L private_key) (\<lambda>k. Inr \<lparr>memory_keypair = k\<rparr>)"

definition memory_from_private_key_string ::
  "('x sdk_scheme) \<Rightarrow> ('k, 'y) local_env_scheme \<Rightarrow> string \<Rightarrow> 'k memory_signer result" where
  "memory_from_private_key_string S L private_key =
     res_bind (from_private_key_string S L private_key) (\<lambda>k. Inr (memory_new k))"

definition memory_from_private_key_file ::
  "('k, 'y) local_env_scheme \<Rightarrow> string \<Rightarrow> 'k memory_signer result" where
  "memory_from_private_key_file L path =
     res_bind (from_private_key_file L path) (\<lambda>k. Inr (memory_new k))"

definition memory_sign_bytes :: "('k, 'y) local_env_scheme \<Rightarrow> 'k memory_signer \<Rightarrow> bytes \<Rightarrow> signature" where
  "memory_sign_bytes L m serialized = keypair_sign_message L (memory_keypair m) serialized"

definition memory_pubkey :: "('k, 'y) local_env_scheme \<Rightarrow> 'k memory_signer \<Rightarrow> pubkey" where
  "memory_pubkey L m = keypair_pubkey L (memory_keypair m)"

definition memory_sign_message ::
  "('k, 'y) local_env_scheme \<Rightarrow> 'k memory_signer \<Rightarrow> bytes \<Rightarrow> ('w, signature) signer_io" where
  "memory_sign_message L m msg = io_lift (Inr (memory_sign_bytes L m msg))"

definition memory_is_available :: "'k memory_signer \<Rightarrow> bool" where
  "memory_is_available m = True"

definition memory_sign_transaction ::
  "('x sdk_scheme) \<Rightarrow> ('k, 'y) local_env_scheme \<Rightarrow> 'k memory_signer \<Rightarrow>
   (versioned_transaction \<times> 'w, sign_transaction_result) signer_io" where
  "memory_sign_transaction S L m st =
     (let sig = memory_sign_bytes L m (message_serialize S (tx_message (fst st)))
      in io_place (attach_and_classify S (memory_pubkey L m) sig) st)"

section \<open>The memory signer is a transaction signer\<close>

interpretation memory: transaction_signer
  "\<lambda>sig b. sig = memory_sign_bytes L m b" "\<lambda>msg b. b = msg" "memory_sign_message L m"
  S "memory_pubkey L m" "memory_sign_transaction S L m"
  for S :: "'x sdk_scheme" and L :: "('k, 'y) local_env_scheme" and m :: "'k memory_signer"
proof
  fix msg sig and w w' :: 'b
  assume "memory_sign_message L m msg w = (Inr sig, w')"
  then show "\<exists>b. b = msg \<and> sig = memory_sign_bytes L m b"
    by (simp add: memory_sign_message_def result_simps)
next
  fix tx tx' res and w w' :: 'b
  assume "memory_sign_transaction S L m (tx, w) = (Inr res, (tx', w'))"
  then show "\<exists>enc sig. own_slot_signed S (memory_pubkey L m) sig tx tx' \<and>
      sig = memory_sign_bytes L m (message_serialize S (tx_message tx)) \<and>
      serialize_transaction S tx' = Inr enc \<and> res = classify_signed_transaction tx' (enc, sig)"
    by (auto simp: memory_sign_transaction_def Let_def result_simps)
next
  fix tx tx' e and w w' :: 'b
  assume "memory_sign_transaction S L m (tx, w) = (Inl e, (tx', w'))"
  then show "tx' = tx \<or> (\<exists>sig. own_slot_signed S (memory_pubkey L m) sig tx tx' \<and>
      sig = memory_sign_bytes L m (message_serialize S (tx_message tx)))"
    by (auto simp: memory_sign_transaction_def Let_def result_simps dest: attach_and_classify_Inl)
qed

section \<open>Byte-array keys\<close>

lemma show_nat_graphic: "list_all is_graphic (show_nat n)"
  using show_nat_digits [of n] by (auto simp: list_all_iff is_graphic_def is_digit_char_def)

lemma trim_show_nat [simp]: "trim (show_nat n) = show_nat n"
  using show_nat_graphic [of n] by (intro trim_graphic_ends) (auto simp: list_all_iff)

lemma trim_space_show_nat [simp]: "trim (CHR '' '' # show_nat n) = show_nat n"
  using trim_show_nat [of n] by (simp add: trim_def trim_start_space)

lemma parse_u8_show [simp]: "parse_u8 (show_nat (unat b)) = Some b"
proof -
  obtain c cs where s: "show_nat (unat b) = c # cs" by (cases "show_nat (unat b)") auto
  have "is_digit_char c" using show_nat_digits [of "unat b"] by (simp add: s)
  then have "c \<noteq> CHR ''+''" by (auto simp: is_digit_char_def)
  moreover have "unat b < 256" using unsigned_less [of b, where 'a = nat] by simp
  ultimately show ?thesis
    using show_nat_digits [of "unat b"] digits_val_show_nat [of "unat b"]
    by (simp add: parse_u8_def parse_uint_def s)
qed

lemma no_comma_show_nat: "CHR '','' \<notin> set (show_nat n)"
  using show_nat_digits [of n] by (auto simp: list_all_iff is_digit_char_def)

lemma split_on_join_comma_space:
  "(\<And>p. p \<in> set (p0 # ps) \<Longrightarrow> CHR '','' \<notin> set p) \<Longrightarrow>
   split_on (CHR '','') (join_with '', '' (p0 # ps)) = p0 # map (\<lambda>p. CHR '' '' # p) ps"
proof (induction ps arbitrary: p0)
  case Nil
  then show ?case by (simp add: split_on_no_sep)
next
  case (Cons q ps)
  have "split_on (CHR '','') (CHR '' '' # join_with '', '' (q # ps)) =
      (CHR '' '' # q) # map (\<lambda>p. CHR '' '' # p) ps"
    using Cons.IH [of q] Cons.prems by simp
  then show ?case using Cons.prems by (simp add: split_on_append_sep)
qed

lemma parse_u8_pieces_shown:
  "parse_u8_pieces (map (\<lambda>b. show_nat (unat b)) bs) = Some bs"
  "parse_u8_pieces (map (\<lambda>b. CHR '' '' # show_nat (unat b)) bs) = Some bs"
  by (induction bs) auto

lemma join_graphic_ends:
  fixes bs :: bytes
  assumes "bs \<noteq> []"
  shows "join_with sep (map (\<lambda>b. show_nat (unat b)) bs) \<noteq> []"
    and "is_graphic (hd (join_with sep (map (\<lambda>b. show_nat (unat b)) bs)))"
    and "is_graphic (last (join_with sep (map (\<lambda>b. show_nat (unat b)) bs)))"
proof -
  have ends: "show_nat n \<noteq> []" "is_graphic (hd (show_nat n))" "is_graphic (last (show_nat n))" for n
    using show_nat_graphic [of n] by (auto simp: list_all_iff)
  have ne: "join_with sep (map (\<lambda>b. show_nat (unat b)) bs) \<noteq> []" if "bs \<noteq> []" for bs :: bytes
    using that by (cases bs; cases "tl bs") auto
  from assms show "join_with sep (map (\<lambda>b. show_nat (unat b)) bs) \<noteq> []" by (rule ne)
  from assms show "is_graphic (hd (join_with sep (map (\<lambda>b. show_nat (unat b)) bs)))"
    by (cases bs; cases "tl bs") (auto simp: ends)
  from assms show "is_graphic (last (join_with sep (map (\<lambda>b. show_nat (unat b)) bs)))"
  proof (induction bs)
    case (Cons b bs)
    show ?case
    proof (cases bs)
      case Nil
      then show ?thesis by (simp add: ends)
    next
      case (Cons c cs)
      with Cons.IH ne [of bs] show ?thesis by simp
    qed
  qed simp
qed

lemma bracketed_ends:
  "starts_with (CHR ''['') (CHR ''['' # s @ '']'')" "ends_with (CHR '']'') (CHR ''['' # s @ '']'')"
  by (simp_all add: starts_with_def ends_with_def)

lemma trim_bracketed: "trim (CHR ''['' # s @ '']'') = CHR ''['' # s @ '']''"
  by (rule trim_graphic_ends) (simp_all add: is_graphic_def)

lemma from_u8_array_bracketed:
  assumes "trim inner \<noteq> []" and "parse_u8_pieces (split_on (CHR '','') inner) = Some bs"
    and "length bs = 64"
  shows "from_u8_array_string L (CHR ''['' # inner @ '']'') = keypair_or_invalid L bs"
  using assms
  by (simp add: from_u8_array_string_def trim_bracketed bracketed_ends str_slice_def PRIVATE_KEY_LENGTH_def)

section \<open>Properties\<close>

text \<open>C30: A 64-byte key printed as a bracketed list of decimal numbers, separated by commas with or
  without a space, is read back as exactly those bytes: the result is whatever the SDK makes of
  them, with its error redacted.\<close>
theorem u8_array_key_roundtrip:
  assumes "length bs = 64" and "sep \<in> {'','', '', ''}"
  shows "from_private_key_string S L
      (''['' @ join_with sep (map (\<lambda>b. show_nat (unat b)) bs) @ '']'') =
    map_err (\<lambda>_. InvalidPrivateKey ''Invalid private key bytes'') (kp_from_bytes L (sdk_version L) bs)"
proof -
  define inner where "inner = join_with sep (map (\<lambda>b. show_nat (unat b)) bs)"
  from assms(1) obtain b0 bs' where bs: "bs = b0 # bs'" by (cases bs) auto
  have "trim inner = inner" "inner \<noteq> []"
    using join_graphic_ends [of bs sep] trim_graphic_ends [of inner] by (simp_all add: bs inner_def)
  moreover have "parse_u8_pieces (split_on (CHR '','') inner) = Some bs"
  proof -
    have "split_on (CHR '','') (join_with '','' (map (\<lambda>b. show_nat (unat b)) bs)) =
        map (\<lambda>b. show_nat (unat b)) bs"
      by (rule split_on_join) (auto simp: bs no_comma_show_nat)
    moreover have "split_on (CHR '','') (join_with '', '' (map (\<lambda>b. show_nat (unat b)) bs)) =
        show_nat (unat b0) # map (\<lambda>b. CHR '' '' # show_nat (unat b)) bs'"
      by (subst bs, subst list.map, subst split_on_join_comma_space)
         (auto simp: no_comma_show_nat)
    ultimately show ?thesis
      using assms(2) by (auto simp: inner_def parse_u8_pieces_shown bs)
  qed
  ultimately have "from_u8_array_string L (CHR ''['' # inner @ '']'') = keypair_or_invalid L bs"
    using assms(1) by (intro from_u8_array_bracketed) simp_all
  then show ?thesis
    by (simp add: from_private_key_string_def trim_bracketed bracketed_ends inner_def keypair_or_invalid_def)
qed

definition demo_local :: "pubkey local_env" where
  "demo_local =
     \<lparr>sdk_version = SdkV3,
      kp_from_bytes = (\<lambda>v bs. if length bs = 64 then Inr (Pubkey (drop 32 bs)) else Inl ''length''),
      kp_from_seed = (\<lambda>v bs. Inl ''none''),
      kp_pubkey = (\<lambda>v k. k),
      kp_sign = (\<lambda>v k m. Signature (demo_seal (pubkey_bytes k) m)),
      json_vec_u8 = (\<lambda>s. Inl ''unsupported''),
      read_to_string = (\<lambda>p. Inl ''no file'')\<rparr>"

theorem u8_array_key_roundtrip_witness:
  "from_private_key_string demo_sdk demo_local
     (''['' @ join_with '', '' (map (\<lambda>b. show_nat (unat b)) (replicate 64 (200 :: u8))) @ '']'') =
   Inr (Pubkey (replicate 32 200))"
proof -
  have "length (replicate 64 (200 :: u8)) = 64" "'', '' \<in> {'','', '', ''}" by simp_all
  from u8_array_key_roundtrip [OF this, of demo_sdk demo_local] show ?thesis
    by (simp add: demo_local_def)
qed

text \<open>
  The detail texts of key-parsing errors: fixed, or a fixed text and the number of bytes that the input holds, as base58, as a
  JSON array, or as the entries between the brackets of a byte array.
\<close>

definition key_error_texts :: "string set" where
  "key_error_texts =
     {''Invalid private key format'', ''Invalid private key bytes'', ''U8Array string cannot be empty'',
      ''Invalid U8Array private key format'',
      ''Invalid JSON keypair format. Expected a JSON array of 64 bytes'',
      ''U8Array string must start with '[' and end with ']'' @ [CHR 0x27]}"

definition array_entries :: "string \<Rightarrow> string list" where
  "array_entries s = split_on (CHR '','') (str_slice 1 (length (trim s) - 1) (trim s))"

definition key_length_texts :: "('x sdk_scheme) \<Rightarrow> ('k, 'y) local_env_scheme \<Rightarrow> string \<Rightarrow> string set" where
  "key_length_texts S L s =
     {''Invalid private key length: expected 64 bytes, got '' @ show_nat (length bs) | bs. bs58_decode S s = Inr bs} \<union>
     {''Private key must be exactly 64 bytes, got '' @ show_nat (length (array_entries s))} \<union>
     {''JSON keypair must be exactly 64 bytes, got '' @ show_nat (length bs) | bs. json_vec_u8 L s = Inr bs}"

definition harmless_key_error :: "('x sdk_scheme) \<Rightarrow> ('k, 'y) local_env_scheme \<Rightarrow> string \<Rightarrow> signer_error \<Rightarrow> bool" where
  "harmless_key_error S L s e \<longleftrightarrow> (\<exists>d \<in> key_error_texts \<union> key_length_texts S L s. e = InvalidPrivateKey d)"

lemma harmless_key_errors:
  "d \<in> key_error_texts \<Longrightarrow> harmless_key_error S L s (InvalidPrivateKey d)"
  "d \<in> key_length_texts S L s \<Longrightarrow> harmless_key_error S L s (InvalidPrivateKey d)"
  by (auto simp: harmless_key_error_def)

lemma show_key_length: "show_nat PRIVATE_KEY_LENGTH = ''64''"
  by code_simp

lemma parse_u8_pieces_length: "parse_u8_pieces ps = Some bs \<Longrightarrow> length bs = length ps"
  by (induction ps arbitrary: bs) (auto split: option.splits)

lemma keypair_or_invalid_harmless: "keypair_or_invalid L bs = Inl e \<Longrightarrow> harmless_key_error S L s e"
  by (auto simp: keypair_or_invalid_def result_simps intro!: harmless_key_errors(1) simp: key_error_texts_def)

lemma key_error_text:
  "''Invalid private key format'' \<in> key_error_texts" "''U8Array string cannot be empty'' \<in> key_error_texts"
  "''Invalid U8Array private key format'' \<in> key_error_texts"
  "''Invalid JSON keypair format. Expected a JSON array of 64 bytes'' \<in> key_error_texts"
  "''U8Array string must start with '[' and end with ']'' @ [CHR 0x27] \<in> key_error_texts"
  by (simp_all add: key_error_texts_def)

lemma key_length_text:
  "bs58_decode S s = Inr bs \<Longrightarrow> ''Invalid private key length: expected 64 bytes, got '' @ show_nat (length bs) \<in> key_length_texts S L s"
  "''Private key must be exactly 64 bytes, got '' @ show_nat (length (array_entries s)) \<in> key_length_texts S L s"
  "json_vec_u8 L s = Inr bs \<Longrightarrow> ''JSON keypair must be exactly 64 bytes, got '' @ show_nat (length bs) \<in> key_length_texts S L s"
  unfolding key_length_texts_def by blast+

lemma from_base58_safe_harmless:
  assumes "from_base58_safe S L s = Inl e"
  shows "harmless_key_error S L s e"
proof (cases "bs58_decode S s")
  case (Inl d)
  then show ?thesis using assms harmless_key_errors(1) [OF key_error_text(1)] by (simp add: from_base58_safe_def)
next
  case (Inr bs)
  show ?thesis
  proof (cases "length bs = PRIVATE_KEY_LENGTH")
    case True
    then show ?thesis using assms Inr keypair_or_invalid_harmless by (simp add: from_base58_safe_def)
  next
    case False
    then show ?thesis using assms Inr harmless_key_errors(2) [OF key_length_text(1) [OF Inr]]
      by (simp add: from_base58_safe_def show_key_length)
  qed
qed

lemma from_u8_array_harmless:
  assumes "from_u8_array_string L s = Inl e"
  shows "harmless_key_error S L s e"
proof -
  consider (fixed) d where "d \<in> key_error_texts" "e = InvalidPrivateKey d" | (parsed) bs where "parse_u8_pieces (array_entries s) = Some bs"
    "from_u8_array_string L s = (if length bs \<noteq> PRIVATE_KEY_LENGTH
       then Inl (InvalidPrivateKey (''Private key must be exactly 64 bytes, got '' @ show_nat (length bs)))
       else keypair_or_invalid L bs)"
    using assms key_error_text(2,3,5) unfolding from_u8_array_string_def Let_def array_entries_def [symmetric] show_key_length
    by (cases "parse_u8_pieces (array_entries s)") (simp_all split: if_splits)
  then show ?thesis
  proof cases
    case parsed
    show ?thesis
    proof (cases "length bs = PRIVATE_KEY_LENGTH")
      case True
      then show ?thesis using assms parsed(2) keypair_or_invalid_harmless by simp
    next
      case False
      then have e: "e = InvalidPrivateKey (''Private key must be exactly 64 bytes, got '' @ show_nat (length (array_entries s)))"
        using assms parsed(2) parse_u8_pieces_length [OF parsed(1)] by simp
      show ?thesis unfolding e by (rule harmless_key_errors(2) [OF key_length_text(2)])
    qed
  qed (simp add: harmless_key_errors(1))
qed

lemma from_json_keypair_harmless:
  assumes "from_json_keypair L s = Inl e"
  shows "harmless_key_error S L s e"
proof (cases "json_vec_u8 L s")
  case (Inl d)
  then show ?thesis using assms harmless_key_errors(1) [OF key_error_text(4)] by (simp add: from_json_keypair_def)
next
  case (Inr bs)
  show ?thesis
  proof (cases "length bs = PRIVATE_KEY_LENGTH")
    case True
    then show ?thesis using assms Inr keypair_or_invalid_harmless by (simp add: from_json_keypair_def)
  next
    case False
    then show ?thesis using assms Inr harmless_key_errors(2) [OF key_length_text(3) [OF Inr]]
      by (simp add: from_json_keypair_def show_key_length)
  qed
qed

text \<open>C29: No error of private-key parsing carries key material: it is an invalid-key error whose detail
  is a fixed text, or a fixed text followed by the number of bytes the input holds: its base58 length, the length of
  its JSON array, or the number of entries between its brackets.\<close>
theorem key_errors_reveal_only_length:
  assumes "from_private_key_string S L s = Inl e \<or> from_json_keypair L s = Inl e"
  shows "harmless_key_error S L s e"
  using assms
  by (auto simp: from_private_key_string_def split: if_splits
      dest: from_u8_array_harmless from_base58_safe_harmless from_json_keypair_harmless)

theorem key_errors_reveal_only_length_witness:
  "harmless_key_error demo_sdk demo_local ''[1, 2]'' (InvalidPrivateKey ''Private key must be exactly 64 bytes, got 2'')"
proof -
  have "from_private_key_string demo_sdk demo_local ''[1, 2]'' =
      Inl (InvalidPrivateKey ''Private key must be exactly 64 bytes, got 2'')"
    by code_simp
  then show ?thesis by (rule key_errors_reveal_only_length [OF disjI1])
qed

text \<open>Signing and sending with a local keypair: when it succeeds, the bytes handed to the caller's
  sender are the encoding of the caller's own message with every required signature present, one
  of them this keypair's signature over that message in the keypair's slot; nothing else of the
  transaction changed.\<close>
theorem memory_sign_and_send_ok:
  assumes "sign_and_send (memory_sign_transaction S L m) send (tx, w) = (Inr s, (tx', w'))"
  shows "tx_message tx' = tx_message tx \<and> has_all_required_signatures tx' \<and>
    own_slot_signed S (memory_pubkey L m)
      (memory_sign_bytes L m (message_serialize S (tx_message tx))) tx tx' \<and>
    (\<exists>w1 enc. memory_sign_transaction S L m (tx, w) =
        (Inr (Complete (enc, memory_sign_bytes L m (message_serialize S (tx_message tx)))), (tx', w1)) \<and>
      serialize_transaction S tx' = Inr enc \<and> send enc w1 = (Inr s, w'))"
  using memory.sign_and_send_ok [OF assms] by auto

theorem memory_sign_and_send_ok_witness:
  "let sig = Signature (demo_seal (replicate 32 1) [1, 42])
   in tx_message (demo_tx1\<lparr>tx_signatures := [sig]\<rparr>) = tx_message demo_tx1 \<and>
      has_all_required_signatures (demo_tx1\<lparr>tx_signatures := [sig]\<rparr>)"
proof -
  have run: "sign_and_send (memory_sign_transaction demo_sdk demo_local \<lparr>memory_keypair = demo_key 1\<rparr>)
      (\<lambda>enc w. (Inr (Signature [7]), enc # w)) (demo_tx1, []) =
    (Inr (Signature [7]),
     (demo_tx1\<lparr>tx_signatures := [Signature (demo_seal (replicate 32 1) [1, 42])]\<rparr>, [''012a'']))"
    by code_simp
  from memory_sign_and_send_ok [OF run] show ?thesis by (simp add: Let_def)
qed

end
