(* ===== verification/Ledger_Dashboard.thy ===== *)
theory Ledger_Dashboard
  imports Signature_Util
begin

text \<open>
  \<^verbatim>\<open>src/rust/src/ledger/dashboard.rs\<close>: opening the Solana app over raw HID, with the APDU framing and the
  rules that choose which attached interface to talk to.

  The world of the device thread is the list of device operations made so far. \<^verbatim>\<open>hidapi\<close> and
  \<^verbatim>\<open>solana-remote-wallet\<close> are the fields of \<open>ledger_env\<close>: each answer may depend on everything that
  happened before, so an environment can unplug, lock or swap devices at any point.
\<close>

section \<open>Devices and their environment\<close>

record hid_info =
  hid_path_lossy :: string
  hid_serial :: "string option"
  hid_vendor_id :: u16
  hid_product_id :: u16
  hid_usage_page :: u16
  hid_interface_number :: int

text \<open>A \<^verbatim>\<open>LedgerWallet\<close> handle: its own HID path, when the platform reports one, and its identity.\<close>

record wallet =
  wallet_hid_path :: "string option"
  wallet_id :: nat

datatype remote_device = LedgerDevice wallet | OtherDevice

type_synonym derivation_path = "nat list"

text \<open>The \<^verbatim>\<open>RemoteWalletError\<close> variants the crate tells apart, and the rest.\<close>

datatype rw_error =
    RwUserCancel
  | RwLedgerUserCancel
  | RwNoDeviceFound
  | RwHid string
  | RwProtocol string
  | RwLedgerSdkNotSupported
  | RwOther string

datatype dev_event =
    ApiOpened
  | Opened hid_info
  | Wrote hid_info bytes
  | ReadFrom hid_info
  | Enumerated
  | PubkeyRead wallet derivation_path bool
  | TransactionSigned wallet derivation_path bytes
  | OffchainSigned wallet derivation_path bytes
  | Napped nat

type_synonym dev_trace = "dev_event list"

record ledger_env = sdk +
  hid_api :: "dev_trace \<Rightarrow> string + hid_info list"
  hid_open :: "dev_trace \<Rightarrow> hid_info \<Rightarrow> string + unit"
  hid_write :: "dev_trace \<Rightarrow> hid_info \<Rightarrow> bytes \<Rightarrow> string + unit"
  hid_read :: "dev_trace \<Rightarrow> hid_info \<Rightarrow> string + bytes"
  wallet_manager :: "dev_trace \<Rightarrow> rw_error + unit"
  update_devices :: "dev_trace \<Rightarrow> rw_error + nat"
  list_devices :: "dev_trace \<Rightarrow> remote_device list"
  get_pubkey :: "dev_trace \<Rightarrow> wallet \<Rightarrow> derivation_path \<Rightarrow> bool \<Rightarrow> rw_error + bytes"
  rw_sign_message :: "dev_trace \<Rightarrow> wallet \<Rightarrow> derivation_path \<Rightarrow> bytes \<Rightarrow> rw_error + bytes"
  rw_sign_offchain :: "dev_trace \<Rightarrow> wallet \<Rightarrow> derivation_path \<Rightarrow> bytes \<Rightarrow> rw_error + bytes"
  derivation_parse :: "string \<Rightarrow> string + derivation_path"
  is_linux :: bool
  resolved_remote_wallet :: string

definition LEDGER_VID :: u16 where
  "LEDGER_VID = 0x2c97"

definition multiple_devices_error :: "nat \<Rightarrow> signer_error" where
  "multiple_devices_error n = NotAvailable (show_nat n @
     '' Ledger devices connected; pass host_device_path to select one. Run `just rust-ledger-diagnose` to list them.'')"

section \<open>APDU framing\<close>

definition APDU_TAG :: u8 where "APDU_TAG = 0x05"
definition HID_TRANSPORT_HEADER_LEN :: nat where "HID_TRANSPORT_HEADER_LEN = 5"
definition HID_PACKET_SIZE :: nat where "HID_PACKET_SIZE = 64"

lemmas hid_consts = APDU_TAG_def HID_TRANSPORT_HEADER_LEN_def HID_PACKET_SIZE_def

definition hid_header :: "nat \<Rightarrow> bytes" where
  "hid_header seq = [0x01, 0x01, APDU_TAG, word_of_nat (seq div 256), word_of_nat (seq mod 256)]"

text \<open>
  The loop of \<^verbatim>\<open>write_apdu\<close>. \<open>seq\<close> is a \<^verbatim>\<open>u16\<close> that never reaches its bound: the loop gives up
  at \<^verbatim>\<open>0xffff\<close>.
\<close>

function write_packets ::
  "('x ledger_env_scheme) \<Rightarrow> hid_info \<Rightarrow> bytes \<Rightarrow> nat \<Rightarrow> nat \<Rightarrow> (dev_trace, unit) signer_io" where
  "write_packets E dev apdu offset seq t =
     (let total = length apdu in
      if seq = 0 \<or> offset < total then
        let head = hid_header seq @
              (if seq = 0 then [word_of_nat (total div 256), word_of_nat (total mod 256)] else []);
            n = min (HID_PACKET_SIZE - length head) (total - offset);
            filled = head @ take n (drop offset apdu);
            packet = filled @ replicate (HID_PACKET_SIZE - length filled) 0
        in case hid_write E t dev packet of
             Inl _ \<Rightarrow> (Inl (NotAvailable (''writing to the Ledger failed. Either it was disconnected, or another '' @
               ''application is holding the device.'')), t @ [Wrote dev packet])
           | Inr _ \<Rightarrow>
               if seq + 1 = 0xffff then (Inl (Other ''APDU too large''), t @ [Wrote dev packet])
               else write_packets E dev apdu (offset + n) (seq + 1) (t @ [Wrote dev packet])
      else (Inr (), t))"
  by pat_completeness auto
termination
  by (relation "measure (\<lambda>(E, dev, apdu, offset, seq, t). (length apdu - offset) + (if seq = 0 then 1 else 0))")
     (auto simp: hid_consts hid_header_def)

declare write_packets.simps [simp del]

definition apdu_bytes :: "u8 \<Rightarrow> u8 \<Rightarrow> u8 \<Rightarrow> u8 \<Rightarrow> bytes \<Rightarrow> bytes" where
  "apdu_bytes cla ins p1 p2 data = [cla, ins, p1, p2, word_of_nat (length data)] @ data"

definition write_apdu ::
  "('x ledger_env_scheme) \<Rightarrow> hid_info \<Rightarrow> u8 \<Rightarrow> u8 \<Rightarrow> u8 \<Rightarrow> u8 \<Rightarrow> bytes \<Rightarrow> (dev_trace, unit) signer_io" where
  "write_apdu E dev cla ins p1 p2 data = write_packets E dev (apdu_bytes cla ins p1 p2 data) 0 0"

definition word_pair :: "u8 \<Rightarrow> u8 \<Rightarrow> nat" where
  "word_pair hi lo = unat hi * 256 + unat lo"

text \<open>The end of \<^verbatim>\<open>read_apdu\<close>: split the status word off.\<close>

definition split_status :: "bytes \<Rightarrow> (bytes \<times> u16) result" where
  "split_status message =
     (if length message < 2 then Inl (Other ''no APDU status word'')
      else Inr (take (length message - 2) message,
                word_of_nat (word_pair (message ! (length message - 2)) (message ! (length message - 1)))))"

function read_packets ::
  "('x ledger_env_scheme) \<Rightarrow> hid_info \<Rightarrow> nat \<Rightarrow> bytes \<Rightarrow> nat \<Rightarrow> (dev_trace, bytes) signer_io" where
  "read_packets E dev chunk_index message message_size t =
     (if chunk_index < 0xffff then
        (case hid_read E t dev of
           Inl _ \<Rightarrow> (Inl (NotAvailable (''reading from the Ledger failed. Either it was disconnected, or another '' @
             ''application is holding the device.'')), t @ [ReadFrom dev])
         | Inr chunk \<Rightarrow>
             if length chunk = 0 then (Inl (NotAvailable ''Ledger HID read timed out''), t @ [ReadFrom dev])
             else if length chunk < HID_TRANSPORT_HEADER_LEN \<or> chunk ! 0 \<noteq> 0x01 \<or> chunk ! 1 \<noteq> 0x01 \<or>
                     chunk ! 2 \<noteq> APDU_TAG
             then (Inl (Other ''unexpected Ledger HID chunk''), t @ [ReadFrom dev])
             else let seq = word_pair (chunk ! 3) (chunk ! 4) in
               if seq \<noteq> chunk_index then (Inl (Other ''out-of-order Ledger HID chunk''), t @ [ReadFrom dev])
               else if seq = 0 \<and> length chunk < 7
               then (Inl (Other ''short Ledger HID chunk''), t @ [ReadFrom dev])
               else let size = (if seq = 0 then word_pair (chunk ! 5) (chunk ! 6) else message_size);
                        off = HID_TRANSPORT_HEADER_LEN + (if seq = 0 then 2 else 0);
                        message' = message @ drop off chunk
                    in if length message' \<ge> size then (Inr (take size message'), t @ [ReadFrom dev])
                       else read_packets E dev (chunk_index + 1) message' size (t @ [ReadFrom dev]))
      else (Inr message, t))"
  by pat_completeness auto
termination
  by (relation "measure (\<lambda>(E, dev, i, message, size, t). 0xffff - i)") auto

declare read_packets.simps [simp del]

definition read_apdu :: "('x ledger_env_scheme) \<Rightarrow> hid_info \<Rightarrow> (dev_trace, bytes \<times> u16) signer_io" where
  "read_apdu E dev = io_bind (read_packets E dev 0 [] 0) (\<lambda>message. io_lift (split_status message))"

definition exchange ::
  "('x ledger_env_scheme) \<Rightarrow> hid_info \<Rightarrow> u8 \<Rightarrow> u8 \<Rightarrow> u8 \<Rightarrow> u8 \<Rightarrow> bytes \<Rightarrow> (dev_trace, bytes \<times> u16) signer_io" where
  "exchange E dev cla ins p1 p2 data = io_bind (write_apdu E dev cla ins p1 p2 data) (\<lambda>_. read_apdu E dev)"

section \<open>Choosing a device\<close>

definition HID_GLOBAL_USAGE_PAGE :: u16 where
  "HID_GLOBAL_USAGE_PAGE = 0xFF00"

definition HID_USB_DEVICE_CLASS :: int where
  "HID_USB_DEVICE_CLASS = 0"

definition is_apdu_interface :: "hid_info \<Rightarrow> bool" where
  "is_apdu_interface d \<longleftrightarrow> hid_usage_page d = HID_GLOBAL_USAGE_PAGE \<or> hid_interface_number d = HID_USB_DEVICE_CLASS"

fun common_len :: "string \<Rightarrow> string \<Rightarrow> nat" where
  "common_len (x # xs) (y # ys) = (if x = y then Suc (common_len xs ys) else 0)"
| "common_len _ _ = 0"

text \<open>One past the last delimiter (\<^verbatim>\<open>/ : @ \\<close>) of a string, or 0.\<close>

definition after_last_delim :: "string \<Rightarrow> nat" where
  "after_last_delim s = length (dropWhile (\<lambda>c. c \<notin> {CHR ''/'', CHR '':'', CHR ''@'', CHR 0x5C}) (rev s))"

definition shared_prefix_len :: "string \<Rightarrow> string \<Rightarrow> nat" where
  "shared_prefix_len a b = after_last_delim (take (common_len a b) a)"

definition meets_sibling_threshold :: "nat \<Rightarrow> string \<Rightarrow> bool" where
  "meets_sibling_threshold len path \<longleftrightarrow> len * 5 \<ge> length path * 4"

definition is_sibling_interface :: "string \<Rightarrow> string \<Rightarrow> bool" where
  "is_sibling_interface a b \<longleftrightarrow>
     (let shared = shared_prefix_len a b
      in meets_sibling_threshold shared a \<and> meets_sibling_threshold shared b)"

definition select_ledger :: "string list \<Rightarrow> string \<Rightarrow> nat option" where
  "select_ledger available want =
     (case position (\<lambda>p. p = want) available of
        Some exact \<Rightarrow> Some exact
      | None \<Rightarrow>
          let best = fold max (map (\<lambda>p. shared_prefix_len p want) available) 0 in
          if \<not> meets_sibling_threshold best want then None
          else case filter (\<lambda>i. shared_prefix_len (available ! i) want = best) [0..<length available] of
                 [idx] \<Rightarrow> Some idx
               | _ \<Rightarrow> None)"

record candidate =
  cand_path :: string
  cand_serial :: "string option"

definition same_device :: "candidate \<Rightarrow> candidate \<Rightarrow> bool" where
  "same_device a b =
     (if (case (cand_serial a, cand_serial b) of
            (Some x, Some y) \<Rightarrow> x \<noteq> [] \<and> y \<noteq> [] \<and> x \<noteq> y
          | _ \<Rightarrow> False)
      then False
      else is_sibling_interface (cand_path a) (cand_path b))"

text \<open>The loop that groups candidates: indices of one representative per device.\<close>

function group_devices :: "candidate list \<Rightarrow> nat \<Rightarrow> nat list \<Rightarrow> nat list" where
  "group_devices cs i devices =
     (if i < length cs then
        group_devices cs (Suc i)
          (if \<exists>j \<in> set devices. same_device (cs ! i) (cs ! j) then devices else devices @ [i])
      else devices)"
  by pat_completeness auto
termination
  by (relation "measure (\<lambda>(cs, i, devices). length cs - i)") auto

declare group_devices.simps [simp del]

definition sole_ledger :: "candidate list \<Rightarrow> nat result" where
  "sole_ledger candidates =
     (if candidates = [] then Inl (NotAvailable ''no Ledger device found (plug in and unlock)'')
      else let devices = group_devices candidates 0 [] in
        case devices of
          [d] \<Rightarrow> Inr d
        | _ \<Rightarrow> Inl (multiple_devices_error (length devices)))"

text \<open>
  \<^verbatim>\<open>open_ledger\<close> on an enumerated device list. An open handle is named by the interface it was opened on.
\<close>

definition open_ledger ::
  "('x ledger_env_scheme) \<Rightarrow> hid_info list \<Rightarrow> string option \<Rightarrow> (dev_trace, hid_info) signer_io" where
  "open_ledger E api host_device_path =
     (let ledgers = filter (\<lambda>d. hid_vendor_id d = LEDGER_VID \<and> is_apdu_interface d) api;
          paths = map hid_path_lossy ledgers;
          idx = (case host_device_path of
                   Some want \<Rightarrow> ok_or (NotAvailable (''no Ledger device at the requested host path; '' @
                       show_nat (length paths) @
                       '' Ledger interface(s) attached. Run `just rust-ledger-diagnose` to list them.''))
                     (select_ledger paths want)
                 | None \<Rightarrow> sole_ledger
                     (map (\<lambda>d. \<lparr>cand_path = hid_path_lossy d, cand_serial = hid_serial d\<rparr>) ledgers))
      in io_bind (io_lift idx)
           (\<lambda>i t. (map_err (\<lambda>_. NotAvailable
                (''cannot open the Ledger. Another application may be holding it -- quit '' @
                 ''Ledger Live and any other wallet software, then retry.''))
                (map_sum id (\<lambda>_. ledgers ! i) (hid_open E t (ledgers ! i))),
              t @ [Opened (ledgers ! i)])))"

section \<open>Dashboard operations\<close>

definition CLA_DASHBOARD :: u8 where "CLA_DASHBOARD = 0xb0"
definition CLA_BOLOS :: u8 where "CLA_BOLOS = 0xe0"
definition INS_GET_APP_AND_VERSION :: u8 where "INS_GET_APP_AND_VERSION = 0x01"
definition INS_OPEN_APP :: u8 where "INS_OPEN_APP = 0xd8"
definition INS_QUIT_APP :: u8 where "INS_QUIT_APP = 0xa7"
definition APDU_SUCCESS :: u16 where "APDU_SUCCESS = 0x9000"
definition APDU_DEVICE_LOCKED :: u16 where "APDU_DEVICE_LOCKED = 0x5515"
definition SOLANA_APP_NAME :: string where "SOLANA_APP_NAME = ''Solana''"

definition device_locked_detail :: string where
  "device_locked_detail = ''the Ledger is locked. Enter your PIN on the device, then retry.''"

definition hid_unavailable_error :: signer_error where
  "hid_unavailable_error = NotAvailable
     (''the Ledger HID subsystem is unavailable. On Linux this is usually '' @
      ''missing udev rules; otherwise no HID backend could be initialised.'')"

definition open_api :: "('x ledger_env_scheme) \<Rightarrow> (dev_trace, hid_info list) signer_io" where
  "open_api E t = (map_err (\<lambda>_. hid_unavailable_error) (hid_api E t), t @ [ApiOpened])"

definition current_app :: "('x ledger_env_scheme) \<Rightarrow> hid_info \<Rightarrow> (dev_trace, string option) signer_io" where
  "current_app E dev =
     io_bind (exchange E dev CLA_DASHBOARD INS_GET_APP_AND_VERSION 0 0 [])
       (\<lambda>(payload, status). io_lift
          (if status = APDU_DEVICE_LOCKED then Inl (NotAvailable device_locked_detail)
           else if status \<noteq> APDU_SUCCESS \<or> length payload < 2 then Inr None
           else let name_len = unat (payload ! 1)
                in Inr (if 2 + name_len \<le> length payload
                        then Some (bytes_str (utf8_lossy (str_slice 2 (2 + name_len) payload))) else None)))"

text \<open>Lower-case hexadecimal with a \<^verbatim>\<open>0x\<close> prefix and four digits, \<^verbatim>\<open>{other:#06x}\<close>.\<close>

definition show_hex_u16 :: "u16 \<Rightarrow> string" where
  "show_hex_u16 v = ''0x'' @ hex2 (word_of_nat (unat v div 256)) @ hex2 (word_of_nat (unat v mod 256))"

definition status_to_err :: "u16 \<Rightarrow> string \<Rightarrow> signer_error" where
  "status_to_err status what =
     (if status = 0x6985 then UserRejected (what @ '': rejected on device'')
      else if status = 0x6807 \<or> status = 0x6a83 then NotAvailable (what @ '': app not installed'')
      else Other (what @ '': device returned status '' @ show_hex_u16 status))"

definition open_app :: "('x ledger_env_scheme) \<Rightarrow> hid_info \<Rightarrow> string \<Rightarrow> (dev_trace, unit) signer_io" where
  "open_app E dev name =
     io_bind (write_apdu E dev CLA_BOLOS INS_OPEN_APP 0 0 (str_bytes name))
       (\<lambda>_ t. case read_apdu E dev t of
          (Inr (payload, status), t1) \<Rightarrow>
            (if status = APDU_SUCCESS then Inr () else Inl (status_to_err status ''open Solana app''), t1)
        | (Inl _, t1) \<Rightarrow> (Inr (), t1))"

definition quit_app :: "('x ledger_env_scheme) \<Rightarrow> hid_info \<Rightarrow> (dev_trace, unit) signer_io" where
  "quit_app E dev t = (Inr (), snd (exchange E dev CLA_DASHBOARD INS_QUIT_APP 0 0 [] t))"

fun reopen_attempts ::
  "('x ledger_env_scheme) \<Rightarrow> string option \<Rightarrow> nat \<Rightarrow> (dev_trace, hid_info) signer_io" where
  "reopen_attempts E host 0 t = (Inl (NotAvailable ''Ledger did not re-enumerate after app switch''), t)"
| "reopen_attempts E host (Suc k) t =
     (case open_api E (t @ [Napped 250]) of
        (Inl _, t1) \<Rightarrow> reopen_attempts E host k t1
      | (Inr api, t1) \<Rightarrow>
          (case open_ledger E api host t1 of
             (Inr dev, t2) \<Rightarrow> (Inr dev, t2)
           | (Inl _, t2) \<Rightarrow> reopen_attempts E host k t2))"

definition reopen_after_reenumerate ::
  "('x ledger_env_scheme) \<Rightarrow> string option \<Rightarrow> (dev_trace, hid_info) signer_io" where
  "reopen_after_reenumerate E host = reopen_attempts E host 20"

definition ensure_solana_app_open ::
  "('x ledger_env_scheme) \<Rightarrow> string option \<Rightarrow> (dev_trace, bool) signer_io" where
  "ensure_solana_app_open E host_device_path =
     io_bind (open_api E) (\<lambda>api.
     io_bind (open_ledger E api host_device_path) (\<lambda>device.
     io_bind (current_app E device) (\<lambda>app.
       case app of
         Some a \<Rightarrow>
           if a = SOLANA_APP_NAME then io_lift (Inr False)
           else if a = ''BOLOS'' \<or> a = [] then
             io_bind (open_app E device SOLANA_APP_NAME) (\<lambda>_. io_lift (Inr True))
           else
             io_bind (quit_app E device) (\<lambda>_.
             io_bind (reopen_after_reenumerate E host_device_path) (\<lambda>device'.
             io_bind (open_app E device' SOLANA_APP_NAME) (\<lambda>_. io_lift (Inr True))))
       | None \<Rightarrow> io_bind (open_app E device SOLANA_APP_NAME) (\<lambda>_. io_lift (Inr True)))))"

section \<open>Framing is lossless\<close>

text \<open>
  The transport's packet sequence for an APDU, as data: one first packet with the length, then
  continuation packets, each padded to 64 bytes.
\<close>

definition pad_packet :: "bytes \<Rightarrow> bytes" where
  "pad_packet p = p @ replicate (64 - length p) 0"

function more_frames :: "nat \<Rightarrow> bytes \<Rightarrow> bytes list" where
  "more_frames seq xs =
     (if xs = [] then [] else pad_packet (hid_header seq @ take 59 xs) # more_frames (Suc seq) (drop 59 xs))"
  by pat_completeness auto
termination
  by (relation "measure (\<lambda>(seq, xs). length xs)") auto

declare more_frames.simps [simp del]

definition frames :: "bytes \<Rightarrow> bytes list" where
  "frames apdu =
     pad_packet (hid_header 0 @ [word_of_nat (length apdu div 256), word_of_nat (length apdu mod 256)] @ take 57 apdu) #
     more_frames 1 (drop 57 apdu)"

lemma length_hid_header [simp]: "length (hid_header seq) = 5"
  by (simp add: hid_header_def)

lemma length_pad_packet [simp]: "length p \<le> 64 \<Longrightarrow> length (pad_packet p) = 64"
  by (simp add: pad_packet_def)

lemma length_more_frames: "length (more_frames seq xs) = (length xs + 58) div 59"
proof (induction seq xs rule: more_frames.induct)
  case (1 seq xs)
  show ?case
  proof (cases "xs = []")
    case False
    then have "(length xs + 58) div 59 = Suc ((length xs - 59 + 58) div 59)"
      by (cases "length xs \<le> 59") (auto simp: div_le_dividend le_div_geq Suc_le_eq)
    then show ?thesis using 1 False by (subst more_frames.simps) simp
  qed (simp add: more_frames.simps)
qed

lemma more_frames_64: "p \<in> set (more_frames seq xs) \<Longrightarrow> length p = 64"
proof (induction seq xs rule: more_frames.induct)
  case (1 seq xs)
  then show ?case by (subst (asm) (2) more_frames.simps) (auto split: if_splits)
qed

lemma frames_64: "p \<in> set (frames apdu) \<Longrightarrow> length p = 64"
  by (auto simp: frames_def more_frames_64)

lemma word_pair_split: "n < 65536 \<Longrightarrow> word_pair (word_of_nat (n div 256)) (word_of_nat (n mod 256)) = n"
  by (simp add: word_pair_def unat_of_nat take_bit_eq_mod)

lemma write_more_frames:
  assumes "\<And>t p. hid_write E t dev p = Inr ()"
  shows "0 < seq \<Longrightarrow> seq + length (more_frames seq (drop offset apdu)) < 0xffff \<Longrightarrow>
    write_packets E dev apdu offset seq t =
      (Inr (), t @ map (Wrote dev) (more_frames seq (drop offset apdu)))"
proof (induction "length apdu - offset" arbitrary: offset seq t rule: less_induct)
  case less
  show ?case
  proof (cases "offset < length apdu")
    case True
    let ?n = "min 59 (length apdu - offset)"
    have unfold: "more_frames seq (drop offset apdu) =
        pad_packet (hid_header seq @ take 59 (drop offset apdu)) # more_frames (Suc seq) (drop (offset + 59) apdu)"
      using True by (subst more_frames.simps) (simp add: add.commute)
    have rest: "drop (offset + ?n) apdu = drop (offset + 59) apdu"
      by (cases "length apdu - offset \<le> 59") auto
    have piece: "take ?n (drop offset apdu) = take 59 (drop offset apdu)"
      by (simp add: min_def)
    have "seq + 1 \<noteq> 0xffff" using less.prems unfold by auto
    moreover have "write_packets E dev apdu (offset + ?n) (seq + 1) u =
        (Inr (), u @ map (Wrote dev) (more_frames (Suc seq) (drop (offset + 59) apdu)))" for u
      using less.hyps [of "offset + ?n" "Suc seq" u] less.prems True unfold rest by simp
    ultimately show ?thesis
      using less.prems(1) True assms unfold piece
      by (subst write_packets.simps) (simp add: hid_consts Let_def pad_packet_def)
  next
    case False
    then show ?thesis
      using less.prems by (subst write_packets.simps) (simp add: more_frames.simps)
  qed
qed

lemma write_apdu_frames:
  assumes "\<And>t p. hid_write E t dev p = Inr ()" and "length data \<le> 65530"
  shows "write_apdu E dev cla ins p1 p2 data t =
    (Inr (), t @ map (Wrote dev) (frames (apdu_bytes cla ins p1 p2 data)))"
proof -
  let ?a = "apdu_bytes cla ins p1 p2 data"
  let ?n = "min 57 (length ?a)"
  have rest: "drop ?n ?a = drop 57 ?a" by (cases "length ?a \<le> 57") auto
  have piece: "take ?n ?a = take 57 ?a" by (simp add: min_def)
  have "length ?a \<le> 65535" using assms(2) by (simp add: apdu_bytes_def)
  then have "1 + length (more_frames 1 (drop ?n ?a)) < 0xffff"
    unfolding length_more_frames by simp
  from write_more_frames [OF assms(1) _ this]
  have "write_packets E dev ?a ?n (Suc 0) u = (Inr (), u @ map (Wrote dev) (more_frames 1 (drop 57 ?a)))" for u
    using rest by simp
  then show ?thesis
    unfolding write_apdu_def frames_def using assms(1) piece
    by (subst write_packets.simps) (simp add: hid_consts Let_def pad_packet_def)
qed

lemma chunk_fields:
  assumes "seq < 65536" and "length body \<le> 59"
  defines "c \<equiv> pad_packet (hid_header seq @ body)"
  shows "length c = 64" "c ! 0 = 1" "c ! 1 = 1" "c ! Suc 0 = 1" "c ! 2 = APDU_TAG"
    "word_pair (c ! 3) (c ! 4) = seq" "drop 5 c = body @ replicate (59 - length body) 0"
  using assms by (simp_all add: pad_packet_def hid_header_def nth_append word_pair_split)

lemma read_more_frames:
  assumes "\<And>k. k < length (more_frames seq xs) \<Longrightarrow>
      hid_read E (t @ replicate k (ReadFrom dev)) dev = Inr (more_frames seq xs ! k)"
    and "0 < seq" "seq + length (more_frames seq xs) < 0xffff" "xs \<noteq> []" "msize = length (m @ xs)"
  shows "read_packets E dev seq m msize t =
    (Inr (m @ xs), t @ replicate (length (more_frames seq xs)) (ReadFrom dev))"
  using assms
proof (induction seq xs arbitrary: m t rule: more_frames.induct)
  case (1 seq xs)
  let ?c = "pad_packet (hid_header seq @ take 59 xs)"
  have unfold: "more_frames seq xs = ?c # more_frames (Suc seq) (drop 59 xs)"
    using 1(5) by (subst more_frames.simps) simp
  have read: "hid_read E t dev = Inr ?c" using 1(2) [of 0] unfold by simp
  have bound: "seq < 0xffff" using 1(4) by simp
  note chunk = chunk_fields [of seq "take 59 xs"]
  show ?case
  proof (cases "length xs \<le> 59")
    case True
    then have "more_frames (Suc seq) (drop 59 xs) = []" by (simp add: more_frames.simps)
    then show ?thesis
      using True chunk bound read 1(3,6) unfold
      by (subst read_packets.simps) (simp add: HID_TRANSPORT_HEADER_LEN_def Let_def)
  next
    case False
    have next_reads: "hid_read E ((t @ [ReadFrom dev]) @ replicate k (ReadFrom dev)) dev =
        Inr (more_frames (Suc seq) (drop 59 xs) ! k)"
      if "k < length (more_frames (Suc seq) (drop 59 xs))" for k
      using 1(2) [of "Suc k"] that unfold by simp
    have "read_packets E dev (Suc seq) (m @ take 59 xs) msize (t @ [ReadFrom dev]) =
      (Inr ((m @ take 59 xs) @ drop 59 xs),
       (t @ [ReadFrom dev]) @ replicate (length (more_frames (Suc seq) (drop 59 xs))) (ReadFrom dev))"
      using next_reads False 1(4,6) unfold by (intro 1(1)) (auto simp: 1(5))
    then show ?thesis
      using False chunk bound read 1(3,6) unfold
      by (subst read_packets.simps) (simp add: HID_TRANSPORT_HEADER_LEN_def Let_def)
  qed
qed

lemma first_chunk_fields:
  assumes "n < 65536" and "length body \<le> 57"
  defines "c \<equiv> pad_packet (hid_header 0 @ [word_of_nat (n div 256), word_of_nat (n mod 256)] @ body)"
  shows "length c = 64" "c ! 0 = 1" "c ! 1 = 1" "c ! Suc 0 = 1" "c ! 2 = APDU_TAG"
    "word_pair (c ! 3) (c ! 4) = 0" "word_pair (c ! 5) (c ! 6) = n"
    "drop 7 c = body @ replicate (57 - length body) 0"
  using assms by (simp_all add: pad_packet_def hid_header_def nth_append word_pair_split word_pair_def [of 0])

lemma read_frames:
  assumes reads: "\<And>k. k < length (frames resp) \<Longrightarrow>
      hid_read E (t @ replicate k (ReadFrom dev)) dev = Inr (frames resp ! k)"
    and size: "length resp < 65536"
  shows "read_packets E dev 0 [] 0 t = (Inr resp, t @ replicate (length (frames resp)) (ReadFrom dev))"
proof -
  note chunk = first_chunk_fields [OF size, of "take 57 resp"]
  have read: "hid_read E t dev = Inr (frames resp ! 0)" using reads [of 0] by (simp add: frames_def)
  show ?thesis
  proof (cases "length resp \<le> 57")
    case True
    then show ?thesis
      using chunk read
      by (subst read_packets.simps) (simp add: HID_TRANSPORT_HEADER_LEN_def Let_def frames_def more_frames.simps)
  next
    case False
    have "read_packets E dev (Suc 0) (take 57 resp) (length resp) (t @ [ReadFrom dev]) =
      (Inr (take 57 resp @ drop 57 resp),
       (t @ [ReadFrom dev]) @ replicate (length (more_frames (Suc 0) (drop 57 resp))) (ReadFrom dev))"
    proof (rule read_more_frames)
      fix k assume "k < length (more_frames (Suc 0) (drop 57 resp))"
      then show "hid_read E ((t @ [ReadFrom dev]) @ replicate k (ReadFrom dev)) dev =
          Inr (more_frames (Suc 0) (drop 57 resp) ! k)"
        using reads [of "Suc k"] by (simp add: frames_def)
    qed (use False size in \<open>simp_all add: length_more_frames\<close>)
    then show ?thesis
      using False chunk read
      by (subst read_packets.simps) (simp add: HID_TRANSPORT_HEADER_LEN_def Let_def frames_def)
  qed
qed

text \<open>
  C12: One APDU exchange is lossless. When every write to the device succeeds and the device answers its
  successive reads with the 64-byte packets of a response, the packets written are exactly the transport's
  packet sequence for the command APDU, the number of reads is the number of response packets, and the
  caller gets the response split into payload and status word, for commands and responses of every length
  the two-byte length field can carry.
\<close>

theorem exchange_lossless:
  assumes "\<And>t p. hid_write E t dev p = Inr ()"
    and "length data \<le> 65530"
    and "length payload < 65534"
    and "sent = t @ map (Wrote dev) (frames (apdu_bytes cla ins p1 p2 data))"
    and "resp = payload @ [word_of_nat (unat (status :: u16) div 256), word_of_nat (unat status mod 256)]"
    and "\<And>k. k < length (frames resp) \<Longrightarrow>
      hid_read E (sent @ replicate k (ReadFrom dev)) dev = Inr (frames resp ! k)"
  shows "exchange E dev cla ins p1 p2 data t =
      (Inr (payload, status), sent @ replicate (length (frames resp)) (ReadFrom dev)) \<and>
      (\<forall>p \<in> set (frames (apdu_bytes cla ins p1 p2 data)). length p = 64)"
proof (intro conjI ballI)
  have "unat status < 65536" using unsigned_less [of status] by simp
  then have "split_status resp = Inr (payload, status)"
    using word_pair_split [of "unat status"] assms(5) by (simp add: split_status_def nth_append)
  moreover have "length resp < 65536" using assms(3,5) by simp
  ultimately show "exchange E dev cla ins p1 p2 data t =
      (Inr (payload, status), sent @ replicate (length (frames resp)) (ReadFrom dev))"
    using read_frames [OF assms(6)] write_apdu_frames [OF assms(1,2)] assms(4)
    by (simp add: exchange_def read_apdu_def io_bind_def io_lift_def)
qed (erule frames_64)

text \<open>
  A concrete environment for witnesses: one attached device whose successive reads are the given
  packets, one wallet holding the key of 32 sevens, and no failures.
\<close>

definition demo_hid :: hid_info where
  "demo_hid = \<lparr>hid_path_lossy = ''/dev/hidraw0'', hid_serial = Some ''0001'', hid_vendor_id = LEDGER_VID,
     hid_product_id = 0x8000, hid_usage_page = 0xFF00, hid_interface_number = 0\<rparr>"

definition demo_wallet :: wallet where
  "demo_wallet = \<lparr>wallet_hid_path = Some ''/dev/hidraw0'', wallet_id = 0\<rparr>"

definition reads_of :: "hid_info \<Rightarrow> dev_trace \<Rightarrow> nat" where
  "reads_of dev t = length (filter (\<lambda>e. e = ReadFrom dev) t)"

definition demo_ledger :: "bytes list \<Rightarrow> ledger_env" where
  "demo_ledger answers = sdk.extend demo_sdk (ledger_env.fields
     (\<lambda>t. Inr [demo_hid]) (\<lambda>t d. Inr ()) (\<lambda>t d p. Inr ())
     (\<lambda>t d. if reads_of d t < length answers then Inr (answers ! reads_of d t) else Inl ''timeout'')
     (\<lambda>t. Inr ()) (\<lambda>t. Inr 1) (\<lambda>t. [OtherDevice, LedgerDevice demo_wallet])
     (\<lambda>t w d c. Inr (replicate 32 7))
     (\<lambda>t w d m. Inr (demo_seal (replicate 32 7) m)) (\<lambda>t w d m. Inr (demo_seal (replicate 32 7) m))
     (\<lambda>s. if s = [] then Inl ''empty'' else Inr [44, 501, 0]) False ''4.2.2'')"

lemma demo_ledger_simps [simp]:
  "hid_write (demo_ledger as) t d p = Inr ()"
  "hid_read (demo_ledger as) t d = (if reads_of d t < length as then Inr (as ! reads_of d t) else Inl ''timeout'')"
  by (simp_all add: demo_ledger_def sdk.extend_def ledger_env.fields_def)

lemma reads_of_simps [simp]:
  "reads_of d (t @ u) = reads_of d t + reads_of d u" "reads_of d [] = 0"
  "reads_of d (replicate k (ReadFrom d)) = k" "reads_of d (map (Wrote d') ps) = 0"
  by (simp_all add: reads_of_def filter_empty_conv)

theorem exchange_lossless_witness:
  "fst (exchange (demo_ledger (frames ([1, 6] @ str_bytes ''Solana'' @ [0x90, 0]))) demo_hid 0xb0 1 0 0 [] []) =
     Inr ([1, 6] @ str_bytes ''Solana'', 0x9000)"
proof -
  let ?resp = "[1, 6] @ str_bytes ''Solana'' @ [0x90, 0]"
  have split: "?resp = ([1, 6] @ str_bytes ''Solana'') @
      [word_of_nat (unat (0x9000 :: u16) div 256), word_of_nat (unat (0x9000 :: u16) mod 256)]" by simp
  have size: "length ([] :: bytes) \<le> 65530" "length ([1, 6] @ str_bytes ''Solana'') < 65534"
    by (simp_all add: str_bytes_def)
  show ?thesis
    using exchange_lossless [where E = "demo_ledger (frames ?resp)" and dev = demo_hid and t = "[]" and cla = "0xb0"
      and ins = 1 and ?p1.0 = 0 and ?p2.0 = 0, OF _ size refl split] by simp
qed

section \<open>Which device is chosen\<close>

lemma common_len_sym: "common_len a b = common_len b a"
  by (induction a b rule: common_len.induct) auto

lemma take_common: "take (common_len a b) a = take (common_len a b) b"
  by (induction a b rule: common_len.induct) auto

lemma shared_prefix_len_sym: "shared_prefix_len a b = shared_prefix_len b a"
  unfolding shared_prefix_len_def using take_common [of a b] common_len_sym [of a b] by simp

lemma is_sibling_interface_sym: "is_sibling_interface a b = is_sibling_interface b a"
  unfolding is_sibling_interface_def using shared_prefix_len_sym [of a b] by (auto simp: Let_def)

lemma same_device_sym: "same_device a b = same_device b a"
  unfolding same_device_def
  using is_sibling_interface_sym [of "cand_path a" "cand_path b"] by (auto split: option.splits)

lemma shared_prefix_len_le: "shared_prefix_len a b \<le> common_len a b"
  unfolding shared_prefix_len_def after_last_delim_def
  using length_dropWhile_le [of _ "rev (take (common_len a b) a)"]
  by (metis length_rev length_take min.cobounded2 min.commute order_trans)

lemma filter_upt_singleton:
  "filter P [0..<n] = [i] \<longleftrightarrow> i < n \<and> P i \<and> (\<forall>j<n. P j \<longrightarrow> j = i)"
proof
  assume filtered: "filter P [0..<n] = [i]"
  then have "set (filter P [0..<n]) = {i}" by simp
  then show "i < n \<and> P i \<and> (\<forall>j<n. P j \<longrightarrow> j = i)" by auto
next
  assume unique: "i < n \<and> P i \<and> (\<forall>j<n. P j \<longrightarrow> j = i)"
  then have "set (filter P [0..<n]) = {i}" by auto
  moreover have "distinct (filter P [0..<n])" by simp
  ultimately have "length (filter P [0..<n]) = 1"
    using distinct_card [of "filter P [0..<n]"] by simp
  then obtain x where "filter P [0..<n] = [x]" by (metis One_nat_def length_0_conv length_Suc_conv)
  then show "filter P [0..<n] = [i]" using \<open>set (filter P [0..<n]) = {i}\<close> by simp
qed

lemma fold_max_0: "fold max xs (0 :: nat) = Max (insert 0 (set xs))"
  by (metis Max.set_eq_fold list.simps(15))

lemma best_unique_iff:
  fixes f :: "'a \<Rightarrow> nat"
  assumes "i < length available"
  defines "best \<equiv> fold max (map f available) 0"
  shows "(f (available ! i) = best \<and> (\<forall>j<length available. f (available ! j) = best \<longrightarrow> j = i)) \<longleftrightarrow>
    (\<forall>j<length available. j \<noteq> i \<longrightarrow> f (available ! j) < f (available ! i))"
proof -
  have best: "best = Max (insert 0 (f ` set available))" by (simp add: best_def fold_max_0)
  have upper: "f (available ! j) \<le> best" if "j < length available" for j
    unfolding best using that by (intro Max_ge) auto
  have "best \<in> insert 0 (f ` set available)" unfolding best by (intro Max_in) auto
  then obtain j where reached: "j < length available" "f (available ! j) = best"
    using assms(1) upper [of i] by (cases "best = 0") (auto simp: in_set_conv_nth)
  show ?thesis
  proof
    assume "f (available ! i) = best \<and> (\<forall>j<length available. f (available ! j) = best \<longrightarrow> j = i)"
    then show "\<forall>j<length available. j \<noteq> i \<longrightarrow> f (available ! j) < f (available ! i)"
      using upper by (metis le_neq_implies_less)
  next
    assume strict: "\<forall>j<length available. j \<noteq> i \<longrightarrow> f (available ! j) < f (available ! i)"
    then have "j = i" using reached upper [OF assms(1)] by (metis leD)
    then show "f (available ! i) = best \<and> (\<forall>j<length available. f (available ! j) = best \<longrightarrow> j = i)"
      using reached strict by (metis less_irrefl)
  qed
qed

text \<open>
  C20: Which interface \<^verbatim>\<open>select_ledger\<close> picks for a requested host path, exactly. It is the first one whose
  path is the requested one; or, when no path is equal, the one whose shared prefix with the request is
  strictly longer than every other's and covers at least four fifths of the request. With a tie or a short
  prefix nothing is picked: a device is never substituted by guessing.
\<close>

theorem select_ledger_iff:
  "select_ledger available want = Some i \<longleftrightarrow>
     i < length available \<and>
     ((available ! i = want \<and> (\<forall>j<i. available ! j \<noteq> want)) \<or>
      (want \<notin> set available \<and> meets_sibling_threshold (shared_prefix_len (available ! i) want) want \<and>
       (\<forall>j<length available. j \<noteq> i \<longrightarrow>
          shared_prefix_len (available ! j) want < shared_prefix_len (available ! i) want)))"
proof (cases "position (\<lambda>p. p = want) available")
  case (Some k)
  then have "select_ledger available want = Some i \<longleftrightarrow> position (\<lambda>p. p = want) available = Some i"
    by (simp add: select_ledger_def)
  moreover have "want \<in> set available" using Some by (auto simp: position_Some_iff)
  ultimately show ?thesis by (simp add: position_Some_iff)
next
  case None
  let ?best = "fold max (map (\<lambda>p. shared_prefix_len p want) available) 0"
  let ?P = "\<lambda>i. shared_prefix_len (available ! i) want = ?best"
  have absent: "want \<notin> set available" using None by (auto simp: position_None_iff)
  have "select_ledger available want = Some i \<longleftrightarrow>
      meets_sibling_threshold ?best want \<and> filter ?P [0..<length available] = [i]"
    using None by (auto simp: select_ledger_def Let_def split: list.splits)
  also have "\<dots> \<longleftrightarrow> i < length available \<and> meets_sibling_threshold (shared_prefix_len (available ! i) want) want \<and>
      (\<forall>j<length available. j \<noteq> i \<longrightarrow>
         shared_prefix_len (available ! j) want < shared_prefix_len (available ! i) want)"
    unfolding filter_upt_singleton using best_unique_iff [of i available "\<lambda>p. shared_prefix_len p want"] by (metis (no_types, lifting))
  finally show ?thesis using absent by (auto dest: nth_mem)
qed

lemma group_devices_prefix: "\<exists>more. group_devices cs i devices = devices @ more"
proof (induction cs i devices rule: group_devices.induct)
  case (1 cs i devices)
  then show ?case
    by (cases "\<exists>j \<in> set devices. same_device (cs ! i) (cs ! j)"; subst group_devices.simps) auto
qed

lemma group_devices_one:
  "group_devices cs i [0] = [d] \<longleftrightarrow> d = 0 \<and> (\<forall>k. i \<le> k \<and> k < length cs \<longrightarrow> same_device (cs ! k) (cs ! 0))"
proof (induction "length cs - i" arbitrary: i)
  case 0
  then show ?case by (subst group_devices.simps) auto
next
  case (Suc n)
  then have "i < length cs" by simp
  show ?case
  proof (cases "same_device (cs ! i) (cs ! 0)")
    case True
    have "(\<forall>k. i \<le> k \<and> k < length cs \<longrightarrow> same_device (cs ! k) (cs ! 0)) \<longleftrightarrow>
        (\<forall>k. Suc i \<le> k \<and> k < length cs \<longrightarrow> same_device (cs ! k) (cs ! 0))"
      using True by (metis Suc_leD Suc_leI le_neq_implies_less)
    then show ?thesis
      using True Suc.hyps(1) [of "Suc i"] Suc.hyps(2) \<open>i < length cs\<close> by (subst group_devices.simps) simp
  next
    case False
    obtain more where "group_devices cs (Suc i) [0, i] = [0, i] @ more" using group_devices_prefix by blast
    then show ?thesis using False \<open>i < length cs\<close> by (subst group_devices.simps) auto
  qed
qed

text \<open>Two macOS interfaces of one device, with the first requested by a path only the second is near.\<close>

theorem select_ledger_iff_witness:
  "select_ledger [''IOService:/AppleUSB/Nano@0/if@1'', ''/dev/hidraw3''] ''IOService:/AppleUSB/Nano@0/if@2'' = Some 0 \<and>
   select_ledger [''/dev/hidraw3'', ''/dev/hidraw4''] ''/dev/hidraw2'' = None"
proof -
  have "select_ledger [''IOService:/AppleUSB/Nano@0/if@1'', ''/dev/hidraw3''] ''IOService:/AppleUSB/Nano@0/if@2'' = Some 0"
    unfolding select_ledger_iff by code_simp
  moreover have "select_ledger [''/dev/hidraw3'', ''/dev/hidraw4''] ''/dev/hidraw2'' = None" by code_simp
  ultimately show ?thesis ..
qed

text \<open>
  Without a requested host path a device is used exactly when at least one interface is attached and
  every other interface is a sibling of the first; the interface used is then the first. In every other
  case the caller gets an error.
\<close>

theorem sole_ledger_iff:
  "sole_ledger cs = Inr i \<longleftrightarrow>
     i = 0 \<and> cs \<noteq> [] \<and> (\<forall>k. 0 < k \<and> k < length cs \<longrightarrow> same_device (cs ! k) (cs ! 0))"
proof (cases "cs = []")
  case False
  then have "group_devices cs 0 [] = group_devices cs 1 [0]"
    by (subst group_devices.simps) simp
  moreover have "sole_ledger cs = Inr i \<longleftrightarrow> group_devices cs 0 [] = [i]"
    using False by (auto simp: sole_ledger_def Let_def split: list.splits)
  ultimately show ?thesis using False group_devices_one [of cs 1 i] by (auto simp: Suc_le_eq)
qed (simp add: sole_ledger_def)

theorem sole_ledger_iff_witness:
  "sole_ledger [\<lparr>cand_path = ''/usb/nano@0'', cand_serial = None\<rparr>,
     \<lparr>cand_path = ''/usb/nano@1'', cand_serial = Some ''0001''\<rparr>] = Inr 0"
proof -
  let ?cs = "[\<lparr>cand_path = ''/usb/nano@0'', cand_serial = None\<rparr>, \<lparr>cand_path = ''/usb/nano@1'', cand_serial = Some ''0001''\<rparr>]"
  have "same_device (?cs ! 1) (?cs ! 0)" by code_simp
  then have "\<forall>k. 0 < k \<and> k < length ?cs \<longrightarrow> same_device (?cs ! k) (?cs ! 0)" by (auto simp: less_Suc_eq)
  then show ?thesis unfolding sole_ledger_iff by simp
qed

text \<open>
  The answer of \<^verbatim>\<open>sole_ledger\<close> depends on the order of enumeration. Sibling paths are symmetric but
  \<^verbatim>\<open>same_device\<close> is not transitive when one interface reports no serial: the same three interfaces are
  one device in one order and a \<^verbatim>\<open>NotAvailable\<close> error in another.
\<close>

definition order_demo :: "string option \<Rightarrow> string \<Rightarrow> candidate" where
  "order_demo serial tail = \<lparr>cand_path = ''IOService:/AppleUSB/LedgerNano@'' @ tail, cand_serial = serial\<rparr>"

theorem sole_ledger_order_dependent:
  "\<exists>cs cs'. mset cs = mset cs' \<and> sole_ledger cs = Inr 0 \<and> sole_ledger cs' = Inl (multiple_devices_error 2)"
proof (intro exI conjI)
  let ?a = "order_demo (Some ''A'') ''0''" and ?b = "order_demo (Some ''B'') ''1''" and ?n = "order_demo None ''2''"
  show "mset [?n, ?a, ?b] = mset [?a, ?b, ?n]" by simp
  show "sole_ledger [?n, ?a, ?b] = Inr 0" by code_simp
  show "sole_ledger [?a, ?b, ?n] = Inl (multiple_devices_error 2)" by code_simp
qed

end
