(* ===== verification/Ledger_Device.thy ===== *)
theory Ledger_Device
  imports Ledger_Dashboard
begin

text \<open>
  \<^verbatim>\<open>src/rust/src/ledger/mod.rs\<close>, the device thread: establishing a session, the diagnosis of an
  attached but unenumerated device, the error mapping, and the handling of each command.

  The state of the thread is its cached session together with the trace of device operations. A command
  is handled whole, from the moment it is received to the reply; the channels around the thread are in
  \<open>Ledger_Claim\<close> and \<open>Ledger_Signer\<close>.
\<close>

section \<open>Errors and diagnosis\<close>

text \<open>The UTF-8 bytes of the dash in two of the messages.\<close>

definition em_dash :: string where
  "em_dash = [CHR 0xE2, CHR 0x80, CHR 0x94]"

definition LINUX_UDEV_HINT :: "('x ledger_env_scheme) \<Rightarrow> string" where
  "LINUX_UDEV_HINT E =
     (if is_linux E then '' On Linux this is most often missing udev rules: '' @
        ''without them the device node is not readable by your user. See the '' @
        [CHR 0x22] @ ''Linux: udev rules'' @ [CHR 0x22] @ '' section of the Ledger backend documentation.''
      else [])"

definition map_rw_err :: "('x ledger_env_scheme) \<Rightarrow> rw_error \<Rightarrow> signer_error" where
  "map_rw_err E e = (case e of
     RwUserCancel \<Rightarrow> UserRejected ''request rejected on Ledger device''
   | RwLedgerUserCancel \<Rightarrow> UserRejected ''request rejected on Ledger device''
   | RwNoDeviceFound \<Rightarrow> NotAvailable ''no Ledger device found''
   | RwHid _ \<Rightarrow> NotAvailable
       (''Ledger is not reachable. Either it was disconnected, or another application is '' @
        ''holding the device '' @ em_dash @ '' quit Ledger Live and any other wallet software, then '' @
        ''retry.'' @ LINUX_UDEV_HINT E)
   | RwProtocol d \<Rightarrow>
       if str_contains ''Version packet'' d then NotAvailable
         (''the Ledger'' @ [CHR 0x27] @ ''s Solana app speaks a configuration format this build of '' @
          ''solana-remote-wallet cannot parse, so it will not enumerate the device. '' @
          ''The device is not at fault. This needs a newer solana-remote-wallet (or an '' @
          ''older Solana app); see the backend README.'')
       else NotAvailable
         (''Ledger did not answer. It is either locked '' @ em_dash @ '' unlock it and open the Solana app '' @ em_dash @
          '' or another application is holding the device, so quit Ledger Live and any other '' @
          ''wallet software. Then retry.'')
   | RwLedgerSdkNotSupported \<Rightarrow> SigningFailed
       (''the Ledger could not clear-sign this, and blind signing is disabled in the '' @
        ''Solana app'' @ [CHR 0x27] @ ''s settings. The device shows '' @ [CHR 0x22] @ ''This transaction cannot be '' @
        ''clear-signed'' @ [CHR 0x22] @ '' with a '' @ [CHR 0x22] @ ''Go to settings'' @ [CHR 0x22] @
        '' prompt, which has to be dismissed '' @
        ''before it will answer anything else. Blind signing is required for off-chain '' @
        ''messages that are not printable ASCII, and for transactions the app cannot decode.'')
   | RwOther _ \<Rightarrow> SigningFailed
       (''the Ledger reported an error while signing. Nothing was signed. Run '' @
        ''`just rust-ledger-diagnose` to capture what the device says about itself.''))"

definition GEN5_PIDS :: "u16 list" where
  "GEN5_PIDS = 0x0008 # map (\<lambda>k. word_of_nat (0x8000 + k)) [0..<32]"

definition attached_ledger_pids :: "('x ledger_env_scheme) \<Rightarrow> dev_trace \<Rightarrow> u16 list" where
  "attached_ledger_pids E t =
     (case hid_api E t of
        Inl _ \<Rightarrow> []
      | Inr ds \<Rightarrow> remdups_adj (sort (map hid_product_id (filter (\<lambda>d. hid_vendor_id d = LEDGER_VID) ds))))"

datatype gen5_status = Absent | Present | Unknown

definition gen5_support :: "string \<Rightarrow> gen5_status" where
  "gen5_support resolved =
     (case split_on CHR ''.'' resolved of
        major # minor # _ \<Rightarrow>
          (case (parse_uint (2 ^ 32) major, parse_uint (2 ^ 32) minor) of
             (Some ma, Some mi) \<Rightarrow> if ma \<le> 3 then Absent else if ma = 4 \<and> mi = 0 then Absent else Present
           | _ \<Rightarrow> Unknown)
      | _ \<Rightarrow> Unknown)"

definition other_causes :: string where
  "other_causes =
     ''the Solana app'' @ [CHR 0x27] @ ''s configuration format -- app 1.16.0 answers '' @
     ''GET_APP_CONFIGURATION with seven bytes where solana-remote-wallet requires exactly '' @
     ''five, which is https://github.com/anza-xyz/agave/pull/15100 and needs that fix or '' @
     ''an older app; or another application holding the device, in which case quit Ledger '' @
     ''Live and any other wallet software''"

definition unenumerated_cause :: "bool \<Rightarrow> gen5_status \<Rightarrow> string \<Rightarrow> string" where
  "unenumerated_cause gen5 support resolved = (case (gen5, support) of
     (True, Absent) \<Rightarrow>
       ''This is a Nano Gen5, and this build resolved solana-remote-wallet '' @ resolved @
       '', which predates the Gen5 product ids added in 4.1 and therefore cannot see the '' @
       ''device at all. 4.0.x is what the Solana 3.x crate line selects.''
   | (True, Present) \<Rightarrow>
       ''This is a Nano Gen5, and this build resolved solana-remote-wallet '' @ resolved @
       '', which does carry the Gen5 product ids, so the crate version is not the cause. '' @
       ''Two causes remain and this layer cannot tell them apart: '' @ other_causes @ ''.''
   | (True, Unknown) \<Rightarrow>
       ''This is a Nano Gen5, and this build'' @ [CHR 0x27] @ ''s solana-remote-wallet version could not '' @
       ''be determined ('' @ resolved @ ''), so the version cannot be ruled out. Check it with '' @
       ''`just rust-which-remote-wallet`, or `cargo tree -i solana-remote-wallet` '' @
       ''outside this repository. If it is 4.0.x it cannot see this device at all and '' @
       ''that is the whole problem. If it is 4.1 or later, two causes remain: '' @ other_causes @ ''.''
   | (False, Unknown) \<Rightarrow>
       ''This build'' @ [CHR 0x27] @ ''s solana-remote-wallet version could not be determined ('' @ resolved @
       ''), and whichever one it is did not recognise that product id, so it '' @
       ''never enumerated the device. A newer solana-remote-wallet may be required; '' @
       ''check which one you have with `just rust-which-remote-wallet`.''
   | (False, _) \<Rightarrow>
       ''This build resolved solana-remote-wallet '' @ resolved @ '', which does not recognise '' @
       ''that product id, so it never enumerated the device. A newer '' @
       ''solana-remote-wallet may be required.'')"

definition unenumerated_detail :: "('x ledger_env_scheme) \<Rightarrow> u16 list \<Rightarrow> string \<Rightarrow> string" where
  "unenumerated_detail E attached resolved =
     (let pid_list = join_with '', '' (map show_hex_u16 attached);
          gen5 = (\<exists>p \<in> set attached. p \<in> set GEN5_PIDS);
          cause = unenumerated_cause gen5 (gen5_support resolved) resolved
      in ''a Ledger device is attached (product id '' @ pid_list @ '') but this build did not '' @
         ''enumerate it. '' @ cause @ '' Run `just rust-ledger-diagnose` to separate them: an '' @
         ''app-configuration mismatch leaves the BOLOS dashboard answering normally and only '' @
         ''enumeration failing, while a process holding the device fails even a raw HID '' @
         ''open.'' @ LINUX_UDEV_HINT E)"

definition BUSY_DETAIL :: string where
  "BUSY_DETAIL = ''Ledger is busy with another operation or awaiting on-device confirmation''"

definition NO_DEVICE_DETAIL :: string where
  "NO_DEVICE_DETAIL = ''no Ledger device found (plug in, unlock, and open the Solana app)''"

definition no_ledger_enumerated_error :: "('x ledger_env_scheme) \<Rightarrow> dev_trace \<Rightarrow> signer_error" where
  "no_ledger_enumerated_error E t =
     (let attached = attached_ledger_pids E t
      in if attached = [] then NotAvailable NO_DEVICE_DETAIL
         else NotAvailable (unenumerated_detail E attached (resolved_remote_wallet E)))"

section \<open>Sessions\<close>

text \<open>
  \<^verbatim>\<open>establish_session\<close>. The error for an unenumerated device asks \<^verbatim>\<open>hidapi\<close> once more, which is the
  \<open>ApiOpened\<close> event of those branches.
\<close>

definition only_ledgers :: "remote_device list \<Rightarrow> wallet list" where
  "only_ledgers ds = concat (map (\<lambda>d. case d of LedgerDevice w \<Rightarrow> [w] | OtherDevice \<Rightarrow> []) ds)"

definition pick_wallet ::
  "('x ledger_env_scheme) \<Rightarrow> wallet list \<Rightarrow> string option \<Rightarrow> (dev_trace, wallet) signer_io" where
  "pick_wallet E ledgers host t =
     (case host of
        Some want \<Rightarrow>
          (ok_or (NotAvailable (''no Ledger device at host path `'' @ want @ ''`''))
             (List.find (\<lambda>w. wallet_hid_path w = Some want) ledgers), t)
      | None \<Rightarrow>
          (case ledgers of
             [] \<Rightarrow> (Inl (no_ledger_enumerated_error E t), t @ [ApiOpened])
           | [w] \<Rightarrow> (Inr w, t)
           | _ \<Rightarrow> (Inl (multiple_devices_error (length ledgers)), t)))"

definition read_pubkey ::
  "('x ledger_env_scheme) \<Rightarrow> wallet \<Rightarrow> derivation_path \<Rightarrow> bool \<Rightarrow> (dev_trace, bytes) signer_io" where
  "read_pubkey E w path confirm t = (map_err (map_rw_err E) (get_pubkey E t w path confirm), t @ [PubkeyRead w path confirm])"

definition enumerate_devices :: "('x ledger_env_scheme) \<Rightarrow> (dev_trace, wallet list) signer_io" where
  "enumerate_devices E t =
     (let t1 = t @ [Enumerated] in
      case wallet_manager E t of
        Inl _ \<Rightarrow> (Inl hid_unavailable_error, t1)
      | Inr _ \<Rightarrow>
          (case update_devices E t1 of
             Inl e \<Rightarrow> (Inl (map_rw_err E e), t1)
           | Inr n \<Rightarrow>
               if n = 0 then (Inl (no_ledger_enumerated_error E t1), t1 @ [ApiOpened])
               else (Inr (only_ledgers (list_devices E t1)), t1)))"

definition establish_session ::
  "('x ledger_env_scheme) \<Rightarrow> derivation_path \<Rightarrow> bool \<Rightarrow> string option \<Rightarrow> (dev_trace, wallet \<times> bytes) signer_io" where
  "establish_session E path confirm host =
     io_bind (enumerate_devices E) (\<lambda>ledgers.
     io_bind (pick_wallet E ledgers host) (\<lambda>ledger.
     io_bind (read_pubkey E ledger path confirm) (\<lambda>pubkey. io_lift (Inr (ledger, pubkey)))))"

record session =
  session_wallet :: wallet
  session_host_device_path :: "string option"

datatype session_act = Keep | Drop

fun session_action :: "signer_error \<Rightarrow> session_act" where
  "session_action (NotAvailable _) = Drop"
| "session_action (SigningFailed _) = Drop"
| "session_action _ = Keep"

text \<open>The world of the device thread: the cached session and the trace.\<close>

type_synonym thread_state = "session option \<times> dev_trace"

definition parse_path :: "('x ledger_env_scheme) \<Rightarrow> string \<Rightarrow> derivation_path result" where
  "parse_path E s = map_err (\<lambda>e. ConfigError (''invalid derivation path: '' @ e)) (derivation_parse E s)"

text \<open>The session \<^verbatim>\<open>with_session\<close> runs on: the cached one when it is for the same host path, else a new one.\<close>

definition active_session ::
  "('x ledger_env_scheme) \<Rightarrow> derivation_path \<Rightarrow> string option \<Rightarrow> (thread_state, session) signer_io" where
  "active_session E path host st =
     (case st of (s, t) \<Rightarrow>
       let kept = (case s of Some active \<Rightarrow> if session_host_device_path active = host then Some active else None
                           | None \<Rightarrow> None)
       in case kept of
            Some active \<Rightarrow> (Inr active, (kept, t))
          | None \<Rightarrow>
              (case establish_session E path False host t of
                 (Inl e, t1) \<Rightarrow> (Inl e, (None, t1))
               | (Inr (wallet, _), t1) \<Rightarrow>
                   (let active = \<lparr>session_wallet = wallet, session_host_device_path = host\<rparr>
                    in (Inr active, (Some active, t1)))))"

definition with_session ::
  "('x ledger_env_scheme) \<Rightarrow> string \<Rightarrow> string option \<Rightarrow>
   (wallet \<Rightarrow> derivation_path \<Rightarrow> (dev_trace, 'a) signer_io) \<Rightarrow> (thread_state, 'a) signer_io" where
  "with_session E path_str host f =
     io_bind (io_lift (parse_path E path_str)) (\<lambda>path.
     io_bind (active_session E path host) (\<lambda>active st.
       case f (session_wallet active) path (snd st) of
         (Inr x, t1) \<Rightarrow> (Inr x, (Some active, t1))
       | (Inl e, t1) \<Rightarrow> (Inl e, (if session_action e = Drop then None else Some active, t1))))"

definition signature_bytes :: "bytes \<Rightarrow> bytes result" where
  "signature_bytes raw =
     (if length raw = 64 then Inr raw
      else Inl (SigningFailed
        (''the Ledger returned a signature of the wrong length, so the response was '' @
         ''truncated in transit. Nothing was signed. Retry, and if it persists run '' @
         ''`just rust-ledger-diagnose`.'')))"

section \<open>Commands\<close>

datatype device_command =
    Connect (cmd_path: string) (confirm_pubkey_on_device: bool) (cmd_host: "string option") (auto_open_app: bool)
  | SignTransactionMessage (cmd_path: string) (cmd_message: bytes) (cmd_host: "string option")
  | SignOffchainMessage (cmd_path: string) (cmd_message: bytes) (cmd_host: "string option")
  | IsAvailable (cmd_path: string) (cmd_host: "string option")
  | IsAttached

datatype device_reply =
    KeyReply "bytes result"
  | SignatureReply "bytes result"
  | BoolReply bool

text \<open>The retry window after launching the app: the last attempt's outcome, over at most \<open>k\<close> attempts.\<close>

fun retry_connect ::
  "('x ledger_env_scheme) \<Rightarrow> derivation_path \<Rightarrow> bool \<Rightarrow> string option \<Rightarrow> nat \<Rightarrow>
   (wallet \<times> bytes) result \<Rightarrow> dev_trace \<Rightarrow> (wallet \<times> bytes) result \<times> dev_trace" where
  "retry_connect E path confirm host 0 connected t = (connected, t)"
| "retry_connect E path confirm host (Suc k) connected t =
     (case establish_session E path confirm host (t @ [Napped 250]) of
        (Inr c, t1) \<Rightarrow> (Inr c, t1)
      | (Inl e, t1) \<Rightarrow> retry_connect E path confirm host k (Inl e) t1)"

text \<open>A fresh connection: one attempt, then, if allowed, the launch of the app and the retries.\<close>

definition connect_fresh ::
  "('x ledger_env_scheme) \<Rightarrow> derivation_path \<Rightarrow> bool \<Rightarrow> string option \<Rightarrow> bool \<Rightarrow> (dev_trace, wallet \<times> bytes) signer_io" where
  "connect_fresh E path confirm host auto_open t =
     (case establish_session E path confirm host t of
        (Inr c, t1) \<Rightarrow> (Inr c, t1)
      | (Inl e, t1) \<Rightarrow>
          if \<not> auto_open then (Inl e, t1)
          else (case ensure_solana_app_open E host t1 of
                  (Inr _, t2) \<Rightarrow> retry_connect E path confirm host 20 (Inl e) t2
                | (Inl e2, t2) \<Rightarrow>
                    (case e2 of
                       NotAvailable d \<Rightarrow> if str_contains ''is locked'' d then (Inl e2, t2) else (Inl e, t2)
                     | UserRejected _ \<Rightarrow> (Inl e2, t2)
                     | _ \<Rightarrow> (Inl e, t2))))"

text \<open>The cached session's key, when the session is for the same host path and no confirmation is asked for.\<close>

definition reuse_session ::
  "('x ledger_env_scheme) \<Rightarrow> derivation_path \<Rightarrow> bool \<Rightarrow> string option \<Rightarrow> thread_state \<Rightarrow> bytes option \<times> dev_trace" where
  "reuse_session E path confirm host st =
     (case st of
        (Some existing, t) \<Rightarrow>
          if session_host_device_path existing = host \<and> \<not> confirm
          then (case get_pubkey E t (session_wallet existing) path False of
                  Inr pk \<Rightarrow> (Some pk, t @ [PubkeyRead (session_wallet existing) path False])
                | Inl _ \<Rightarrow> (None, t @ [PubkeyRead (session_wallet existing) path False]))
          else (None, t)
      | (None, t) \<Rightarrow> (None, t))"

definition handle_connect ::
  "('x ledger_env_scheme) \<Rightarrow> string \<Rightarrow> bool \<Rightarrow> string option \<Rightarrow> bool \<Rightarrow> (thread_state, bytes) signer_io" where
  "handle_connect E path_str confirm host auto_open =
     io_bind (io_lift (parse_path E path_str)) (\<lambda>path st.
       case reuse_session E path confirm host st of
         (Some pk, t1) \<Rightarrow> (Inr pk, (fst st, t1))
       | (None, t1) \<Rightarrow>
           (case connect_fresh E path confirm host auto_open t1 of
              (Inl e, t2) \<Rightarrow> (Inl e, (None, t2))
            | (Inr (wallet, pk), t2) \<Rightarrow>
                (Inr pk, (Some \<lparr>session_wallet = wallet, session_host_device_path = host\<rparr>, t2))))"

definition device_sign_message ::
  "('x ledger_env_scheme) \<Rightarrow> bytes \<Rightarrow> wallet \<Rightarrow> derivation_path \<Rightarrow> (dev_trace, bytes) signer_io" where
  "device_sign_message E message w path t =
     (res_bind (map_err (map_rw_err E) (rw_sign_message E t w path message)) signature_bytes,
      t @ [TransactionSigned w path message])"

definition device_sign_offchain ::
  "('x ledger_env_scheme) \<Rightarrow> bytes \<Rightarrow> wallet \<Rightarrow> derivation_path \<Rightarrow> (dev_trace, bytes) signer_io" where
  "device_sign_offchain E message w path t =
     (res_bind (map_err (map_rw_err E) (rw_sign_offchain E t w path message)) signature_bytes,
      t @ [OffchainSigned w path message])"

text \<open>One turn of the thread's loop.\<close>

fun handle_command ::
  "('x ledger_env_scheme) \<Rightarrow> device_command \<Rightarrow> thread_state \<Rightarrow> device_reply \<times> thread_state" where
  "handle_command E (Connect path confirm host auto_open) st =
     map_prod KeyReply id (handle_connect E path confirm host auto_open st)"
| "handle_command E (SignTransactionMessage path message host) st =
     map_prod SignatureReply id (with_session E path host (device_sign_message E message) st)"
| "handle_command E (SignOffchainMessage path message host) st =
     map_prod SignatureReply id (with_session E path host (device_sign_offchain E message) st)"
| "handle_command E (IsAvailable path host) st =
     map_prod (\<lambda>r. BoolReply (is_ok r)) id (with_session E path host (\<lambda>w d. read_pubkey E w d False) st)"
| "handle_command E IsAttached (s, t) =
     (BoolReply (case hid_api E t of Inl _ \<Rightarrow> False | Inr ds \<Rightarrow> list_ex (\<lambda>d. hid_vendor_id d = LEDGER_VID) ds),
      (s, t @ [ApiOpened]))"

text \<open>The thread's loop over a finite sequence of commands.\<close>

fun device_thread ::
  "('x ledger_env_scheme) \<Rightarrow> device_command list \<Rightarrow> thread_state \<Rightarrow> device_reply list \<times> thread_state" where
  "device_thread E [] st = ([], st)"
| "device_thread E (c # cs) st =
     (case handle_command E c st of (r, st1) \<Rightarrow>
        (case device_thread E cs st1 of (rs, st2) \<Rightarrow> (r # rs, st2)))"

section \<open>What the operations do to the device\<close>

text \<open>The events of establishing a session on a device that fits the requested host path.\<close>

definition fits_host :: "string option \<Rightarrow> wallet \<Rightarrow> bool" where
  "fits_host host w \<longleftrightarrow> (\<forall>p. host = Some p \<longrightarrow> wallet_hid_path w = Some p)"

fun quiet_event :: "string option \<Rightarrow> dev_event \<Rightarrow> bool" where
  "quiet_event host Enumerated = True"
| "quiet_event host ApiOpened = True"
| "quiet_event host (PubkeyRead w d c) = fits_host host w"
| "quiet_event host (Napped n) = True"
| "quiet_event host _ = False"

fun dashboard_event :: "dev_event \<Rightarrow> bool" where
  "dashboard_event ApiOpened = True"
| "dashboard_event (Opened d) = True"
| "dashboard_event (Wrote d p) = True"
| "dashboard_event (ReadFrom d) = True"
| "dashboard_event (Napped n) = True"
| "dashboard_event _ = False"

lemma pick_wallet_Inr: "pick_wallet E ledgers host t = (Inr w, t') \<Longrightarrow> w \<in> set ledgers \<and> fits_host host w \<and> t' = t"
  by (auto simp: pick_wallet_def fits_host_def result_simps find_Some_iff split: option.splits list.splits)

lemma emits_enumerate [emits_intros]: "emits (quiet_event host) (enumerate_devices E)"
  by (auto simp: emits_def enumerate_devices_def Let_def split: sum.splits)

lemma emits_pick_wallet [emits_intros]: "emits (quiet_event host) (pick_wallet E ledgers h)"
  by (auto simp: emits_def pick_wallet_def split: option.splits list.splits)

lemma establish_session_Inr:
  assumes "establish_session E path confirm host t = (Inr (w, pk), t')"
  shows "fits_host host w \<and> (\<exists>t1. t' = t1 @ [PubkeyRead w path confirm] \<and> get_pubkey E t1 w path confirm = Inr pk)"
  using assms
  by (auto simp: establish_session_def read_pubkey_def result_simps dest: pick_wallet_Inr)

lemma emits_establish [emits_intros]: "emits (quiet_event host) (establish_session E path confirm host)"
proof (rule emitsI)
  fix t
  obtain r t1 where first: "enumerate_devices E t = (r, t1)" by fastforce
  obtain es where es: "t1 = t @ es" "list_all (quiet_event host) es"
    using first by (rule emitsE [OF emits_enumerate])
  show "\<exists>es. snd (establish_session E path confirm host t) = t @ es \<and> list_all (quiet_event host) es"
  proof (cases r)
    case (Inl e)
    then show ?thesis using first es by (auto simp: establish_session_def io_bind_def)
  next
    case (Inr ledgers)
    obtain r2 t2 where pick: "pick_wallet E ledgers host t1 = (r2, t2)" by fastforce
    obtain fs where "t2 = t1 @ fs" "list_all (quiet_event host) fs"
      using pick by (rule emitsE [OF emits_pick_wallet])
    then show ?thesis
      using first es Inr pick pick_wallet_Inr [of E ledgers host t1 _ t2]
      by (cases r2) (auto simp: establish_session_def io_bind_def read_pubkey_def io_lift_def split: sum.splits)
  qed
qed

text \<open>One round of each packet loop: it stops, with at most one more event, or goes round with a smaller measure.\<close>

lemma write_packets_round:
  "write_packets E dev apdu offset seq t = (Inr (), t) \<or>
   (\<exists>p r. write_packets E dev apdu offset seq t = (r, t @ [Wrote dev p])) \<or>
   (\<exists>p offset'. length apdu - offset' < length apdu - offset + (if seq = 0 then 1 else 0) \<and>
      write_packets E dev apdu offset seq t = write_packets E dev apdu offset' (Suc seq) (t @ [Wrote dev p]))"
proof (cases "seq = 0 \<or> offset < length apdu")
  case True
  define head where "head = hid_header seq @
    (if seq = 0 then [word_of_nat (length apdu div 256), word_of_nat (length apdu mod 256)] else [])"
  define n where "n = min (HID_PACKET_SIZE - length head) (length apdu - offset)"
  define filled where "filled = head @ take n (drop offset apdu)"
  define p where "p = filled @ replicate (HID_PACKET_SIZE - length filled) 0"
  have eq: "write_packets E dev apdu offset seq t = (case hid_write E t dev p of
      Inl _ \<Rightarrow> (Inl (NotAvailable (''writing to the Ledger failed. Either it was disconnected, or another '' @
               ''application is holding the device.'')), t @ [Wrote dev p])
    | Inr _ \<Rightarrow> if seq + 1 = 0xffff then (Inl (Other ''APDU too large''), t @ [Wrote dev p])
        else write_packets E dev apdu (offset + n) (seq + 1) (t @ [Wrote dev p]))"
    using True unfolding p_def filled_def n_def head_def by (subst write_packets.simps) (simp add: Let_def)
  have "length apdu - (offset + n) < length apdu - offset + (if seq = 0 then 1 else 0)"
    using True by (auto simp: n_def head_def hid_consts)
  moreover have "(\<exists>r. write_packets E dev apdu offset seq t = (r, t @ [Wrote dev p])) \<or>
      write_packets E dev apdu offset seq t = write_packets E dev apdu (offset + n) (Suc seq) (t @ [Wrote dev p])"
    using eq by (simp split: sum.splits if_splits)
  ultimately show ?thesis by blast
qed (simp add: write_packets.simps)

lemma emits_write_packets:
  "\<exists>es. snd (write_packets E dev apdu offset seq t) = t @ es \<and> list_all dashboard_event es"
proof (induction "length apdu - offset + (if seq = 0 then 1 else 0)" arbitrary: offset seq t rule: less_induct)
  case less
  show ?case using write_packets_round [of E dev apdu offset seq t]
  proof (elim disjE exE conjE)
    fix p o' assume smaller: "length apdu - o' < length apdu - offset + (if seq = 0 then 1 else 0)"
      and round: "write_packets E dev apdu offset seq t = write_packets E dev apdu o' (Suc seq) (t @ [Wrote dev p])"
    have "\<exists>es. snd (write_packets E dev apdu o' (Suc seq) (t @ [Wrote dev p])) = (t @ [Wrote dev p]) @ es \<and>
        list_all dashboard_event es" using smaller by (intro less) simp
    then show ?thesis unfolding round by (rule appended_after) simp
  qed simp_all
qed

lemma read_packets_round:
  "(\<exists>r. read_packets E dev i m n t = (r, t)) \<or> (\<exists>r. read_packets E dev i m n t = (r, t @ [ReadFrom dev])) \<or>
   (\<exists>m' n'. i < 0xffff \<and> read_packets E dev i m n t = read_packets E dev (Suc i) m' n' (t @ [ReadFrom dev]))"
proof (cases "i < 0xffff \<and> is_ok (hid_read E t dev)")
  case True
  then obtain c where "hid_read E t dev = Inr c" by (auto simp: is_ok_def split: sum.splits)
  with True show ?thesis
    by (subst (1 2 3) read_packets.simps) (simp add: Let_def, metis)
qed (subst (1 2 3) read_packets.simps, auto simp: is_ok_def split: sum.splits)

lemma emits_read_packets:
  "\<exists>es. snd (read_packets E dev i m n t) = t @ es \<and> list_all dashboard_event es"
proof (induction "0xffff - i" arbitrary: i m n t rule: less_induct)
  case less
  show ?case using read_packets_round [of E dev i m n t]
  proof (elim disjE exE conjE)
    fix m' n' assume smaller: "i < 0xffff"
      and round: "read_packets E dev i m n t = read_packets E dev (Suc i) m' n' (t @ [ReadFrom dev])"
    have "\<exists>es. snd (read_packets E dev (Suc i) m' n' (t @ [ReadFrom dev])) = (t @ [ReadFrom dev]) @ es \<and>
        list_all dashboard_event es" using smaller by (intro less) simp
    then show ?thesis unfolding round by (rule appended_after) simp
  qed simp_all
qed

lemma emits_write_apdu [emits_intros]: "emits dashboard_event (write_apdu E dev cla ins p1 p2 data)"
  by (simp add: emits_def write_apdu_def emits_write_packets)

lemma emits_read_apdu [emits_intros]: "emits dashboard_event (read_apdu E dev)"
  unfolding read_apdu_def by (intro emits_intros) (simp add: emits_def emits_read_packets)

lemma emits_exchange [emits_intros]: "emits dashboard_event (exchange E dev cla ins p1 p2 data)"
  unfolding exchange_def by (intro emits_intros)

lemma emits_open_api [emits_intros]: "emits dashboard_event (open_api E)"
  by (auto simp: emits_def open_api_def)

lemma emits_open_ledger [emits_intros]: "emits dashboard_event (open_ledger E api host)"
  unfolding open_ledger_def Let_def by (rule emits_bind [OF emits_lift], rule emits_append) simp

lemma emits_current_app [emits_intros]: "emits dashboard_event (current_app E dev)"
  unfolding current_app_def by (intro emits_intros) (simp add: case_prod_unfold emits_lift)

lemma emits_quit_app [emits_intros]: "emits dashboard_event (quit_app E dev)"
  using emits_exchange [of E dev] by (simp add: emits_def quit_app_def)

lemma emits_open_app [emits_intros]: "emits dashboard_event (open_app E dev name)"
  unfolding open_app_def
proof (rule emits_bind [OF emits_write_apdu], rule emitsI)
  fix x t
  obtain r t1 where read: "read_apdu E dev t = (r, t1)" by fastforce
  then obtain es where "t1 = t @ es" "list_all dashboard_event es" by (rule emitsE [OF emits_read_apdu])
  then show "\<exists>es. snd (case read_apdu E dev t of
          (Inr (payload, status), t1) \<Rightarrow>
            (if status = APDU_SUCCESS then Inr () else Inl (status_to_err status ''open Solana app''), t1)
        | (Inl _, t1) \<Rightarrow> (Inr (), t1)) = t @ es \<and> list_all dashboard_event es"
    using read by (cases r) (simp_all add: case_prod_unfold)
qed

lemma emits_reopen [emits_intros]: "emits dashboard_event (reopen_attempts E host k)"
proof (induction k)
  case 0
  then show ?case by (auto simp: emits_def)
next
  case (Suc k)
  show ?case
  proof (rule emitsI)
    fix t
    obtain r t1 where api: "open_api E (t @ [Napped 250]) = (r, t1)" by fastforce
    then have t1: "t1 = t @ [Napped 250, ApiOpened]" by (simp add: open_api_def)
    show "\<exists>es. snd (reopen_attempts E host (Suc k) t) = t @ es \<and> list_all dashboard_event es"
    proof (cases r)
      case (Inl e)
      then show ?thesis using Suc api t1 by (simp add: emits_def) (metis append_Cons append_Nil append_assoc dashboard_event.simps(1,5) list.pred_inject(2))
    next
      case (Inr a)
      obtain r2 t2 where led: "open_ledger E a host t1 = (r2, t2)" by fastforce
      then obtain es where "t2 = t1 @ es" "list_all dashboard_event es" by (rule emitsE [OF emits_open_ledger])
      moreover obtain fs where "snd (reopen_attempts E host k t2) = t2 @ fs" "list_all dashboard_event fs"
        using Suc by (auto simp: emits_def)
      ultimately show ?thesis using api t1 Inr led by (cases r2) auto
    qed
  qed
qed

lemma emits_ensure_app [emits_intros]: "emits dashboard_event (ensure_solana_app_open E host)"
  unfolding ensure_solana_app_open_def reopen_after_reenumerate_def
  by (intro emits_bind emits_open_api emits_open_ledger emits_current_app)
     (simp add: emits_bind emits_quit_app emits_reopen emits_open_app emits_lift split: option.split)

section \<open>The device thread over any sequence of commands\<close>

definition session_ok :: "session option \<Rightarrow> bool" where
  "session_ok s \<longleftrightarrow> (case s of None \<Rightarrow> True
     | Some a \<Rightarrow> fits_host (session_host_device_path a) (session_wallet a))"

lemma session_ok_simps [simp]:
  "session_ok None" "session_ok (Some a) \<longleftrightarrow> fits_host (session_host_device_path a) (session_wallet a)"
  by (simp_all add: session_ok_def)

fun is_signing :: "dev_event \<Rightarrow> bool" where
  "is_signing (TransactionSigned w d m) = True"
| "is_signing (OffchainSigned w d m) = True"
| "is_signing _ = False"

definition signings :: "dev_trace \<Rightarrow> dev_trace" where
  "signings = filter is_signing"

lemma signings_simps [simp]:
  "signings [] = []" "signings (t @ u) = signings t @ signings u"
  "signings (e # t) = (if is_signing e then [e] else []) @ signings t"
  by (simp_all add: signings_def)

lemma quiet_not_signing: "quiet_event host e \<Longrightarrow> \<not> is_signing e"
  and dashboard_not_signing: "dashboard_event e \<Longrightarrow> \<not> is_signing e"
  by (cases e; simp)+

definition silent :: "dev_trace \<Rightarrow> dev_trace \<Rightarrow> bool" where
  "silent t t' \<longleftrightarrow> (\<exists>es. t' = t @ es \<and> signings es = [])"

lemma silent_refl [simp, intro]: "silent t t" by (simp add: silent_def)

lemma silent_trans [trans]: "silent t u \<Longrightarrow> silent u v \<Longrightarrow> silent t v"
  unfolding silent_def by (metis append_assoc append_Nil signings_simps(2))

lemma silent_snoc: "\<not> is_signing e \<Longrightarrow> silent t (t @ [e])"
  unfolding silent_def by (intro exI [of _ "[e]"]) simp

lemma emits_silent:
  assumes "emits P m" "\<And>e. P e \<Longrightarrow> \<not> is_signing e" "m t = (r, t')"
  shows "silent t t'"
proof -
  obtain es where "t' = t @ es" "list_all P es" using assms(1,3) by (rule emitsE)
  with assms(2) show ?thesis by (auto simp: silent_def signings_def filter_empty_conv list_all_iff)
qed

lemma establish_silent: "establish_session E path confirm host t = (r, t') \<Longrightarrow> silent t t'"
  by (rule emits_silent [OF emits_establish]) (rule quiet_not_signing)

lemma ensure_app_silent: "ensure_solana_app_open E host t = (r, t') \<Longrightarrow> silent t t'"
  by (rule emits_silent [OF emits_ensure_app]) (rule dashboard_not_signing)

lemma active_session_Inr:
  assumes "active_session E path host (s, t) = (Inr a, (s', t'))" "session_ok s"
  shows "s' = Some a \<and> session_host_device_path a = host \<and> fits_host host (session_wallet a) \<and> silent t t'"
proof (cases "\<exists>b. s = Some b \<and> session_host_device_path b = host")
  case False
  then obtain w pk where "establish_session E path False host t = (Inr (w, pk), t')"
    "a = \<lparr>session_wallet = w, session_host_device_path = host\<rparr>" "s' = Some a"
    using assms(1) by (auto simp: active_session_def Let_def split: option.splits if_splits prod.splits sum.splits)
  then show ?thesis using establish_session_Inr establish_silent by fastforce
qed (use assms in \<open>auto simp: active_session_def Let_def\<close>)

lemma active_session_Inl:
  assumes "active_session E path host (s, t) = (Inl e, (s', t'))"
  shows "s' = None \<and> silent t t'"
proof -
  have "establish_session E path False host t = (Inl e, t') \<and> s' = None"
    using assms by (auto simp: active_session_def Let_def split: option.splits if_splits prod.splits sum.splits)
  then show ?thesis using establish_silent by blast
qed

text \<open>
  How \<^verbatim>\<open>with_session\<close> ends: the path does not parse; or no session could be had; or the operation ran on a
  session for the requested host path, which is then kept or dropped according to the error.
\<close>

lemma with_session_cases:
  assumes "with_session E path_str host f (s, t) = (r, (s', t'))" "session_ok s"
  obtains (parse) e where "parse_path E path_str = Inl e" "r = Inl e" "s' = s" "t' = t"
    | (establish) e where "r = Inl e" "s' = None" "silent t t'"
    | (run) d a t1 where "derivation_parse E path_str = Inr d" "fits_host host (session_wallet a)"
        "session_host_device_path a = host" "silent t t1" "f (session_wallet a) d t1 = (r, t')"
        "s' = (case r of Inl e \<Rightarrow> if session_action e = Drop then None else Some a | Inr _ \<Rightarrow> Some a)"
proof (cases "parse_path E path_str")
  case (Inl e)
  then show ?thesis using assms(1) parse by (auto simp: with_session_def io_bind_def io_lift_def)
next
  case (Inr d)
  then have d: "derivation_parse E path_str = Inr d" by (simp add: parse_path_def result_simps)
  obtain ra s1 t1 where act: "active_session E d host (s, t) = (ra, (s1, t1))" by (metis surj_pair)
  show ?thesis
  proof (cases ra)
    case (Inl e)
    then show ?thesis
      using assms(1) act \<open>parse_path E path_str = Inr d\<close> active_session_Inl [of E d host s t e] establish
      by (auto simp: with_session_def io_bind_def io_lift_def)
  next
    case (Inr a)
    note a = active_session_Inr [OF act [unfolded Inr] assms(2)]
    obtain rf t2 where f: "f (session_wallet a) d t1 = (rf, t2)" by fastforce
    have "r = rf" "t' = t2"
      "s' = (case rf of Inl e \<Rightarrow> if session_action e = Drop then None else Some a | Inr _ \<Rightarrow> Some a)"
      using assms(1) act Inr \<open>parse_path E path_str = Inr d\<close> f a
      by (auto simp: with_session_def io_bind_def io_lift_def split: sum.splits)
    then show ?thesis using run [OF d, of a t1] a f by auto
  qed
qed

lemma retry_connect_Inr:
  assumes "retry_connect E path confirm host k (Inl e) t = (Inr (w, pk), t')"
  shows "fits_host host w \<and> (\<exists>t1. t' = t1 @ [PubkeyRead w path confirm] \<and> get_pubkey E t1 w path confirm = Inr pk)"
  using assms
  by (induction k arbitrary: e t) (auto dest!: establish_session_Inr split: prod.splits sum.splits)

lemma retry_connect_silent: "retry_connect E path confirm host k c t = (r, t') \<Longrightarrow> silent t t'"
proof (induction k arbitrary: c t)
  case (Suc k)
  obtain r1 t1 where attempt: "establish_session E path confirm host (t @ [Napped 250]) = (r1, t1)" by fastforce
  have "silent t (t @ [Napped 250])" by (rule silent_snoc) simp
  also have "silent (t @ [Napped 250]) t1" using attempt by (rule establish_silent)
  also have "silent t1 t'" using Suc attempt by (cases r1) auto
  finally show ?case .
qed simp

lemma connect_fresh_Inr:
  assumes "connect_fresh E path confirm host auto_open t = (Inr (w, pk), t')"
  shows "fits_host host w \<and> (\<exists>t1. t' = t1 @ [PubkeyRead w path confirm] \<and> get_pubkey E t1 w path confirm = Inr pk)"
  using assms
  by (auto simp: connect_fresh_def split: prod.splits sum.splits if_splits signer_error.splits
      dest!: establish_session_Inr retry_connect_Inr)

lemma connect_fresh_silent:
  assumes "connect_fresh E path confirm host auto_open t = (r, t')"
  shows "silent t t'"
proof -
  obtain r1 t1 where attempt: "establish_session E path confirm host t = (r1, t1)" by fastforce
  obtain r2 t2 where launch: "ensure_solana_app_open E host t1 = (r2, t2)" by fastforce
  have "t' = t1 \<or> t' = t2 \<or> (\<exists>e. retry_connect E path confirm host 20 (Inl e) t2 = (r, t'))"
    using assms attempt launch
    by (auto simp: connect_fresh_def split: sum.splits if_splits signer_error.splits)
  moreover have "silent t t1" using attempt by (rule establish_silent)
  moreover from this have "silent t t2" using launch by (auto intro: silent_trans ensure_app_silent)
  ultimately show ?thesis by (auto intro: silent_trans retry_connect_silent)
qed

lemma reuse_session_cases:
  assumes "reuse_session E path confirm host (s, t) = (r, t1)"
  shows "silent t t1 \<and> (\<forall>pk. r = Some pk \<longrightarrow> \<not> confirm \<and> (\<exists>a. s = Some a \<and> session_host_device_path a = host \<and>
    t1 = t @ [PubkeyRead (session_wallet a) path False] \<and> get_pubkey E t (session_wallet a) path False = Inr pk))"
  using assms
  by (auto simp: reuse_session_def intro!: silent_snoc split: option.splits if_splits sum.splits)

text \<open>
  C22: What a successful connect proves. The key it returns was read from the device last, at the requested
  derivation path; the session it leaves is on that wallet and for the requested host path; and a requested
  on-screen confirmation was put to the device, never answered from the cached session.
\<close>

theorem connect_reads_key_from_device:
  assumes "handle_command E (Connect path_str confirm host auto_open) (s, t) = (KeyReply (Inr pk), (s', t'))"
  shows "\<exists>w d t1. derivation_parse E path_str = Inr d \<and>
    s' = Some \<lparr>session_wallet = w, session_host_device_path = host\<rparr> \<and>
    t' = t1 @ [PubkeyRead w d confirm] \<and> get_pubkey E t1 w d confirm = Inr pk"
proof -
  from assms have conn: "handle_connect E path_str confirm host auto_open (s, t) = (Inr pk, (s', t'))"
    by (cases "handle_connect E path_str confirm host auto_open (s, t)") auto
  then obtain d where d: "derivation_parse E path_str = Inr d"
    by (auto simp: handle_connect_def result_simps parse_path_def)
  obtain r t1 where reuse: "reuse_session E d confirm host (s, t) = (r, t1)" by fastforce
  show ?thesis
  proof (cases r)
    case (Some pk0)
    with conn d reuse have "pk0 = pk" "s' = s" "t' = t1"
      by (auto simp: handle_connect_def io_bind_def io_lift_def parse_path_def map_err_def)
    with reuse_session_cases [OF reuse] Some d show ?thesis by (auto intro: session.equality)
  next
    case None
    with conn d reuse obtain w where "connect_fresh E d confirm host auto_open t1 = (Inr (w, pk), t')"
      "s' = Some \<lparr>session_wallet = w, session_host_device_path = host\<rparr>"
      by (auto simp: handle_connect_def io_bind_def io_lift_def parse_path_def map_err_def split: prod.splits sum.splits)
    with d connect_fresh_Inr show ?thesis by blast
  qed
qed

lemma demo_connect_run:
  "handle_command (demo_ledger []) (Connect ''m'' True None False) (None, []) =
     (KeyReply (Inr (replicate 32 7)),
      (Some \<lparr>session_wallet = demo_wallet, session_host_device_path = None\<rparr>,
       [Enumerated, PubkeyRead demo_wallet [44, 501, 0] True]))"
  by code_simp

theorem connect_reads_key_from_device_witness:
  "\<exists>w d t1. derivation_parse (demo_ledger []) ''m'' = Inr d \<and>
     [Enumerated, PubkeyRead demo_wallet [44, 501, 0] True] = t1 @ [PubkeyRead w d True] \<and>
     get_pubkey (demo_ledger []) t1 w d True = Inr (replicate 32 7)"
  using connect_reads_key_from_device [OF demo_connect_run] by blast

text \<open>The signing request a command makes of a wallet, if it makes one.\<close>

fun request_event :: "device_command \<Rightarrow> wallet \<Rightarrow> derivation_path \<Rightarrow> dev_trace" where
  "request_event (SignTransactionMessage _ m _) w d = [TransactionSigned w d m]"
| "request_event (SignOffchainMessage _ m _) w d = [OffchainSigned w d m]"
| "request_event _ w d = []"

definition serves :: "('x ledger_env_scheme) \<Rightarrow> device_command \<Rightarrow> dev_trace \<Rightarrow> dev_trace \<Rightarrow> bool" where
  "serves E c t t' \<longleftrightarrow> (\<exists>es. t' = t @ es \<and> (signings es = [] \<or>
     (\<exists>w d. signings es = request_event c w d \<and> fits_host (cmd_host c) w \<and> derivation_parse E (cmd_path c) = Inr d)))"

lemma silent_serves: "silent t t' \<Longrightarrow> serves E c t t'"
  by (auto simp: silent_def serves_def)

lemma with_session_serves:
  assumes "with_session E (cmd_path c) (cmd_host c) f (s, t) = (r, (s', t'))" "session_ok s"
    and "\<And>w d u r' u'. f w d u = (r', u') \<Longrightarrow> \<exists>e. u' = u @ [e] \<and> (\<not> is_signing e \<or> [e] = request_event c w d)"
  shows "session_ok s' \<and> serves E c t t'"
  using assms(1,2)
proof (cases rule: with_session_cases)
  case (run d a t1)
  obtain e where e: "t' = t1 @ [e]" "\<not> is_signing e \<or> [e] = request_event c (session_wallet a) d"
    using assms(3) run(5) by blast
  obtain es where es: "t1 = t @ es" "signings es = []" using run(4) by (auto simp: silent_def)
  have "serves E c t t'"
    unfolding serves_def using e es run(1,2) by (intro exI [of _ "es @ [e]"]) auto
  moreover have "session_ok s'" using run by (auto split: sum.splits)
  ultimately show ?thesis by simp
qed (use assms(2) in \<open>auto intro: silent_serves\<close>)

lemma handle_connect_serves:
  assumes "handle_connect E path_str confirm host auto_open (s, t) = (r, (s', t'))" "session_ok s"
  shows "session_ok s' \<and> silent t t'"
proof (cases "parse_path E path_str")
  case (Inl e)
  then show ?thesis using assms by (auto simp: handle_connect_def io_bind_def io_lift_def)
next
  case (Inr d)
  obtain ro t1 where reuse: "reuse_session E d confirm host (s, t) = (ro, t1)" by fastforce
  note quiet = reuse_session_cases [OF reuse]
  show ?thesis
  proof (cases ro)
    case (Some pk)
    then show ?thesis using assms Inr reuse quiet by (auto simp: handle_connect_def io_bind_def io_lift_def)
  next
    case None
    obtain rf t2 where fresh: "connect_fresh E d confirm host auto_open t1 = (rf, t2)" by fastforce
    have "silent t t2" using quiet connect_fresh_silent [OF fresh] by (auto intro: silent_trans)
    then show ?thesis
      using assms(1) Inr reuse None fresh connect_fresh_Inr [of E d confirm host auto_open t1]
      by (cases rf) (auto simp: handle_connect_def io_bind_def io_lift_def)
  qed
qed

lemma handle_command_serves:
  assumes "handle_command E c (s, t) = (r, (s', t'))" "session_ok s"
  shows "session_ok s' \<and> serves E c t t'"
proof (cases c)
  case (Connect path_str confirm host auto_open)
  then show ?thesis
    using assms handle_connect_serves [of E path_str confirm host auto_open s t] silent_serves
    by (cases "handle_connect E path_str confirm host auto_open (s, t)") auto
next
  case (SignTransactionMessage path_str m host)
  have "\<exists>e. u' = u @ [e] \<and> (\<not> is_signing e \<or> [e] = request_event c w d)"
    if "device_sign_message E m w d u = (r', u')" for w d u r' u'
    using that SignTransactionMessage by (auto simp: device_sign_message_def)
  with assms SignTransactionMessage show ?thesis
    using with_session_serves [of E c "device_sign_message E m" s t]
    by (cases "with_session E path_str host (device_sign_message E m) (s, t)") auto
next
  case (SignOffchainMessage path_str m host)
  have "\<exists>e. u' = u @ [e] \<and> (\<not> is_signing e \<or> [e] = request_event c w d)"
    if "device_sign_offchain E m w d u = (r', u')" for w d u r' u'
    using that SignOffchainMessage by (auto simp: device_sign_offchain_def)
  with assms SignOffchainMessage show ?thesis
    using with_session_serves [of E c "device_sign_offchain E m" s t]
    by (cases "with_session E path_str host (device_sign_offchain E m) (s, t)") auto
next
  case (IsAvailable path_str host)
  have "\<exists>e. u' = u @ [e] \<and> (\<not> is_signing e \<or> [e] = request_event c w d)"
    if "read_pubkey E w d False u = (r', u')" for w d u r' u'
    using that by (auto simp: read_pubkey_def)
  with assms IsAvailable show ?thesis
    using with_session_serves [of E c "\<lambda>w d. read_pubkey E w d False" s t]
    by (cases "with_session E path_str host (\<lambda>w d. read_pubkey E w d False) (s, t)") auto
next
  case IsAttached
  then show ?thesis using assms silent_serves silent_snoc [of ApiOpened t] by auto
qed

lemma device_thread_serves:
  assumes "device_thread E cs (s, t) = (rs, (s', t'))" "session_ok s"
  shows "session_ok s' \<and> (\<exists>es. t' = t @ es \<and>
    length (signings es) \<le> length (filter (\<lambda>c. \<exists>w d. request_event c w d \<noteq> []) cs) \<and>
    (\<forall>e \<in> set (signings es). \<exists>c \<in> set cs. \<exists>w d. [e] = request_event c w d \<and> fits_host (cmd_host c) w \<and>
       derivation_parse E (cmd_path c) = Inr d))"
  using assms
proof (induction cs arbitrary: s t rs)
  case (Cons c cs)
  obtain r s1 t1 where head: "handle_command E c (s, t) = (r, (s1, t1))" by (metis surj_pair)
  obtain rs1 where tail: "device_thread E cs (s1, t1) = (rs1, (s', t'))"
    using Cons.prems(1) head by (auto split: prod.splits)
  note c = handle_command_serves [OF head Cons.prems(2)]
  note ih = Cons.IH [OF tail conjunct1 [OF c]]
  from c obtain es where es: "t1 = t @ es"
    "signings es = [] \<or> (\<exists>w d. signings es = request_event c w d \<and> fits_host (cmd_host c) w \<and>
       derivation_parse E (cmd_path c) = Inr d)" by (auto simp: serves_def)
  from ih obtain fs where fs: "t' = t1 @ fs"
    "length (signings fs) \<le> length (filter (\<lambda>c. \<exists>w d. request_event c w d \<noteq> []) cs)"
    "\<forall>e \<in> set (signings fs). \<exists>c \<in> set cs. \<exists>w d. [e] = request_event c w d \<and> fits_host (cmd_host c) w \<and>
       derivation_parse E (cmd_path c) = Inr d" by blast
  have "length (signings (es @ fs)) \<le> length (filter (\<lambda>c. \<exists>w d. request_event c w d \<noteq> []) (c # cs))"
    using es(2) fs(2) by (cases c) auto
  moreover have "\<forall>e \<in> set (signings (es @ fs)). \<exists>c' \<in> set (c # cs). \<exists>w d. [e] = request_event c' w d \<and>
      fits_host (cmd_host c') w \<and> derivation_parse E (cmd_path c') = Inr d"
    using es(2) fs(3) by (cases c) auto
  ultimately show ?case using ih es(1) fs(1) by auto
qed simp

text \<open>
  C17: The device thread, over every sequence of commands and every behaviour of the device, asks a wallet
  for a signature only on request: each signing request made was for the message of one of the commands,
  at that command's derivation path, on a wallet whose own HID path is the one the command named, and no
  more requests are made than commands ask for. The session left cached is on a wallet with the host path
  recorded for it.
\<close>

theorem device_thread_signs_only_on_request:
  assumes "device_thread E cs (None, []) = (rs, (s, t))"
  shows "session_ok s \<and>
    length (signings t) \<le> length (filter (\<lambda>c. \<exists>w d. request_event c w d \<noteq> []) cs) \<and>
    (\<forall>e \<in> set (signings t). \<exists>c \<in> set cs. \<exists>w d. [e] = request_event c w d \<and> fits_host (cmd_host c) w \<and>
       derivation_parse E (cmd_path c) = Inr d)"
  using device_thread_serves [OF assms] by auto

definition demo_commands :: "device_command list" where
  "demo_commands =
     [Connect ''m'' False (Some ''/dev/hidraw0'') False, SignTransactionMessage ''m'' [1, 2] (Some ''/dev/hidraw0''),
      IsAvailable ''m'' (Some ''/dev/hidraw0'')]"

lemma demo_thread_run:
  "device_thread (demo_ledger []) demo_commands (None, []) =
     ([KeyReply (Inr (replicate 32 7)), SignatureReply (Inr (demo_seal (replicate 32 7) [1, 2])), BoolReply True],
      (Some \<lparr>session_wallet = demo_wallet, session_host_device_path = Some ''/dev/hidraw0''\<rparr>,
       [Enumerated, PubkeyRead demo_wallet [44, 501, 0] False, TransactionSigned demo_wallet [44, 501, 0] [1, 2],
        PubkeyRead demo_wallet [44, 501, 0] False]))"
  by code_simp

theorem device_thread_signs_only_on_request_witness:
  "\<exists>rs s t. device_thread (demo_ledger []) demo_commands (None, []) = (rs, (s, t)) \<and> session_ok s \<and>
     signings t = [TransactionSigned demo_wallet [44, 501, 0] [1, 2]] \<and> wallet_hid_path demo_wallet = Some ''/dev/hidraw0''"
proof -
  note safe = device_thread_signs_only_on_request [OF demo_thread_run]
  then show ?thesis using demo_thread_run by (simp add: demo_wallet_def)
qed

lemma active_session_quiet:
  assumes "active_session E path host (s, t) = (r, (s', t'))"
  shows "\<exists>es. t' = t @ es \<and> list_all (quiet_event host) es"
proof (cases "\<exists>b. s = Some b \<and> session_host_device_path b = host")
  case False
  then have "t' = snd (establish_session E path False host t)"
    using assms by (auto simp: active_session_def Let_def split: option.splits if_splits prod.splits sum.splits)
  then show ?thesis using emits_establish [of host E path False] by (simp add: emits_def)
qed (use assms in \<open>auto simp: active_session_def Let_def\<close>)

fun raw_hid :: "dev_event \<Rightarrow> bool" where
  "raw_hid (Opened d) = True"
| "raw_hid (Wrote d p) = True"
| "raw_hid (ReadFrom d) = True"
| "raw_hid _ = False"

definition gentle :: "dev_trace \<Rightarrow> dev_trace \<Rightarrow> bool" where
  "gentle t t' \<longleftrightarrow> (\<exists>es. t' = t @ es \<and> list_all (\<lambda>e. \<not> raw_hid e) es)"

lemma gentle_quiet: "\<exists>es. t' = t @ es \<and> list_all (quiet_event host) es \<Longrightarrow> gentle t t'"
proof -
  have "quiet_event host e \<Longrightarrow> \<not> raw_hid e" for e by (cases e) auto
  then show "\<exists>es. t' = t @ es \<and> list_all (quiet_event host) es \<Longrightarrow> gentle t t'"
    by (auto simp: gentle_def list_all_iff)
qed

lemma gentle_snoc: "gentle t u \<Longrightarrow> \<not> raw_hid e \<Longrightarrow> gentle t (u @ [e])"
  by (auto simp: gentle_def)

lemma gentle_trans: "gentle t u \<Longrightarrow> gentle u v \<Longrightarrow> gentle t v"
  by (auto simp: gentle_def)

lemma gentle_refl [simp]: "gentle t t"
  by (auto simp: gentle_def)

lemma with_session_gentle:
  assumes "with_session E path_str host f (s, t) = (r, (s', t'))"
    and "\<And>w d u r' u'. f w d u = (r', u') \<Longrightarrow> \<exists>e. u' = u @ [e] \<and> \<not> raw_hid e"
  shows "gentle t t'"
proof (cases "parse_path E path_str")
  case (Inl e)
  then show ?thesis using assms(1) by (auto simp: with_session_def io_bind_def io_lift_def)
next
  case (Inr d)
  obtain ra s1 t1 where act: "active_session E d host (s, t) = (ra, (s1, t1))" by (metis surj_pair)
  have quiet: "gentle t t1" using active_session_quiet [OF act] by (rule gentle_quiet)
  show ?thesis
  proof (cases ra)
    case (Inr a)
    obtain rf t2 where "f (session_wallet a) d t1 = (rf, t2)" by fastforce
    moreover from assms(2) [OF this] obtain e where "t2 = t1 @ [e]" "\<not> raw_hid e" by blast
    moreover have "t' = t2"
      using assms(1) act Inr \<open>parse_path E path_str = Inr d\<close> \<open>f (session_wallet a) d t1 = (rf, t2)\<close>
      by (auto simp: with_session_def io_bind_def io_lift_def split: sum.splits)
    ultimately show ?thesis using gentle_snoc [OF quiet] by simp
  qed (use assms(1) act \<open>parse_path E path_str = Inr d\<close> quiet in \<open>auto simp: with_session_def io_bind_def io_lift_def\<close>)
qed

lemma handle_connect_gentle:
  assumes "handle_connect E path_str confirm host False (s, t) = (r, (s', t'))"
  shows "gentle t t'"
proof (cases "parse_path E path_str")
  case (Inl e)
  then show ?thesis using assms by (auto simp: handle_connect_def io_bind_def io_lift_def)
next
  case (Inr d)
  obtain ro t1 where reuse: "reuse_session E d confirm host (s, t) = (ro, t1)" by fastforce
  have quiet: "gentle t t1"
    using reuse by (auto simp: reuse_session_def intro!: gentle_snoc split: option.splits if_splits sum.splits)
  obtain rf t2 where est: "establish_session E d confirm host t1 = (rf, t2)" by fastforce
  have "gentle t t2"
    using quiet gentle_quiet emitsE [OF emits_establish est] gentle_trans by metis
  then show ?thesis
    using assms Inr reuse quiet est
    by (cases ro; cases rf) (auto simp: handle_connect_def io_bind_def io_lift_def connect_fresh_def)
qed

text \<open>
  C21: Without the auto-open option no command drives the device below the wallet library. Signing, the
  probes and a connect with \<^verbatim>\<open>auto_open_app\<close> off never open a raw HID handle, write an APDU or read one:
  no app is launched or quit on the user's device behind their back.
\<close>

theorem raw_apdus_need_auto_open:
  assumes "handle_command E c (s, t) = (r, (s', t'))"
    and "\<And>path confirm host. c \<noteq> Connect path confirm host True"
  shows "\<exists>es. t' = t @ es \<and> (\<forall>e \<in> set es. \<not> raw_hid e)"
proof -
  have "gentle t t'"
  proof (cases c)
    case (Connect path_str confirm host auto_open)
    then have "auto_open = False" using assms(2) by (cases auto_open) auto
    then show ?thesis using assms(1) Connect handle_connect_gentle [of E path_str confirm host s t]
      by (cases "handle_connect E path_str confirm host False (s, t)") auto
  next
    case (SignTransactionMessage path_str m host)
    then show ?thesis
      using assms(1) with_session_gentle [of E path_str host "device_sign_message E m" s t]
      by (cases "with_session E path_str host (device_sign_message E m) (s, t)") (auto simp: device_sign_message_def)
  next
    case (SignOffchainMessage path_str m host)
    then show ?thesis
      using assms(1) with_session_gentle [of E path_str host "device_sign_offchain E m" s t]
      by (cases "with_session E path_str host (device_sign_offchain E m) (s, t)") (auto simp: device_sign_offchain_def)
  next
    case (IsAvailable path_str host)
    then show ?thesis
      using assms(1) with_session_gentle [of E path_str host "\<lambda>w d. read_pubkey E w d False" s t]
      by (cases "with_session E path_str host (\<lambda>w d. read_pubkey E w d False) (s, t)") (auto simp: read_pubkey_def)
  next
    case IsAttached
    then show ?thesis using assms(1) gentle_snoc [of t t ApiOpened] by auto
  qed
  then show ?thesis by (auto simp: gentle_def list_all_iff)
qed

theorem raw_apdus_need_auto_open_witness:
  "\<exists>es. snd (snd (handle_command (demo_ledger []) (Connect ''m'' True None False) (None, []))) = [] @ es \<and>
     (\<forall>e \<in> set es. \<not> raw_hid e)"
  using raw_apdus_need_auto_open [of "demo_ledger []" "Connect ''m'' True None False" None "[]"]
  by (metis device_command.inject(1) prod.collapse)

lemma session_action_Drop: "session_action e = Drop \<longleftrightarrow> e \<in> range NotAvailable \<union> range SigningFailed"
  by (cases e) auto

lemma failed_operation_session:
  assumes "with_session E path_str host f (s, t) = (Inl e, (s', t'))" "session_ok s"
    and event: "\<And>w d t. snd (f w d t) = t @ [ev w d]" "\<And>w d. is_signing (ev w d)" "\<And>w d w' d'. ev w d = ev w' d' \<Longrightarrow> w = w'"
  shows "(e \<in> range NotAvailable \<union> range SigningFailed \<longrightarrow> s' = None) \<and>
    (\<forall>w d es. t' = t @ es @ [ev w d] \<and> e \<notin> range NotAvailable \<union> range SigningFailed \<longrightarrow>
       s' = Some \<lparr>session_wallet = w, session_host_device_path = host\<rparr>)"
  using assms(1,2)
proof (cases rule: with_session_cases)
  case (parse e')
  then have "session_action e \<noteq> Drop" by (auto simp: parse_path_def map_err_def split: sum.splits)
  then show ?thesis using parse by (auto simp: session_action_Drop)
next
  case (establish e')
  then have "signings t' = signings t" by (auto simp: silent_def)
  then show ?thesis using establish event(2) by auto
next
  case (run d a t1)
  then have "t' = t1 @ [ev (session_wallet a) d]" using event(1) by (metis snd_conv)
  then show ?thesis using run(3,6) event(3) unfolding session_action_Drop by auto
qed

text \<open>
  C23: What a failed signing command costs. An availability error or a signing fault drops the cached session, so the next
  command establishes a new one; after any other error of a device that was asked to sign, above all the user's rejection, the
  session is kept, on the wallet that was asked and for the host path of the command.
\<close>

theorem failed_signing_session:
  assumes "handle_command E c (s, t) = (SignatureReply (Inl e), (s', t'))" and "session_ok s"
    and "c = SignTransactionMessage path_str m host \<and> event = TransactionSigned \<or>
      c = SignOffchainMessage path_str m host \<and> event = OffchainSigned"
  shows "(e \<in> range NotAvailable \<union> range SigningFailed \<longrightarrow> s' = None) \<and>
    (\<forall>w d es. t' = t @ es @ [event w d m] \<and> e \<notin> range NotAvailable \<union> range SigningFailed \<longrightarrow>
       s' = Some \<lparr>session_wallet = w, session_host_device_path = host\<rparr>)"
  using assms(3)
proof (elim disjE conjE)
  assume c: "c = SignTransactionMessage path_str m host" "event = TransactionSigned"
  with assms(1) have "with_session E path_str host (device_sign_message E m) (s, t) = (Inl e, (s', t'))"
    by (cases "with_session E path_str host (device_sign_message E m) (s, t)") auto
  from failed_operation_session [OF this assms(2), of "\<lambda>w d. TransactionSigned w d m"] show ?thesis
    by (simp add: c device_sign_message_def)
next
  assume c: "c = SignOffchainMessage path_str m host" "event = OffchainSigned"
  with assms(1) have "with_session E path_str host (device_sign_offchain E m) (s, t) = (Inl e, (s', t'))"
    by (cases "with_session E path_str host (device_sign_offchain E m) (s, t)") auto
  from failed_operation_session [OF this assms(2), of "\<lambda>w d. OffchainSigned w d m"] show ?thesis
    by (simp add: c device_sign_offchain_def)
qed

text \<open>The demonstration device with a user who declines to sign.\<close>

definition declining_ledger :: ledger_env where
  "declining_ledger = (demo_ledger [])\<lparr>rw_sign_message := (\<lambda>t w d m. Inl RwLedgerUserCancel)\<rparr>"

lemma demo_decline_run:
  "handle_command declining_ledger (SignTransactionMessage ''m'' [1] None) (None, []) =
     (SignatureReply (Inl (UserRejected ''request rejected on Ledger device'')),
      (Some \<lparr>session_wallet = demo_wallet, session_host_device_path = None\<rparr>,
       [Enumerated, PubkeyRead demo_wallet [44, 501, 0] False, TransactionSigned demo_wallet [44, 501, 0] [1]]))"
  by code_simp

theorem failed_signing_session_witness:
  "fst (snd (handle_command declining_ledger (SignTransactionMessage ''m'' [1] None) (None, []))) =
     Some \<lparr>session_wallet = demo_wallet, session_host_device_path = None\<rparr>"
proof -
  have "UserRejected ''request rejected on Ledger device'' \<notin> range NotAvailable \<union> range SigningFailed" by auto
  with failed_signing_session [OF demo_decline_run session_ok_simps(1) disjI1 [OF conjI [OF refl refl]], THEN conjunct2, rule_format,
      of "[Enumerated, PubkeyRead demo_wallet [44, 501, 0] False]" demo_wallet "[44, 501, 0]"]
  show ?thesis unfolding demo_decline_run by simp
qed

section \<open>A connect is bounded\<close>

definition enumerations :: "dev_trace \<Rightarrow> nat" where
  "enumerations t = length (filter (\<lambda>e. e = Enumerated) t)"

lemma enumerations_simps [simp]:
  "enumerations [] = 0" "enumerations (t @ u) = enumerations t + enumerations u"
  "enumerations (e # t) = (if e = Enumerated then 1 else 0) + enumerations t"
  by (simp_all add: enumerations_def)

lemma establish_enumerates_once:
  assumes "establish_session E path confirm host t = (r, t')"
  shows "enumerations t' = enumerations t + 1"
proof -
  obtain r1 t1 where enum: "enumerate_devices E t = (r1, t1)" by fastforce
  then have t1: "enumerations t1 = enumerations t + 1"
    by (auto simp: enumerate_devices_def Let_def split: sum.splits if_splits)
  have pick: "enumerations (snd (pick_wallet E ls host u)) = enumerations u" for ls u
    by (simp add: pick_wallet_def split: option.split list.split)
  have "enumerations (snd (establish_session E path confirm host t)) = enumerations t + 1"
    using enum t1 pick
    by (cases r1) (auto simp: establish_session_def io_bind_def read_pubkey_def io_lift_def split: prod.splits sum.splits; metis snd_conv)+
  then show ?thesis using assms by simp
qed

lemma ensure_app_never_enumerates:
  assumes "ensure_solana_app_open E host t = (r, t')"
  shows "enumerations t' = enumerations t"
proof -
  obtain es where es: "t' = t @ es" "list_all dashboard_event es" using assms by (rule emitsE [OF emits_ensure_app])
  moreover have "enumerations es = 0"
    using es(2) unfolding enumerations_def by (auto simp: list_all_iff filter_empty_conv)
  ultimately show ?thesis by simp
qed

lemma retry_enumerations: "retry_connect E path confirm host k c t = (r, t') \<Longrightarrow> enumerations t' \<le> enumerations t + k"
proof (induction k arbitrary: c t)
  case (Suc k)
  obtain r1 t1 where attempt: "establish_session E path confirm host (t @ [Napped 250]) = (r1, t1)" by fastforce
  then have "enumerations t1 = enumerations t + 1" using establish_enumerates_once by fastforce
  then show ?case using Suc attempt by (cases r1) fastforce+
qed simp

text \<open>
  A connect command is bounded work: it enumerates the devices at most 21 times, once plus the twenty
  retries after launching the app, however the device behaves, and at most once when auto-open is off.
\<close>

theorem connect_enumerations_bounded:
  assumes "handle_command E (Connect path_str confirm host auto_open) (s, t) = (r, (s', t'))"
  shows "enumerations t' \<le> enumerations t + (if auto_open then 21 else 1)"
proof -
  obtain rc where conn: "handle_connect E path_str confirm host auto_open (s, t) = (rc, (s', t'))"
    using assms by (cases "handle_connect E path_str confirm host auto_open (s, t)") auto
  show ?thesis
  proof (cases "parse_path E path_str")
    case (Inl e)
    then show ?thesis using conn by (auto simp: handle_connect_def io_bind_def io_lift_def)
  next
    case (Inr d)
    obtain ro t1 where reuse: "reuse_session E d confirm host (s, t) = (ro, t1)" by fastforce
    then have t1: "enumerations t1 = enumerations t"
      by (auto simp: reuse_session_def split: option.splits if_splits sum.splits)
    obtain r2 t2 where est: "establish_session E d confirm host t1 = (r2, t2)" by fastforce
    obtain r3 t3 where launch: "ensure_solana_app_open E host t2 = (r3, t3)" by fastforce
    have t2: "enumerations t2 = enumerations t + 1" using establish_enumerates_once [OF est] t1 by simp
    have t3: "enumerations t3 = enumerations t + 1" using ensure_app_never_enumerates [OF launch] t2 by simp
    have "enumerations (snd (retry_connect E d confirm host 20 c t3)) \<le> enumerations t + 21" for c
      using retry_enumerations [of E d confirm host 20 c t3] t3 by (cases "retry_connect E d confirm host 20 c t3") auto
    then have "enumerations (snd (connect_fresh E d confirm host auto_open t1)) \<le> enumerations t + (if auto_open then 21 else 1)"
      using est launch t2 t3 by (auto simp: connect_fresh_def split: sum.split signer_error.split)
    moreover have "t' = t1 \<or> t' = snd (connect_fresh E d confirm host auto_open t1)"
      using conn Inr reuse by (auto simp: handle_connect_def io_bind_def io_lift_def split: option.splits prod.splits sum.splits)
    ultimately show ?thesis using t1 by auto
  qed
qed

theorem connect_enumerations_bounded_witness:
  "enumerations (snd (snd (handle_command (demo_ledger []) (Connect ''m'' True None False) (None, [])))) \<le> 1"
  unfolding demo_connect_run using connect_enumerations_bounded [OF demo_connect_run] by simp

end
