(* ===== verification/Ledger_Signer.thy ===== *)
theory Ledger_Signer
  imports Ledger_Device Traits_Send
begin

text \<open>
  \<^verbatim>\<open>src/rust/src/ledger/mod.rs\<close>, the caller's side: the off-chain message envelope, the exclusive claim on the
  device, requests to the device thread with a deadline, and \<^verbatim>\<open>LedgerSigner\<close> itself.

  A call runs whole here: when its deadline passes first, its command stays queued at the device thread,
  still holding the claim; when it is answered, the thread may or may not have reached the end of its arm, where it drops the
  command and with it the claim. \<open>actor_drain\<close> is the thread catching up later. The interleaving of several callers is
  in \<open>Ledger_Claim\<close>.
\<close>

section \<open>The off-chain message envelope\<close>

text \<open>
  What the caller's side takes from elsewhere: the signing domain of \<^verbatim>\<open>solana_offchain_message\<close>, how a wait
  for a reply ends, whether the thread has dropped the command it replied to by the time the caller goes on, and whether the
  blocking task could be joined.
\<close>

datatype wait_outcome = Answered | TimedOut | Disconnected

record ledger_rt = ledger_env +
  signing_domain :: bytes
  wait_for_reply :: "dev_trace \<Rightarrow> device_command \<Rightarrow> nat \<Rightarrow> wait_outcome"
  dropped_in_time :: "dev_trace \<Rightarrow> device_command \<Rightarrow> bool"
  join_error :: "dev_trace \<Rightarrow> device_command \<Rightarrow> string option"

definition OFFCHAIN_HEADER_LEN_ONE_SIGNER :: nat where
  "OFFCHAIN_HEADER_LEN_ONE_SIGNER = 16 + 1 + 32 + 1 + 1 + 32 + 2"

definition MAX_OFFCHAIN_PAYLOAD_LEN :: nat where
  "MAX_OFFCHAIN_PAYLOAD_LEN = 1215 - OFFCHAIN_HEADER_LEN_ONE_SIGNER"

definition printable_ascii :: "bytes \<Rightarrow> bool" where
  "printable_ascii bs \<longleftrightarrow> list_all (\<lambda>b. 0x20 \<le> b \<and> b \<le> 0x7e) bs"

definition ledger_offchain_envelope :: "('x ledger_rt_scheme) \<Rightarrow> pubkey \<Rightarrow> bytes \<Rightarrow> bytes result" where
  "ledger_offchain_envelope E signer payload =
     (if payload = [] then Inl (ConfigError ''off-chain message payload is empty; a Ledger will not sign it'')
      else if length payload > MAX_OFFCHAIN_PAYLOAD_LEN then Inl (ConfigError
        (''off-chain message payload is '' @ show_nat (length payload) @ '' bytes; a Ledger accepts at most '' @
         show_nat MAX_OFFCHAIN_PAYLOAD_LEN))
      else if \<not> printable_ascii payload \<and> \<not> utf8_valid payload then Inl (ConfigError
        ''off-chain message payload is not valid UTF-8; a Ledger will not sign it'')
      else Inr (signing_domain E @ [0] @ replicate 32 0 @ [if printable_ascii payload then 0 else 1] @ [1] @
        pubkey_bytes signer @
        [word_of_nat (length payload mod 256), word_of_nat (length payload div 256)] @ payload))"

section \<open>The claim and the request\<close>

text \<open>
  \<^verbatim>\<open>DEVICE_BUSY\<close>, the thread, the commands it has not replied to yet, whether it still has to drop a claimed command it
  replied to, and its state.
\<close>

record ledger_process =
  device_busy :: bool
  thread_running :: bool
  queued :: "device_command list"
  finishing :: bool
  device_state :: thread_state

definition busy_error :: signer_error where
  "busy_error = NotAvailable BUSY_DETAIL"

definition device_is_busy :: "ledger_process \<Rightarrow> bool" where
  "device_is_busy p = device_busy p"

definition claim_acquire :: "(ledger_process, unit) signer_io" where
  "claim_acquire p = (if device_busy p then (Inl busy_error, p) else (Inr (), p\<lparr>device_busy := True\<rparr>))"

definition claim_drop :: "ledger_process \<Rightarrow> ledger_process" where
  "claim_drop p = p\<lparr>device_busy := False\<rparr>"

fun carries_claim :: "device_command \<Rightarrow> bool" where
  "carries_claim IsAttached = False"
| "carries_claim _ = True"

text \<open>
  A command sent to the running thread: in time, the thread has worked off the queue up to and including
  this command and replied; it drops the command, and with it the claim, only after that. Past the deadline the command stays where
  it is.
\<close>

definition request_on ::
  "('x ledger_rt_scheme) \<Rightarrow> nat \<Rightarrow> device_command \<Rightarrow> (ledger_process, device_reply) signer_io" where
  "request_on E timeout cmd p =
     (if \<not> thread_running p then (Inl (NotAvailable ''Ledger device thread is not running''), claim_drop p)
      else case wait_for_reply E (snd (device_state p)) cmd timeout of
        Answered \<Rightarrow>
          (case device_thread E (queued p @ [cmd]) (device_state p) of
             (replies, st) \<Rightarrow>
               (Inr (last replies),
                if dropped_in_time E (snd st) cmd then claim_drop (p\<lparr>queued := [], device_state := st\<rparr>)
                else p\<lparr>queued := [], finishing := True, device_state := st\<rparr>))
      | TimedOut \<Rightarrow> (Inl busy_error, p\<lparr>queued := queued p @ [cmd]\<rparr>)
      | Disconnected \<Rightarrow>
          (Inl (NotAvailable ''Ledger device thread stopped''), claim_drop (p\<lparr>thread_running := False, queued := []\<rparr>)))"

text \<open>The same from an async task: the blocking task may fail to be joined, which drops the claim with it.\<close>

definition blocking_request ::
  "('x ledger_rt_scheme) \<Rightarrow> nat \<Rightarrow> device_command \<Rightarrow> (ledger_process, device_reply) signer_io" where
  "blocking_request E timeout cmd p =
     (case join_error E (snd (device_state p)) cmd of
        Some e \<Rightarrow> (Inl (Other (''Ledger signing task failed: '' @ e)), claim_drop p)
      | None \<Rightarrow> request_on E timeout cmd p)"

text \<open>The thread catching up: with a command it has replied to, and with commands whose callers have gone.\<close>

definition actor_drain :: "('x ledger_rt_scheme) \<Rightarrow> ledger_process \<Rightarrow> ledger_process" where
  "actor_drain E p =
     (let st = snd (device_thread E (queued p) (device_state p))
      in p\<lparr>queued := [], finishing := False, device_state := st,
            device_busy := (if finishing p \<or> list_ex carries_claim (queued p) then False else device_busy p)\<rparr>)"

fun key_reply :: "device_reply \<Rightarrow> bytes result" where
  "key_reply (KeyReply r) = r"
| "key_reply _ = Inl (Other [])"

fun signature_reply :: "device_reply \<Rightarrow> bytes result" where
  "signature_reply (SignatureReply r) = r"
| "signature_reply _ = Inl (Other [])"

fun bool_reply :: "device_reply \<Rightarrow> bool" where
  "bool_reply (BoolReply b) = b"
| "bool_reply _ = False"

section \<open>LedgerSigner\<close>

definition DEFAULT_DERIVATION_PATH :: string where
  "DEFAULT_DERIVATION_PATH = ''m/44'' @ [CHR 0x27] @ ''/501'' @ [CHR 0x27] @ ''/0'' @ [CHR 0x27]"

text \<open>Durations in milliseconds.\<close>

definition OPS_TIMEOUT :: nat where "OPS_TIMEOUT = 10000"
definition DEFAULT_SIGN_TIMEOUT :: nat where "DEFAULT_SIGN_TIMEOUT = 120000"

record ledger_config =
  cfg_derivation_path :: "string option"
  cfg_confirm_pubkey_on_device :: bool
  cfg_host_device_path :: "string option"
  cfg_signing_timeout :: nat
  cfg_auto_open_app :: bool

definition ledger_config_default :: ledger_config where
  "ledger_config_default =
     \<lparr>cfg_derivation_path = None, cfg_confirm_pubkey_on_device = False, cfg_host_device_path = None,
      cfg_signing_timeout = DEFAULT_SIGN_TIMEOUT, cfg_auto_open_app = True\<rparr>"

record ledger_signer =
  ledger_pubkey :: pubkey
  ledger_path_str :: string
  ledger_host_device_path :: "string option"
  ledger_signing_timeout :: nat

definition connect_with ::
  "('x ledger_rt_scheme) \<Rightarrow> ledger_config \<Rightarrow> (ledger_process, ledger_signer) signer_io" where
  "connect_with E config =
     (let path_str = (case cfg_derivation_path config of Some p \<Rightarrow> p | None \<Rightarrow> DEFAULT_DERIVATION_PATH);
          confirm = cfg_confirm_pubkey_on_device config;
          timeout = (if confirm \<or> cfg_auto_open_app config then cfg_signing_timeout config else OPS_TIMEOUT)
      in io_bind (io_lift (map_err (\<lambda>e. ConfigError (''invalid derivation path: '' @ e)) (derivation_parse E path_str))) (\<lambda>_.
         io_bind claim_acquire (\<lambda>_.
         io_bind (request_on E timeout
           (Connect path_str confirm (cfg_host_device_path config) (cfg_auto_open_app config))) (\<lambda>reply.
         io_bind (io_lift (key_reply reply)) (\<lambda>pubkey_bytes.
         io_lift (Inr \<lparr>ledger_pubkey = Pubkey pubkey_bytes, ledger_path_str = path_str,
           ledger_host_device_path = cfg_host_device_path config,
           ledger_signing_timeout = cfg_signing_timeout config\<rparr>))))))"

definition ledger_connect ::
  "('x ledger_rt_scheme) \<Rightarrow> string option \<Rightarrow> bool \<Rightarrow> string option \<Rightarrow> (ledger_process, ledger_signer) signer_io" where
  "ledger_connect E derivation_path confirm host =
     connect_with E (ledger_config_default\<lparr>cfg_derivation_path := derivation_path,
       cfg_confirm_pubkey_on_device := confirm, cfg_host_device_path := host\<rparr>)"

definition is_attached :: "('x ledger_rt_scheme) \<Rightarrow> ledger_process \<Rightarrow> bool \<times> ledger_process" where
  "is_attached E p =
     (if device_is_busy p then (False, p)
      else if \<not> thread_running p then (False, p)
      else case wait_for_reply E (snd (device_state p)) IsAttached OPS_TIMEOUT of
        Answered \<Rightarrow>
          (case device_thread E (queued p @ [IsAttached]) (device_state p) of
             (replies, st) \<Rightarrow> (bool_reply (last replies), p\<lparr>queued := [], device_state := st\<rparr>))
      | TimedOut \<Rightarrow> (False, p\<lparr>queued := queued p @ [IsAttached]\<rparr>)
      | Disconnected \<Rightarrow> (False, p\<lparr>thread_running := False, queued := []\<rparr>))"

definition ledger_sign_message ::
  "('x ledger_rt_scheme) \<Rightarrow> ledger_signer \<Rightarrow> bytes \<Rightarrow> (ledger_process, signature) signer_io" where
  "ledger_sign_message E self message =
     io_bind (io_lift (ledger_offchain_envelope E (ledger_pubkey self) message)) (\<lambda>serialized.
     io_bind claim_acquire (\<lambda>_.
     io_bind (blocking_request E (ledger_signing_timeout self)
       (SignOffchainMessage (ledger_path_str self) serialized (ledger_host_device_path self))) (\<lambda>reply.
     io_bind (io_lift (signature_reply reply)) (\<lambda>sig_bytes.
     io_bind (io_lift (verify_or_reject E (Signature sig_bytes) (ledger_pubkey self) serialized)) (\<lambda>_.
     io_lift (Inr (Signature sig_bytes)))))))"

definition ledger_is_available ::
  "('x ledger_rt_scheme) \<Rightarrow> ledger_signer \<Rightarrow> ledger_process \<Rightarrow> bool \<times> ledger_process" where
  "ledger_is_available E self p =
     (let cmd = IsAvailable (ledger_path_str self) (ledger_host_device_path self) in
      if join_error E (snd (device_state p)) cmd \<noteq> None then (False, p)
      else case claim_acquire p of
        (Inl _, p1) \<Rightarrow> (False, p1)
      | (Inr _, p1) \<Rightarrow>
          (case request_on E OPS_TIMEOUT cmd p1 of
             (Inl _, p2) \<Rightarrow> (False, p2)
           | (Inr reply, p2) \<Rightarrow> (bool_reply reply, p2)))"

definition ledger_sign_transaction ::
  "('x ledger_rt_scheme) \<Rightarrow> ledger_signer \<Rightarrow>
   (versioned_transaction \<times> ledger_process, sign_transaction_result) signer_io" where
  "ledger_sign_transaction E self st =
     (let message = message_serialize E (tx_message (fst st)) in
      io_bind (io_world claim_acquire) (\<lambda>_.
      io_bind (io_world (blocking_request E (ledger_signing_timeout self)
        (SignTransactionMessage (ledger_path_str self) message (ledger_host_device_path self)))) (\<lambda>reply.
      io_bind (io_lift (signature_reply reply)) (\<lambda>sig_bytes.
      io_bind (io_lift (verify_or_reject E (Signature sig_bytes) (ledger_pubkey self) message)) (\<lambda>_.
      io_place (attach_and_classify E (ledger_pubkey self) (Signature sig_bytes)))))) st)"

section \<open>The envelope is what the device app parses\<close>

text \<open>The header layout of the Solana app for one signer, read back: format, signer and payload.\<close>

definition parse_envelope :: "bytes \<Rightarrow> bytes \<Rightarrow> (u8 \<times> pubkey \<times> bytes) option" where
  "parse_envelope domain out =
     (if length out < 85 \<or> take 16 out \<noteq> domain \<or> out ! 16 \<noteq> 0 \<or> out ! 50 \<noteq> 1 then None
      else let n = unat (out ! 83) + 256 * unat (out ! 84); payload = drop 85 out
           in if length payload = n then Some (out ! 49, Pubkey (str_slice 51 83 out), payload) else None)"

lemma printable_ascii_utf8: "printable_ascii bs \<Longrightarrow> utf8_valid bs"
proof (induction bs)
  case (Cons b bs)
  then have "b \<le> 0x7e" "utf8_valid bs" by (simp_all add: printable_ascii_def)
  moreover have "b \<le> 0x7F" using \<open>b \<le> 0x7e\<close> by (rule order_trans) simp
  ultimately show ?case by (simp add: utf8_valid_Cons_ascii)
qed simp

lemma envelope_Inr:
  "ledger_offchain_envelope E signer payload = Inr out \<longleftrightarrow>
     payload \<noteq> [] \<and> length payload \<le> 1130 \<and> utf8_valid payload \<and>
     out = signing_domain E @ [0] @ replicate 32 0 @ [if printable_ascii payload then 0 else 1] @ [1] @
        pubkey_bytes signer @
        [word_of_nat (length payload mod 256), word_of_nat (length payload div 256)] @ payload"
  using printable_ascii_utf8 [of payload]
  by (auto simp: ledger_offchain_envelope_def MAX_OFFCHAIN_PAYLOAD_LEN_def OFFCHAIN_HEADER_LEN_ONE_SIGNER_def)

text \<open>
  C19: An off-chain envelope is built exactly for the payloads a Ledger can sign (not empty, at most 1130
  bytes, valid UTF-8), fits the 1215 bytes the transport accepts, and reads back, in the layout the Solana
  app parses, as the format of the payload, the one signer and the payload itself. So an envelope, and with
  it a signature over it, fixes the signer and the message.
\<close>

theorem envelope_roundtrip:
  assumes "length (signing_domain E) = 16" and "length (pubkey_bytes signer) = 32"
  shows "((\<exists>out. ledger_offchain_envelope E signer payload = Inr out) \<longleftrightarrow>
      payload \<noteq> [] \<and> length payload \<le> 1130 \<and> utf8_valid payload) \<and>
    (\<forall>out. ledger_offchain_envelope E signer payload = Inr out \<longrightarrow>
      length out = 85 + length payload \<and> length out \<le> 1215 \<and>
      parse_envelope (signing_domain E) out = Some (if printable_ascii payload then 0 else 1, signer, payload))"
proof (intro conjI allI impI)
  fix out assume "ledger_offchain_envelope E signer payload = Inr out"
  then have small: "length payload \<le> 1130"
    and out: "out = signing_domain E @ [0] @ replicate 32 0 @ [if printable_ascii payload then 0 else 1] @ [1] @
        pubkey_bytes signer @
        [word_of_nat (length payload mod 256), word_of_nat (length payload div 256)] @ payload"
    by (auto simp: envelope_Inr)
  show "length out = 85 + length payload" "length out \<le> 1215" using assms small out by simp_all
  have "unat (word_of_nat (length payload mod 256) :: u8) + 256 * unat (word_of_nat (length payload div 256) :: u8) =
      length payload"
    using small word_pair_split [of "length payload"] by (simp add: word_pair_def)
  then show "parse_envelope (signing_domain E) out = Some (if printable_ascii payload then 0 else 1, signer, payload)"
    using assms unfolding out
    by (simp add: parse_envelope_def nth_append str_slice_def Let_def pubkey.expand)
qed (auto simp: envelope_Inr)

section \<open>The Ledger signer is a transaction signer\<close>

lemma claim_acquire_Inr [result_simps]:
  "claim_acquire p = (Inr u, p') \<longleftrightarrow> \<not> device_busy p \<and> p' = p\<lparr>device_busy := True\<rparr>"
  by (auto simp: claim_acquire_def)

lemma claim_acquire_Inl [result_simps]:
  "claim_acquire p = (Inl e, p') \<longleftrightarrow> device_busy p \<and> e = busy_error \<and> p' = p"
  by (auto simp: claim_acquire_def)

interpretation ledger: transaction_signer
  "\<lambda>sig b. verifies E sig (ledger_pubkey self) b"
  "\<lambda>msg b. ledger_offchain_envelope E (ledger_pubkey self) msg = Inr b"
  "ledger_sign_message E self" E "ledger_pubkey self" "ledger_sign_transaction E self"
  for E :: "'x ledger_rt_scheme" and self :: ledger_signer
proof
  fix msg sig w w'
  assume "ledger_sign_message E self msg w = (Inr sig, w')"
  then show "\<exists>b. ledger_offchain_envelope E (ledger_pubkey self) msg = Inr b \<and> verifies E sig (ledger_pubkey self) b"
    by (auto simp: ledger_sign_message_def result_simps)
next
  fix tx tx' res w w'
  assume "ledger_sign_transaction E self (tx, w) = (Inr res, (tx', w'))"
  then show "\<exists>enc sig. own_slot_signed E (ledger_pubkey self) sig tx tx' \<and>
      verifies E sig (ledger_pubkey self) (message_serialize E (tx_message tx)) \<and>
      serialize_transaction E tx' = Inr enc \<and> res = classify_signed_transaction tx' (enc, sig)"
    by (auto simp: ledger_sign_transaction_def Let_def result_simps)
next
  fix tx tx' e w w'
  assume "ledger_sign_transaction E self (tx, w) = (Inl e, (tx', w'))"
  then show "tx' = tx \<or> (\<exists>sig. own_slot_signed E (ledger_pubkey self) sig tx tx' \<and>
      verifies E sig (ledger_pubkey self) (message_serialize E (tx_message tx)))"
    by (auto simp: ledger_sign_transaction_def Let_def result_simps dest: attach_and_classify_Inl)
qed

text \<open>
  A message signature from a Ledger verifies under the signer's key over the envelope of that message,
  whatever the device, the transport or another attached device answered.
\<close>

theorem ledger_sign_message_verified:
  assumes "ledger_sign_message E self message p = (Inr sig, p')"
  shows "\<exists>envelope. ledger_offchain_envelope E (ledger_pubkey self) message = Inr envelope \<and>
    verifies E sig (ledger_pubkey self) envelope"
  using assms by (rule ledger.sign_message_vouched)

text \<open>
  C16: Signing and sending with a Ledger. When it succeeds, what was handed to the caller's send is the encoding
  of the caller's own transaction, message unchanged, with a signature in the signer's slot that verifies
  over that message, and with every required signature present.
\<close>

theorem ledger_sign_and_send_ok:
  assumes "sign_and_send (ledger_sign_transaction E self) send (tx, p) = (Inr s, (tx', p'))"
  shows "tx_message tx' = tx_message tx \<and> has_all_required_signatures tx' \<and>
    (\<exists>p1 enc sig. ledger_sign_transaction E self (tx, p) = (Inr (Complete (enc, sig)), (tx', p1)) \<and>
      own_slot_signed E (ledger_pubkey self) sig tx tx' \<and>
      verifies E sig (ledger_pubkey self) (message_serialize E (tx_message tx)) \<and>
      serialize_transaction E tx' = Inr enc \<and> send enc p1 = (Inr s, p'))"
  using assms by (rule ledger.sign_and_send_ok)

section \<open>Witness run\<close>

definition demo_rt :: "wait_outcome \<Rightarrow> ledger_rt" where
  "demo_rt outcome = ledger_env.extend (demo_ledger []) (ledger_rt.fields
     (0xff # str_bytes ''solana offchain'') (\<lambda>t c d. outcome) (\<lambda>t c. True) (\<lambda>t c. None))"

definition demo_process :: ledger_process where
  "demo_process = \<lparr>device_busy = False, thread_running = True, queued = [], finishing = False, device_state = (None, [])\<rparr>"

definition demo_ledger_signer :: ledger_signer where
  "demo_ledger_signer = \<lparr>ledger_pubkey = demo_key 7, ledger_path_str = ''m'',
     ledger_host_device_path = Some ''/dev/hidraw0'', ledger_signing_timeout = 2\<rparr>"

definition demo_tx7 :: versioned_transaction where
  "demo_tx7 = \<lparr>tx_signatures = [],
     tx_message = \<lparr>msg_num_required_signatures = 1,
       msg_static_account_keys = [demo_key 7, demo_key 3], msg_rest = [42]\<rparr>\<rparr>"

theorem envelope_roundtrip_witness:
  "\<exists>out. ledger_offchain_envelope (demo_rt Answered) (demo_key 7) (str_bytes ''hi'') = Inr out \<and>
     length out = 87 \<and>
     parse_envelope (signing_domain (demo_rt Answered)) out = Some (0, demo_key 7, str_bytes ''hi'')"
proof -
  have sizes: "length (signing_domain (demo_rt Answered)) = 16" "length (pubkey_bytes (demo_key 7)) = 32"
    by code_simp+
  have fits: "str_bytes ''hi'' \<noteq> []" "length (str_bytes ''hi'') = 2" "printable_ascii (str_bytes ''hi'')"
    by code_simp+
  note whole = envelope_roundtrip [OF sizes, of "str_bytes ''hi''"]
  have "utf8_valid (str_bytes ''hi'')" using fits(3) by (rule printable_ascii_utf8)
  with whole fits obtain out where
    out: "ledger_offchain_envelope (demo_rt Answered) (demo_key 7) (str_bytes ''hi'') = Inr out" by auto
  with whole fits show ?thesis by auto
qed

theorem ledger_sign_message_verified_witness:
  "\<exists>sig. fst (ledger_sign_message (demo_rt Answered) demo_ledger_signer (str_bytes ''hi'') demo_process) = Inr sig \<and>
     (\<exists>envelope. ledger_offchain_envelope (demo_rt Answered) (demo_key 7) (str_bytes ''hi'') = Inr envelope \<and>
       verifies (demo_rt Answered) sig (demo_key 7) envelope)"
proof -
  let ?run = "ledger_sign_message (demo_rt Answered) demo_ledger_signer (str_bytes ''hi'') demo_process"
  have "is_ok (fst ?run)" by code_simp
  then obtain sig p' where run: "?run = (Inr sig, p')" by (cases ?run) (auto simp: is_ok_def split: sum.splits)
  moreover have "ledger_pubkey demo_ledger_signer = demo_key 7" by (simp add: demo_ledger_signer_def)
  ultimately show ?thesis using ledger_sign_message_verified [OF run] by auto
qed

theorem ledger_sign_and_send_ok_witness:
  "\<exists>tx'. tx_message tx' = tx_message demo_tx7 \<and> has_all_required_signatures tx' \<and>
     (\<exists>sig. own_slot_signed (demo_rt Answered) (demo_key 7) sig demo_tx7 tx')"
proof -
  let ?run = "sign_and_send (ledger_sign_transaction (demo_rt Answered) demo_ledger_signer)
    (\<lambda>enc p. (Inr (Signature [7]), p)) (demo_tx7, demo_process)"
  have "is_ok (fst ?run)" by code_simp
  then obtain s tx' p' where run: "?run = (Inr s, (tx', p'))" by (cases ?run) (auto simp: is_ok_def split: sum.splits)
  moreover have "ledger_pubkey demo_ledger_signer = demo_key 7" by (simp add: demo_ledger_signer_def)
  ultimately show ?thesis using ledger_sign_and_send_ok [OF run] by auto
qed

section \<open>The claim over sequences of calls\<close>

text \<open>The calls of a process, one after another, with the thread catching up in between.\<close>

datatype ledger_call =
    CallConnect ledger_config
  | CallSignMessage ledger_signer bytes
  | CallSignTransaction ledger_signer versioned_transaction
  | CallIsAvailable ledger_signer
  | CallIsAttached
  | ThreadCatchesUp

fun ledger_call_step :: "('x ledger_rt_scheme) \<Rightarrow> ledger_call \<Rightarrow> ledger_process \<Rightarrow> ledger_process" where
  "ledger_call_step E (CallConnect c) p = snd (connect_with E c p)"
| "ledger_call_step E (CallSignMessage self m) p = snd (ledger_sign_message E self m p)"
| "ledger_call_step E (CallSignTransaction self tx) p = snd (snd (ledger_sign_transaction E self (tx, p)))"
| "ledger_call_step E (CallIsAvailable self) p = snd (ledger_is_available E self p)"
| "ledger_call_step E CallIsAttached p = snd (is_attached E p)"
| "ledger_call_step E ThreadCatchesUp p = actor_drain E p"

definition claim_inv :: "ledger_process \<Rightarrow> bool" where
  "claim_inv p \<longleftrightarrow>
     length (filter carries_claim (queued p)) + (if finishing p then 1 else 0) = (if device_busy p then 1 else 0) \<and>
     (\<not> thread_running p \<longrightarrow> queued p = [] \<and> \<not> finishing p)"

text \<open>What one request with the claim in hand leaves behind.\<close>

lemma request_on_inv:
  assumes "claim_inv p" "\<not> device_busy p" "carries_claim cmd"
  shows "claim_inv (snd (request_on E timeout cmd (p\<lparr>device_busy := True\<rparr>)))"
  using assms
  by (auto simp: claim_inv_def request_on_def claim_drop_def filter_empty_conv split: wait_outcome.split prod.split)

lemma blocking_request_inv:
  assumes "claim_inv p" "\<not> device_busy p" "carries_claim cmd"
  shows "claim_inv (snd (blocking_request E timeout cmd (p\<lparr>device_busy := True\<rparr>)))"
proof (cases "join_error E (snd (device_state p)) cmd")
  case None
  then show ?thesis using request_on_inv [OF assms] by (simp add: blocking_request_def)
next
  case (Some e)
  then show ?thesis using assms by (auto simp: blocking_request_def claim_inv_def claim_drop_def)
qed

text \<open>After the claim and the request, nothing changes the process any more.\<close>

lemma claimed_request_inv:
  assumes "claim_inv p"
    and "\<And>q. claim_inv q \<Longrightarrow> \<not> device_busy q \<Longrightarrow> claim_inv (snd (req (q\<lparr>device_busy := True\<rparr>)))"
    and "\<And>x w. snd (rest x w) = w"
  shows "claim_inv (snd (io_bind claim_acquire (\<lambda>_. io_bind req rest) p))"
proof (cases "device_busy p")
  case False
  then have "claim_inv (snd (req (p\<lparr>device_busy := True\<rparr>)))" using assms(1,2) by simp
  then show ?thesis using False assms(3)
    by (cases "req (p\<lparr>device_busy := True\<rparr>)") (auto simp: io_bind_def claim_acquire_def split: sum.split)
qed (use assms(1) in \<open>simp add: io_bind_def claim_acquire_def\<close>)

lemma snd_bind_same: "snd (m w) = w \<Longrightarrow> (\<And>x. snd (f x w) = w) \<Longrightarrow> snd (io_bind m f w) = w"
  by (auto simp: io_bind_def split: prod.splits sum.splits)

lemma snd_lift [simp]: "snd (io_lift r w) = w"
  by (simp add: io_lift_def)

lemma lift_then_inv: "claim_inv p \<Longrightarrow> (\<And>x. claim_inv (snd (f x p))) \<Longrightarrow> claim_inv (snd (io_bind (io_lift r) f p))"
  by (cases r) (simp_all add: io_bind_def io_lift_def)

lemma sign_transaction_inv: "claim_inv p \<Longrightarrow> claim_inv (snd (snd (ledger_sign_transaction E self (tx, p))))"
proof (cases "device_busy p")
  case True
  then show "claim_inv p \<Longrightarrow> ?thesis"
    by (simp add: ledger_sign_transaction_def Let_def io_bind_def io_world_def claim_acquire_def)
next
  case False
  let ?cmd = "SignTransactionMessage (ledger_path_str self) (message_serialize E (tx_message tx)) (ledger_host_device_path self)"
  obtain r q where req: "blocking_request E (ledger_signing_timeout self) ?cmd (p\<lparr>device_busy := True\<rparr>) = (r, q)" by fastforce
  assume "claim_inv p"
  then have "claim_inv q" using blocking_request_inv [of p ?cmd E "ledger_signing_timeout self"] False req by simp
  then show ?thesis using False req
    by (cases r) (auto simp: ledger_sign_transaction_def Let_def io_bind_def io_world_def claim_acquire_def io_lift_def
        io_place_def split: sum.split prod.split)
qed

lemma ledger_call_step_inv: "claim_inv p \<Longrightarrow> claim_inv (ledger_call_step E c p)"
proof (induction E c p rule: ledger_call_step.induct)
  case (1 E c p)
  then show ?case
    unfolding ledger_call_step.simps connect_with_def Let_def
    by (intro lift_then_inv claimed_request_inv request_on_inv) (auto intro: snd_bind_same)
next
  case (2 E self m p)
  then show ?case
    unfolding ledger_call_step.simps ledger_sign_message_def
    by (intro lift_then_inv claimed_request_inv blocking_request_inv) (auto intro!: snd_bind_same)
next
  case (3 E self tx p)
  then show ?case by (simp add: sign_transaction_inv)
next
  case (4 E self p)
  let ?cmd = "IsAvailable (ledger_path_str self) (ledger_host_device_path self)"
  obtain r q where req: "request_on E OPS_TIMEOUT ?cmd (p\<lparr>device_busy := True\<rparr>) = (r, q)" by fastforce
  then have "\<not> device_busy p \<Longrightarrow> claim_inv q" using request_on_inv [of p ?cmd E OPS_TIMEOUT] 4 by simp
  then show ?case using req 4
    by (cases r) (auto simp: ledger_is_available_def Let_def claim_acquire_def)
next
  case (5 E p)
  then show ?case
    by (cases "device_busy p") (auto simp: is_attached_def device_is_busy_def claim_inv_def split: wait_outcome.split prod.split)
next
  case (6 E p)
  then show ?case
    by (auto simp: actor_drain_def Let_def claim_inv_def list_ex_iff filter_empty_conv split: if_splits)
qed

lemma ledger_calls_inv:
  assumes "p = fold (ledger_call_step E) calls
    \<lparr>device_busy = False, thread_running = True, queued = [], finishing = False, device_state = st\<rparr>"
  shows "claim_inv p"
proof -
  have "claim_inv q \<Longrightarrow> claim_inv (fold (ledger_call_step E) calls q)" for q
    by (induction calls arbitrary: q) (simp_all add: ledger_call_step_inv)
  then show ?thesis unfolding assms by (simp add: claim_inv_def)
qed

text \<open>
  While the device is claimed nobody queues behind it. Signing, connecting and the probes return at once,
  with the busy error or \<^verbatim>\<open>false\<close>, leave the process and the caller's transaction as they were, and send
  the device nothing.
\<close>

lemma busy_fails_fast:
  assumes "device_busy p"
  shows "ledger_sign_transaction E self (tx, p) = (Inl busy_error, (tx, p))"
    "snd (ledger_sign_message E self m p) = p" "\<not> is_ok (fst (ledger_sign_message E self m p))"
    "snd (connect_with E config p) = p" "\<not> is_ok (fst (connect_with E config p))"
    "ledger_is_available E self p = (False, p)" "is_attached E p = (False, p)"
  using assms
  by (auto simp: ledger_sign_transaction_def ledger_sign_message_def connect_with_def ledger_is_available_def
      is_attached_def device_is_busy_def claim_acquire_def Let_def io_bind_def io_lift_def io_world_def is_ok_def
      split: sum.split)

text \<open>
  C18: A second request is refused rather than queued. After any sequence of calls, whether they were answered, timed out, found
  the thread gone or failed to be joined, at most one command that may reach the user is with the device thread; and while one is,
  signing a transaction returns the busy error at once, signing a message and connecting fail, both probes report \<^verbatim>\<open>false\<close>, and none of
  them changes the process, the queue of the thread or the caller's transaction.
\<close>

theorem second_request_refused:
  assumes "p = fold (ledger_call_step E) calls
      \<lparr>device_busy = False, thread_running = True, queued = [], finishing = False, device_state = st\<rparr>"
    and "cmd \<in> set (queued p)" "carries_claim cmd"
  shows "filter carries_claim (queued p) = [cmd] \<and>
    ledger_sign_transaction E self (tx, p) = (Inl busy_error, (tx, p)) \<and>
    (\<exists>e. ledger_sign_message E self m p = (Inl e, p)) \<and> (\<exists>e. connect_with E config p = (Inl e, p)) \<and>
    ledger_is_available E self p = (False, p) \<and> is_attached E p = (False, p)"
proof -
  define claimed where "claimed = filter carries_claim (queued p)"
  have "cmd \<in> set claimed" using assms(2,3) by (simp add: claimed_def)
  moreover have "length claimed + (if finishing p then 1 else 0) = (if device_busy p then 1 else 0)"
    using ledger_calls_inv [OF assms(1)] by (simp add: claim_inv_def claimed_def)
  ultimately have "device_busy p" "claimed = [cmd]" by (cases claimed; auto split: if_splits)+
  then have one: "filter carries_claim (queued p) = [cmd]" and busy: "device_busy p" by (simp_all add: claimed_def)
  note fast = busy_fails_fast [OF busy]
  have "\<exists>e. ledger_sign_message E self m p = (Inl e, p)"
    using fast(2,3) [of E self m] by (cases "ledger_sign_message E self m p") (auto simp: is_ok_def split: sum.splits)
  moreover have "\<exists>e. connect_with E config p = (Inl e, p)"
    using fast(4,5) [of E config] by (cases "connect_with E config p") (auto simp: is_ok_def split: sum.splits)
  ultimately show ?thesis using one fast(1) [of E self tx] fast(6) [of E self] fast(7) [of E] by simp
qed

theorem second_request_refused_witness:
  "let p = fold (ledger_call_step (demo_rt TimedOut)) [CallIsAttached, CallIsAvailable demo_ledger_signer]
       \<lparr>device_busy = False, thread_running = True, queued = [], finishing = False, device_state = (None, [])\<rparr>
   in ledger_sign_transaction (demo_rt TimedOut) demo_ledger_signer (demo_tx7, p) = (Inl busy_error, (demo_tx7, p))"
proof -
  let ?p = "fold (ledger_call_step (demo_rt TimedOut)) [CallIsAttached, CallIsAvailable demo_ledger_signer]
       \<lparr>device_busy = False, thread_running = True, queued = [], finishing = False, device_state = (None, [])\<rparr>"
  have "IsAvailable ''m'' (Some ''/dev/hidraw0'') \<in> set (queued ?p)" by code_simp
  from second_request_refused [OF refl this] show ?thesis unfolding Let_def by simp
qed

end
