(* ===== verification/Ledger_Claim.thy ===== *)
theory Ledger_Claim
  imports Ledger_Signer
begin

text \<open>
  \<^verbatim>\<open>src/rust/src/ledger/mod.rs\<close>, the concurrency of the device claim: any number of callers race for
  \<^verbatim>\<open>DEVICE_BUSY\<close> with one \<^verbatim>\<open>compare_exchange\<close> each, move the claim into a command, wait with a deadline, and
  the single device thread handles one command at a time and drops it, with its claim, after the reply.
\<close>

section \<open>Callers, channel and device thread as a step relation\<close>

record claim_state =
  busy_flag :: bool
  held :: "nat list"
  channel :: "(nat \<times> device_command) list"
  current :: "(nat \<times> device_command) option"
  replied :: bool
  waiting :: "nat set"
  probing :: "nat set"
  thread_alive :: bool
  thread :: thread_state

definition claim_init :: "thread_state \<Rightarrow> claim_state" where
  "claim_init st = \<lparr>busy_flag = False, held = [], channel = [], current = None, replied = False,
     waiting = {}, probing = {}, thread_alive = True, thread = st\<rparr>"

definition current_claims :: "claim_state \<Rightarrow> nat" where
  "current_claims s = (case current s of Some (c, cmd) \<Rightarrow> if carries_claim cmd then 1 else 0 | None \<Rightarrow> 0)"

definition channel_claims :: "claim_state \<Rightarrow> nat" where
  "channel_claims s = length (filter (\<lambda>(c, cmd). carries_claim cmd) (channel s))"

text \<open>
  The steps: \<^verbatim>\<open>DeviceClaim::acquire\<close> won or lost; the send, to a live or a dead thread; a caller that unwinds
  before sending; the unclaimed \<^verbatim>\<open>is_attached\<close> probe, which loads the flag and sends later; the thread receiving, handling and replying, and then
  dropping the command; a caller's deadline passing; and the thread dying with everything it owns.
\<close>

inductive claim_step :: "('x ledger_env_scheme) \<Rightarrow> claim_state \<Rightarrow> claim_state \<Rightarrow> bool" for E where
  acquire: "\<not> busy_flag s \<Longrightarrow> claim_step E s (s\<lparr>busy_flag := True, held := c # held s\<rparr>)"
| refuse: "busy_flag s \<Longrightarrow> claim_step E s s"
| send: "c \<in> set (held s) \<Longrightarrow> thread_alive s \<Longrightarrow> carries_claim cmd \<Longrightarrow>
    claim_step E s (s\<lparr>held := remove1 c (held s), channel := channel s @ [(c, cmd)], waiting := insert c (waiting s)\<rparr>)"
| send_fails: "c \<in> set (held s) \<Longrightarrow> \<not> thread_alive s \<Longrightarrow>
    claim_step E s (s\<lparr>held := remove1 c (held s), busy_flag := False\<rparr>)"
| unwind: "c \<in> set (held s) \<Longrightarrow> claim_step E s (s\<lparr>held := remove1 c (held s), busy_flag := False\<rparr>)"
| probe: "\<not> busy_flag s \<Longrightarrow> claim_step E s (s\<lparr>probing := insert c (probing s)\<rparr>)"
| probe_sends: "c \<in> probing s \<Longrightarrow> thread_alive s \<Longrightarrow>
    claim_step E s (s\<lparr>probing := probing s - {c}, channel := channel s @ [(c, IsAttached)], waiting := insert c (waiting s)\<rparr>)"
| probe_fails: "c \<in> probing s \<Longrightarrow> \<not> thread_alive s \<Longrightarrow> claim_step E s (s\<lparr>probing := probing s - {c}\<rparr>)"
| receive: "thread_alive s \<Longrightarrow> current s = None \<Longrightarrow> channel s = x # xs \<Longrightarrow>
    claim_step E s (s\<lparr>current := Some x, channel := xs, replied := False\<rparr>)"
| handle: "thread_alive s \<Longrightarrow> current s = Some (c, cmd) \<Longrightarrow> \<not> replied s \<Longrightarrow>
    handle_command E cmd (thread s) = (r, st) \<Longrightarrow>
    claim_step E s (s\<lparr>replied := True, thread := st, waiting := waiting s - {c}\<rparr>)"
| release: "thread_alive s \<Longrightarrow> current s = Some (c, cmd) \<Longrightarrow> replied s \<Longrightarrow>
    claim_step E s (s\<lparr>current := None, busy_flag := (if carries_claim cmd then False else busy_flag s)\<rparr>)"
| timeout: "c \<in> waiting s \<Longrightarrow> claim_step E s (s\<lparr>waiting := waiting s - {c}\<rparr>)"
| die: "thread_alive s \<Longrightarrow>
    claim_step E s (s\<lparr>thread_alive := False, current := None, channel := [], waiting := {},
      busy_flag := (if current_claims s + channel_claims s > 0 then False else busy_flag s)\<rparr>)"

inductive_cases claim_stepE: "claim_step E s s'"

inductive claim_reachable :: "('x ledger_env_scheme) \<Rightarrow> thread_state \<Rightarrow> claim_state \<Rightarrow> bool" for E st where
  start: "claim_reachable E st (claim_init st)"
| more: "claim_reachable E st s \<Longrightarrow> claim_step E s s' \<Longrightarrow> claim_reachable E st s'"

section \<open>Exclusion\<close>

definition claims_alive :: "claim_state \<Rightarrow> nat" where
  "claims_alive s = length (held s) + channel_claims s + current_claims s"

lemmas claim_counts = claims_alive_def channel_claims_def current_claims_def

lemma length_remove1_mem: "c \<in> set xs \<Longrightarrow> length (remove1 c xs) + 1 = length xs"
  by (metis One_nat_def Suc_pred add.right_neutral add_Suc_right length_pos_if_in_set length_remove1)

lemma drop_held_claim:
  assumes "c \<in> set (held s)" "claims_alive s = (if busy_flag s then 1 else 0)"
  shows "claims_alive (s\<lparr>held := remove1 c (held s), busy_flag := False\<rparr>) = 0"
proof -
  have "claims_alive (s\<lparr>held := remove1 c (held s), busy_flag := False\<rparr>) + 1 = claims_alive s"
    using length_remove1_mem [OF assms(1)] by (simp add: claim_counts)
  then show ?thesis using assms(2) by (simp split: if_splits)
qed

lemma one_claim_arith:
  "(a :: nat) = h \<Longrightarrow> b' \<longleftrightarrow> b \<and> \<not> x + y > 0 \<Longrightarrow> h + (y + x) = (if b then 1 else 0) \<Longrightarrow> a = (if b' then 1 else 0)"
  by (cases b; cases "x + y > 0") auto

lemma claim_step_exact:
  assumes "claim_step E s s'" "claims_alive s = (if busy_flag s then 1 else 0)"
  shows "claims_alive s' = (if busy_flag s' then 1 else 0)"
  using assms
proof (cases rule: claim_step.cases)
  case (send c cmd)
  then show ?thesis using assms(2) length_remove1_mem [of c "held s"] by (auto simp: claim_counts)
next
  case (send_fails c)
  then show ?thesis using drop_held_claim [of c s] assms(2) by simp
next
  case (unwind c)
  then show ?thesis using drop_held_claim [of c s] assms(2) by simp
next
  case (receive x xs)
  then show ?thesis using assms(2) by (cases x) (auto simp: claim_counts split: if_splits)
next
  case die
  then have "claims_alive s' = length (held s)" by (simp add: claim_counts)
  moreover have "busy_flag s' \<longleftrightarrow> busy_flag s \<and> \<not> current_claims s + channel_claims s > 0" using die by simp
  moreover have "length (held s) + (channel_claims s + current_claims s) = (if busy_flag s then 1 else 0)"
    using assms(2) by (simp add: claims_alive_def)
  ultimately show ?thesis by (rule one_claim_arith)
qed (auto simp: claim_counts split: if_splits option.splits)

lemma claim_reachable_exact: "claim_reachable E st s \<Longrightarrow> claims_alive s = (if busy_flag s then 1 else 0)"
  by (induction rule: claim_reachable.induct) (auto simp: claim_init_def claim_counts dest: claim_step_exact)

text \<open>
  C6: Exclusion under every interleaving of callers, deadlines and the device thread, including a thread that
  dies. While a command that may reach the user is being handled, the busy flag is set, no other caller
  holds a claim and no other such command is waiting in the channel, so no second prompt can be queued
  behind the first.
\<close>

theorem one_prompt_at_a_time:
  assumes "claim_reachable E st s" "current s = Some (c, cmd)" "carries_claim cmd"
  shows "busy_flag s \<and> held s = [] \<and> (\<forall>x \<in> set (channel s). \<not> carries_claim (snd x))"
  using claim_reachable_exact [OF assms(1)] assms(2,3)
  by (auto simp: claim_counts filter_empty_conv split: if_splits)

text \<open>
  A caller's deadline never frees the device: a timeout leaves the flag as it is, and a device whose flag
  is clear has no claimed command anywhere between the caller and the end of its handling.
\<close>

theorem idle_flag_means_idle:
  assumes "claim_reachable E st s" "\<not> busy_flag s"
  shows "held s = [] \<and> (\<forall>x \<in> set (channel s). \<not> carries_claim (snd x)) \<and>
    (\<forall>c cmd. current s = Some (c, cmd) \<longrightarrow> \<not> carries_claim cmd)"
  using claim_reachable_exact [OF assms(1)] assms(2)
  by (auto simp: claim_counts filter_empty_conv split: if_splits option.splits)

text \<open>A run with one caller: it acquires, sends, and the thread replies.\<close>

definition replied_state :: "claim_state" where
  "replied_state = \<lparr>busy_flag = True, held = [], channel = [], current = Some (0, IsAvailable ''m'' None), replied = True,
     waiting = {}, probing = {}, thread_alive = True,
     thread = snd (handle_command (demo_ledger []) (IsAvailable ''m'' None) (None, []))\<rparr>"

lemma replied_reachable: "claim_reachable (demo_ledger []) (None, []) replied_state"
proof -
  let ?E = "demo_ledger []" and ?cmd = "IsAvailable ''m'' None"
  let ?s0 = "claim_init (None, [])"
  let ?s1 = "?s0\<lparr>busy_flag := True, held := [0]\<rparr>"
  let ?s2 = "?s1\<lparr>held := [], channel := [(0, ?cmd)], waiting := {0}\<rparr>"
  let ?s3 = "?s2\<lparr>current := Some (0, ?cmd), channel := [], replied := False\<rparr>"
  have "claim_step ?E ?s0 ?s1" using claim_step.acquire [of ?s0 ?E 0] by (simp add: claim_init_def)
  moreover have "claim_step ?E ?s1 ?s2" using claim_step.send [of 0 ?s1 ?cmd ?E] by (simp add: claim_init_def)
  moreover have "claim_step ?E ?s2 ?s3"
    using claim_step.receive [of ?s2 "(0, ?cmd)" "[]" ?E] by (simp add: claim_init_def)
  moreover obtain r st where "handle_command ?E ?cmd (None, []) = (r, st)" by (metis surj_pair)
  moreover from this have "claim_step ?E ?s3 replied_state"
    using claim_step.handle [of ?s3 0 ?cmd ?E r st] by (simp add: claim_init_def replied_state_def)
  ultimately show ?thesis by (meson claim_reachable.intros)
qed

theorem one_prompt_at_a_time_witness:
  "busy_flag replied_state \<and> held replied_state = [] \<and> filter (carries_claim \<circ> snd) (channel replied_state) = []"
  using one_prompt_at_a_time [OF replied_reachable, of 0 "IsAvailable ''m'' None"]
  by (simp add: replied_state_def filter_empty_conv)

theorem idle_flag_means_idle_witness:
  "held (claim_init (None, [])) = [] \<and> filter (carries_claim \<circ> snd) (channel (claim_init (None, []))) = []"
  using idle_flag_means_idle [OF claim_reachable.start [of "demo_ledger []" "(None, [])"]]
  by (simp add: claim_init_def filter_empty_conv)

text \<open>
  A caller can have its reply while its claim is still held: the thread sends the reply before it drops
  the command. In that state nobody is waiting and no work is left, yet every \<^verbatim>\<open>acquire\<close> is refused, so a
  caller that signs twice in a row can be told the device is busy with another operation.
\<close>

theorem reply_precedes_release:
  "\<exists>s. claim_reachable (demo_ledger []) (None, []) s \<and> waiting s = {} \<and> replied s \<and> channel s = [] \<and> busy_flag s"
  using replied_reachable by (intro exI [of _ replied_state]) (simp add: replied_state_def)

end
