(* ===== verification/Remote_Util.thy ===== *)
theory Remote_Util
  imports Signature_Util
begin

text \<open>
  \<^verbatim>\<open>src/rust/src/remote_util.rs\<close> and \<^verbatim>\<open>http_client_config.rs\<close>: the HTTP plumbing the remote backends share.

  The world of a remote call is its trace: the list of effects made so far. The network is the
  field \<open>http_send\<close> of the environment, a function of the client, the trace and the request, so a
  theorem that holds for every environment covers servers that answer differently each time.
  The clock, deadlines, URL parsing, JSON parsing and building a \<^verbatim>\<open>reqwest\<close> client are fields of the same record.
\<close>

section \<open>The environment of remote backends\<close>

text \<open>A \<^verbatim>\<open>Duration\<close> is its length in milliseconds.\<close>

type_synonym duration = nat

datatype redirect_policy = RefuseRedirect string

record client_settings =
  client_timeout :: duration
  client_connect_timeout :: duration
  client_https_only :: bool
  client_redirect :: redirect_policy
  client_user_agent :: "string option"

record http_request =
  req_method :: string
  req_url :: string
  req_headers :: "(string \<times> string) list"
  req_body :: bytes

text \<open>
  A response is its status and the chunks its body arrives in; \<open>resp_chunk_error\<close> is the
  transport error that ends the stream early, if there is one.
\<close>

record http_response =
  resp_status :: u16
  resp_chunks :: "bytes list"
  resp_chunk_error :: "string option"

datatype json =
    JNull
  | JBool bool
  | JNumber string
  | JString string
  | JArray "json list"
  | JObject "(string \<times> json) list"

record parsed_url =
  url_scheme :: string
  url_cannot_be_a_base :: bool
  url_as_str :: string
  url_host :: "string option"
  url_port :: "nat option"

datatype event =
    Requested http_request
  | Slept nat
  | PendingSet string
  | PendingCleared string
  | SdkCall string string bytes

type_synonym trace = "event list"

record net_env = sdk +
  http_send :: "client_settings \<Rightarrow> trace \<Rightarrow> http_request \<Rightarrow> string + http_response"
  system_time_ms :: "trace \<Rightarrow> string + nat"
  json_from_slice :: "bytes \<Rightarrow> string + json"
  json_tokens :: "bytes \<Rightarrow> json option"
  serde_error :: "string \<Rightarrow> bytes \<Rightarrow> string"
  json_to_string :: "json \<Rightarrow> string"
  url_parse :: "string \<Rightarrow> string + parsed_url"
  client_build :: "client_settings \<Rightarrow> string + unit"
  deadline_passes :: "duration \<Rightarrow> trace \<Rightarrow> bool"

section \<open>HTTP client configuration\<close>

record http_client_config =
  request_timeout :: "duration option"
  connect_timeout :: "duration option"

definition http_client_config_default :: http_client_config where
  "http_client_config_default = \<lparr>request_timeout = None, connect_timeout = None\<rparr>"

definition DEFAULT_REQUEST_TIMEOUT :: duration where
  "DEFAULT_REQUEST_TIMEOUT = 30 * 1000"

definition DEFAULT_CONNECT_TIMEOUT :: duration where
  "DEFAULT_CONNECT_TIMEOUT = 5 * 1000"

definition resolved_request_timeout :: "http_client_config \<Rightarrow> duration" where
  "resolved_request_timeout c = (case request_timeout c of None \<Rightarrow> DEFAULT_REQUEST_TIMEOUT | Some d \<Rightarrow> d)"

definition resolved_connect_timeout :: "http_client_config \<Rightarrow> duration" where
  "resolved_connect_timeout c = (case connect_timeout c of None \<Rightarrow> DEFAULT_CONNECT_TIMEOUT | Some d \<Rightarrow> d)"

definition no_redirect_policy :: redirect_policy where
  "no_redirect_policy =
     RefuseRedirect ''redirects are not followed: a signer request carries provider credentials''"

definition client_builder :: "http_client_config \<Rightarrow> client_settings" where
  "client_builder c =
     \<lparr>client_timeout = resolved_request_timeout c,
      client_connect_timeout = resolved_connect_timeout c,
      client_https_only = True,
      client_redirect = no_redirect_policy,
      client_user_agent = None\<rparr>"

definition build_client :: "('x net_env_scheme) \<Rightarrow> http_client_config \<Rightarrow> client_settings result" where
  "build_client E c =
     res_bind
       (map_err (\<lambda>e. ConfigError (''Failed to build HTTP client: '' @ e)) (client_build E (client_builder c)))
       (\<lambda>_. Inr (client_builder c))"

section \<open>URLs\<close>

definition normalize_base_url :: "string \<Rightarrow> string" where
  "normalize_base_url base_url = trim_end_matches (CHR ''/'') (trim base_url)"

definition validate_https_url :: "('x net_env_scheme) \<Rightarrow> string \<Rightarrow> unit result" where
  "validate_https_url E url =
     res_bind (map_err (\<lambda>_. ConfigError ''api_base_url is not a valid URL'') (url_parse E url))
       (\<lambda>u. if url_scheme u \<noteq> ''https'' then Inl (ConfigError ''api_base_url must use HTTPS'') else Inr ())"

text \<open>The bytes \<^verbatim>\<open>encode_uri_component\<close> leaves alone.\<close>

definition is_unreserved :: "char \<Rightarrow> bool" where
  "is_unreserved c \<longleftrightarrow>
     (let n = of_char c :: nat in
      65 \<le> n \<and> n \<le> 90 \<or> 97 \<le> n \<and> n \<le> 122 \<or> 48 \<le> n \<and> n \<le> 57 \<or> c \<in> set ''-_.!~*'' \<or>
      n = 39 \<or> c = CHR ''('' \<or> c = CHR '')'')"

definition encode_byte :: "char \<Rightarrow> string" where
  "encode_byte c = (if is_unreserved c then [c] else CHR ''%'' # hex2_upper (word_of_nat (of_char c)))"

fun encode_uri_component :: "string \<Rightarrow> string" where
  "encode_uri_component [] = []"
| "encode_uri_component (c # cs) = encode_byte c @ encode_uri_component cs"

section \<open>Responses\<close>

definition AVAILABILITY_TIMEOUT :: duration where
  "AVAILABILITY_TIMEOUT = 5 * 1000"

definition MAX_RESPONSE_BYTES :: nat where
  "MAX_RESPONSE_BYTES = 1024 * 1024"

fun read_chunks :: "bytes \<Rightarrow> bytes list \<Rightarrow> string option \<Rightarrow> bytes result" where
  "read_chunks body [] None = Inr body"
| "read_chunks body [] (Some e) = Inl (HttpError e)"
| "read_chunks body (chunk # chunks) err =
     (if length body + length chunk > MAX_RESPONSE_BYTES
      then Inl (SerializationError ''response exceeded maximum size'')
      else read_chunks (body @ chunk) chunks err)"

definition read_body_capped :: "http_response \<Rightarrow> bytes result" where
  "read_body_capped response = read_chunks [] (resp_chunks response) (resp_chunk_error response)"

definition is_success :: "http_response \<Rightarrow> bool" where
  "is_success response \<longleftrightarrow> 200 \<le> resp_status response \<and> resp_status response < 300"

definition show_status :: "http_response \<Rightarrow> string" where
  "show_status response = show_nat (unat (resp_status response))"

definition extract_api_error :: "http_response \<Rightarrow> string \<Rightarrow> signer_error" where
  "extract_api_error response context = remote_api (context @ '' error '' @ show_status response)"

fun json_get :: "string \<Rightarrow> json \<Rightarrow> json option" where
  "json_get k (JObject fs) = map_of fs k"
| "json_get k _ = None"

fun json_as_str :: "json \<Rightarrow> string option" where
  "json_as_str (JString s) = Some s"
| "json_as_str _ = None"

fun json_as_bool :: "json \<Rightarrow> bool option" where
  "json_as_bool (JBool b) = Some b"
| "json_as_bool _ = None"

text \<open>\<^verbatim>\<open>as_u64\<close> of a number given by its literal, and \<^verbatim>\<open>value[key]\<close>, which is null for a missing key.\<close>

fun json_as_u64 :: "json \<Rightarrow> nat option" where
  "json_as_u64 (JNumber s) = (if s \<noteq> [] \<and> list_all is_digit_char s \<and> digits_val 0 s < 2 ^ 64 then Some (digits_val 0 s) else None)"
| "json_as_u64 _ = None"

definition json_index :: "string \<Rightarrow> json \<Rightarrow> json" where
  "json_index k v = (case json_get k v of None \<Rightarrow> JNull | Some x \<Rightarrow> x)"

definition usable_id :: "json \<Rightarrow> string option" where
  "usable_id v =
     opt_filter (\<lambda>i. trim i \<noteq> []) (Option.bind (json_get ''id'' v) json_as_str)"

definition transaction_id_in_body :: "('x net_env_scheme) \<Rightarrow> bytes \<Rightarrow> string option" where
  "transaction_id_in_body E body =
     (case json_from_slice E body of Inl _ \<Rightarrow> None | Inr v \<Rightarrow> usable_id v)"

definition extract_api_error_with_body :: "http_response \<Rightarrow> string \<Rightarrow> signer_error \<times> bytes" where
  "extract_api_error_with_body response context =
     (remote_api (context @ '' error '' @ show_status response),
      (case read_body_capped response of Inl _ \<Rightarrow> [] | Inr body \<Rightarrow> body))"

definition extract_api_error_with_transaction_id ::
  "('x net_env_scheme) \<Rightarrow> http_response \<Rightarrow> string \<Rightarrow> signer_error \<times> string option" where
  "extract_api_error_with_transaction_id E response context =
     (case extract_api_error_with_body response context of
        (err, body) \<Rightarrow> (err, transaction_id_in_body E body))"

text \<open>\<open>decode\<close> is the serde deserializer of the target type.\<close>

definition parse_json_response ::
  "(bytes \<Rightarrow> string + 'a) \<Rightarrow> http_response \<Rightarrow> string \<Rightarrow> 'a result" where
  "parse_json_response decode response context =
     (if \<not> is_success response then Inl (extract_api_error response context)
      else res_bind (read_body_capped response)
        (\<lambda>body. map_err (\<lambda>_. SerializationError (''Failed to parse '' @ context @ '' response'')) (decode body)))"

section \<open>Effects\<close>

text \<open>Requests as \<^verbatim>\<open>reqwest\<close> builds them; \<^verbatim>\<open>.json(body)\<close> sets the content type unless a header did.\<close>

definition get_request :: "string \<Rightarrow> (string \<times> string) list \<Rightarrow> http_request" where
  "get_request url headers = \<lparr>req_method = ''GET'', req_url = url, req_headers = headers, req_body = []\<rparr>"

definition post_request :: "string \<Rightarrow> (string \<times> string) list \<Rightarrow> string \<Rightarrow> http_request" where
  "post_request url headers body = \<lparr>req_method = ''POST'', req_url = url, req_headers = headers, req_body = str_bytes body\<rparr>"

definition post_json :: "('x net_env_scheme) \<Rightarrow> string \<Rightarrow> (string \<times> string) list \<Rightarrow> json \<Rightarrow> http_request" where
  "post_json E url headers body =
     post_request url (headers @ (if ''Content-Type'' \<in> fst ` set headers then [] else [(''Content-Type'', ''application/json'')]))
       (json_to_string E body)"

definition hex_encode :: "bytes \<Rightarrow> string" where
  "hex_encode bs = concat (map hex2 bs)"

text \<open>One request on a client, and \<^verbatim>\<open>From<reqwest::Error>\<close>.\<close>

definition send_request ::
  "('x net_env_scheme) \<Rightarrow> client_settings \<Rightarrow> http_request \<Rightarrow> (trace, string, http_response) io" where
  "send_request E client req t = (http_send E client t req, t @ [Requested req])"

definition send_or_http_error ::
  "('x net_env_scheme) \<Rightarrow> client_settings \<Rightarrow> http_request \<Rightarrow> (trace, http_response) signer_io" where
  "send_or_http_error E client req = io_map_err HttpError (send_request E client req)"

definition emit :: "event \<Rightarrow> (trace, unit) signer_io" where
  "emit e t = (Inr (), t @ [e])"

datatype 'a poll_outcome = Done 'a | Pending

function poll_from ::
  "nat \<Rightarrow> nat \<Rightarrow> nat \<Rightarrow> signer_error \<Rightarrow> (trace, 'a poll_outcome) signer_io \<Rightarrow> (trace, 'a) signer_io" where
  "poll_from i max_attempts interval_ms timeout_error attempt t =
     (if i < max_attempts then
        (case attempt (if i > 0 then t @ [Slept interval_ms] else t) of
           (Inl e, t1) \<Rightarrow> (Inl e, t1)
         | (Inr (Done v), t1) \<Rightarrow> (Inr v, t1)
         | (Inr Pending, t1) \<Rightarrow> poll_from (Suc i) max_attempts interval_ms timeout_error attempt t1)
      else (Inl timeout_error, t))"
  by pat_completeness auto
termination
  by (relation "measure (\<lambda>(i, n, _). n - i)") auto

declare poll_from.simps [simp del]

definition poll_until ::
  "u32 \<Rightarrow> u64 \<Rightarrow> signer_error \<Rightarrow> (trace, 'a poll_outcome) signer_io \<Rightarrow> (trace, 'a) signer_io" where
  "poll_until max_attempts interval_ms timeout_error attempt =
     poll_from 0 (unat max_attempts) (unat interval_ms) timeout_error attempt"

section \<open>Percent-encoding\<close>

definition hex_upper_val :: "char \<Rightarrow> nat" where
  "hex_upper_val c = (if of_char c < (58 :: nat) then of_char c - 48 else of_char c - 55)"

text \<open>The decoder a server applies to a path segment.\<close>

fun percent_decode :: "string \<Rightarrow> string" where
  "percent_decode [] = []"
| "percent_decode (c # cs) =
     (if c = CHR ''%'' then
        (case cs of
           a # b # rest \<Rightarrow> char_of (16 * hex_upper_val a + hex_upper_val b) # percent_decode rest
         | _ \<Rightarrow> c # percent_decode cs)
      else c # percent_decode cs)"

lemma hex_upper_val_hex_upper: "d < 16 \<Longrightarrow> hex_upper_val (hex_upper d) = d"
  by (auto simp: hex_upper_val_def hex_upper_def)

lemma of_char_word: "unat (word_of_nat (of_char c) :: u8) = of_char c"
  by (simp add: unat_of_nat)

lemma char_nibbles [simp]: "(of_char c :: nat) div 16 < 16" "(of_char c :: nat) mod 16 < 16"
  using less_mult_imp_div_less [of "of_char c" 16 16] by simp_all

lemma percent_not_unreserved: "\<not> is_unreserved (CHR ''%'')"
  by code_simp

lemma percent_decode_encode_byte: "percent_decode (encode_byte c @ s) = c # percent_decode s"
proof (cases "is_unreserved c")
  case True
  then have "c \<noteq> CHR ''%''" using percent_not_unreserved by auto
  with True show ?thesis by (simp add: encode_byte_def)
next
  case False
  have "16 * (of_char c div 16) + of_char c mod 16 = (of_char c :: nat)"
    by simp
  with False show ?thesis
    by (simp add: encode_byte_def hex2_upper_def of_char_word hex_upper_val_hex_upper)
qed

lemma percent_decode_encode: "percent_decode (encode_uri_component s) = s"
  by (induction s) (simp_all add: percent_decode_encode_byte)

lemma hex_upper_unreserved: "d < 16 \<Longrightarrow> is_unreserved (hex_upper d)"
  by (auto simp: is_unreserved_def hex_upper_def Let_def)

lemma encode_uri_component_chars:
  "x \<in> set (encode_uri_component s) \<Longrightarrow> is_unreserved x \<or> x = CHR ''%''"
proof (induction s)
  case (Cons c s)
  then show ?case
    by (auto simp: encode_byte_def hex2_upper_def of_char_word hex_upper_unreserved split: if_splits)
qed simp

section \<open>Bodies and polling\<close>

lemma read_chunks_Inr:
  "length body \<le> MAX_RESPONSE_BYTES \<Longrightarrow>
   read_chunks body chunks err = Inr r \<longleftrightarrow>
     err = None \<and> r = body @ concat chunks \<and> length r \<le> MAX_RESPONSE_BYTES"
  by (induction body chunks err rule: read_chunks.induct) auto

lemma send_or_http_error_trace:
  "snd (send_or_http_error E client req t) = t @ [Requested req]"
  by (simp add: send_or_http_error_def send_request_def io_map_err_def)

lemma send_or_http_error_cases [result_simps]:
  "send_or_http_error E client req t = (Inr resp, t') \<longleftrightarrow>
     http_send E client t req = Inr resp \<and> t' = t @ [Requested req]"
  "send_or_http_error E client req t = (Inl err, t') \<longleftrightarrow>
     (\<exists>e. http_send E client t req = Inl e \<and> err = HttpError e) \<and> t' = t @ [Requested req]"
  by (auto simp: send_or_http_error_def send_request_def result_simps)

lemma poll_from_end: "\<not> i < n \<Longrightarrow> poll_from i n interval err attempt t = (Inl err, t)"
  by (simp add: poll_from.simps)

lemma poll_from_step:
  assumes "i < n" and "attempt (if i > 0 then t @ [Slept interval] else t) = (r, t1)"
  shows "poll_from i n interval err attempt t =
    (case r of Inl e \<Rightarrow> (Inl e, t1) | Inr (Done v) \<Rightarrow> (Inr v, t1)
     | Inr Pending \<Rightarrow> poll_from (Suc i) n interval err attempt t1)"
  using assms by (simp add: poll_from.simps [of i] split: sum.split poll_outcome.split)

text \<open>A poll ends with what its last attempt returned, or with the timeout error.\<close>

lemma poll_from_outcome:
  "poll_from i n interval err attempt t = (r, t') \<Longrightarrow>
     (case r of Inr v \<Rightarrow> \<exists>t0. attempt t0 = (Inr (Done v), t')
      | Inl e \<Rightarrow> e = err \<or> (\<exists>t0. attempt t0 = (Inl e, t')))"
proof (induction "n - i" arbitrary: i t)
  case 0
  then show ?case by (auto simp: poll_from_end)
next
  case (Suc m)
  then have lt: "i < n" and m: "m = n - Suc i" by auto
  define t0 where "t0 = (if i > 0 then t @ [Slept interval] else t)"
  obtain r0 t1 where a: "attempt t0 = (r0, t1)" by (cases "attempt t0")
  note step = poll_from_step [where attempt = attempt and interval = interval and t = t and err = err,
      OF lt a [unfolded t0_def]]
  consider e where "r0 = Inl e" | v where "r0 = Inr (Done v)" | "r0 = Inr Pending"
    by (cases r0) (auto intro: poll_outcome.exhaust)
  then show ?case
  proof cases
    case 3
    with Suc.prems show ?thesis by (intro Suc.hyps(1) [OF m]) (simp add: step)
  qed (use Suc.prems a in \<open>auto simp: step\<close>)
qed

text \<open>
  The reference for the polling loop: the trace after \<open>k\<close> rounds that all reported a pending request, if they do. A round
  after the first starts with a sleep.
\<close>

definition round_start :: "nat \<Rightarrow> nat \<Rightarrow> trace \<Rightarrow> trace" where
  "round_start interval k t = (if k > 0 then t @ [Slept interval] else t)"

fun pending_rounds :: "nat \<Rightarrow> (trace, 'a poll_outcome) signer_io \<Rightarrow> nat \<Rightarrow> trace \<Rightarrow> trace option" where
  "pending_rounds interval attempt 0 t = Some t"
| "pending_rounds interval attempt (Suc k) t =
     (case pending_rounds interval attempt k t of
        None \<Rightarrow> None
      | Some u \<Rightarrow> (case attempt (round_start interval k u) of (Inr Pending, u') \<Rightarrow> Some u' | _ \<Rightarrow> None))"

lemma poll_from_pending_rounds:
  "pending_rounds interval attempt k t = Some u \<Longrightarrow> k \<le> n \<Longrightarrow>
     poll_from 0 n interval err attempt t = poll_from k n interval err attempt u"
proof (induction k arbitrary: u)
  case (Suc k)
  then obtain v where v: "pending_rounds interval attempt k t = Some v"
    and step: "attempt (round_start interval k v) = (Inr Pending, u)"
    by (auto split: option.splits prod.splits sum.splits poll_outcome.splits)
  have "k < n" using Suc.prems by simp
  from poll_from_step [where attempt = attempt and t = v, OF this step [unfolded round_start_def]] Suc.IH [OF v] Suc.prems
  show ?case by simp
qed simp

lemma poll_until_timeout:
  assumes "pending_rounds (unat interval) attempt (unat n) t = Some u"
  shows "poll_until n interval err attempt t = (Inl err, u)"
  unfolding poll_until_def poll_from_pending_rounds [OF assms order_refl] by (simp add: poll_from_end)

text \<open>The effects of \<open>k\<close> attempts that each made one request, with the sleeps between them.\<close>

fun attempts_trace :: "nat \<Rightarrow> http_request \<Rightarrow> nat \<Rightarrow> trace" where
  "attempts_trace interval req 0 = []"
| "attempts_trace interval req (Suc k) =
     attempts_trace interval req k @ (if k > 0 then [Slept interval] else []) @ [Requested req]"

text \<open>
  The contract of an attempt closure: it makes exactly one request. Its clients get the bound
  on the number of requests and sleeps of the whole loop.
\<close>

locale one_request_attempt =
  fixes attempt :: "(trace, 'a poll_outcome) signer_io"
    and req :: http_request
  assumes attempt_trace: "snd (attempt t) = t @ [Requested req]"
begin

lemma poll_from_trace:
  "i \<le> n \<Longrightarrow> \<exists>k. i \<le> k \<and> k \<le> n \<and>
     attempts_trace interval req i @ drop (length t) (snd (poll_from i n interval err attempt t)) =
       attempts_trace interval req k \<and>
     take (length t) (snd (poll_from i n interval err attempt t)) = t \<and>
     (i < n \<longrightarrow> i < k)"
proof (induction "n - i" arbitrary: i t)
  case 0
  then show ?case by (intro exI [of _ i]) (simp add: poll_from_end)
next
  case (Suc m)
  then have lt: "i < n" and m: "m = n - Suc i" by auto
  define t0 where "t0 = (if i > 0 then t @ [Slept interval] else t)"
  obtain r t1 where a: "attempt t0 = (r, t1)" by (cases "attempt t0")
  note step = poll_from_step [where attempt = attempt and interval = interval and t = t and err = err,
      OF lt a [unfolded t0_def]]
  from a attempt_trace [of t0] have t1: "t1 = t0 @ [Requested req]" by simp
  have one: "attempts_trace interval req i @ drop (length t) t1 = attempts_trace interval req (Suc i)"
    "take (length t) t1 = t" "length t \<le> length t1"
    by (auto simp: t1 t0_def)
  show ?case
  proof (cases "r = Inr Pending")
    case True
    then have next_poll: "poll_from i n interval err attempt t = poll_from (Suc i) n interval err attempt t1"
      by (simp add: step)
    define u where "u = snd (poll_from (Suc i) n interval err attempt t1)"
    obtain k where k: "Suc i \<le> k" "k \<le> n"
      "attempts_trace interval req (Suc i) @ drop (length t1) u = attempts_trace interval req k"
      "take (length t1) u = t1"
      using Suc.hyps(1) [OF m, of t1] lt unfolding u_def by (metis Suc_leI)
    have u: "u = t1 @ drop (length t1) u" using k(4) by (metis append_take_drop_id)
    have "drop (length t) u = drop (length t) t1 @ drop (length t1) u"
      by (subst u) (simp add: one(3))
    then have "attempts_trace interval req i @ drop (length t) u = attempts_trace interval req k"
      using k(3) one(1) by (metis append.assoc)
    moreover have "take (length t) u = t"
      by (subst u) (simp add: one)
    ultimately show ?thesis
      using k(1,2) by (intro exI [of _ k]) (simp add: next_poll u_def [symmetric] del: attempts_trace.simps)
  next
    case False
    then have "snd (poll_from i n interval err attempt t) = t1"
      by (simp add: step split: sum.splits poll_outcome.splits)
    with one lt show ?thesis
      by (intro exI [of _ "Suc i"]) (simp del: attempts_trace.simps)
  qed
qed

lemma poll_until_trace:
  "\<exists>k \<le> unat n. snd (poll_until n interval err attempt t) = t @ attempts_trace (unat interval) req k \<and>
     (0 < unat n \<longrightarrow> 0 < k)"
proof -
  obtain k where "k \<le> unat n" "0 < unat n \<longrightarrow> 0 < k"
    "drop (length t) (snd (poll_until n interval err attempt t)) = attempts_trace (unat interval) req k"
    "take (length t) (snd (poll_until n interval err attempt t)) = t"
    using poll_from_trace [of 0 "unat n" "unat interval" t err] unfolding poll_until_def by auto
  then show ?thesis by (metis append_take_drop_id)
qed

end

section \<open>What a provider answered\<close>

text \<open>
  Two notions for stating what a caller may conclude, read off the trace and the answers of the network only: the answer to the
  first request that a run after \<open>t\<close> made, and that every request of the run was refused, by a client error other than 408.
\<close>

definition first_answer :: "('x net_env_scheme) \<Rightarrow> client_settings \<Rightarrow> trace \<Rightarrow> trace \<Rightarrow> http_response option" where
  "first_answer E client t t' =
     (case drop (length t) t' of
        Requested req # _ \<Rightarrow> (case http_send E client t req of Inl _ \<Rightarrow> None | Inr response \<Rightarrow> Some response)
      | _ \<Rightarrow> None)"

definition refusal :: "http_response \<Rightarrow> bool" where
  "refusal response \<longleftrightarrow> resp_status response \<ge> 400 \<and> resp_status response < 500 \<and> resp_status response \<noteq> 408"

definition calls_refused :: "('x net_env_scheme) \<Rightarrow> client_settings \<Rightarrow> trace \<Rightarrow> trace \<Rightarrow> bool" where
  "calls_refused E client t t' \<longleftrightarrow>
     (\<exists>es. t' = t @ es \<and> (\<forall>before req after. es = before @ Requested req # after \<longrightarrow>
        (\<exists>response. http_send E client (t @ before) req = Inr response \<and> refusal response)))"

lemma first_answer_simps [simp]:
  "first_answer E client t t = None"
  "first_answer E client t (t @ Requested req # rest) =
     (case http_send E client t req of Inl _ \<Rightarrow> None | Inr response \<Rightarrow> Some response)"
  by (simp_all add: first_answer_def)

lemma calls_refused_simps [simp]:
  "calls_refused E client t t"
  "calls_refused E client t (t @ [Requested req]) \<longleftrightarrow>
     (\<exists>response. http_send E client t req = Inr response \<and> refusal response)"
  by (auto simp: calls_refused_def Cons_eq_append_conv)

section \<open>A concrete environment for witnesses\<close>

text \<open>A server that answers every request with 200 and an empty body; every wire transaction decodes to the same one.\<close>

definition demo_signed_tx1 :: versioned_transaction where
  "demo_signed_tx1 = demo_tx1\<lparr>tx_signatures := [Signature (demo_seal (replicate 32 1) [1, 42])]\<rparr>"

definition demo_net :: net_env where
  "demo_net = sdk.extend (demo_sdk\<lparr>wire_deserialize := (\<lambda>_. Inr demo_signed_tx1)\<rparr>) (net_env.fields
     (\<lambda>c t r. Inr \<lparr>resp_status = 200, resp_chunks = [], resp_chunk_error = None\<rparr>)
     (\<lambda>t. Inr 5) (\<lambda>b. Inl ''empty'') (\<lambda>b. None) (\<lambda>n b. ''serde'') (\<lambda>j. ''json'')
     (\<lambda>s. Inr \<lparr>url_scheme = ''https'', url_cannot_be_a_base = False, url_as_str = s, url_host = Some ''h'', url_port = None\<rparr>) (\<lambda>c. Inr ()) (\<lambda>d t. False))"

section \<open>Properties\<close>

text \<open>C34: Percent-encoding loses nothing, so distinct identifiers stay distinct in the path; its output consists of
  unreserved characters and percent signs, and a \<^verbatim>\<open>/\<close>, \<^verbatim>\<open>?\<close> or \<^verbatim>\<open>#\<close> of a configured identifier never reaches the URL.
  (Nothing is said here of identifiers that consist of dots.)\<close>
theorem encode_uri_component_safe:
  "percent_decode (encode_uri_component s) = s \<and>
   set (encode_uri_component s) \<subseteq> insert (CHR ''%'') {c. is_unreserved c} \<and>
   set (encode_uri_component s) \<inter> {CHR ''/'', CHR ''?'', CHR ''#''} = {}"
proof -
  have "\<not> is_unreserved (CHR ''/'')" "\<not> is_unreserved (CHR ''?'')" "\<not> is_unreserved (CHR ''#'')"
    by code_simp+
  then have "x \<notin> set (encode_uri_component s)" if "x \<in> {CHR ''/'', CHR ''?'', CHR ''#''}" for x
    using that encode_uri_component_chars [of x s] by fastforce
  moreover have "set (encode_uri_component s) \<subseteq> insert (CHR ''%'') {c. is_unreserved c}"
    using encode_uri_component_chars [of _ s] by blast
  ultimately show ?thesis by (simp add: percent_decode_encode disjoint_iff)
qed

text \<open>A segment made of dots is not escaped: \<^verbatim>\<open>.\<close> is in the unreserved set, so \<^verbatim>\<open>.\<close> and \<^verbatim>\<open>..\<close> pass
  through and remain path navigation.\<close>
theorem dot_segments_pass_unescaped:
  "encode_uri_component (replicate n (CHR ''.'')) = replicate n (CHR ''.'')"
proof -
  have "encode_byte (CHR ''.'') = ''.''" by code_simp
  then show ?thesis by (induction n) simp_all
qed

text \<open>C35: A body is read exactly when the stream ends without a transport error and its chunks together
  are at most one mebibyte; then it is their concatenation. A larger body is refused.\<close>
theorem read_body_capped_iff:
  "read_body_capped resp = Inr body \<longleftrightarrow>
     resp_chunk_error resp = None \<and> body = concat (resp_chunks resp) \<and> length body \<le> 1048576"
  using read_chunks_Inr [of "[]" "resp_chunks resp" "resp_chunk_error resp" body]
  by (simp add: read_body_capped_def MAX_RESPONSE_BYTES_def)

text \<open>The loop ends at the first round that reports a decision.\<close>

lemma poll_until_first_decision:
  assumes "pending_rounds (unat interval) attempt k t = Some u" and "k < unat n"
    and "attempt (round_start (unat interval) k u) = (r, t')" and "r \<noteq> Inr Pending"
  shows "poll_until n interval err attempt t = (case r of Inl e \<Rightarrow> Inl e | Inr (Done v) \<Rightarrow> Inr v, t')"
proof -
  have "poll_until n interval err attempt t = poll_from k (unat n) (unat interval) err attempt u"
    unfolding poll_until_def using assms(2) by (intro poll_from_pending_rounds [OF assms(1)]) simp
  also note poll_from_step [where attempt = attempt and t = u, OF assms(2) assms(3) [unfolded round_start_def]]
  finally show ?thesis using assms(4) by (auto split: sum.splits poll_outcome.splits)
qed

lemma pending_or_decided:
  "(\<exists>j < k. \<exists>u r t'. pending_rounds interval attempt j t = Some u \<and> attempt (round_start interval j u) = (r, t') \<and> r \<noteq> Inr Pending) \<or>
   (\<exists>u. pending_rounds interval attempt k t = Some u)"
proof (induction k)
  case (Suc k)
  then show ?case
  proof (elim disjE exE)
    fix u assume u: "pending_rounds interval attempt k t = Some u"
    obtain r t' where a: "attempt (round_start interval k u) = (r, t')" by (cases "attempt (round_start interval k u)")
    show ?thesis
    proof (cases "r = Inr Pending")
      case True
      with u a show ?thesis by simp
    next
      case False
      with u a show ?thesis by (intro disjI1 exI [of _ k]) auto
    qed
  qed (auto intro: less_SucI)
qed simp

text \<open>
  C9: The polling loop always ends, within its budget: either in a round \<open>k\<close> below the budget, the first one that does not report a
  pending request, with that round's answer or error; or after exactly the budget of pending rounds, with the timeout error. The
  trace is that of the rounds made, with one sleep before each round but the first.
\<close>

theorem poll_until_ends:
  "(\<exists>k u r t'. k < unat n \<and> pending_rounds (unat interval) attempt k t = Some u \<and>
      attempt (round_start (unat interval) k u) = (r, t') \<and> r \<noteq> Inr Pending \<and>
      poll_until n interval err attempt t = (case r of Inl e \<Rightarrow> Inl e | Inr (Done v) \<Rightarrow> Inr v, t')) \<or>
   (\<exists>u. pending_rounds (unat interval) attempt (unat n) t = Some u \<and> poll_until n interval err attempt t = (Inl err, u))"
  using pending_or_decided [of "unat n" "unat interval" attempt t] poll_until_first_decision poll_until_timeout by metis

end
