(* ===== verification/Remote_Calls.thy ===== *)
theory Remote_Calls
  imports Remote_Util
begin

text \<open>
  How often and where a remote operation calls out. \<open>makes_calls n P m\<close> says that \<open>m\<close> only appends to the trace, with at
  most \<open>n\<close> outgoing calls, each satisfying \<open>P\<close>; the rules of \<open>calls_intros\<close> follow the way operations are composed, so
  that a backend's bound is read off its code.

  The theory also holds the shape of the \<^verbatim>\<open>is_available\<close> methods: run a fallible operation, answer \<^verbatim>\<open>false\<close> on any error,
  all of it under a deadline.
\<close>

section \<open>Availability checks\<close>

text \<open>\<^verbatim>\<open>match op.await { Ok(x) => k(x), Err(_) => false }\<close>.\<close>

definition io_check :: "('w, 'e, 'a) io \<Rightarrow> ('a \<Rightarrow> 'w \<Rightarrow> bool \<times> 'w) \<Rightarrow> 'w \<Rightarrow> bool \<times> 'w" where
  "io_check m k w = (case m w of (Inl _, w') \<Rightarrow> (False, w') | (Inr x, w') \<Rightarrow> k x w')"

text \<open>
  \<^verbatim>\<open>tokio::time::timeout(AVAILABILITY_TIMEOUT, check).await.unwrap_or(false)\<close>. The calls of a check that the deadline cuts
  short count as made.
\<close>

definition within_deadline ::
  "('x net_env_scheme) \<Rightarrow> duration \<Rightarrow> (trace \<Rightarrow> bool \<times> trace) \<Rightarrow> trace \<Rightarrow> bool \<times> trace" where
  "within_deadline E d check t = (case check t of (b, t') \<Rightarrow> (\<not> deadline_passes E d t \<and> b, t'))"

lemma io_check_True [result_simps]:
  "io_check m k w = (True, w') \<longleftrightarrow> (\<exists>x w1. m w = (Inr x, w1) \<and> k x w1 = (True, w'))"
  by (auto simp: io_check_def split: prod.splits sum.splits)

lemma within_deadline_True [result_simps]:
  "within_deadline E d check t = (True, t') \<longleftrightarrow> \<not> deadline_passes E d t \<and> check t = (True, t')"
  by (auto simp: within_deadline_def split: prod.splits)

section \<open>Outgoing calls\<close>

text \<open>An HTTP request, or an operation of a vendor's SDK.\<close>

fun is_call :: "event \<Rightarrow> bool" where
  "is_call (Requested _) = True"
| "is_call (SdkCall _ _ _) = True"
| "is_call _ = False"

text \<open>Where a call goes: a request to a path below a base URL, an SDK operation on a key.\<close>

fun calls_url :: "string \<Rightarrow> event \<Rightarrow> bool" where
  "calls_url base (Requested req) = prefix (base @ ''/'') (req_url req)"
| "calls_url base _ = False"

fun calls_key :: "string \<Rightarrow> event \<Rightarrow> bool" where
  "calls_key key (SdkCall _ k _) = (k = key)"
| "calls_key key _ = False"

lemma request_url [simp]:
  "req_url (get_request url hs) = url" "req_url (post_request url hs body) = url" "req_url (post_json E url hs js) = url"
  by (simp_all add: get_request_def post_request_def post_json_def)

named_theorems calls_intros

text \<open>What lies between two traces: at most \<open>n\<close> calls, all satisfying \<open>P\<close>.\<close>

definition calls_between :: "nat \<Rightarrow> (event \<Rightarrow> bool) \<Rightarrow> trace \<Rightarrow> trace \<Rightarrow> bool" where
  "calls_between n P t u \<longleftrightarrow>
     (\<exists>es. u = t @ es \<and> length (filter is_call es) \<le> n \<and> list_all P (filter is_call es))"

definition makes_calls :: "nat \<Rightarrow> (event \<Rightarrow> bool) \<Rightarrow> (trace \<Rightarrow> 'r \<times> trace) \<Rightarrow> bool" where
  "makes_calls n P m \<longleftrightarrow> (\<forall>t. calls_between n P t (snd (m t)))"

lemma calls_between_refl [simp]: "calls_between n P t t"
  by (simp add: calls_between_def)

lemma calls_between_append:
  "calls_between n P t (t @ es) \<longleftrightarrow> length (filter is_call es) \<le> n \<and> list_all P (filter is_call es)"
  by (simp add: calls_between_def)

lemma calls_between_trans:
  assumes "calls_between a P t u" "calls_between b P u v"
  shows "calls_between (a + b) P t v"
proof -
  from assms obtain es fs where "u = t @ es" "v = u @ fs"
    "length (filter is_call es) \<le> a" "length (filter is_call fs) \<le> b"
    "list_all P (filter is_call es)" "list_all P (filter is_call fs)"
    unfolding calls_between_def by blast
  then show ?thesis unfolding calls_between_def by (intro exI [of _ "es @ fs"]) simp
qed

lemma calls_between_mono: "calls_between a P t u \<Longrightarrow> a \<le> b \<Longrightarrow> calls_between b P t u"
  by (auto simp: calls_between_def)

lemma makes_callsI: "(\<And>t. calls_between n P t (snd (m t))) \<Longrightarrow> makes_calls n P m"
  by (simp add: makes_calls_def)

lemma makes_callsD: "makes_calls n P m \<Longrightarrow> m t = (r, u) \<Longrightarrow> calls_between n P t u"
  unfolding makes_calls_def by (metis snd_conv)

lemma makes_calls_mono: "makes_calls a P m \<Longrightarrow> a \<le> b \<Longrightarrow> makes_calls b P m"
  unfolding makes_calls_def by (metis calls_between_mono)

lemma makes_calls_max:
  "makes_calls a P m \<Longrightarrow> makes_calls (max a b) P m"
  "makes_calls b P m \<Longrightarrow> makes_calls (max a b) P m"
  by (auto elim: makes_calls_mono)

text \<open>Sequencing in its general form, of which \<^verbatim>\<open>?\<close> and an availability check are instances.\<close>

lemma calls_then [calls_intros]:
  assumes "makes_calls a P m" "\<And>r. makes_calls b P (k r)"
  shows "makes_calls (a + b) P (\<lambda>t. case m t of (r, u) \<Rightarrow> k r u)"
  using assms unfolding makes_calls_def by (auto split: prod.split intro: calls_between_trans dest: makes_callsD [OF assms(1)])

lemma calls_case_sum [calls_intros]:
  "(\<And>e. makes_calls a P (m e)) \<Longrightarrow> (\<And>x. makes_calls b P (k x)) \<Longrightarrow>
     makes_calls (max a b) P (case v of Inl e \<Rightarrow> m e | Inr x \<Rightarrow> k x)"
  by (auto split: sum.split intro: makes_calls_max)

lemma calls_quiet: "(\<And>t. snd (m t) = t) \<Longrightarrow> makes_calls 0 P m"
  by (simp add: makes_calls_def)

lemma calls_lift [calls_intros]: "makes_calls 0 P (io_lift r)"
  by (rule calls_quiet) (simp add: io_lift_def)

lemma calls_answer [calls_intros]: "makes_calls 0 P (Pair b)"
  by (rule calls_quiet) simp

lemma calls_bind [calls_intros]:
  assumes "makes_calls a P m" "\<And>x. makes_calls b P (f x)"
  shows "makes_calls (a + b) P (io_bind m f)"
proof -
  have "io_bind m f = (\<lambda>t. case m t of (r, u) \<Rightarrow> (case r of Inl e \<Rightarrow> Pair (Inl e) | Inr x \<Rightarrow> f x) u)"
    by (auto simp: io_bind_def split: prod.split sum.split)
  moreover have "makes_calls (a + max 0 b) P (\<lambda>t. case m t of (r, u) \<Rightarrow> (case r of Inl e \<Rightarrow> Pair (Inl e) | Inr x \<Rightarrow> f x) u)"
    by (intro calls_intros assms)
  ultimately show ?thesis by simp
qed

text \<open>When where the call goes depends on the value the first step computed.\<close>

lemma calls_bind_lift:
  "(\<And>x. r = Inr x \<Longrightarrow> makes_calls n P (f x)) \<Longrightarrow> makes_calls n P (io_bind (io_lift r) f)"
  by (cases r) (auto simp: makes_calls_def io_bind_lift)

lemma calls_check [calls_intros]:
  assumes "makes_calls a P m" "\<And>x. makes_calls b P (k x)"
  shows "makes_calls (a + b) P (io_check m k)"
proof -
  have "io_check m k = (\<lambda>t. case m t of (r, u) \<Rightarrow> (case r of Inl e \<Rightarrow> Pair False | Inr x \<Rightarrow> k x) u)"
    by (auto simp: io_check_def split: prod.split sum.split)
  moreover have "makes_calls (a + max 0 b) P (\<lambda>t. case m t of (r, u) \<Rightarrow> (case r of Inl e \<Rightarrow> Pair False | Inr x \<Rightarrow> k x) u)"
    by (intro calls_intros assms)
  ultimately show ?thesis by simp
qed

lemma calls_deadline [calls_intros]: "makes_calls n P m \<Longrightarrow> makes_calls n P (within_deadline E d m)"
  by (auto simp: makes_calls_def within_deadline_def case_prod_unfold)

lemma calls_map_err [calls_intros]: "makes_calls n P m \<Longrightarrow> makes_calls n P (io_map_err g m)"
  by (auto simp: makes_calls_def io_map_err_def case_prod_unfold)

lemma calls_event: "(is_call e \<Longrightarrow> P e) \<Longrightarrow> makes_calls (if is_call e then 1 else 0) P (\<lambda>t. (r t, t @ [e]))"
  by (simp add: makes_calls_def calls_between_append)

lemma calls_emit [calls_intros]: "\<not> is_call e \<Longrightarrow> makes_calls 0 P (emit e)"
  using calls_event [of e P "\<lambda>_. Inr ()"] by (simp add: emit_def [abs_def])

lemma calls_send [calls_intros]: "P (Requested req) \<Longrightarrow> makes_calls 1 P (send_request E client req)"
  using calls_event [of "Requested req" P] by (simp add: send_request_def [abs_def])

lemma calls_send_or_http_error [calls_intros]:
  "P (Requested req) \<Longrightarrow> makes_calls 1 P (send_or_http_error E client req)"
  unfolding send_or_http_error_def by (intro calls_intros)

lemma calls_if [calls_intros]:
  "makes_calls a P m \<Longrightarrow> makes_calls b P k \<Longrightarrow> makes_calls (max a b) P (if c then m else k)"
  by (auto intro: makes_calls_max)

lemma calls_case_option [calls_intros]:
  "makes_calls a P m \<Longrightarrow> (\<And>x. makes_calls b P (k x)) \<Longrightarrow>
     makes_calls (max a b) P (case v of None \<Rightarrow> m | Some x \<Rightarrow> k x)"
  by (auto split: option.split intro: makes_calls_max)

lemma calls_case_prod [calls_intros]:
  "(\<And>x y. makes_calls n P (k x y)) \<Longrightarrow> makes_calls n P (case v of (x, y) \<Rightarrow> k x y)"
  by (simp split: prod.split)

text \<open>An operation that reads the clock or the effects so far before it acts.\<close>

lemma calls_reading: "(\<And>u. makes_calls n P (f u)) \<Longrightarrow> makes_calls n P (\<lambda>t. f t t)"
  by (simp add: makes_calls_def)

lemma calls_case_query [calls_intros]:
  assumes "makes_calls a P q" "\<And>x. makes_calls b P (k x)"
  shows "makes_calls (a + b) P (\<lambda>t. case q t of (None, u) \<Rightarrow> (False, u) | (Some x, u) \<Rightarrow> k x u)"
proof -
  have "makes_calls (a + max 0 b) P (\<lambda>t. case q t of (r, u) \<Rightarrow> (case r of None \<Rightarrow> Pair False | Some x \<Rightarrow> k x) u)"
    by (intro calls_intros assms)
  moreover have "(\<lambda>t. case q t of (None, u) \<Rightarrow> (False, u) | (Some x, u) \<Rightarrow> k x u) =
    (\<lambda>t. case q t of (r, u) \<Rightarrow> (case r of None \<Rightarrow> Pair False | Some x \<Rightarrow> k x) u)"
    by (auto split: prod.split option.split)
  ultimately show ?thesis by simp
qed

text \<open>An operation between two notes in the trace that are no calls.\<close>

lemma calls_bracket [calls_intros]:
  assumes "makes_calls n P m" "\<And>t. calls_between 0 P t (f t)" "\<And>t. calls_between 0 P t (g t)"
  shows "makes_calls n P (\<lambda>t. case m (f t) of (r, u) \<Rightarrow> (r, g u))"
proof (rule makes_callsI)
  fix t
  obtain r u where m: "m (f t) = (r, u)" by (cases "m (f t)")
  from calls_between_trans [OF assms(2) calls_between_trans [OF makes_callsD [OF assms(1) m] assms(3)]]
  show "calls_between n P t (snd (case m (f t) of (r, u) \<Rightarrow> (r, g u)))" by (simp add: m)
qed

text \<open>A polling loop makes at most its budget of attempts.\<close>

lemma calls_poll_from:
  assumes "makes_calls k P attempt"
  shows "calls_between ((n - i) * k) P t (snd (poll_from i n interval err attempt t))"
proof (induction "n - i" arbitrary: i t)
  case 0
  then show ?case by (simp add: poll_from_end)
next
  case (Suc m)
  then have lt: "i < n" and m: "m = n - Suc i" by auto
  define t0 where "t0 = (if i > 0 then t @ [Slept interval] else t)"
  obtain r t1 where a: "attempt t0 = (r, t1)" by (cases "attempt t0")
  note step = poll_from_step [where attempt = attempt and interval = interval and t = t and err = err,
      OF lt a [unfolded t0_def]]
  have "calls_between 0 P t t0" by (simp add: t0_def calls_between_append)
  with makes_callsD [OF assms a] have first: "calls_between k P t t1" using calls_between_trans by fastforce
  have "calls_between ((n - Suc i) * k) P t1 (snd (poll_from i n interval err attempt t))"
    using Suc.hyps(1) [OF m, of t1] by (auto simp: step split: sum.split poll_outcome.split)
  from calls_between_trans [OF first this] lt show ?case by (simp add: Suc_diff_Suc [symmetric])
qed

lemma calls_poll_until [calls_intros]:
  "makes_calls k P attempt \<Longrightarrow> makes_calls (unat n * k) P (poll_until n interval err attempt)"
  using calls_poll_from [of k P attempt "unat n" 0] by (intro makes_callsI) (simp add: poll_until_def)

end
