(* ===== verification/Vault_Signer.thy ===== *)
theory Vault_Signer
  imports Remote_Calls Traits_Send
begin

text \<open>
  \<^verbatim>\<open>src/rust/src/vault\<close>: signing with a HashiCorp Vault transit key. A caller-configured \<^verbatim>\<open>ClientBuilder\<close> is its
  settings; the crate's redirect policy replaces the one it carries, and HTTPS is left to the caller.
\<close>

record vault_signer =
  vt_client :: client_settings
  vt_api_base_url :: string
  vt_token :: string
  vt_key_name :: string
  vt_public_key :: pubkey

record vault_config =
  vtc_api_base_url :: string
  vtc_token :: string
  vtc_key_name :: string
  vtc_public_key :: string
  vtc_http_client_config :: "http_client_config option"

text \<open>\<^verbatim>\<open>str::split_once\<close> with a character.\<close>

definition split_once :: "char \<Rightarrow> string \<Rightarrow> (string \<times> string) option" where
  "split_once c s = (case split_on c s of p # q # qs \<Rightarrow> Some (p, join_with [c] (q # qs)) | _ \<Rightarrow> None)"

definition strip_vault_signature_prefix :: "string \<Rightarrow> string" where
  "strip_vault_signature_prefix signature =
     (case strip_prefix ''vault:v'' signature of
        None \<Rightarrow> signature
      | Some rest \<Rightarrow>
          (case split_once (CHR '':'') rest of
             None \<Rightarrow> signature
           | Some (version, encoded_signature) \<Rightarrow>
               if version = [] \<or> \<not> list_all is_digit_char version then signature else encoded_signature))"

definition vault_with_client_builder ::
  "('x net_env_scheme) \<Rightarrow> client_settings \<Rightarrow> string \<Rightarrow> string \<Rightarrow> string \<Rightarrow> string \<Rightarrow> vault_signer result" where
  "vault_with_client_builder E builder api_base_url token key_name public_key =
     (let settings = builder\<lparr>client_redirect := no_redirect_policy\<rparr> in
      res_bind (map_err (\<lambda>e. ConfigError (''Failed to build HTTP client: '' @ e)) (client_build E settings)) (\<lambda>_.
      res_bind (map_err (\<lambda>_. InvalidPublicKey ''Invalid public key'') (pubkey_from_str E public_key)) (\<lambda>pk.
      Inr \<lparr>vt_client = settings, vt_api_base_url = normalize_base_url api_base_url, vt_token = token,
           vt_key_name = key_name, vt_public_key = pk\<rparr>)))"

definition vault_from_config :: "('x net_env_scheme) \<Rightarrow> vault_config \<Rightarrow> vault_signer result" where
  "vault_from_config E config =
     vault_with_client_builder E (client_builder (unwrap_or http_client_config_default (vtc_http_client_config config)))
       (vtc_api_base_url config) (vtc_token config) (vtc_key_name config) (vtc_public_key config)"

definition vault_new :: "('x net_env_scheme) \<Rightarrow> string \<Rightarrow> string \<Rightarrow> string \<Rightarrow> string \<Rightarrow> vault_signer result" where
  "vault_new E api_base_url token key_name public_key =
     vault_from_config E \<lparr>vtc_api_base_url = api_base_url, vtc_token = token, vtc_key_name = key_name,
       vtc_public_key = public_key, vtc_http_client_config = None\<rparr>"

definition vault_sign_bytes :: "('x net_env_scheme) \<Rightarrow> vault_signer \<Rightarrow> bytes \<Rightarrow> (trace, signature) signer_io" where
  "vault_sign_bytes E self serialized =
     (let url = vt_api_base_url self @ ''/v1/transit/sign/'' @ vt_key_name self;
          payload = JObject [(''input'', JString (b64_encode E serialized))] in
      io_bind (io_map_err (\<lambda>e. remote_api (''Failed to send request to Vault: '' @ e))
        (send_request E (vt_client self) (post_json E url [(''X-Vault-Token'', vt_token self)] payload))) (\<lambda>response.
      io_lift (res_bind (parse_json_response (json_from_slice E) response ''Vault API'') (\<lambda>result.
        res_bind (ok_or (remote_api ''No signature in Vault response'')
          (json_as_str (json_index ''signature'' (json_index ''data'' result)))) (\<lambda>signature_b64.
        res_bind (signature_from_base64 E (strip_vault_signature_prefix signature_b64)) (\<lambda>sig.
        res_bind (verify_or_reject E sig (vt_public_key self) serialized) (\<lambda>_. Inr sig)))))))"

definition vault_pubkey :: "vault_signer \<Rightarrow> pubkey" where
  [simp]: "vault_pubkey self = vt_public_key self"

definition vault_sign_and_serialize ::
  "('x net_env_scheme) \<Rightarrow> vault_signer \<Rightarrow> (versioned_transaction \<times> trace, signed_transaction) signer_io" where
  "vault_sign_and_serialize E self =
     serialize_obtained E (vt_public_key self) (\<lambda>tx. vault_sign_bytes E self (message_serialize E (tx_message tx)))"

definition vault_sign_transaction ::
  "('x net_env_scheme) \<Rightarrow> vault_signer \<Rightarrow> (versioned_transaction \<times> trace, sign_transaction_result) signer_io" where
  "vault_sign_transaction E self = classify_signed (vault_sign_and_serialize E self)"

definition vault_sign_message :: "('x net_env_scheme) \<Rightarrow> vault_signer \<Rightarrow> bytes \<Rightarrow> (trace, signature) signer_io" where
  "vault_sign_message E self = vault_sign_bytes E self"

definition latest_key_matches_public_key :: "('x net_env_scheme) \<Rightarrow> vault_signer \<Rightarrow> json \<Rightarrow> bool" where
  "latest_key_matches_public_key E self body =
     (let data = json_index ''data'' body in
      case json_as_u64 (json_index ''latest_version'' data) of
        None \<Rightarrow> False
      | Some latest_version \<Rightarrow>
          (case json_as_str (json_index ''public_key'' (json_index (show_nat latest_version) (json_index ''keys'' data))) of
             None \<Rightarrow> False
           | Some encoded \<Rightarrow> b64_decode E encoded = Inr (pubkey_bytes (vt_public_key self))))"

definition vault_is_available :: "('x net_env_scheme) \<Rightarrow> vault_signer \<Rightarrow> trace \<Rightarrow> bool \<times> trace" where
  "vault_is_available E self =
     (let url = vt_api_base_url self @ ''/v1/transit/keys/'' @ vt_key_name self in
      io_check (send_request E (vt_client self) (get_request url [(''X-Vault-Token'', vt_token self)])) (\<lambda>response.
      Pair (is_success response \<and>
        (case read_body_capped response of
           Inl _ \<Rightarrow> False
         | Inr body \<Rightarrow>
             (case json_from_slice E body of
                Inl _ \<Rightarrow> False
              | Inr v \<Rightarrow>
                  (let data = json_index ''data'' v in
                   json_as_bool (json_index ''supports_signing'' data) = Some True \<and>
                   json_as_str (json_index ''type'' data) = Some ''ed25519'' \<and>
                   latest_key_matches_public_key E self v))))))"

section \<open>Contract\<close>

lemma vault_sign_bytes_verified:
  "vault_sign_bytes E self m t = (Inr sig, t') \<Longrightarrow> verifies E sig (vt_public_key self) m"
  by (auto simp: vault_sign_bytes_def Let_def result_simps)

interpretation vault: verified_signer E "vt_public_key self" "vault_sign_message E self"
  "\<lambda>tx. vault_sign_bytes E self (message_serialize E (tx_message tx))"
  rewrites "attach_obtained E (vt_public_key self) (\<lambda>tx. vault_sign_bytes E self (message_serialize E (tx_message tx))) =
    vault_sign_transaction E self"
  for E :: "'x net_env_scheme" and self :: vault_signer
  by unfold_locales (auto simp: vault_sign_message_def vault_sign_transaction_def
      vault_sign_and_serialize_def attach_obtained_def dest: vault_sign_bytes_verified)

text \<open>Whatever builder the caller configured, the client refuses redirects, so the token is never replayed elsewhere.\<close>

lemma vault_refuses_redirects:
  "vault_with_client_builder E builder url token key pk = Inr self \<Longrightarrow> client_redirect (vt_client self) = no_redirect_policy"
  by (auto simp: vault_with_client_builder_def Let_def result_simps)

text \<open>The prefix of every key version is stripped, and nothing else.\<close>

lemma strip_vault_prefix_version:
  "strip_vault_signature_prefix (''vault:v'' @ show_nat n @ '':'' @ s) = s"
proof -
  have digits: "list_all is_digit_char (show_nat n)" by (rule show_nat_digits)
  then have "CHR '':'' \<notin> set (show_nat n)" by (auto simp: list_all_iff is_digit_char_def)
  then have "split_on (CHR '':'') (show_nat n @ CHR '':'' # s) = show_nat n # split_on (CHR '':'') s"
    by (rule split_on_append_sep)
  moreover obtain q qs where "split_on (CHR '':'') s = q # qs" by (cases "split_on (CHR '':'') s") simp_all
  moreover have "join_with '':'' (split_on (CHR '':'') s) = s" by (rule join_split_on)
  ultimately have "split_once (CHR '':'') (show_nat n @ CHR '':'' # s) = Some (show_nat n, s)"
    by (simp add: split_once_def)
  moreover have "strip_prefix ''vault:v'' (''vault:v'' @ show_nat n @ '':'' @ s) = Some (show_nat n @ '':'' @ s)"
    by (simp add: strip_prefix_def)
  ultimately show ?thesis using digits by (simp add: strip_vault_signature_prefix_def)
qed

section \<open>Calls\<close>

lemma vault_sign_calls: "makes_calls 1 (calls_url (vt_api_base_url self)) (vault_sign_bytes E self m)"
  unfolding vault_sign_bytes_def Let_def by (rule makes_calls_mono, (rule calls_intros | simp)+)

lemma vault_available_calls: "makes_calls 1 (calls_url (vt_api_base_url self)) (vault_is_available E self)"
  unfolding vault_is_available_def Let_def by (rule makes_calls_mono, (rule calls_intros | simp)+)

end
