(* ===== verification/Response_Decoding.thy ===== *)
theory Response_Decoding
  imports Remote_Util "HOL-Library.Monad_Syntax" "HOL-Library.Multiset"
begin

text \<open>
  How the response types of the providers are read from JSON. Their \<^verbatim>\<open>Deserialize\<close> instances are derived from the declarations in
  the \<^verbatim>\<open>types.rs\<close> files; this theory has what the derived code does with a declaration, and the backends have one decoder per struct,
  written from its fields and attributes. The reader of JSON text and the texts of its errors belong to \<^verbatim>\<open>serde_json\<close> and are fields
  of \<open>net_env\<close>: \<open>json_tokens\<close> is the tree of a text, entries in order and repeated names kept, and \<open>serde_error\<close> the text of the
  error for a type and an input.
\<close>

section \<open>Values\<close>

fun de_string :: "json \<Rightarrow> string option" where
  "de_string (JString s) = Some s"
| "de_string _ = None"

fun de_bool :: "json \<Rightarrow> bool option" where
  "de_bool (JBool b) = Some b"
| "de_bool _ = None"

text \<open>
  \<^verbatim>\<open>i64\<close> from the literal of a number: an integer in range without fraction and exponent. \<^verbatim>\<open>-0\<close> is a float for \<^verbatim>\<open>serde_json\<close>.
\<close>

fun de_i64 :: "json \<Rightarrow> int option" where
  "de_i64 (JNumber literal) =
     (case literal of
        [] \<Rightarrow> None
      | c # cs \<Rightarrow>
          if c = CHR ''-'' then
            (if cs \<noteq> [] \<and> list_all is_digit_char cs \<and> 0 < digits_val 0 cs \<and> digits_val 0 cs \<le> 2 ^ 63
             then Some (- int (digits_val 0 cs)) else None)
          else if list_all is_digit_char literal \<and> digits_val 0 literal < 2 ^ 63 then Some (int (digits_val 0 literal)) else None)"
| "de_i64 _ = None"

definition de_option :: "(json \<Rightarrow> 'a option) \<Rightarrow> json \<Rightarrow> 'a option option" where
  "de_option de j = (if j = JNull then Some None else map_option Some (de j))"

fun de_vec :: "(json \<Rightarrow> 'a option) \<Rightarrow> json \<Rightarrow> 'a list option" where
  "de_vec de (JArray js) = those (map de js)"
| "de_vec de _ = None"

section \<open>Structs\<close>

text \<open>
  The fields of a struct, by the names they have in JSON and whether they carry \<^verbatim>\<open>#[serde(default)]\<close>. A struct is read from an object, where
  entries with other names are skipped and a repeated name is an error, or from an array of the fields in order, where only fields with a
  default may be missing at the end.
\<close>

type_synonym struct_fields = "(string \<times> bool) list"

fun as_struct :: "struct_fields \<Rightarrow> json \<Rightarrow> (string \<Rightarrow> json option) option" where
  "as_struct fs (JObject entries) =
     (let known = filter (\<lambda>e. fst e \<in> fst ` set fs) entries in
      if distinct (map fst known) then Some (map_of known) else None)"
| "as_struct fs (JArray js) =
     (if length js \<le> length fs \<and> list_all snd (drop (length js) fs) then Some (map_of (zip (map fst fs) js)) else None)"
| "as_struct fs _ = None"

text \<open>A field of a plain type, of an \<^verbatim>\<open>Option\<close>, and with a default.\<close>

definition required :: "(json \<Rightarrow> 'a option) \<Rightarrow> json option \<Rightarrow> 'a option" where
  "required de field = Option.bind field de"

definition optional :: "(json \<Rightarrow> 'a option) \<Rightarrow> json option \<Rightarrow> 'a option option" where
  "optional de field = (case field of None \<Rightarrow> Some None | Some j \<Rightarrow> de_option de j)"

definition defaulted :: "'a \<Rightarrow> (json \<Rightarrow> 'a option) \<Rightarrow> json option \<Rightarrow> 'a option" where
  "defaulted d de field = (case field of None \<Rightarrow> Some d | Some j \<Rightarrow> de j)"

lemmas field_defs = required_def optional_def defaulted_def de_option_def

text \<open>\<^verbatim>\<open>serde_json::from_slice\<close> for a type with its decoder.\<close>

definition serde_from_slice :: "('x net_env_scheme) \<Rightarrow> string \<Rightarrow> (json \<Rightarrow> 'a option) \<Rightarrow> bytes \<Rightarrow> string + 'a" where
  "serde_from_slice E type_name de body = ok_or (serde_error E type_name body) (Option.bind (json_tokens E body) de)"

section \<open>The order of entries does not matter\<close>

text \<open>
  Values that differ only in the order of the entries of their objects. The names of an object are distinct, as they are in a
  \<^verbatim>\<open>serde_json::Value\<close>.
\<close>

inductive same_json :: "json \<Rightarrow> json \<Rightarrow> bool" where
  same_refl: "same_json v v"
| same_array: "list_all2 same_json vs ws \<Longrightarrow> same_json (JArray vs) (JArray ws)"
| same_object: "distinct (map fst fs) \<Longrightarrow> mset gs' = mset fs \<Longrightarrow>
    list_all2 (\<lambda>f g. fst f = fst g \<and> same_json (snd f) (snd g)) gs' gs \<Longrightarrow> same_json (JObject fs) (JObject gs)"

inductive_simps same_json_simps [simp]:
  "same_json (JString s) w" "same_json (JBool b) w" "same_json (JNumber n) w" "same_json JNull w"

definition same_fields :: "(string \<Rightarrow> json option) \<Rightarrow> (string \<Rightarrow> json option) \<Rightarrow> bool" where
  "same_fields m m' \<longleftrightarrow> (\<forall>k. rel_option same_json (m k) (m' k))"

text \<open>A decoder that gives the same for such values, and a use of fields that does.\<close>

definition order_free :: "(json \<Rightarrow> 'a) \<Rightarrow> bool" where
  "order_free de \<longleftrightarrow> (\<forall>j j'. same_json j j' \<longrightarrow> de j = de j')"

definition order_free_fields :: "((string \<Rightarrow> json option) \<Rightarrow> 'a) \<Rightarrow> bool" where
  "order_free_fields g \<longleftrightarrow> (\<forall>m m'. same_fields m m' \<longrightarrow> g m = g m')"

named_theorems order_free_intros

lemma map_of_filter_names: "map_of (filter (\<lambda>e. fst e \<in> A) entries) k = (if k \<in> A then map_of entries k else None)"
  by (induction entries) auto

lemma as_struct_object:
  "distinct (map fst entries) \<Longrightarrow> as_struct fs (JObject entries) = Some (\<lambda>k. if k \<in> fst ` set fs then map_of entries k else None)"
  by (simp add: Let_def distinct_map_filter fun_eq_iff map_of_filter_names)

lemma same_entries_fields:
  assumes "distinct (map fst fs)" "mset gs' = mset fs"
    and same: "list_all2 (\<lambda>f g. fst f = fst g \<and> same_json (snd f) (snd g)) gs' gs"
  shows "distinct (map fst gs)" "rel_option same_json (map_of fs k) (map_of gs k)"
proof -
  have "map fst gs' = map fst gs" using same by (induction rule: list_all2_induct) auto
  moreover have gs': "distinct (map fst gs')"
  proof -
    from assms(2) have "mset (map fst gs') = mset (map fst fs)" by simp
    from mset_eq_imp_distinct_iff [OF this] assms(1) show ?thesis by simp
  qed
  ultimately show "distinct (map fst gs)" by simp
  have "map_of gs' = map_of fs"
    using map_of_inject_set [OF gs' assms(1)] mset_eq_setD [OF assms(2)] by blast
  moreover have "rel_option same_json (map_of gs' k) (map_of gs k)" using same by (induction rule: list_all2_induct) auto
  ultimately show "rel_option same_json (map_of fs k) (map_of gs k)" by simp
qed

lemma same_elements_fields:
  "list_all2 same_json vs ws \<Longrightarrow> rel_option same_json (map_of (zip ns vs) k) (map_of (zip ns ws) k)"
proof (induction arbitrary: ns rule: list_all2_induct)
  case (Cons v vs w ws)
  then show ?case by (cases ns) auto
qed simp

lemma as_struct_same: "same_json j j' \<Longrightarrow> rel_option same_fields (as_struct fs j) (as_struct fs j')"
proof (induction rule: same_json.cases)
  case (same_refl v)
  have "same_fields m m" for m by (simp add: same_fields_def option.rel_refl same_json.same_refl)
  with same_refl show ?case by (simp add: option.rel_refl)
next
  case (same_array vs ws)
  then show ?case using list_all2_lengthD [of same_json vs ws] by (simp add: same_fields_def same_elements_fields)
next
  case (same_object es gs' gs)
  from same_entries_fields [OF same_object(3-5)] show ?case
    by (simp only: same_object(1,2) as_struct_object [OF same_object(3)] as_struct_object) (simp add: same_fields_def)
qed

lemma order_free_struct [order_free_intros]:
  "order_free_fields g \<Longrightarrow> order_free (\<lambda>j. Option.bind (as_struct fs j) g)"
  unfolding order_free_def
proof (intro allI impI)
  fix j j' assume "order_free_fields g" "same_json j j'"
  with as_struct_same [of j j' fs] show "Option.bind (as_struct fs j) g = Option.bind (as_struct fs j') g"
    by (cases "as_struct fs j"; cases "as_struct fs j'") (auto simp: order_free_fields_def)
qed

lemma order_free_value [order_free_intros]: "order_free de_string" "order_free de_bool" "order_free de_i64"
  unfolding order_free_def by (safe; erule same_json.cases; simp)+

lemma same_json_null: "same_json j j' \<Longrightarrow> j = JNull \<longleftrightarrow> j' = JNull"
  by (erule same_json.cases) simp_all

lemma order_free_option [order_free_intros]: "order_free de \<Longrightarrow> order_free (de_option de)"
  unfolding order_free_def de_option_def by (metis same_json_null)

lemma order_free_vec [order_free_intros]:
  assumes "order_free de" shows "order_free (de_vec de)"
  unfolding order_free_def
proof (intro allI impI)
  fix j j' assume "same_json j j'"
  then show "de_vec de j = de_vec de j'"
  proof cases
    case (same_array vs ws)
    then have "map de vs = map de ws" using assms by (intro nth_equalityI) (auto simp: order_free_def list_all2_conv_all_nth)
    with same_array show ?thesis by simp
  qed auto
qed

lemma order_free_return [order_free_intros]: "order_free_fields (\<lambda>_. c)"
  by (simp add: order_free_fields_def)

lemma order_free_bind_field:
  assumes "\<And>m m'. same_fields m m' \<Longrightarrow> f m = f m'" "\<And>x. order_free_fields (h x)"
  shows "order_free_fields (\<lambda>m. Option.bind (f m) (\<lambda>x. h x m))"
  unfolding order_free_fields_def
proof (intro allI impI)
  fix m m' assume same: "same_fields m m'"
  then have "h x m = h x m'" for x using assms(2) by (simp add: order_free_fields_def)
  with assms(1) [OF same] show "Option.bind (f m) (\<lambda>x. h x m) = Option.bind (f m') (\<lambda>x. h x m')" by simp
qed

lemma same_fields_field:
  assumes "order_free de" "same_fields m m'"
  shows "required de (m k) = required de (m' k)" "optional de (m k) = optional de (m' k)" "defaulted d de (m k) = defaulted d de (m' k)"
proof -
  have same: "rel_option same_json (m k) (m' k)" using assms(2) by (simp add: same_fields_def)
  have de: "de j = de j'" "de_option de j = de_option de j'" if "same_json j j'" for j j'
    using that assms(1) order_free_option [OF assms(1)] by (simp_all add: order_free_def)
  show "required de (m k) = required de (m' k)" "optional de (m k) = optional de (m' k)"
    "defaulted d de (m k) = defaulted d de (m' k)"
    using same by (cases rule: option.rel_cases; simp add: required_def optional_def defaulted_def de)+
qed

lemma order_free_field [order_free_intros]:
  assumes "order_free de" "\<And>x. order_free_fields (h x)"
  shows "order_free_fields (\<lambda>m. Option.bind (required de (m k)) (\<lambda>x. h x m))"
  by (rule order_free_bind_field [OF same_fields_field(1) [OF assms(1)] assms(2)])

lemma order_free_optional_field [order_free_intros]:
  assumes "order_free de" "\<And>x. order_free_fields (h x)"
  shows "order_free_fields (\<lambda>m. Option.bind (optional de (m k)) (\<lambda>x. h x m))"
  by (rule order_free_bind_field [OF same_fields_field(2) [OF assms(1)] assms(2)])

lemma order_free_defaulted_field [order_free_intros]:
  assumes "order_free de" "\<And>x. order_free_fields (h x)"
  shows "order_free_fields (\<lambda>m. Option.bind (defaulted d de (m k)) (\<lambda>x. h x m))"
  by (rule order_free_bind_field [OF same_fields_field(3) [OF assms(1)] assms(2)])

lemma optional_value: "Option.bind (optional Some v) (\<lambda>_. c) = c"
  by (simp add: optional_def de_option_def split: option.split)

lemma order_freeD: "order_free de \<Longrightarrow> same_json j j' \<Longrightarrow> de j = de j'"
  by (simp add: order_free_def)

lemma serde_from_slice_Inr [result_simps]:
  "serde_from_slice E type_name de body = Inr x \<longleftrightarrow> (\<exists>j. json_tokens E body = Some j \<and> de j = Some x)"
  by (auto simp: serde_from_slice_def ok_or_def bind_eq_Some_conv split: option.split)

section \<open>Entries of an object\<close>

lemma as_struct_entry:
  assumes "as_struct fs (JObject entries) = Some m" "k \<in> fst ` set fs"
  shows "m k = map_of entries k"
proof -
  from assms(1) have "m = map_of (filter (\<lambda>e. fst e \<in> fst ` set fs) entries)" by (simp add: Let_def split: if_splits)
  with assms(2) show ?thesis by (simp only: map_of_filter_names if_True)
qed

end
