(* ===== verification/Wallet_Jwt.thy ===== *)
theory Wallet_Jwt
  imports Remote_Calls Response_Decoding "HOL-Library.Multiset" "HOL-Library.List_Lexorder"
begin

text \<open>
  \<^verbatim>\<open>src/rust/src/wallet_jwt.rs\<close>: the wallet-authentication token shared by CDP and Openfort, and what every backend with
  token authentication uses of its libraries. \<open>auth_env\<close> holds the wall clock of \<^verbatim>\<open>chrono\<close>, random UUIDs (told apart by
  their use), the JWT encoder and key parsers of \<^verbatim>\<open>jsonwebtoken\<close>, and the check of \<^verbatim>\<open>HeaderValue::parse\<close>.
\<close>

record auth_env = net_env +
  utc_now_ms :: "trace \<Rightarrow> int"
  uuid_new_v4 :: "string \<Rightarrow> trace \<Rightarrow> string"
  jwt_encode :: "json \<Rightarrow> json \<Rightarrow> bytes \<Rightarrow> string + string"
  key_from_ec_pem :: "bytes \<Rightarrow> string + bytes"
  key_from_ed_pem :: "bytes \<Rightarrow> string + bytes"
  key_from_rsa_pem :: "bytes \<Rightarrow> string + bytes"
  header_value_ok :: "string \<Rightarrow> bool"

definition utc_timestamp :: "('x auth_env_scheme) \<Rightarrow> trace \<Rightarrow> int" where
  "utc_timestamp E t = utc_now_ms E t div 1000"

definition jwt_uri :: "string \<Rightarrow> string \<Rightarrow> string \<Rightarrow> string" where
  "jwt_uri host method path = method @ '' '' @ host @ path"

definition extract_host :: "('x net_env_scheme) \<Rightarrow> string \<Rightarrow> string \<Rightarrow> string result" where
  "extract_host E base_url provider =
     res_bind (map_err (\<lambda>_. ConfigError (''Invalid '' @ provider @ '' base URL: '' @ base_url)) (url_parse E base_url)) (\<lambda>url.
     res_bind (ok_or (ConfigError (''Missing host in '' @ provider @ '' base URL: '' @ base_url)) (url_host url)) (\<lambda>host.
     Inr (case url_port url of Some port \<Rightarrow> host @ '':'' @ show_nat port | None \<Rightarrow> host)))"

text \<open>Object entries in the order of their keys, compared bytewise as Rust compares strings.\<close>

definition key_order :: "string \<Rightarrow> nat list" where
  "key_order k = map of_char k"

definition sort_entries :: "(string \<times> 'a) list \<Rightarrow> (string \<times> 'a) list" where
  "sort_entries entries = sort_key (\<lambda>e. key_order (fst e)) entries"

primrec sort_json :: "json \<Rightarrow> json" where
  "sort_json JNull = JNull"
| "sort_json (JBool b) = JBool b"
| "sort_json (JNumber n) = JNumber n"
| "sort_json (JString s) = JString s"
| "sort_json (JArray vs) = JArray (map sort_json vs)"
| "sort_json (JObject entries) = JObject (sort_entries (map (map_prod id sort_json) entries))"

definition compute_req_hash :: "('x net_env_scheme) \<Rightarrow> json option \<Rightarrow> string option" where
  "compute_req_hash E body =
     (case body of
        None \<Rightarrow> None
      | Some b \<Rightarrow>
          if b = JNull \<or> b = JObject [] then None
          else Some (hex_encode (sha256 E (str_bytes (json_to_string E (sort_json b))))))"

definition wallet_claims ::
  "('x auth_env_scheme) \<Rightarrow> string \<Rightarrow> string \<Rightarrow> string \<Rightarrow> json option \<Rightarrow> int \<Rightarrow> trace \<Rightarrow> json" where
  "wallet_claims E host method path request_body lifetime_secs t =
     (let now = utc_timestamp E t in
      JObject ([(''uris'', JArray [JString (jwt_uri host method path)]), (''iat'', JNumber (show_int now)),
        (''nbf'', JNumber (show_int now)), (''exp'', JNumber (show_int (now + lifetime_secs))),
        (''jti'', JString (uuid_new_v4 E ''jti'' t))] @
        (case compute_req_hash E request_body of Some h \<Rightarrow> [(''reqHash'', JString h)] | None \<Rightarrow> [])))"

definition create_wallet_jwt ::
  "('x auth_env_scheme) \<Rightarrow> string \<Rightarrow> bytes \<Rightarrow> string \<Rightarrow> string \<Rightarrow> string \<Rightarrow> json option \<Rightarrow> int \<Rightarrow> (trace, string) signer_io" where
  "create_wallet_jwt E provider key host method path request_body lifetime_secs t =
     (map_err (\<lambda>_. SigningFailed (''Failed to create '' @ provider @ '' wallet JWT''))
        (jwt_encode E (JObject [(''typ'', JString ''JWT''), (''alg'', JString ''ES256'')])
          (wallet_claims E host method path request_body lifetime_secs t) key), t)"

section \<open>The body hash does not depend on the order of keys\<close>

lemma key_order_inj: "key_order k = key_order k' \<longleftrightarrow> k = k'"
proof -
  have "inj (of_char :: char \<Rightarrow> nat)" by (rule injI) simp
  then show ?thesis by (simp add: key_order_def inj_map_eq_map)
qed

lemma sort_entries_perm:
  assumes "distinct (map fst fs)" "mset gs = mset fs"
  shows "sort_entries gs = sort_entries fs"
  unfolding sort_entries_def
proof (rule sort_key_inj_key_eq)
  show "inj_on (\<lambda>e. key_order (fst e)) (set gs)"
    using assms mset_eq_setD [OF assms(2)] by (auto simp: key_order_inj inj_on_def distinct_map)
  show "mset gs = mset (sort_key (\<lambda>e. key_order (fst e)) fs)" using assms(2) by simp
qed simp

lemma sort_json_same: "same_json v w \<Longrightarrow> sort_json v = sort_json w"
proof (induction rule: same_json.induct)
  case (same_array vs ws)
  then have "map sort_json vs = map sort_json ws"
    by (intro nth_equalityI) (auto simp: list_all2_conv_all_nth)
  then show ?case by simp
next
  case (same_object fs gs' gs)
  let ?f = "map_prod id sort_json"
  have "map ?f gs' = map ?f gs"
    using same_object(3) by (intro nth_equalityI) (auto simp: list_all2_conv_all_nth map_prod_def split: prod.splits)
  moreover have "sort_entries (map ?f gs') = sort_entries (map ?f fs)"
  proof (rule sort_entries_perm)
    have "map fst (map ?f fs) = map fst fs" by simp
    then show "distinct (map fst (map ?f fs))" using same_object(1) by metis
    show "mset (map ?f gs') = mset (map ?f fs)" using same_object(2) by (simp only: mset_map)
  qed
  ultimately show ?case by simp
qed simp

lemma sort_json_trivial: "sort_json v = JNull \<longleftrightarrow> v = JNull" "sort_json v = JObject [] \<longleftrightarrow> v = JObject []"
proof -
  have "sort_entries xs = [] \<longleftrightarrow> xs = []" for xs :: "(string \<times> json) list"
    using length_sort [of "\<lambda>e. key_order (fst e)" xs] by (auto simp: sort_entries_def simp del: length_sort)
  then show "sort_json v = JObject [] \<longleftrightarrow> v = JObject []" by (cases v) simp_all
qed (cases v; simp)

lemma create_wallet_jwt_calls [calls_intros]: "makes_calls 0 P (create_wallet_jwt E provider key host method path body lifetime)"
  by (rule calls_quiet) (simp add: create_wallet_jwt_def)

end
