(* ===== verification/Privy_Signer.thy ===== *)
theory Privy_Signer
  imports Wallet_Jwt Traits_Send
begin

text \<open>
  \<^verbatim>\<open>src/rust/src/privy\<close>: the Privy backend with its request-authorization signatures. Fields of \<open>privy_env\<close>: the
  P-256 keys of \<^verbatim>\<open>pkcs8\<close> texts with the DER signatures they make.

  A caller's external signer and context provider are functions held in the configuration. The expiry is computed in
  64 bits; the sum wraps, as it does in a release build.
\<close>

record privy_env = net_env +
  p256_from_pkcs8_pem :: "string \<Rightarrow> string + bytes"
  p256_from_pkcs8_der :: "bytes \<Rightarrow> string + bytes"
  privy_p256_sign_der :: "bytes \<Rightarrow> bytes \<Rightarrow> bytes"

section \<open>Responses (types.rs)\<close>

definition de_privy_message_data :: "json \<Rightarrow> string option" where
  "de_privy_message_data j = do {
     m \<leftarrow> as_struct [(''signature'', False), (''encoding'', False)] j;
     sig \<leftarrow> required de_string (m ''signature'');
     _ \<leftarrow> required de_string (m ''encoding'');
     Some sig }"

definition de_privy_message :: "json \<Rightarrow> string option" where
  "de_privy_message j = do {
     m \<leftarrow> as_struct [(''method'', False), (''data'', False)] j;
     _ \<leftarrow> required de_string (m ''method'');
     sig \<leftarrow> required de_privy_message_data (m ''data'');
     Some sig }"

definition de_privy_transaction_data :: "json \<Rightarrow> string option" where
  "de_privy_transaction_data j = do {
     m \<leftarrow> as_struct [(''signed_transaction'', False), (''encoding'', False)] j;
     signed_transaction \<leftarrow> required de_string (m ''signed_transaction'');
     _ \<leftarrow> required de_string (m ''encoding'');
     Some signed_transaction }"

definition de_privy_transaction :: "json \<Rightarrow> string option" where
  "de_privy_transaction j = do {
     m \<leftarrow> as_struct [(''method'', False), (''data'', False)] j;
     _ \<leftarrow> required de_string (m ''method'');
     signed_transaction \<leftarrow> required de_privy_transaction_data (m ''data'');
     Some signed_transaction }"

definition de_additional_signer :: "json \<Rightarrow> string option" where
  "de_additional_signer j = do {
     m \<leftarrow> as_struct [(''signer_id'', False), (''override_policy_ids'', False)] j;
     i \<leftarrow> required de_string (m ''signer_id'');
     _ \<leftarrow> optional (de_vec de_string) (m ''override_policy_ids'');
     Some i }"

text \<open>Of a wallet only the address is used; the other fields must still have their types.\<close>

definition de_privy_wallet :: "json \<Rightarrow> string option" where
  "de_privy_wallet j = do {
     m \<leftarrow> as_struct [(''id'', False), (''address'', False), (''chain_type'', False), (''wallet_client_type'', False),
       (''connector_type'', False), (''imported'', False), (''delegated'', False), (''hd_path'', False),
       (''public_key'', False), (''owner_id'', False), (''policy_ids'', False), (''additional_signers'', False),
       (''exported_at'', False), (''created_at'', False)] j;
     _ \<leftarrow> required de_string (m ''id'');
     a \<leftarrow> required de_string (m ''address'');
     _ \<leftarrow> required de_string (m ''chain_type'');
     _ \<leftarrow> optional de_string (m ''wallet_client_type'');
     _ \<leftarrow> optional de_string (m ''connector_type'');
     _ \<leftarrow> optional de_bool (m ''imported'');
     _ \<leftarrow> optional de_bool (m ''delegated'');
     _ \<leftarrow> optional de_string (m ''hd_path'');
     _ \<leftarrow> optional de_string (m ''public_key'');
     _ \<leftarrow> optional de_string (m ''owner_id'');
     _ \<leftarrow> optional (de_vec de_string) (m ''policy_ids'');
     _ \<leftarrow> optional (de_vec de_additional_signer) (m ''additional_signers'');
     _ \<leftarrow> optional de_i64 (m ''exported_at'');
     _ \<leftarrow> optional de_i64 (m ''created_at'');
     Some a }"

definition privy_wallet_decode :: "('x net_env_scheme) \<Rightarrow> bytes \<Rightarrow> string + string" where
  "privy_wallet_decode E = serde_from_slice E ''WalletResponse'' de_privy_wallet"

definition privy_message_decode :: "('x net_env_scheme) \<Rightarrow> string \<Rightarrow> string + string" where
  "privy_message_decode E response_text = serde_from_slice E ''SignMessageResponse'' de_privy_message (str_bytes response_text)"

definition privy_transaction_decode :: "('x net_env_scheme) \<Rightarrow> string \<Rightarrow> string + string" where
  "privy_transaction_decode E response_text = serde_from_slice E ''SignTransactionResponse'' de_privy_transaction (str_bytes response_text)"

lemma order_free_privy_message_data [order_free_intros]: "order_free de_privy_message_data"
  unfolding de_privy_message_data_def [abs_def] by (rule order_free_intros)+

lemma order_free_privy_message [order_free_intros]: "order_free de_privy_message"
  unfolding de_privy_message_def [abs_def] by (rule order_free_intros)+

lemma order_free_privy_transaction_data [order_free_intros]: "order_free de_privy_transaction_data"
  unfolding de_privy_transaction_data_def [abs_def] by (rule order_free_intros)+

lemma order_free_privy_transaction [order_free_intros]: "order_free de_privy_transaction"
  unfolding de_privy_transaction_def [abs_def] by (rule order_free_intros)+

lemma order_free_additional_signer [order_free_intros]: "order_free de_additional_signer"
  unfolding de_additional_signer_def [abs_def] by (rule order_free_intros)+

lemma order_free_privy_wallet [order_free_intros]: "order_free de_privy_wallet"
  unfolding de_privy_wallet_def [abs_def] by (rule order_free_intros)+

section \<open>Authorization signatures (authorization.rs)\<close>

record authorization_context =
  ac_private_keys :: "string list"
  ac_signatures :: "string list"
  ac_sign_fns :: "(bytes \<Rightarrow> string result) list"

record authorization_request =
  ar_version :: nat
  ar_method :: string
  ar_url :: string
  ar_body :: json
  ar_headers :: "(string \<times> string) list"

datatype authorization_config =
    Context authorization_context
  | Provider "authorization_request \<Rightarrow> authorization_context option result"

datatype request_expiry = DefaultExpiry | Milliseconds u64 | Omit

record authorization_headers =
  ah_signature :: "string option"
  ah_request_expiry :: "string option"

definition no_authorization_headers :: authorization_headers where
  "no_authorization_headers = \<lparr>ah_signature = None, ah_request_expiry = None\<rparr>"

definition default_privy_authorization_request_expiry_ms :: u64 where
  "default_privy_authorization_request_expiry_ms = 15 * 60 * 1000"

definition current_time_millis :: "('x privy_env_scheme) \<Rightarrow> trace \<Rightarrow> u64 result" where
  "current_time_millis E t =
     res_bind (map_err (\<lambda>e. SigningFailed (''Failed to compute Privy request expiry: '' @ e)) (system_time_ms E t)) (\<lambda>ms.
     Inr (word_of_nat ms))"

primrec canonicalize_json :: "('x net_env_scheme) \<Rightarrow> json \<Rightarrow> string" where
  "canonicalize_json E JNull = ''null''"
| "canonicalize_json E (JBool b) = (if b then ''true'' else ''false'')"
| "canonicalize_json E (JNumber n) = n"
| "canonicalize_json E (JString s) = json_to_string E (JString s)"
| "canonicalize_json E (JArray vs) = ''['' @ join_with '','' (map (canonicalize_json E) vs) @ '']''"
| "canonicalize_json E (JObject entries) =
     ''{'' @ join_with '','' (map (\<lambda>e. json_to_string E (JString (fst e)) @ '':'' @ snd e)
       (sort_entries (map (map_prod id (canonicalize_json E)) entries))) @ ''}''"

definition authorization_request_json :: "authorization_request \<Rightarrow> json" where
  "authorization_request_json request =
     JObject [(''version'', JNumber (show_nat (ar_version request))), (''method'', JString (ar_method request)),
       (''url'', JString (ar_url request)), (''body'', if ar_body request = JObject [] then JString [] else ar_body request),
       (''headers'', JObject (map (\<lambda>(k, v). (k, JString v)) (ar_headers request)))]"

definition format_privy_authorization_signature_payload :: "('x privy_env_scheme) \<Rightarrow> authorization_request \<Rightarrow> bytes" where
  "format_privy_authorization_signature_payload E request =
     str_bytes (canonicalize_json E (authorization_request_json request))"

text \<open>\<^verbatim>\<open>split_whitespace().collect::<String>()\<close> removes all white space.\<close>

definition parse_p256_private_key :: "('x privy_env_scheme) \<Rightarrow> string \<Rightarrow> bytes result" where
  "parse_p256_private_key E authorization_private_key =
     (let stripped = (case strip_prefix ''wallet-auth:'' authorization_private_key of
            Some rest \<Rightarrow> rest
          | None \<Rightarrow> unwrap_or authorization_private_key (strip_prefix ''wallet-api:'' authorization_private_key));
          normalized = trim stripped in
      if str_contains ''-----BEGIN'' normalized then
        map_err (\<lambda>_. InvalidPrivateKey ''Invalid Privy authorization private key'')
          (p256_from_pkcs8_pem E (str_replace (CHR 92 # ''n'') [CHR 10] normalized))
      else res_bind (map_err (\<lambda>_. InvalidPrivateKey ''Invalid Privy authorization private key encoding'')
          (b64_decode E (remove_ws normalized))) (\<lambda>der.
        map_err (\<lambda>_. InvalidPrivateKey ''Invalid Privy authorization private key'') (p256_from_pkcs8_der E der)))"

definition generate_privy_authorization_signature :: "('x privy_env_scheme) \<Rightarrow> string \<Rightarrow> bytes \<Rightarrow> string result" where
  "generate_privy_authorization_signature E authorization_private_key payload =
     res_bind (parse_p256_private_key E authorization_private_key) (\<lambda>key.
     Inr (b64_encode E (privy_p256_sign_der E key payload)))"

text \<open>The loops that push one signature after the other, with \<^verbatim>\<open>?\<close> on each.\<close>

fun push_all :: "('k \<Rightarrow> 'a result) \<Rightarrow> 'k list \<Rightarrow> 'a list \<Rightarrow> 'a list result" where
  "push_all f [] acc = Inr acc"
| "push_all f (k # ks) acc = res_bind (f k) (\<lambda>x. push_all f ks (acc @ [x]))"

definition generate_privy_authorization_signatures ::
  "('x privy_env_scheme) \<Rightarrow> authorization_request \<Rightarrow> authorization_context \<Rightarrow> string list result" where
  "generate_privy_authorization_signatures E request context =
     (let payload = format_privy_authorization_signature_payload E request in
      res_bind (push_all (\<lambda>key. generate_privy_authorization_signature E key payload) (ac_private_keys context)
        (ac_signatures context)) (\<lambda>signatures.
      push_all (\<lambda>sign_fn. sign_fn payload) (ac_sign_fns context) signatures))"

definition prepare_privy_authorization_headers ::
  "('x privy_env_scheme) \<Rightarrow> string \<Rightarrow> authorization_config option \<Rightarrow> string \<Rightarrow> string \<Rightarrow> json \<Rightarrow> u64 option \<Rightarrow> trace \<Rightarrow>
   authorization_headers result" where
  "prepare_privy_authorization_headers E app_id config method url body request_expiry_ms t =
     (case config of
        None \<Rightarrow> Inr no_authorization_headers
      | Some authorization_config \<Rightarrow>
          res_bind (case request_expiry_ms of
              None \<Rightarrow> Inr None
            | Some expiry_ms \<Rightarrow> res_bind (current_time_millis E t) (\<lambda>now. Inr (Some (show_nat (unat (now + expiry_ms))))))
            (\<lambda>request_expiry.
          let request = \<lparr>ar_version = 1, ar_method = method, ar_url = url, ar_body = body,
                ar_headers = (''privy-app-id'', app_id) #
                  (case request_expiry of Some x \<Rightarrow> [(''privy-request-expiry'', x)] | None \<Rightarrow> [])\<rparr> in
          res_bind (case authorization_config of Context context \<Rightarrow> Inr (Some context) | Provider provider \<Rightarrow> provider request)
            (\<lambda>context. case context of
               None \<Rightarrow> Inr no_authorization_headers
             | Some c \<Rightarrow>
                 res_bind (generate_privy_authorization_signatures E request c) (\<lambda>signatures.
                 if signatures = [] then Inl (ConfigError
                   ''authorization_context must include authorization_private_keys, signatures, or sign_fns'')
                 else Inr \<lparr>ah_signature = Some (join_with '','' signatures), ah_request_expiry = request_expiry\<rparr>))))"

section \<open>The signer\<close>

record privy_signer =
  pv_app_id :: string
  pv_app_secret :: string
  pv_wallet_id :: string
  pv_api_base_url :: string
  pv_client :: client_settings
  pv_public_key :: "pubkey option"
  pv_authorization_context :: "authorization_config option"
  pv_authorization_request_expiry_ms :: "u64 option"

record privy_config =
  pvc_app_id :: string
  pvc_app_secret :: string
  pvc_wallet_id :: string
  pvc_api_base_url :: "string option"
  pvc_http_client_config :: "http_client_config option"
  pvc_authorization_context :: "authorization_config option"
  pvc_authorization_request_expiry :: request_expiry

definition privy_from_config :: "('x privy_env_scheme) \<Rightarrow> privy_config \<Rightarrow> privy_signer result" where
  "privy_from_config E config =
     res_bind (build_client E (unwrap_or http_client_config_default (pvc_http_client_config config))) (\<lambda>client.
     Inr \<lparr>pv_app_id = pvc_app_id config, pv_app_secret = pvc_app_secret config, pv_wallet_id = pvc_wallet_id config,
          pv_api_base_url = normalize_base_url (unwrap_or ''https://api.privy.io/v1'' (pvc_api_base_url config)),
          pv_client = client, pv_public_key = None, pv_authorization_context = pvc_authorization_context config,
          pv_authorization_request_expiry_ms = (case pvc_authorization_request_expiry config of
              DefaultExpiry \<Rightarrow> Some default_privy_authorization_request_expiry_ms
            | Milliseconds ms \<Rightarrow> Some ms
            | Omit \<Rightarrow> None)\<rparr>)"

definition privy_new :: "('x privy_env_scheme) \<Rightarrow> string \<Rightarrow> string \<Rightarrow> string \<Rightarrow> privy_signer result" where
  "privy_new E app_id app_secret wallet_id =
     privy_from_config E \<lparr>pvc_app_id = app_id, pvc_app_secret = app_secret, pvc_wallet_id = wallet_id, pvc_api_base_url = None,
       pvc_http_client_config = None, pvc_authorization_context = None, pvc_authorization_request_expiry = DefaultExpiry\<rparr>"

definition with_authorization_context :: "privy_signer \<Rightarrow> authorization_config \<Rightarrow> privy_signer" where
  "with_authorization_context self context = self\<lparr>pv_authorization_context := Some context\<rparr>"

definition with_authorization_request_expiry_ms :: "privy_signer \<Rightarrow> u64 \<Rightarrow> privy_signer" where
  "with_authorization_request_expiry_ms self ms = self\<lparr>pv_authorization_request_expiry_ms := Some ms\<rparr>"

definition without_authorization_request_expiry :: "privy_signer \<Rightarrow> privy_signer" where
  "without_authorization_request_expiry self = self\<lparr>pv_authorization_request_expiry_ms := None\<rparr>"

definition privy_initialized_pubkey :: "privy_signer \<Rightarrow> pubkey result" where
  "privy_initialized_pubkey self =
     ok_or (ConfigError ''PrivySigner is not initialized; call init() before signing'') (pv_public_key self)"

definition get_privy_auth_header :: "('x privy_env_scheme) \<Rightarrow> privy_signer \<Rightarrow> string" where
  "get_privy_auth_header E self = ''Basic '' @ b64_encode E (str_bytes (pv_app_id self @ '':'' @ pv_app_secret self))"

definition privy_fetch_public_key :: "('x privy_env_scheme) \<Rightarrow> privy_signer \<Rightarrow> (trace, pubkey) signer_io" where
  "privy_fetch_public_key E self =
     io_bind (send_or_http_error E (pv_client self)
       (get_request (pv_api_base_url self @ ''/wallets/'' @ encode_uri_component (pv_wallet_id self))
         [(''Authorization'', get_privy_auth_header E self), (''privy-app-id'', pv_app_id self)])) (\<lambda>response.
     io_lift (res_bind (parse_json_response (privy_wallet_decode E) response ''Privy API fetch_public_key'') (\<lambda>address.
       map_err (\<lambda>_. InvalidPublicKey ''Invalid public key from Privy API'') (pubkey_from_str E address))))"

definition privy_init :: "('x privy_env_scheme) \<Rightarrow> privy_signer \<Rightarrow> (trace, privy_signer) signer_io" where
  "privy_init E self =
     io_bind (privy_fetch_public_key E self) (\<lambda>pk. io_lift (Inr (self\<lparr>pv_public_key := Some pk\<rparr>)))"

definition rpc_request :: "('x privy_env_scheme) \<Rightarrow> privy_signer \<Rightarrow> string \<Rightarrow> authorization_headers \<Rightarrow> json \<Rightarrow> http_request" where
  "rpc_request E self url headers request =
     post_json E url ([(''Authorization'', get_privy_auth_header E self), (''privy-app-id'', pv_app_id self),
       (''Content-Type'', ''application/json'')] @
       (case ah_signature headers of Some s \<Rightarrow> [(''privy-authorization-signature'', s)] | None \<Rightarrow> []) @
       (case ah_request_expiry headers of Some x \<Rightarrow> [(''privy-request-expiry'', x)] | None \<Rightarrow> [])) request"

definition post_rpc :: "('x privy_env_scheme) \<Rightarrow> privy_signer \<Rightarrow> json \<Rightarrow> (trace, string) signer_io" where
  "post_rpc E self request t =
     (let url = pv_api_base_url self @ ''/wallets/'' @ encode_uri_component (pv_wallet_id self) @ ''/rpc'' in
      io_bind (io_lift (prepare_privy_authorization_headers E (pv_app_id self) (pv_authorization_context self) ''POST'' url request
        (pv_authorization_request_expiry_ms self) t)) (\<lambda>headers.
      io_bind (send_or_http_error E (pv_client self) (rpc_request E self url headers request)) (\<lambda>response.
      io_lift (if \<not> is_success response then Inl (extract_api_error response ''Privy API rpc'')
        else res_bind (read_body_capped response) (\<lambda>body. Inr (bytes_str (utf8_lossy body)))))) t)"

definition sign_message_json :: "string \<Rightarrow> json" where
  "sign_message_json message =
     JObject [(''method'', JString ''signMessage''), (''chain_type'', JString ''solana''),
       (''params'', JObject [(''message'', JString message), (''encoding'', JString ''base64'')])]"

definition sign_transaction_json :: "string \<Rightarrow> json" where
  "sign_transaction_json transaction =
     JObject [(''method'', JString ''signTransaction''), (''chain_type'', JString ''solana''),
       (''params'', JObject [(''transaction'', JString transaction), (''encoding'', JString ''base64'')])]"

definition privy_sign_bytes :: "('x privy_env_scheme) \<Rightarrow> privy_signer \<Rightarrow> bytes \<Rightarrow> (trace, signature) signer_io" where
  "privy_sign_bytes E self serialized =
     io_bind (io_lift (privy_initialized_pubkey self)) (\<lambda>public_key.
     io_bind (post_rpc E self (sign_message_json (b64_encode E serialized))) (\<lambda>response_text.
     io_lift (res_bind (map_err SerializationError (privy_message_decode E response_text)) (\<lambda>encoded.
       res_bind (signature_from_base64 E encoded) (\<lambda>sig.
       res_bind (verify_or_reject E sig public_key serialized) (\<lambda>_. Inr sig))))))"

definition privy_obtain :: "('x privy_env_scheme) \<Rightarrow> privy_signer \<Rightarrow> versioned_transaction \<Rightarrow> (trace, signature) signer_io" where
  "privy_obtain E self transaction =
     io_bind (io_lift (privy_initialized_pubkey self)) (\<lambda>public_key.
     io_bind (io_lift (serialize_wire_transaction E transaction)) (\<lambda>unsigned_wire.
     io_bind (post_rpc E self (sign_transaction_json (b64_encode E unsigned_wire))) (\<lambda>response_text.
     io_lift (res_bind (map_err SerializationError (privy_transaction_decode E response_text)) (\<lambda>signed_transaction.
       res_bind (map_err (\<lambda>_. SerializationError ''Failed to decode signed transaction returned by Privy'')
         (b64_decode E signed_transaction)) (\<lambda>signed_wire.
       extract_and_verify_returned_signature E signed_wire public_key (message_serialize E (tx_message transaction))))))))"

text \<open>\<^verbatim>\<open>pubkey\<close> panics, modelled as \<open>None\<close>, before \<^verbatim>\<open>init\<close>.\<close>

definition privy_pubkey :: "privy_signer \<Rightarrow> pubkey option" where
  "privy_pubkey self = pv_public_key self"

definition privy_sign_and_serialize ::
  "('x privy_env_scheme) \<Rightarrow> privy_signer \<Rightarrow> (versioned_transaction \<times> trace, signed_transaction) signer_io" where
  "privy_sign_and_serialize E self = serialize_obtained E (unwrap_or (Pubkey []) (privy_pubkey self)) (privy_obtain E self)"

definition privy_sign_transaction ::
  "('x privy_env_scheme) \<Rightarrow> privy_signer \<Rightarrow> (versioned_transaction \<times> trace, sign_transaction_result) signer_io" where
  "privy_sign_transaction E self = classify_signed (privy_sign_and_serialize E self)"

definition privy_sign_message :: "('x privy_env_scheme) \<Rightarrow> privy_signer \<Rightarrow> bytes \<Rightarrow> (trace, signature) signer_io" where
  "privy_sign_message E self = privy_sign_bytes E self"

definition privy_is_available :: "('x privy_env_scheme) \<Rightarrow> privy_signer \<Rightarrow> trace \<Rightarrow> bool \<times> trace" where
  "privy_is_available E self =
     (case pv_public_key self of
        None \<Rightarrow> Pair False
      | Some public_key \<Rightarrow> io_check (privy_fetch_public_key E self) (\<lambda>pk. Pair (pk = public_key)))"

section \<open>Contract\<close>

lemma privy_signed_verified:
  "privy_sign_bytes E self m t = (Inr sig, t') \<Longrightarrow> verifies E sig (unwrap_or (Pubkey []) (privy_pubkey self)) m"
  "privy_obtain E self tx t = (Inr sig, t') \<Longrightarrow>
     verifies E sig (unwrap_or (Pubkey []) (privy_pubkey self)) (message_serialize E (tx_message tx))"
  by (auto simp: privy_sign_bytes_def privy_obtain_def privy_initialized_pubkey_def privy_pubkey_def unwrap_or_def
      result_simps dest: returned_signature_verified)

interpretation privy: verified_signer E "unwrap_or (Pubkey []) (privy_pubkey self)" "privy_sign_message E self" "privy_obtain E self"
  rewrites "attach_obtained E (unwrap_or (Pubkey []) (privy_pubkey self)) (privy_obtain E self) = privy_sign_transaction E self"
  for E :: "'x privy_env_scheme" and self :: privy_signer
  by unfold_locales (auto simp: privy_sign_message_def privy_sign_transaction_def
      privy_sign_and_serialize_def attach_obtained_def dest: privy_signed_verified)

section \<open>The signed payload does not depend on the order of keys\<close>

text \<open>Printing without sorting, which after \<open>sort_json\<close> is the canonical form.\<close>

primrec print_json :: "('x net_env_scheme) \<Rightarrow> json \<Rightarrow> string" where
  "print_json E JNull = ''null''"
| "print_json E (JBool b) = (if b then ''true'' else ''false'')"
| "print_json E (JNumber n) = n"
| "print_json E (JString s) = json_to_string E (JString s)"
| "print_json E (JArray vs) = ''['' @ join_with '','' (map (print_json E) vs) @ '']''"
| "print_json E (JObject entries) =
     ''{'' @ join_with '','' (map (\<lambda>e. json_to_string E (JString (fst e)) @ '':'' @ snd e)
       (map (map_prod id (print_json E)) entries)) @ ''}''"

lemma sort_entries_map: "sort_entries (map (map_prod id f) xs) = map (map_prod id f) (sort_entries xs)"
proof -
  have insort: "insort_key (\<lambda>e. key_order (fst e)) (map_prod id f x) (map (map_prod id f) ys) =
      map (map_prod id f) (insort_key (\<lambda>e. key_order (fst e)) x ys)" for x ys
    by (induction ys) simp_all
  show ?thesis unfolding sort_entries_def
    by (induction xs) (simp_all add: insort [unfolded id_def] id_def)
qed

lemma canonical_is_sorted_print: "canonicalize_json E v = print_json E (sort_json v)"
proof (induction v)
  case (JArray vs)
  then show ?case by (simp add: comp_def cong: map_cong)
next
  case (JObject entries)
  have "map (map_prod id (canonicalize_json E)) entries = map (map_prod id (print_json E)) (map (map_prod id sort_json) entries)"
    using JObject by (auto simp: comp_def map_prod_def split: prod.splits)
  then show ?case by (simp add: sort_entries_map del: map_map)
qed simp_all

text \<open>
  C38: The two digests a signed request carries, the body hash of the wallet tokens (CDP, Openfort) and the canonical form Privy's
  authorization signature covers, are the same for two bodies that differ only in the order of object entries at any depth.
\<close>

theorem request_payloads_ignore_key_order:
  assumes "same_json v w"
  shows "compute_req_hash E (Some v) = compute_req_hash E (Some w) \<and> canonicalize_json E v = canonicalize_json E w"
proof -
  have sorted: "sort_json v = sort_json w" by (rule sort_json_same [OF assms])
  then have "v = JNull \<longleftrightarrow> w = JNull" "v = JObject [] \<longleftrightarrow> w = JObject []"
    using sort_json_trivial [of v] sort_json_trivial [of w] by simp_all
  with sorted show ?thesis by (simp add: compute_req_hash_def canonical_is_sorted_print)
qed

theorem request_payloads_ignore_key_order_witness:
  "canonicalize_json demo_net (JObject [(''b'', JNull), (''a'', JBool True)]) =
     canonicalize_json demo_net (JObject [(''a'', JBool True), (''b'', JNull)])"
proof -
  have "same_json (JObject [(''b'', JNull), (''a'', JBool True)]) (JObject [(''a'', JBool True), (''b'', JNull)])"
    by (rule same_object [of _ "[(''a'', JBool True), (''b'', JNull)]"]) (auto intro: same_refl)
  from request_payloads_ignore_key_order [OF this] show ?thesis by (rule conjunct2)
qed

section \<open>Calls\<close>

lemma post_rpc_calls [calls_intros]: "makes_calls 1 (calls_url (pv_api_base_url self)) (post_rpc E self request)"
  unfolding post_rpc_def [abs_def] rpc_request_def Let_def
  by (rule calls_reading, rule makes_calls_mono, (rule calls_intros | simp)+)

lemma privy_sign_calls: "makes_calls 1 (calls_url (pv_api_base_url self)) (privy_sign_bytes E self m)"
  unfolding privy_sign_bytes_def by (rule makes_calls_mono, (rule calls_intros | simp)+)

lemma privy_obtain_calls: "makes_calls 1 (calls_url (pv_api_base_url self)) (privy_obtain E self tx)"
  unfolding privy_obtain_def by (rule makes_calls_mono, (rule calls_intros | simp)+)

lemma privy_available_calls: "makes_calls 1 (calls_url (pv_api_base_url self)) (privy_is_available E self)"
  unfolding privy_is_available_def privy_fetch_public_key_def by (rule makes_calls_mono, (rule calls_intros | simp)+)

end
