(* ===== verification/Turnkey_Signer.thy ===== *)
theory Turnkey_Signer
  imports Remote_Calls Response_Decoding Traits_Send
begin

text \<open>
  \<^verbatim>\<open>src/rust/src/turnkey\<close>: the Turnkey backend. Fields of \<open>turnkey_env\<close>: the wall clock, the P-256 API key (its
  construction from 32 bytes, and the DER signature it makes), URL-safe base64, and the base58 text of a public
  key. An activity result is decoded to its two optional parts.
\<close>

record turnkey_activity =
  act_status :: "string option"
  act_raw_signature :: "(string \<times> string) option"
  act_signed_transaction :: "string option"

record turnkey_private_key =
  pk_public_key :: "string option"
  pk_addresses :: "(string option \<times> string option) list"

record turnkey_env = net_env +
  tk_now_ms :: "trace \<Rightarrow> int"
  p256_from_slice :: "bytes \<Rightarrow> string + bytes"
  p256_sign_der :: "bytes \<Rightarrow> bytes \<Rightarrow> bytes"
  tk_b64url_encode :: "bytes \<Rightarrow> string"

section \<open>Responses (types.rs)\<close>

definition de_sign_result :: "json \<Rightarrow> (string \<times> string) option" where
  "de_sign_result j = do {
     m \<leftarrow> as_struct [(''r'', False), (''s'', False)] j;
     r \<leftarrow> required de_string (m ''r'');
     s \<leftarrow> required de_string (m ''s'');
     Some (r, s) }"

definition de_sign_transaction_result :: "json \<Rightarrow> string option" where
  "de_sign_transaction_result j = do {
     m \<leftarrow> as_struct [(''signedTransaction'', False)] j;
     signed_transaction \<leftarrow> required de_string (m ''signedTransaction'');
     Some signed_transaction }"

definition de_activity_result :: "json \<Rightarrow> ((string \<times> string) option \<times> string option) option" where
  "de_activity_result j = do {
     m \<leftarrow> as_struct [(''signRawPayloadResult'', False), (''signTransactionResult'', False)] j;
     raw \<leftarrow> optional de_sign_result (m ''signRawPayloadResult'');
     signed_transaction \<leftarrow> optional de_sign_transaction_result (m ''signTransactionResult'');
     Some (raw, signed_transaction) }"

definition de_activity :: "json \<Rightarrow> turnkey_activity option" where
  "de_activity j = do {
     m \<leftarrow> as_struct [(''status'', False), (''result'', False)] j;
     st \<leftarrow> optional de_string (m ''status'');
     res \<leftarrow> optional de_activity_result (m ''result'');
     Some \<lparr>act_status = st, act_raw_signature = Option.bind res fst, act_signed_transaction = Option.bind res snd\<rparr> }"

definition de_activity_response :: "json \<Rightarrow> turnkey_activity option" where
  "de_activity_response j = do {
     m \<leftarrow> as_struct [(''activity'', False)] j;
     activity \<leftarrow> required de_activity (m ''activity'');
     Some activity }"

definition de_private_key_address :: "json \<Rightarrow> (string option \<times> string option) option" where
  "de_private_key_address j = do {
     m \<leftarrow> as_struct [(''format'', False), (''address'', False)] j;
     f \<leftarrow> optional de_string (m ''format'');
     a \<leftarrow> optional de_string (m ''address'');
     Some (f, a) }"

definition de_private_key_info :: "json \<Rightarrow> turnkey_private_key option" where
  "de_private_key_info j = do {
     m \<leftarrow> as_struct [(''publicKey'', False), (''addresses'', True)] j;
     k \<leftarrow> optional de_string (m ''publicKey'');
     addresses \<leftarrow> defaulted [] (de_vec de_private_key_address) (m ''addresses'');
     Some \<lparr>pk_public_key = k, pk_addresses = addresses\<rparr> }"

definition de_get_private_key :: "json \<Rightarrow> turnkey_private_key option" where
  "de_get_private_key j = do {
     m \<leftarrow> as_struct [(''privateKey'', False)] j;
     info \<leftarrow> required de_private_key_info (m ''privateKey'');
     Some info }"

definition tk_activity_decode :: "('x net_env_scheme) \<Rightarrow> bytes \<Rightarrow> string + turnkey_activity" where
  "tk_activity_decode E = serde_from_slice E ''ActivityResponse'' de_activity_response"

definition tk_private_key_decode :: "('x net_env_scheme) \<Rightarrow> bytes \<Rightarrow> string + turnkey_private_key" where
  "tk_private_key_decode E = serde_from_slice E ''GetPrivateKeyResponse'' de_get_private_key"

lemma order_free_sign_result [order_free_intros]: "order_free de_sign_result"
  unfolding de_sign_result_def [abs_def] by (rule order_free_intros)+

lemma order_free_sign_transaction_result [order_free_intros]: "order_free de_sign_transaction_result"
  unfolding de_sign_transaction_result_def [abs_def] by (rule order_free_intros)+

lemma order_free_activity_result [order_free_intros]: "order_free de_activity_result"
  unfolding de_activity_result_def [abs_def] by (rule order_free_intros)+

lemma order_free_activity [order_free_intros]: "order_free de_activity"
  unfolding de_activity_def [abs_def] by (rule order_free_intros)+

lemma order_free_activity_response [order_free_intros]: "order_free de_activity_response"
  unfolding de_activity_response_def [abs_def] by (rule order_free_intros)+

lemma order_free_private_key_address [order_free_intros]: "order_free de_private_key_address"
  unfolding de_private_key_address_def [abs_def] by (rule order_free_intros)+

lemma order_free_private_key_info [order_free_intros]: "order_free de_private_key_info"
  unfolding de_private_key_info_def [abs_def] by (rule order_free_intros)+

lemma order_free_get_private_key [order_free_intros]: "order_free de_get_private_key"
  unfolding de_get_private_key_def [abs_def] by (rule order_free_intros)+

section \<open>Construction\<close>

definition TURNKEY_SOLANA_ADDRESS_FORMAT :: string where
  "TURNKEY_SOLANA_ADDRESS_FORMAT = ''ADDRESS_FORMAT_SOLANA''"

record turnkey_signer =
  tk_organization_id :: string
  tk_private_key_id :: string
  tk_api_public_key :: string
  tk_api_signing_key :: bytes
  tk_public_key :: pubkey
  tk_api_base_url :: string
  tk_client :: client_settings

record turnkey_config =
  tkc_api_public_key :: string
  tkc_api_private_key :: string
  tkc_organization_id :: string
  tkc_private_key_id :: string
  tkc_public_key :: string
  tkc_api_base_url :: "string option"
  tkc_http_client_config :: "http_client_config option"

definition parse_api_private_key :: "('x turnkey_env_scheme) \<Rightarrow> string \<Rightarrow> bytes result" where
  "parse_api_private_key E hex_key =
     res_bind (map_err (\<lambda>e. InvalidPrivateKey (''Failed to decode private key: '' @ e)) (hex_decode E hex_key)) (\<lambda>private_key_bytes.
     map_err (\<lambda>e. InvalidPrivateKey (''Invalid signing key: '' @ e)) (p256_from_slice E private_key_bytes))"

definition turnkey_from_config :: "('x turnkey_env_scheme) \<Rightarrow> turnkey_config \<Rightarrow> turnkey_signer result" where
  "turnkey_from_config E config =
     res_bind (map_err (\<lambda>e. InvalidPublicKey (''Invalid public key: '' @ e)) (pubkey_from_str E (tkc_public_key config))) (\<lambda>pk.
     res_bind (build_client E (unwrap_or http_client_config_default (tkc_http_client_config config))) (\<lambda>client.
     res_bind (parse_api_private_key E (tkc_api_private_key config)) (\<lambda>key.
     Inr \<lparr>tk_organization_id = tkc_organization_id config, tk_private_key_id = tkc_private_key_id config,
          tk_api_public_key = tkc_api_public_key config, tk_api_signing_key = key, tk_public_key = pk,
          tk_api_base_url = normalize_base_url (unwrap_or ''https://api.turnkey.com'' (tkc_api_base_url config)),
          tk_client = client\<rparr>)))"

definition turnkey_new ::
  "('x turnkey_env_scheme) \<Rightarrow> string \<Rightarrow> string \<Rightarrow> string \<Rightarrow> string \<Rightarrow> string \<Rightarrow> turnkey_signer result" where
  "turnkey_new E api_public_key api_private_key organization_id private_key_id public_key =
     turnkey_from_config E \<lparr>tkc_api_public_key = api_public_key, tkc_api_private_key = api_private_key,
       tkc_organization_id = organization_id, tkc_private_key_id = private_key_id, tkc_public_key = public_key,
       tkc_api_base_url = None, tkc_http_client_config = None\<rparr>"

definition create_stamp :: "('x turnkey_env_scheme) \<Rightarrow> turnkey_signer \<Rightarrow> string \<Rightarrow> string" where
  "create_stamp E self message =
     (let signature_hex = hex_encode (p256_sign_der E (tk_api_signing_key self) (str_bytes message)) in
      tk_b64url_encode E (str_bytes (json_to_string E (JObject [(''publicKey'', JString (tk_api_public_key self)),
        (''signature'', JString signature_hex), (''scheme'', JString ''SIGNATURE_SCHEME_TK_API_P256'')]))))"

definition stamped_post :: "('x turnkey_env_scheme) \<Rightarrow> turnkey_signer \<Rightarrow> string \<Rightarrow> string \<Rightarrow> http_request" where
  "stamped_post E self path body =
     post_request (tk_api_base_url self @ path)
       [(''Content-Type'', ''application/json''), (''X-Stamp'', create_stamp E self body)] body"

definition post_activity ::
  "('x turnkey_env_scheme) \<Rightarrow> turnkey_signer \<Rightarrow> string \<Rightarrow> string \<Rightarrow> (trace, turnkey_activity) signer_io" where
  "post_activity E self path body =
     io_bind (send_or_http_error E (tk_client self) (stamped_post E self path body)) (\<lambda>response.
     io_lift (res_bind (parse_json_response (tk_activity_decode E) response ''Turnkey API'') (\<lambda>activity.
       let status = unwrap_or ''<missing>'' (act_status activity) in
       if status \<noteq> ''ACTIVITY_STATUS_COMPLETED''
       then Inl (SigningFailed (''Turnkey activity is not completed (status: '' @ status @ '')''))
       else Inr activity)))"

definition sign_parameters_json :: "string \<Rightarrow> string \<Rightarrow> string \<Rightarrow> string \<Rightarrow> json" where
  "sign_parameters_json sign_with payload encoding hash_function =
     JObject [(''signWith'', JString sign_with), (''payload'', JString payload), (''encoding'', JString encoding),
       (''hashFunction'', JString hash_function)]"

definition sign_request_json :: "string \<Rightarrow> string \<Rightarrow> string \<Rightarrow> json \<Rightarrow> json" where
  "sign_request_json activity_type timestamp_ms organization_id parameters =
     JObject [(''type'', JString activity_type), (''timestampMs'', JString timestamp_ms),
       (''organizationId'', JString organization_id), (''parameters'', parameters)]"

definition sign_transaction_parameters_json :: "string \<Rightarrow> string \<Rightarrow> string \<Rightarrow> json" where
  "sign_transaction_parameters_json sign_with transaction_type unsigned_transaction =
     JObject [(''signWith'', JString sign_with), (''type'', JString transaction_type),
       (''unsignedTransaction'', JString unsigned_transaction)]"

definition sign_transaction_request_json :: "string \<Rightarrow> string \<Rightarrow> string \<Rightarrow> json \<Rightarrow> json" where
  "sign_transaction_request_json activity_type timestamp_ms organization_id parameters =
     JObject [(''type'', JString activity_type), (''timestampMs'', JString timestamp_ms),
       (''organizationId'', JString organization_id), (''parameters'', parameters)]"

definition who_am_i_json :: "string \<Rightarrow> json" where
  "who_am_i_json organization_id = JObject [(''organizationId'', JString organization_id)]"

definition get_private_key_json :: "string \<Rightarrow> string \<Rightarrow> json" where
  "get_private_key_json organization_id private_key_id =
     JObject [(''organizationId'', JString organization_id), (''privateKeyId'', JString private_key_id)]"

text \<open>\<open>r\<close> and \<open>s\<close>, each padded on the left to 32 bytes.\<close>

definition pad_left_32 :: "bytes \<Rightarrow> bytes" where
  "pad_left_32 bs = replicate (32 - length bs) 0 @ bs"

definition assemble_signature :: "('x turnkey_env_scheme) \<Rightarrow> string \<times> string \<Rightarrow> signature result" where
  "assemble_signature E rs =
     res_bind (map_err (\<lambda>e. SerializationError (''Failed to decode r: '' @ e)) (hex_decode E (fst rs))) (\<lambda>r_bytes.
     res_bind (map_err (\<lambda>e. SerializationError (''Failed to decode s: '' @ e)) (hex_decode E (snd rs))) (\<lambda>s_bytes.
     if length r_bytes > 32 \<or> length s_bytes > 32 then Inl (SigningFailed ''Invalid signature component length'')
     else Inr (Signature (pad_left_32 r_bytes @ pad_left_32 s_bytes))))"

definition turnkey_sign_bytes :: "('x turnkey_env_scheme) \<Rightarrow> turnkey_signer \<Rightarrow> bytes \<Rightarrow> (trace, signature) signer_io" where
  "turnkey_sign_bytes E self message t =
     io_bind (post_activity E self ''/public/v1/submit/sign_raw_payload''
       (json_to_string E (sign_request_json ''ACTIVITY_TYPE_SIGN_RAW_PAYLOAD_V2'' (show_int (tk_now_ms E t)) (tk_organization_id self)
         (sign_parameters_json (tk_private_key_id self) (hex_encode message) ''PAYLOAD_ENCODING_HEXADECIMAL''
           ''HASH_FUNCTION_NOT_APPLICABLE''))))
       (\<lambda>activity. io_lift
         (res_bind (ok_or (SigningFailed ''Invalid response from Turnkey API'') (act_raw_signature activity)) (\<lambda>rs.
          res_bind (assemble_signature E rs) (\<lambda>sig.
          res_bind (verify_or_reject E sig (tk_public_key self) message) (\<lambda>_. Inr sig))))) t"

definition turnkey_obtain :: "('x turnkey_env_scheme) \<Rightarrow> turnkey_signer \<Rightarrow> versioned_transaction \<Rightarrow> (trace, signature) signer_io" where
  "turnkey_obtain E self transaction t =
     io_bind (io_lift (serialize_wire_transaction E transaction)) (\<lambda>unsigned_wire.
     io_bind (post_activity E self ''/public/v1/submit/sign_transaction''
       (json_to_string E (sign_transaction_request_json ''ACTIVITY_TYPE_SIGN_TRANSACTION_V2'' (show_int (tk_now_ms E t))
         (tk_organization_id self)
         (sign_transaction_parameters_json (tk_private_key_id self) ''TRANSACTION_TYPE_SOLANA'' (hex_encode unsigned_wire)))))
       (\<lambda>activity. io_lift
         (res_bind (ok_or (SigningFailed ''Invalid response from Turnkey API'') (act_signed_transaction activity)) (\<lambda>signed_hex.
          res_bind (map_err (\<lambda>e. SerializationError (''Failed to decode signed transaction returned by Turnkey: '' @ e))
            (hex_decode E signed_hex)) (\<lambda>signed_wire.
          extract_and_verify_returned_signature E signed_wire (tk_public_key self)
            (message_serialize E (tx_message transaction))))))) t"

definition turnkey_pubkey :: "turnkey_signer \<Rightarrow> pubkey" where
  [simp]: "turnkey_pubkey self = tk_public_key self"

definition turnkey_sign_and_serialize ::
  "('x turnkey_env_scheme) \<Rightarrow> turnkey_signer \<Rightarrow> (versioned_transaction \<times> trace, signed_transaction) signer_io" where
  "turnkey_sign_and_serialize E self = serialize_obtained E (tk_public_key self) (turnkey_obtain E self)"

definition turnkey_sign_transaction ::
  "('x turnkey_env_scheme) \<Rightarrow> turnkey_signer \<Rightarrow> (versioned_transaction \<times> trace, sign_transaction_result) signer_io" where
  "turnkey_sign_transaction E self = classify_signed (turnkey_sign_and_serialize E self)"

definition turnkey_sign_message :: "('x turnkey_env_scheme) \<Rightarrow> turnkey_signer \<Rightarrow> bytes \<Rightarrow> (trace, signature) signer_io" where
  "turnkey_sign_message E self = turnkey_sign_bytes E self"

section \<open>Availability\<close>

definition post_query :: "('x turnkey_env_scheme) \<Rightarrow> turnkey_signer \<Rightarrow> string \<Rightarrow> string \<Rightarrow> trace \<Rightarrow> http_response option \<times> trace" where
  "post_query E self path body t =
     (let request = stamped_post E self path body in
      ((case http_send E (tk_client self) t request of
          Inl _ \<Rightarrow> None
        | Inr response \<Rightarrow> if is_success response then Some response else None), t @ [Requested request]))"

definition sign_with_matches_public_key :: "('x turnkey_env_scheme) \<Rightarrow> turnkey_signer \<Rightarrow> trace \<Rightarrow> bool \<times> trace" where
  "sign_with_matches_public_key E self t =
     (let expected = bs58_encode E (pubkey_bytes (tk_public_key self)) in
      if tk_private_key_id self = expected then (True, t)
      else case post_query E self ''/public/v1/query/get_private_key'' (json_to_string E
          (get_private_key_json (tk_organization_id self) (tk_private_key_id self))) t of
        (None, t1) \<Rightarrow> (False, t1)
      | (Some response, t1) \<Rightarrow>
          ((case parse_json_response (tk_private_key_decode E) response ''Turnkey API'' of
              Inl _ \<Rightarrow> False
            | Inr info \<Rightarrow>
                list_ex (\<lambda>entry. entry = (Some TURNKEY_SOLANA_ADDRESS_FORMAT, Some expected)) (pk_addresses info) \<or>
                (case pk_public_key info of
                   None \<Rightarrow> False
                 | Some encoded \<Rightarrow> hex_decode E encoded = Inr (pubkey_bytes (tk_public_key self)))), t1))"

definition turnkey_is_available :: "('x turnkey_env_scheme) \<Rightarrow> turnkey_signer \<Rightarrow> trace \<Rightarrow> bool \<times> trace" where
  "turnkey_is_available E self t =
     (case post_query E self ''/public/v1/query/whoami''
        (json_to_string E (who_am_i_json (tk_organization_id self))) t of
        (None, t1) \<Rightarrow> (False, t1)
      | (Some _, t1) \<Rightarrow> sign_with_matches_public_key E self t1)"

section \<open>Contract\<close>

lemma turnkey_signed_verified:
  "turnkey_sign_bytes E self m t = (Inr sig, t') \<Longrightarrow> verifies E sig (tk_public_key self) m"
  "turnkey_obtain E self tx t = (Inr sig, t') \<Longrightarrow> verifies E sig (tk_public_key self) (message_serialize E (tx_message tx))"
  by (auto simp: turnkey_sign_bytes_def turnkey_obtain_def result_simps dest: returned_signature_verified)

interpretation turnkey: verified_signer E "tk_public_key self" "turnkey_sign_message E self" "turnkey_obtain E self"
  rewrites "attach_obtained E (tk_public_key self) (turnkey_obtain E self) = turnkey_sign_transaction E self"
  for E :: "'x turnkey_env_scheme" and self :: turnkey_signer
  by unfold_locales (auto simp: turnkey_sign_message_def turnkey_sign_transaction_def
      turnkey_sign_and_serialize_def attach_obtained_def dest: turnkey_signed_verified)

text \<open>A shortened component still fills its half: the assembled signature has 64 bytes, \<open>r\<close> and \<open>s\<close> at the ends of the halves.\<close>

lemma assemble_signature_layout:
  assumes "hex_decode E r = Inr rb" "hex_decode E s = Inr sb" "length rb \<le> 32" "length sb \<le> 32"
  shows "\<exists>bs. assemble_signature E (r, s) = Inr (Signature bs) \<and> length bs = 64 \<and>
    drop (32 - length rb) (take 32 bs) = rb \<and> drop (64 - length sb) bs = sb"
  using assms by (simp add: assemble_signature_def pad_left_32_def)

section \<open>Calls\<close>

lemma post_activity_calls [calls_intros]:
  "prefix ''/'' path \<Longrightarrow> makes_calls 1 (calls_url (tk_api_base_url self)) (post_activity E self path body)"
  unfolding post_activity_def stamped_post_def by (rule makes_calls_mono, (rule calls_intros | simp)+)

lemma turnkey_sign_calls: "makes_calls 1 (calls_url (tk_api_base_url self)) (turnkey_sign_bytes E self m)"
  unfolding turnkey_sign_bytes_def [abs_def] by (rule calls_reading, rule makes_calls_mono, (rule calls_intros | simp)+)

lemma turnkey_obtain_calls: "makes_calls 1 (calls_url (tk_api_base_url self)) (turnkey_obtain E self tx)"
  unfolding turnkey_obtain_def [abs_def] by (rule calls_reading, rule makes_calls_mono, (rule calls_intros | simp)+)

lemma post_query_calls [calls_intros]:
  "prefix ''/'' path \<Longrightarrow> makes_calls 1 (calls_url (tk_api_base_url self)) (post_query E self path body)"
  using calls_event [of "Requested (stamped_post E self path body)" "calls_url (tk_api_base_url self)"]
  by (simp add: post_query_def [abs_def] Let_def stamped_post_def)

lemma sign_with_calls [calls_intros]: "makes_calls 1 (calls_url (tk_api_base_url self)) (sign_with_matches_public_key E self)"
proof (cases "tk_private_key_id self = bs58_encode E (pubkey_bytes (tk_public_key self))")
  case True
  then show ?thesis by (simp add: sign_with_matches_public_key_def [abs_def] makes_calls_def)
next
  case False
  then show ?thesis unfolding sign_with_matches_public_key_def [abs_def] Let_def
    by simp (rule makes_calls_mono, rule calls_case_query [OF post_query_calls calls_answer], simp_all)
qed

lemma turnkey_available_calls: "makes_calls 2 (calls_url (tk_api_base_url self)) (turnkey_is_available E self)"
  unfolding turnkey_is_available_def [abs_def]
  by (rule makes_calls_mono, (rule calls_intros | simp)+)

end
