(* ===== verification/Kms_Signers.thy ===== *)
theory Kms_Signers
  imports Remote_Calls Traits_Send
begin

text \<open>
  \<^verbatim>\<open>src/rust/src/aws_kms\<close> and \<^verbatim>\<open>gcp_kms\<close>: signing with a cloud KMS key through the vendor's SDK. A client of an SDK is
  an opaque handle, and each SDK operation is a field of \<open>kms_env\<close>, a function of the client, the effects made so far
  and the arguments.
\<close>

section \<open>The vendor SDKs\<close>

record aws_sign_request =
  aws_req_key_id :: string
  aws_req_message :: bytes
  aws_req_message_type :: string
  aws_req_signing_algorithm :: string

record key_metadata =
  meta_key_spec :: "string option"
  meta_enabled :: bool
  meta_key_usage :: "string option"

datatype gcp_algorithm = EcSignEd25519 | OtherAlgorithm string

record kms_env = net_env +
  aws_load_client :: "string option \<Rightarrow> string"
  aws_sign :: "string \<Rightarrow> trace \<Rightarrow> aws_sign_request \<Rightarrow> string + bytes option"
  aws_get_public_key :: "string \<Rightarrow> trace \<Rightarrow> string \<Rightarrow> string + bytes option"
  aws_describe_key :: "string \<Rightarrow> trace \<Rightarrow> string \<Rightarrow> string + key_metadata option"
  gcp_build_client :: "string + string"
  gcp_asymmetric_sign :: "string \<Rightarrow> trace \<Rightarrow> string \<Rightarrow> bytes \<Rightarrow> string + bytes"
  gcp_get_public_key :: "string \<Rightarrow> trace \<Rightarrow> string \<Rightarrow> string + gcp_algorithm \<times> string"

section \<open>AWS KMS\<close>

definition AWS_KMS_SIGNING_ALGORITHM :: string where "AWS_KMS_SIGNING_ALGORITHM = ''ED25519_SHA_512''"
definition AWS_KMS_KEY_SPEC :: string where "AWS_KMS_KEY_SPEC = ''ECC_NIST_EDWARDS25519''"
definition AWS_KMS_KEY_USAGE :: string where "AWS_KMS_KEY_USAGE = ''SIGN_VERIFY''"

record aws_kms_signer =
  aws_client :: string
  aws_key_id :: string
  aws_public_key :: pubkey

record aws_kms_config =
  awsc_key_id :: string
  awsc_public_key :: string
  awsc_region :: "string option"

definition aws_with_client :: "('x kms_env_scheme) \<Rightarrow> string \<Rightarrow> string \<Rightarrow> string \<Rightarrow> aws_kms_signer result" where
  "aws_with_client E client key_id public_key =
     res_bind (map_err (\<lambda>e. InvalidPublicKey (''Invalid public key: '' @ e)) (pubkey_from_str E public_key)) (\<lambda>pk.
     Inr \<lparr>aws_client = client, aws_key_id = key_id, aws_public_key = pk\<rparr>)"

definition aws_from_config :: "('x kms_env_scheme) \<Rightarrow> aws_kms_config \<Rightarrow> aws_kms_signer result" where
  "aws_from_config E config =
     res_bind (map_err (\<lambda>e. InvalidPublicKey (''Invalid public key: '' @ e)) (pubkey_from_str E (awsc_public_key config))) (\<lambda>pk.
     Inr \<lparr>aws_client = aws_load_client E (awsc_region config), aws_key_id = awsc_key_id config, aws_public_key = pk\<rparr>)"

definition aws_new :: "('x kms_env_scheme) \<Rightarrow> string \<Rightarrow> string \<Rightarrow> string option \<Rightarrow> aws_kms_signer result" where
  "aws_new E key_id public_key region =
     aws_from_config E \<lparr>awsc_key_id = key_id, awsc_public_key = public_key, awsc_region = region\<rparr>"

definition aws_sign_bytes :: "('x kms_env_scheme) \<Rightarrow> aws_kms_signer \<Rightarrow> bytes \<Rightarrow> (trace, signature) signer_io" where
  "aws_sign_bytes E self message t =
     (let request = \<lparr>aws_req_key_id = aws_key_id self, aws_req_message = message, aws_req_message_type = ''RAW'',
            aws_req_signing_algorithm = AWS_KMS_SIGNING_ALGORITHM\<rparr> in
      (res_bind (map_err (\<lambda>_. remote_api ''AWS KMS Sign operation failed'') (aws_sign E (aws_client self) t request)) (\<lambda>response.
       res_bind (ok_or (SigningFailed ''No signature in AWS KMS response'') response) (\<lambda>signature_blob.
       res_bind (signature_from_bytes signature_blob) (\<lambda>sig.
       res_bind (verify_or_reject E sig (aws_public_key self) message) (\<lambda>_. Inr sig)))),
       t @ [SdkCall ''aws:Sign'' (aws_key_id self) message]))"

definition aws_pubkey :: "aws_kms_signer \<Rightarrow> pubkey" where
  [simp]: "aws_pubkey self = aws_public_key self"

definition aws_sign_and_serialize ::
  "('x kms_env_scheme) \<Rightarrow> aws_kms_signer \<Rightarrow> (versioned_transaction \<times> trace, signed_transaction) signer_io" where
  "aws_sign_and_serialize E self =
     serialize_obtained E (aws_public_key self) (\<lambda>tx. aws_sign_bytes E self (message_serialize E (tx_message tx)))"

definition aws_sign_transaction ::
  "('x kms_env_scheme) \<Rightarrow> aws_kms_signer \<Rightarrow> (versioned_transaction \<times> trace, sign_transaction_result) signer_io" where
  "aws_sign_transaction E self = classify_signed (aws_sign_and_serialize E self)"

definition aws_sign_message :: "('x kms_env_scheme) \<Rightarrow> aws_kms_signer \<Rightarrow> bytes \<Rightarrow> (trace, signature) signer_io" where
  "aws_sign_message E self = aws_sign_bytes E self"

definition key_matches_configured_public_key :: "('x kms_env_scheme) \<Rightarrow> aws_kms_signer \<Rightarrow> trace \<Rightarrow> bool \<times> trace" where
  "key_matches_configured_public_key E self t =
     ((case aws_get_public_key E (aws_client self) t (aws_key_id self) of
         Inr (Some der) \<Rightarrow> ed25519_key_from_spki_der der = Some (pubkey_bytes (aws_public_key self))
       | _ \<Rightarrow> False), t @ [SdkCall ''aws:GetPublicKey'' (aws_key_id self) []])"

definition aws_is_available :: "('x kms_env_scheme) \<Rightarrow> aws_kms_signer \<Rightarrow> trace \<Rightarrow> bool \<times> trace" where
  "aws_is_available E self t =
     (let t1 = t @ [SdkCall ''aws:DescribeKey'' (aws_key_id self) []] in
      case aws_describe_key E (aws_client self) t (aws_key_id self) of
        Inr (Some metadata) \<Rightarrow>
          if meta_key_spec metadata = Some AWS_KMS_KEY_SPEC \<and> meta_enabled metadata \<and>
             meta_key_usage metadata = Some AWS_KMS_KEY_USAGE
          then key_matches_configured_public_key E self t1 else (False, t1)
      | _ \<Rightarrow> (False, t1))"

section \<open>Google Cloud KMS\<close>

record gcp_kms_signer =
  gcp_client :: string
  gcp_key_name :: string
  gcp_public_key :: pubkey

record gcp_kms_config =
  gcpc_key_name :: string
  gcpc_public_key :: string

definition gcp_with_client :: "('x kms_env_scheme) \<Rightarrow> string \<Rightarrow> string \<Rightarrow> string \<Rightarrow> gcp_kms_signer result" where
  "gcp_with_client E client key_name public_key =
     res_bind (map_err (\<lambda>e. InvalidPublicKey (''Invalid public key: '' @ e)) (pubkey_from_str E public_key)) (\<lambda>pk.
     Inr \<lparr>gcp_client = client, gcp_key_name = key_name, gcp_public_key = pk\<rparr>)"

definition gcp_from_config :: "('x kms_env_scheme) \<Rightarrow> gcp_kms_config \<Rightarrow> gcp_kms_signer result" where
  "gcp_from_config E config =
     res_bind (map_err (\<lambda>e. remote_api (''Failed to create KMS client: '' @ e)) (gcp_build_client E)) (\<lambda>client.
     gcp_with_client E client (gcpc_key_name config) (gcpc_public_key config))"

definition gcp_new :: "('x kms_env_scheme) \<Rightarrow> string \<Rightarrow> string \<Rightarrow> gcp_kms_signer result" where
  "gcp_new E key_name public_key = gcp_from_config E \<lparr>gcpc_key_name = key_name, gcpc_public_key = public_key\<rparr>"

definition gcp_sign_bytes :: "('x kms_env_scheme) \<Rightarrow> gcp_kms_signer \<Rightarrow> bytes \<Rightarrow> (trace, signature) signer_io" where
  "gcp_sign_bytes E self message t =
     (res_bind (map_err (\<lambda>_. remote_api ''GCP KMS Sign operation failed'')
        (gcp_asymmetric_sign E (gcp_client self) t (gcp_key_name self) message)) (\<lambda>signature_bytes.
      res_bind (signature_from_bytes signature_bytes) (\<lambda>sig.
      res_bind (verify_or_reject E sig (gcp_public_key self) message) (\<lambda>_. Inr sig))),
      t @ [SdkCall ''gcp:AsymmetricSign'' (gcp_key_name self) message])"

definition gcp_pubkey :: "gcp_kms_signer \<Rightarrow> pubkey" where
  [simp]: "gcp_pubkey self = gcp_public_key self"

definition gcp_sign_and_serialize ::
  "('x kms_env_scheme) \<Rightarrow> gcp_kms_signer \<Rightarrow> (versioned_transaction \<times> trace, signed_transaction) signer_io" where
  "gcp_sign_and_serialize E self =
     serialize_obtained E (gcp_public_key self) (\<lambda>tx. gcp_sign_bytes E self (message_serialize E (tx_message tx)))"

definition gcp_sign_transaction ::
  "('x kms_env_scheme) \<Rightarrow> gcp_kms_signer \<Rightarrow> (versioned_transaction \<times> trace, sign_transaction_result) signer_io" where
  "gcp_sign_transaction E self = classify_signed (gcp_sign_and_serialize E self)"

definition gcp_sign_message :: "('x kms_env_scheme) \<Rightarrow> gcp_kms_signer \<Rightarrow> bytes \<Rightarrow> (trace, signature) signer_io" where
  "gcp_sign_message E self = gcp_sign_bytes E self"

definition gcp_is_available :: "('x kms_env_scheme) \<Rightarrow> gcp_kms_signer \<Rightarrow> trace \<Rightarrow> bool \<times> trace" where
  "gcp_is_available E self t =
     ((case gcp_get_public_key E (gcp_client self) t (gcp_key_name self) of
         Inr (algorithm, pem) \<Rightarrow>
           algorithm = EcSignEd25519 \<and> ed25519_key_from_spki_pem E pem = Some (pubkey_bytes (gcp_public_key self))
       | Inl _ \<Rightarrow> False), t @ [SdkCall ''gcp:GetPublicKey'' (gcp_key_name self) []])"

section \<open>Contracts\<close>

lemma aws_sign_bytes_verified:
  "aws_sign_bytes E self m t = (Inr sig, t') \<Longrightarrow> verifies E sig (aws_public_key self) m"
  by (auto simp: aws_sign_bytes_def Let_def result_simps)

lemma gcp_sign_bytes_verified:
  "gcp_sign_bytes E self m t = (Inr sig, t') \<Longrightarrow> verifies E sig (gcp_public_key self) m"
  by (auto simp: gcp_sign_bytes_def result_simps)

interpretation aws_kms: verified_signer E "aws_public_key self" "aws_sign_message E self"
  "\<lambda>tx. aws_sign_bytes E self (message_serialize E (tx_message tx))"
  rewrites "attach_obtained E (aws_public_key self) (\<lambda>tx. aws_sign_bytes E self (message_serialize E (tx_message tx))) =
    aws_sign_transaction E self"
  for E :: "'x kms_env_scheme" and self :: aws_kms_signer
  by unfold_locales (auto simp: aws_sign_message_def aws_sign_transaction_def
      aws_sign_and_serialize_def attach_obtained_def dest: aws_sign_bytes_verified)

interpretation gcp_kms: verified_signer E "gcp_public_key self" "gcp_sign_message E self"
  "\<lambda>tx. gcp_sign_bytes E self (message_serialize E (tx_message tx))"
  rewrites "attach_obtained E (gcp_public_key self) (\<lambda>tx. gcp_sign_bytes E self (message_serialize E (tx_message tx))) =
    gcp_sign_transaction E self"
  for E :: "'x kms_env_scheme" and self :: gcp_kms_signer
  by unfold_locales (auto simp: gcp_sign_message_def gcp_sign_transaction_def
      gcp_sign_and_serialize_def attach_obtained_def dest: gcp_sign_bytes_verified)

section \<open>Calls\<close>

lemma aws_sign_calls: "makes_calls 1 (calls_key (aws_key_id self)) (aws_sign_bytes E self m)"
  unfolding aws_sign_bytes_def [abs_def] Let_def
  by (rule makes_calls_mono, rule calls_event) simp_all

lemma key_matches_calls: "makes_calls 1 (calls_key (aws_key_id self)) (key_matches_configured_public_key E self)"
  unfolding key_matches_configured_public_key_def [abs_def]
  by (rule makes_calls_mono, rule calls_event) simp_all

lemma aws_available_calls: "makes_calls 2 (calls_key (aws_key_id self)) (aws_is_available E self)"
  by (auto simp: makes_calls_def aws_is_available_def key_matches_configured_public_key_def Let_def calls_between_def
      split: sum.split option.split)

lemma gcp_sign_calls: "makes_calls 1 (calls_key (gcp_key_name self)) (gcp_sign_bytes E self m)"
  unfolding gcp_sign_bytes_def [abs_def] by (rule makes_calls_mono, rule calls_event) simp_all

lemma gcp_available_calls: "makes_calls 1 (calls_key (gcp_key_name self)) (gcp_is_available E self)"
  unfolding gcp_is_available_def [abs_def] by (rule makes_calls_mono, rule calls_event) simp_all

end
