(* ===== verification/Fireblocks_Signer.thy ===== *)
theory Fireblocks_Signer
  imports Wallet_Jwt Traits_Send
begin

text \<open>
  \<^verbatim>\<open>src/rust/src/fireblocks\<close>: the Fireblocks backend, signing raw bytes or, as PROGRAM_CALL, whole transactions in sign-only
  mode. The field of \<open>fireblocks_env\<close> is whether the SDK's message is of version 1.
\<close>

record vault_address =
  va_address :: string
  va_asset_id :: "string option"

record fireblocks_transaction =
  fbt_status :: string
  fbt_signed_messages :: "string list"
  fbt_tx_hash :: "string option"

record fireblocks_env = auth_env +
  message_is_v1 :: "versioned_message \<Rightarrow> bool"

definition is_v1_message :: "('x fireblocks_env_scheme) \<Rightarrow> versioned_transaction \<Rightarrow> bool" where
  "is_v1_message E transaction = message_is_v1 E (tx_message transaction)"

section \<open>Responses (types.rs)\<close>

definition de_vault_address :: "json \<Rightarrow> vault_address option" where
  "de_vault_address j = do {
     m \<leftarrow> as_struct [(''address'', False), (''assetId'', False)] j;
     a \<leftarrow> required de_string (m ''address'');
     asset \<leftarrow> optional de_string (m ''assetId'');
     Some \<lparr>va_address = a, va_asset_id = asset\<rparr> }"

definition de_vault_addresses :: "json \<Rightarrow> vault_address list option" where
  "de_vault_addresses j = do {
     m \<leftarrow> as_struct [(''addresses'', False)] j;
     addresses \<leftarrow> required (de_vec de_vault_address) (m ''addresses'');
     Some addresses }"

definition de_fireblocks_create :: "json \<Rightarrow> string option" where
  "de_fireblocks_create j = do {
     m \<leftarrow> as_struct [(''id'', False), (''status'', False)] j;
     i \<leftarrow> required de_string (m ''id'');
     _ \<leftarrow> required de_string (m ''status'');
     Some i }"

definition de_signature_data :: "json \<Rightarrow> string option" where
  "de_signature_data j = do {
     m \<leftarrow> as_struct [(''fullSig'', False)] j;
     full_sig \<leftarrow> required de_string (m ''fullSig'');
     Some full_sig }"

definition de_signed_message :: "json \<Rightarrow> string option" where
  "de_signed_message j = do {
     m \<leftarrow> as_struct [(''signature'', False)] j;
     sig \<leftarrow> required de_signature_data (m ''signature'');
     Some sig }"

definition de_fireblocks_transaction :: "json \<Rightarrow> fireblocks_transaction option" where
  "de_fireblocks_transaction j = do {
     m \<leftarrow> as_struct [(''id'', False), (''status'', False), (''subStatus'', True), (''signedMessages'', True),
       (''txHash'', True)] j;
     _ \<leftarrow> required de_string (m ''id'');
     st \<leftarrow> required de_string (m ''status'');
     _ \<leftarrow> optional de_string (m ''subStatus'');
     ms \<leftarrow> defaulted [] (de_vec de_signed_message) (m ''signedMessages'');
     hash \<leftarrow> optional de_string (m ''txHash'');
     Some \<lparr>fbt_status = st, fbt_signed_messages = ms, fbt_tx_hash = hash\<rparr> }"

definition fb_addresses_decode :: "('x net_env_scheme) \<Rightarrow> bytes \<Rightarrow> string + vault_address list" where
  "fb_addresses_decode E = serde_from_slice E ''VaultAddressesResponse'' de_vault_addresses"

definition fb_create_decode :: "('x net_env_scheme) \<Rightarrow> bytes \<Rightarrow> string + string" where
  "fb_create_decode E = serde_from_slice E ''CreateTransactionResponse'' de_fireblocks_create"

definition fb_transaction_decode :: "('x net_env_scheme) \<Rightarrow> bytes \<Rightarrow> string + fireblocks_transaction" where
  "fb_transaction_decode E = serde_from_slice E ''TransactionResponse'' de_fireblocks_transaction"

lemma order_free_vault_address [order_free_intros]: "order_free de_vault_address"
  unfolding de_vault_address_def [abs_def] by (rule order_free_intros)+

lemma order_free_vault_addresses [order_free_intros]: "order_free de_vault_addresses"
  unfolding de_vault_addresses_def [abs_def] by (rule order_free_intros)+

lemma order_free_fireblocks_create [order_free_intros]: "order_free de_fireblocks_create"
  unfolding de_fireblocks_create_def [abs_def] by (rule order_free_intros)+

lemma order_free_signature_data [order_free_intros]: "order_free de_signature_data"
  unfolding de_signature_data_def [abs_def] by (rule order_free_intros)+

lemma order_free_signed_message [order_free_intros]: "order_free de_signed_message"
  unfolding de_signed_message_def [abs_def] by (rule order_free_intros)+

lemma order_free_fireblocks_transaction [order_free_intros]: "order_free de_fireblocks_transaction"
  unfolding de_fireblocks_transaction_def [abs_def] by (rule order_free_intros)+

section \<open>Requests (types.rs)\<close>

datatype extra_parameters = RawParameters string | ProgramCallParameters string bool bool

fun extra_parameters_json :: "extra_parameters \<Rightarrow> json" where
  "extra_parameters_json (RawParameters content) =
     JObject [(''rawMessageData'', JObject [(''messages'', JArray [JObject [(''content'', JString content)]])])]"
| "extra_parameters_json (ProgramCallParameters data sign_only use_durable_nonce) =
     JObject [(''programCallData'', JString data), (''signOnly'', JBool sign_only), (''useDurableNonce'', JBool use_durable_nonce)]"

definition create_transaction_json :: "string \<Rightarrow> string \<Rightarrow> string \<Rightarrow> extra_parameters option \<Rightarrow> json" where
  "create_transaction_json asset_id operation vault_account_id extra =
     JObject ([(''assetId'', JString asset_id), (''operation'', JString operation),
       (''source'', JObject [(''type'', JString ''VAULT_ACCOUNT''), (''id'', JString vault_account_id)])] @
       (case extra of Some x \<Rightarrow> [(''extraParameters'', extra_parameters_json x)] | None \<Rightarrow> []))"

section \<open>Tokens (jwt.rs)\<close>

definition JWT_TTL_SECS :: int where "JWT_TTL_SECS = 120"
definition JWT_SKEW_LEEWAY_SECS :: int where "JWT_SKEW_LEEWAY_SECS = 60"

definition fireblocks_claims :: "('x fireblocks_env_scheme) \<Rightarrow> string \<Rightarrow> string \<Rightarrow> string \<Rightarrow> trace \<Rightarrow> json" where
  "fireblocks_claims E api_key uri body t =
     (let now = utc_timestamp E t; issued_at = now - JWT_SKEW_LEEWAY_SECS in
      JObject [(''uri'', JString uri), (''nonce'', JString (uuid_new_v4 E ''nonce'' t)), (''iat'', JNumber (show_int issued_at)),
        (''nbf'', JNumber (show_int issued_at)), (''exp'', JNumber (show_int (now + JWT_TTL_SECS))), (''sub'', JString api_key),
        (''bodyHash'', JString (hex_encode (sha256 E (str_bytes body))))])"

definition create_jwt :: "('x fireblocks_env_scheme) \<Rightarrow> string \<Rightarrow> bytes \<Rightarrow> string \<Rightarrow> string \<Rightarrow> (trace, string) signer_io" where
  "create_jwt E api_key encoding_key uri body t =
     (map_err (\<lambda>_. SigningFailed ''Failed to create JWT'')
        (jwt_encode E (JObject [(''typ'', JString ''JWT''), (''alg'', JString ''RS256'')])
          (fireblocks_claims E api_key uri body t) encoding_key), t)"

definition parse_encoding_key :: "('x fireblocks_env_scheme) \<Rightarrow> string \<Rightarrow> bytes result" where
  "parse_encoding_key E private_key_pem =
     map_err (\<lambda>_. InvalidPrivateKey ''Failed to parse RSA key'') (key_from_rsa_pem E (str_bytes private_key_pem))"

section \<open>The signer\<close>

definition FIREBLOCKS_POLL_INTERVAL_MS :: u64 where "FIREBLOCKS_POLL_INTERVAL_MS = 1000"
definition FIREBLOCKS_MAX_POLL_ATTEMPTS :: u32 where "FIREBLOCKS_MAX_POLL_ATTEMPTS = 300"

datatype signing_mode = Raw | ProgramCall

record fireblocks_signer =
  fb_api_key :: string
  fb_signing_key :: bytes
  fb_vault_account_id :: string
  fb_asset_id :: string
  fb_public_key :: "pubkey option"
  fb_api_base_url :: string
  fb_client :: client_settings
  fb_poll_interval_ms :: u64
  fb_max_poll_attempts :: u32
  fb_use_program_call :: bool

record fireblocks_config =
  fbc_api_key :: string
  fbc_private_key_pem :: string
  fbc_vault_account_id :: string
  fbc_asset_id :: "string option"
  fbc_api_base_url :: "string option"
  fbc_poll_interval_ms :: "u64 option"
  fbc_max_poll_attempts :: "u32 option"
  fbc_use_program_call :: "bool option"
  fbc_http_client_config :: "http_client_config option"

definition fireblocks_from_config :: "('x fireblocks_env_scheme) \<Rightarrow> fireblocks_config \<Rightarrow> fireblocks_signer result" where
  "fireblocks_from_config E config =
     res_bind (build_client E (unwrap_or http_client_config_default (fbc_http_client_config config))) (\<lambda>client.
     res_bind (parse_encoding_key E (fbc_private_key_pem config)) (\<lambda>key.
     let interval = unwrap_or FIREBLOCKS_POLL_INTERVAL_MS (fbc_poll_interval_ms config);
         attempts = unwrap_or FIREBLOCKS_MAX_POLL_ATTEMPTS (fbc_max_poll_attempts config) in
     if interval = 0 then Inl (ConfigError ''poll_interval_ms must be greater than 0'')
     else if attempts = 0 then Inl (ConfigError ''max_poll_attempts must be greater than 0'')
     else Inr \<lparr>fb_api_key = fbc_api_key config, fb_signing_key = key, fb_vault_account_id = fbc_vault_account_id config,
       fb_asset_id = unwrap_or ''SOL'' (fbc_asset_id config), fb_public_key = None,
       fb_api_base_url = normalize_base_url (unwrap_or ''https://api.fireblocks.io'' (fbc_api_base_url config)),
       fb_client = client, fb_poll_interval_ms = interval, fb_max_poll_attempts = attempts,
       fb_use_program_call = unwrap_or False (fbc_use_program_call config)\<rparr>))"

definition fireblocks_new :: "('x fireblocks_env_scheme) \<Rightarrow> fireblocks_config \<Rightarrow> fireblocks_signer result" where
  [simp]: "fireblocks_new E config = fireblocks_from_config E config"

definition fireblocks_initialized_pubkey :: "fireblocks_signer \<Rightarrow> pubkey result" where
  "fireblocks_initialized_pubkey self =
     ok_or (ConfigError ''FireblocksSigner is not initialized; call init() before signing'') (fb_public_key self)"

definition create_auth_token :: "('x fireblocks_env_scheme) \<Rightarrow> fireblocks_signer \<Rightarrow> string \<Rightarrow> string \<Rightarrow> (trace, string) signer_io" where
  "create_auth_token E self uri body = create_jwt E (fb_api_key self) (fb_signing_key self) uri body"

definition fireblocks_get :: "('x fireblocks_env_scheme) \<Rightarrow> fireblocks_signer \<Rightarrow> string \<Rightarrow> (trace, http_response) signer_io" where
  "fireblocks_get E self uri =
     io_bind (create_auth_token E self uri []) (\<lambda>token.
     send_or_http_error E (fb_client self) (get_request (fb_api_base_url self @ uri)
       [(''X-API-Key'', fb_api_key self), (''Authorization'', ''Bearer '' @ token)]))"

text \<open>The distinct addresses of the asset, in order: the loop of \<^verbatim>\<open>select_vault_address\<close>.\<close>

fun unique_addresses :: "string \<Rightarrow> vault_address list \<Rightarrow> string list \<Rightarrow> string list" where
  "unique_addresses asset_id [] unique = unique"
| "unique_addresses asset_id (entry # entries) unique =
     unique_addresses asset_id entries
       (if va_address entry = [] then unique
        else if (case va_asset_id entry of Some a \<Rightarrow> a \<noteq> [] \<and> a \<noteq> asset_id | None \<Rightarrow> False) then unique
        else if va_address entry \<in> set unique then unique
        else unique @ [va_address entry])"

definition select_vault_address :: "fireblocks_signer \<Rightarrow> vault_address list \<Rightarrow> string result" where
  "select_vault_address self addresses =
     (case unique_addresses (fb_asset_id self) addresses [] of
        [address] \<Rightarrow> Inr address
      | [] \<Rightarrow> Inl (InvalidPublicKey (''Fireblocks returned no address for vault account '' @ fb_vault_account_id self @
          '' asset '' @ fb_asset_id self))
      | unique \<Rightarrow> Inl (InvalidPublicKey (''Fireblocks returned '' @ show_nat (length unique) @ '' addresses for vault account '' @
          fb_vault_account_id self @ '' asset '' @ fb_asset_id self @ ''; cannot choose a signing identity'')))"

definition fireblocks_fetch_public_key :: "('x fireblocks_env_scheme) \<Rightarrow> fireblocks_signer \<Rightarrow> (trace, pubkey) signer_io" where
  "fireblocks_fetch_public_key E self =
     io_bind (fireblocks_get E self (''/v1/vault/accounts/'' @ fb_vault_account_id self @ ''/'' @ fb_asset_id self @
       ''/addresses_paginated'')) (\<lambda>response.
     io_lift (res_bind (parse_json_response (fb_addresses_decode E) response ''Fireblocks API fetch_public_key'') (\<lambda>addresses.
       res_bind (select_vault_address self addresses) (\<lambda>address.
       map_err (\<lambda>_. InvalidPublicKey ''Invalid public key from Fireblocks'') (pubkey_from_str E address)))))"

definition fireblocks_init :: "('x fireblocks_env_scheme) \<Rightarrow> fireblocks_signer \<Rightarrow> (trace, fireblocks_signer) signer_io" where
  "fireblocks_init E self =
     io_bind (fireblocks_fetch_public_key E self) (\<lambda>pk. io_lift (Inr (self\<lparr>fb_public_key := Some pk\<rparr>)))"

definition fireblocks_create ::
  "('x fireblocks_env_scheme) \<Rightarrow> fireblocks_signer \<Rightarrow> json \<Rightarrow> (trace, string) signer_io" where
  "fireblocks_create E self request =
     (let uri = ''/v1/transactions''; body = json_to_string E request in
      io_bind (create_auth_token E self uri body) (\<lambda>token.
      io_bind (send_or_http_error E (fb_client self) (post_request (fb_api_base_url self @ uri)
        [(''Content-Type'', ''application/json''), (''X-API-Key'', fb_api_key self), (''Authorization'', ''Bearer '' @ token)] body))
      (\<lambda>response. io_lift (res_bind (parse_json_response (fb_create_decode E) response ''Fireblocks API create_transaction'') (\<lambda>i.
        if trim i = [] then Inl (SerializationError ''Fireblocks create response did not include a transaction id'') else Inr i)))))"

definition fireblocks_get_transaction ::
  "('x fireblocks_env_scheme) \<Rightarrow> fireblocks_signer \<Rightarrow> string \<Rightarrow> (trace, fireblocks_transaction) signer_io" where
  "fireblocks_get_transaction E self tx_id =
     io_bind (fireblocks_get E self (''/v1/transactions/'' @ tx_id)) (\<lambda>response.
     io_lift (parse_json_response (fb_transaction_decode E) response ''Fireblocks API get_transaction''))"

definition classify_status :: "signing_mode \<Rightarrow> string \<Rightarrow> fireblocks_transaction \<Rightarrow> fireblocks_transaction poll_outcome result" where
  "classify_status mode tx_id response =
     (let status = fbt_status response in
      if mode = ProgramCall \<and> status = ''SIGNED'' \<or> mode = Raw \<and> status = ''COMPLETED'' then Inr (Done response)
      else if mode = ProgramCall \<and> status \<in> {''BROADCASTING'', ''CONFIRMING'', ''COMPLETED''} then
        Inl (BroadcastUnconfirmed (Some tx_id) None None None
          (''Fireblocks broadcast the PROGRAM_CALL despite signOnly (status '' @ status @
           ''); the transaction may already be executing''))
      else if status \<in> {''FAILED'', ''CANCELLED'', ''REJECTED'', ''BLOCKED''} then
        Inl (SigningFailed (''Transaction '' @ status @ '': '' @ tx_id))
      else Inr Pending)"

definition completion_attempt ::
  "('x fireblocks_env_scheme) \<Rightarrow> fireblocks_signer \<Rightarrow> string \<Rightarrow> signing_mode \<Rightarrow> (trace, fireblocks_transaction poll_outcome) signer_io" where
  "completion_attempt E self tx_id mode =
     io_bind (fireblocks_get_transaction E self tx_id) (\<lambda>response. io_lift (classify_status mode tx_id response))"

definition poll_for_completion ::
  "('x fireblocks_env_scheme) \<Rightarrow> fireblocks_signer \<Rightarrow> string \<Rightarrow> signing_mode \<Rightarrow> (trace, fireblocks_transaction) signer_io" where
  "poll_for_completion E self tx_id mode =
     poll_until (fb_max_poll_attempts self) (fb_poll_interval_ms self)
       (RemoteApiError (''Transaction polling timeout after '' @ show_nat (unat (fb_max_poll_attempts self)) @
          '' attempts - signing request may still complete'') (Some tx_id))
       (completion_attempt E self tx_id mode)"

definition signature_from_signed_messages :: "('x fireblocks_env_scheme) \<Rightarrow> fireblocks_transaction \<Rightarrow> signature result" where
  "signature_from_signed_messages E response =
     (case fbt_signed_messages response of
        full_sig # _ \<Rightarrow> signature_from_hex E full_sig
      | [] \<Rightarrow> Inl (SigningFailed ''No reusable signature found in response (no signed_messages)''))"

definition sign_raw_bytes :: "('x fireblocks_env_scheme) \<Rightarrow> fireblocks_signer \<Rightarrow> bytes \<Rightarrow> (trace, signature) signer_io" where
  "sign_raw_bytes E self message =
     io_bind (io_lift (fireblocks_initialized_pubkey self)) (\<lambda>public_key.
     io_bind (fireblocks_create E self (create_transaction_json (fb_asset_id self) ''RAW'' (fb_vault_account_id self)
       (Some (RawParameters (hex_encode message))))) (\<lambda>tx_id.
     io_bind (poll_for_completion E self tx_id Raw) (\<lambda>tx_response.
     io_lift (res_bind (signature_from_signed_messages E tx_response) (\<lambda>sig.
       res_bind (verify_or_reject E sig public_key message) (\<lambda>_. Inr sig))))))"

definition program_call_signature :: "('x fireblocks_env_scheme) \<Rightarrow> fireblocks_transaction \<Rightarrow> signature result" where
  "program_call_signature E tx_response =
     (case signature_from_signed_messages E tx_response of
        Inr sig \<Rightarrow> Inr sig
      | Inl no_signed_messages \<Rightarrow>
          (case fbt_tx_hash tx_response of
             Some tx_hash \<Rightarrow> signature_from_base58 E tx_hash
           | None \<Rightarrow> Inl no_signed_messages))"

definition program_call_mismatch :: string where
  "program_call_mismatch = ''Signature verification failed '' @ map char_of [0xE2, 0x80, 0x94 :: nat] @
     '' the signature returned for the PROGRAM_CALL does not match the vault public key over the submitted message''"

definition sign_program_call ::
  "('x fireblocks_env_scheme) \<Rightarrow> fireblocks_signer \<Rightarrow> versioned_transaction \<Rightarrow> bytes \<Rightarrow> (trace, signature) signer_io" where
  "sign_program_call E self transaction message_bytes =
     io_bind (io_lift (fireblocks_initialized_pubkey self)) (\<lambda>public_key.
     if is_v1_message E transaction then io_lift (Inl (SigningFailed
       (''Fireblocks PROGRAM_CALL accepts legacy and v0 messages only; a v1 message cannot be signed in this mode'')))
     else io_bind (io_lift (serialize_transaction E transaction)) (\<lambda>data.
     io_bind (fireblocks_create E self (create_transaction_json (fb_asset_id self) ''PROGRAM_CALL'' (fb_vault_account_id self)
       (Some (ProgramCallParameters data True False)))) (\<lambda>tx_id.
     io_bind (poll_for_completion E self tx_id ProgramCall) (\<lambda>tx_response.
     io_lift (res_bind (program_call_signature E tx_response) (\<lambda>sig.
       if \<not> verifies E sig public_key message_bytes then Inl (SigningFailed program_call_mismatch) else Inr sig))))))"

definition fireblocks_obtain ::
  "('x fireblocks_env_scheme) \<Rightarrow> fireblocks_signer \<Rightarrow> versioned_transaction \<Rightarrow> (trace, signature) signer_io" where
  "fireblocks_obtain E self transaction =
     (let message_bytes = message_serialize E (tx_message transaction) in
      if fb_use_program_call self then sign_program_call E self transaction message_bytes
      else sign_raw_bytes E self message_bytes)"

text \<open>\<^verbatim>\<open>pubkey\<close> panics, modelled as \<open>None\<close>, before \<^verbatim>\<open>init\<close>.\<close>

definition fireblocks_pubkey :: "fireblocks_signer \<Rightarrow> pubkey option" where
  "fireblocks_pubkey self = fb_public_key self"

definition fireblocks_sign_and_serialize ::
  "('x fireblocks_env_scheme) \<Rightarrow> fireblocks_signer \<Rightarrow> (versioned_transaction \<times> trace, signed_transaction) signer_io" where
  "fireblocks_sign_and_serialize E self =
     serialize_obtained E (unwrap_or (Pubkey []) (fireblocks_pubkey self)) (fireblocks_obtain E self)"

definition fireblocks_sign_transaction ::
  "('x fireblocks_env_scheme) \<Rightarrow> fireblocks_signer \<Rightarrow> (versioned_transaction \<times> trace, sign_transaction_result) signer_io" where
  "fireblocks_sign_transaction E self = classify_signed (fireblocks_sign_and_serialize E self)"

definition fireblocks_sign_message :: "('x fireblocks_env_scheme) \<Rightarrow> fireblocks_signer \<Rightarrow> bytes \<Rightarrow> (trace, signature) signer_io" where
  "fireblocks_sign_message E self = sign_raw_bytes E self"

definition check_availability :: "('x fireblocks_env_scheme) \<Rightarrow> fireblocks_signer \<Rightarrow> trace \<Rightarrow> bool \<times> trace" where
  "check_availability E self =
     (if fb_public_key self = None then Pair False
      else io_check (fireblocks_get E self (''/v1/vault/accounts/'' @ fb_vault_account_id self)) (\<lambda>response. Pair (is_success response)))"

definition fireblocks_is_available :: "('x fireblocks_env_scheme) \<Rightarrow> fireblocks_signer \<Rightarrow> trace \<Rightarrow> bool \<times> trace" where
  "fireblocks_is_available E self = within_deadline E AVAILABILITY_TIMEOUT (check_availability E self)"

section \<open>Contract\<close>

lemma fireblocks_signed_verified:
  "sign_raw_bytes E self m t = (Inr sig, t') \<Longrightarrow> verifies E sig (unwrap_or (Pubkey []) (fireblocks_pubkey self)) m"
  "fireblocks_obtain E self tx t = (Inr sig, t') \<Longrightarrow>
     verifies E sig (unwrap_or (Pubkey []) (fireblocks_pubkey self)) (message_serialize E (tx_message tx))"
  by (auto simp: sign_raw_bytes_def sign_program_call_def fireblocks_obtain_def fireblocks_initialized_pubkey_def
      fireblocks_pubkey_def unwrap_or_def Let_def result_simps split: if_splits)

interpretation fireblocks: verified_signer E "unwrap_or (Pubkey []) (fireblocks_pubkey self)" "fireblocks_sign_message E self"
  "fireblocks_obtain E self"
  rewrites "attach_obtained E (unwrap_or (Pubkey []) (fireblocks_pubkey self)) (fireblocks_obtain E self) =
    fireblocks_sign_transaction E self"
  for E :: "'x fireblocks_env_scheme" and self :: fireblocks_signer
  by unfold_locales (auto simp: fireblocks_sign_message_def fireblocks_sign_transaction_def
      fireblocks_sign_and_serialize_def attach_obtained_def dest: fireblocks_signed_verified)

section \<open>The vault address\<close>

text \<open>The addresses an answer lists for the configured asset; an entry that names no asset counts.\<close>

definition asset_addresses :: "string \<Rightarrow> vault_address list \<Rightarrow> string set" where
  "asset_addresses asset_id entries = va_address ` {e \<in> set entries. va_address e \<noteq> [] \<and> va_asset_id e \<in> {None, Some [], Some asset_id}}"

lemma unique_addresses_set:
  "set (unique_addresses a entries u) = set u \<union> asset_addresses a entries \<and> (distinct u \<longrightarrow> distinct (unique_addresses a entries u))"
  by (induction a entries u rule: unique_addresses.induct) (auto simp: asset_addresses_def split: option.splits)

text \<open>
  C40: A Fireblocks signer takes its identity from the vault exactly when the answer lists one single address for the asset,
  however often; no address, or two different ones, is an error, never a choice.
\<close>

theorem fireblocks_address_iff:
  "select_vault_address self entries = Inr a \<longleftrightarrow> asset_addresses (fb_asset_id self) entries = {a}"
proof -
  let ?u = "unique_addresses (fb_asset_id self) entries []"
  have u: "set ?u = asset_addresses (fb_asset_id self) entries" "distinct ?u"
    using unique_addresses_set [of "fb_asset_id self" entries "[]"] by simp_all
  have "select_vault_address self entries = Inr a \<longleftrightarrow> ?u = [a]"
    by (auto simp: select_vault_address_def split: list.splits)
  also have "\<dots> \<longleftrightarrow> set ?u = {a}"
    using u(2) by (cases ?u rule: list.exhaust) (auto simp: subset_singleton_iff)
  finally show ?thesis by (simp add: u(1))
qed

section \<open>Calls\<close>

lemma create_auth_token_calls [calls_intros]: "makes_calls 0 P (create_auth_token E self uri body)"
  by (rule calls_quiet) (simp add: create_auth_token_def create_jwt_def)

lemma fireblocks_get_calls [calls_intros]:
  "prefix ''/'' uri \<Longrightarrow> makes_calls 1 (calls_url (fb_api_base_url self)) (fireblocks_get E self uri)"
  unfolding fireblocks_get_def by (rule makes_calls_mono, (rule calls_intros | simp)+)

lemma fireblocks_create_calls [calls_intros]: "makes_calls 1 (calls_url (fb_api_base_url self)) (fireblocks_create E self request)"
  unfolding fireblocks_create_def Let_def by (rule makes_calls_mono, (rule calls_intros | simp)+)

lemma poll_for_completion_calls [calls_intros]:
  "makes_calls (unat (fb_max_poll_attempts self)) (calls_url (fb_api_base_url self)) (poll_for_completion E self tx_id mode)"
  unfolding poll_for_completion_def completion_attempt_def fireblocks_get_transaction_def
  by (rule makes_calls_mono, (rule calls_intros | simp)+)

lemma sign_raw_bytes_calls [calls_intros]:
  "makes_calls (1 + unat (fb_max_poll_attempts self)) (calls_url (fb_api_base_url self)) (sign_raw_bytes E self m)"
  unfolding sign_raw_bytes_def by (rule makes_calls_mono, (rule calls_intros | simp)+)

lemma sign_program_call_calls [calls_intros]:
  "makes_calls (1 + unat (fb_max_poll_attempts self)) (calls_url (fb_api_base_url self)) (sign_program_call E self tx m)"
  unfolding sign_program_call_def by (rule makes_calls_mono, (rule calls_intros | simp)+)

lemma fireblocks_obtain_calls:
  "makes_calls (1 + unat (fb_max_poll_attempts self)) (calls_url (fb_api_base_url self)) (fireblocks_obtain E self tx)"
  unfolding fireblocks_obtain_def Let_def by (rule makes_calls_mono, (rule calls_intros | simp)+)

lemma fireblocks_available_calls: "makes_calls 1 (calls_url (fb_api_base_url self)) (fireblocks_is_available E self)"
  unfolding fireblocks_is_available_def check_availability_def by (rule makes_calls_mono, (rule calls_intros | simp)+)

end
