(* ===== verification/Dfns_Signer.thy ===== *)
theory Dfns_Signer
  imports Remote_Calls Response_Decoding Traits_Send
begin

text \<open>
  \<^verbatim>\<open>src/rust/src/dfns\<close>: the Dfns Keys API backend with its user-action signing flow. Fields of \<open>dfns_env\<close>:
  URL-safe base64, and the four private-key formats of \<^verbatim>\<open>sign_challenge\<close>, each the signature of the given bytes
  under the key in a PEM text, or nothing when the text is no key of that format. The client's user agent is not modelled.
\<close>

record dfns_signing_key =
  dk_id :: string
  dk_scheme :: string
  dk_curve :: string
  dk_public_key :: string

record dfns_wallet =
  dw_status :: string
  dw_signing_key :: dfns_signing_key

record dfns_signature_response =
  ds_status :: string
  ds_signature :: "(string \<times> string) option"

record user_action_challenge =
  ua_challenge :: string
  ua_challenge_identifier :: string
  ua_allowed_keys :: "string list"

record dfns_env = net_env +
  b64url_encode :: "bytes \<Rightarrow> string"
  ed25519_pkcs8_sign :: "string \<Rightarrow> bytes \<Rightarrow> bytes option"
  p256_pkcs8_sign :: "string \<Rightarrow> bytes \<Rightarrow> bytes option"
  p256_sec1_sign :: "string \<Rightarrow> bytes \<Rightarrow> bytes option"
  rsa_pkcs8_sign :: "string \<Rightarrow> bytes \<Rightarrow> bytes option"

section \<open>Responses (types.rs)\<close>

definition de_dfns_signing_key :: "json \<Rightarrow> dfns_signing_key option" where
  "de_dfns_signing_key j = do {
     m \<leftarrow> as_struct [(''id'', False), (''scheme'', False), (''curve'', False), (''publicKey'', False)] j;
     i \<leftarrow> required de_string (m ''id'');
     sch \<leftarrow> required de_string (m ''scheme'');
     c \<leftarrow> required de_string (m ''curve'');
     k \<leftarrow> required de_string (m ''publicKey'');
     Some \<lparr>dk_id = i, dk_scheme = sch, dk_curve = c, dk_public_key = k\<rparr> }"

definition de_dfns_wallet :: "json \<Rightarrow> dfns_wallet option" where
  "de_dfns_wallet j = do {
     m \<leftarrow> as_struct [(''id'', False), (''status'', False), (''signingKey'', False)] j;
     _ \<leftarrow> required de_string (m ''id'');
     st \<leftarrow> required de_string (m ''status'');
     k \<leftarrow> required de_dfns_signing_key (m ''signingKey'');
     Some \<lparr>dw_status = st, dw_signing_key = k\<rparr> }"

definition de_signature_components :: "json \<Rightarrow> (string \<times> string) option" where
  "de_signature_components j = do {
     m \<leftarrow> as_struct [(''r'', False), (''s'', False)] j;
     r \<leftarrow> required de_string (m ''r'');
     s \<leftarrow> required de_string (m ''s'');
     Some (r, s) }"

definition de_dfns_signature :: "json \<Rightarrow> dfns_signature_response option" where
  "de_dfns_signature j = do {
     m \<leftarrow> as_struct [(''id'', False), (''status'', False), (''signature'', False), (''signedData'', False)] j;
     _ \<leftarrow> required de_string (m ''id'');
     st \<leftarrow> required de_string (m ''status'');
     sig \<leftarrow> optional de_signature_components (m ''signature'');
     _ \<leftarrow> optional de_string (m ''signedData'');
     Some \<lparr>ds_status = st, ds_signature = sig\<rparr> }"

definition de_allow_credential :: "json \<Rightarrow> string option" where
  "de_allow_credential j = do {
     m \<leftarrow> as_struct [(''id'', False)] j;
     i \<leftarrow> required de_string (m ''id'');
     Some i }"

definition de_allow_credentials :: "json \<Rightarrow> string list option" where
  "de_allow_credentials j = do {
     m \<leftarrow> as_struct [(''key'', False)] j;
     ks \<leftarrow> required (de_vec de_allow_credential) (m ''key'');
     Some ks }"

definition de_user_action_challenge :: "json \<Rightarrow> user_action_challenge option" where
  "de_user_action_challenge j = do {
     m \<leftarrow> as_struct [(''challenge'', False), (''challengeIdentifier'', False), (''allowCredentials'', False)] j;
     c \<leftarrow> required de_string (m ''challenge'');
     i \<leftarrow> required de_string (m ''challengeIdentifier'');
     ks \<leftarrow> required de_allow_credentials (m ''allowCredentials'');
     Some \<lparr>ua_challenge = c, ua_challenge_identifier = i, ua_allowed_keys = ks\<rparr> }"

definition de_user_action :: "json \<Rightarrow> string option" where
  "de_user_action j = do {
     m \<leftarrow> as_struct [(''userAction'', False)] j;
     action \<leftarrow> required de_string (m ''userAction'');
     Some action }"

definition dfns_wallet_decode :: "('x net_env_scheme) \<Rightarrow> bytes \<Rightarrow> string + dfns_wallet" where
  "dfns_wallet_decode E = serde_from_slice E ''GetWalletResponse'' de_dfns_wallet"

definition dfns_signature_decode :: "('x net_env_scheme) \<Rightarrow> bytes \<Rightarrow> string + dfns_signature_response" where
  "dfns_signature_decode E = serde_from_slice E ''GenerateSignatureResponse'' de_dfns_signature"

definition dfns_challenge_decode :: "('x net_env_scheme) \<Rightarrow> bytes \<Rightarrow> string + user_action_challenge" where
  "dfns_challenge_decode E = serde_from_slice E ''UserActionInitResponse'' de_user_action_challenge"

definition dfns_action_decode :: "('x net_env_scheme) \<Rightarrow> bytes \<Rightarrow> string + string" where
  "dfns_action_decode E = serde_from_slice E ''UserActionResponse'' de_user_action"

lemma order_free_dfns_signing_key [order_free_intros]: "order_free de_dfns_signing_key"
  unfolding de_dfns_signing_key_def [abs_def] by (rule order_free_intros)+

lemma order_free_dfns_wallet [order_free_intros]: "order_free de_dfns_wallet"
  unfolding de_dfns_wallet_def [abs_def] by (rule order_free_intros)+

lemma order_free_signature_components [order_free_intros]: "order_free de_signature_components"
  unfolding de_signature_components_def [abs_def] by (rule order_free_intros)+

lemma order_free_dfns_signature [order_free_intros]: "order_free de_dfns_signature"
  unfolding de_dfns_signature_def [abs_def] by (rule order_free_intros)+

lemma order_free_allow_credential [order_free_intros]: "order_free de_allow_credential"
  unfolding de_allow_credential_def [abs_def] by (rule order_free_intros)+

lemma order_free_allow_credentials [order_free_intros]: "order_free de_allow_credentials"
  unfolding de_allow_credentials_def [abs_def] by (rule order_free_intros)+

lemma order_free_user_action_challenge [order_free_intros]: "order_free de_user_action_challenge"
  unfolding de_user_action_challenge_def [abs_def] by (rule order_free_intros)+

lemma order_free_user_action [order_free_intros]: "order_free de_user_action"
  unfolding de_user_action_def [abs_def] by (rule order_free_intros)+

section \<open>Requests (types.rs)\<close>

datatype generate_signature_request = MessageRequest string | TransactionRequest string string

fun generate_signature_json :: "generate_signature_request \<Rightarrow> json" where
  "generate_signature_json (MessageRequest m) = JObject [(''kind'', JString ''Message''), (''message'', JString m)]"
| "generate_signature_json (TransactionRequest tx kind) =
     JObject [(''kind'', JString ''Transaction''), (''transaction'', JString tx), (''blockchainKind'', JString kind)]"

definition action_init_json :: "string \<Rightarrow> string \<Rightarrow> string \<Rightarrow> json" where
  "action_init_json payload http_method http_path =
     JObject [(''userActionPayload'', JString payload), (''userActionHttpMethod'', JString http_method),
       (''userActionHttpPath'', JString http_path), (''userActionServerKind'', JString ''Api'')]"

definition action_sign_json :: "string \<Rightarrow> string \<Rightarrow> string \<Rightarrow> string \<Rightarrow> json" where
  "action_sign_json challenge_identifier cred_id client_data signature =
     JObject [(''challengeIdentifier'', JString challenge_identifier), (''firstFactor'', JObject [(''kind'', JString ''Key''),
       (''credentialAssertion'', JObject [(''credId'', JString cred_id), (''clientData'', JString client_data),
         (''signature'', JString signature)])])]"

section \<open>User-action signing (auth.rs)\<close>

definition sign_challenge :: "('x dfns_env_scheme) \<Rightarrow> string \<Rightarrow> bytes \<Rightarrow> bytes result" where
  "sign_challenge E private_key_pem data =
     (case ed25519_pkcs8_sign E private_key_pem data of
        Some sig \<Rightarrow> Inr sig
      | None \<Rightarrow>
          (case p256_pkcs8_sign E private_key_pem data of
             Some sig \<Rightarrow> Inr sig
           | None \<Rightarrow>
               (case p256_sec1_sign E private_key_pem data of
                  Some sig \<Rightarrow> Inr sig
                | None \<Rightarrow> ok_or (InvalidPrivateKey ''Unsupported PEM key type (expected Ed25519, P256, or RSA)'')
                    (rsa_pkcs8_sign E private_key_pem data))))"

definition dfns_post ::
  "('x dfns_env_scheme) \<Rightarrow> client_settings \<Rightarrow> string \<Rightarrow> string \<Rightarrow> (string \<times> string) list \<Rightarrow> string \<Rightarrow>
   (trace, http_response) signer_io" where
  "dfns_post E client url auth_token extra body =
     send_or_http_error E client (post_request url
       ([(''Authorization'', ''Bearer '' @ auth_token), (''Content-Type'', ''application/json'')] @ extra) body)"

definition sign_user_action ::
  "('x dfns_env_scheme) \<Rightarrow> client_settings \<Rightarrow> string \<Rightarrow> string \<Rightarrow> string \<Rightarrow> string \<Rightarrow> string \<Rightarrow> string \<Rightarrow> string \<Rightarrow>
   (trace, string) signer_io" where
  "sign_user_action E client api_base_url auth_token cred_id private_key_pem http_method http_path body =
     io_bind (dfns_post E client (api_base_url @ ''/auth/action/init'') auth_token []
       (json_to_string E (action_init_json body http_method http_path))) (\<lambda>response.
     io_bind (io_lift (parse_json_response (dfns_challenge_decode E) response ''Dfns auth/action/init'')) (\<lambda>challenge.
     if cred_id \<notin> set (ua_allowed_keys challenge)
     then io_lift (Inl (ConfigError (''Credential '' @ cred_id @ '' not in allowed credentials'')))
     else let client_data_bytes = str_bytes (json_to_string E
            (JObject [(''type'', JString ''key.get''), (''challenge'', JString (ua_challenge challenge))])) in
     io_bind (io_lift (sign_challenge E private_key_pem client_data_bytes)) (\<lambda>signature_bytes.
     io_bind (dfns_post E client (api_base_url @ ''/auth/action'') auth_token []
       (json_to_string E (action_sign_json (ua_challenge_identifier challenge) cred_id
         (b64url_encode E client_data_bytes) (b64url_encode E signature_bytes)))) (\<lambda>response2.
     io_lift (parse_json_response (dfns_action_decode E) response2 ''Dfns auth/action'')))))"

section \<open>The signer\<close>

record dfns_signer =
  df_auth_token :: string
  df_cred_id :: string
  df_private_key_pem :: string
  df_wallet_id :: string
  df_key_id :: string
  df_public_key :: "pubkey option"
  df_api_base_url :: string
  df_client :: client_settings

record dfns_config =
  dfc_auth_token :: string
  dfc_cred_id :: string
  dfc_private_key_pem :: string
  dfc_wallet_id :: string
  dfc_api_base_url :: "string option"
  dfc_http_client_config :: "http_client_config option"

definition dfns_from_config :: "('x dfns_env_scheme) \<Rightarrow> dfns_config \<Rightarrow> dfns_signer result" where
  "dfns_from_config E config =
     (let client = (client_builder (unwrap_or http_client_config_default (dfc_http_client_config config)))
            \<lparr>client_user_agent := Some ''solana-keychain''\<rparr> in
      res_bind (map_err (\<lambda>e. ConfigError (''Failed to build HTTP client: '' @ e)) (client_build E client)) (\<lambda>_.
      Inr \<lparr>df_auth_token = dfc_auth_token config, df_cred_id = dfc_cred_id config,
          df_private_key_pem = dfc_private_key_pem config, df_wallet_id = dfc_wallet_id config, df_key_id = [],
          df_public_key = None,
          df_api_base_url = normalize_base_url (unwrap_or ''https://api.dfns.io'' (dfc_api_base_url config)),
          df_client = client\<rparr>))"

definition dfns_new :: "('x dfns_env_scheme) \<Rightarrow> dfns_config \<Rightarrow> dfns_signer result" where
  [simp]: "dfns_new E config = dfns_from_config E config"

definition dfns_initialized_pubkey :: "dfns_signer \<Rightarrow> pubkey result" where
  "dfns_initialized_pubkey self =
     ok_or (ConfigError ''DfnsSigner is not initialized; call init() before signing'') (df_public_key self)"

definition get_wallet :: "('x dfns_env_scheme) \<Rightarrow> dfns_signer \<Rightarrow> (trace, dfns_wallet) signer_io" where
  "get_wallet E self =
     io_bind (send_or_http_error E (df_client self)
       (get_request (df_api_base_url self @ ''/wallets/'' @ encode_uri_component (df_wallet_id self))
         [(''Authorization'', ''Bearer '' @ df_auth_token self)])) (\<lambda>response.
     io_lift (parse_json_response (dfns_wallet_decode E) response ''Dfns get_wallet''))"

text \<open>What \<^verbatim>\<open>init\<close> takes from a wallet: the key's id and its 32 bytes.\<close>

definition dfns_wallet_key :: "('x dfns_env_scheme) \<Rightarrow> dfns_wallet \<Rightarrow> (string \<times> pubkey) result" where
  "dfns_wallet_key E w =
     (let k = dw_signing_key w in
      if dw_status w \<noteq> ''Active'' then Inl (ConfigError (''Wallet is not active: '' @ dw_status w))
      else if dk_scheme k \<noteq> ''EdDSA'' then Inl (ConfigError (''Unsupported key scheme: '' @ dk_scheme k @ '' (expected EdDSA)''))
      else if dk_curve k \<noteq> ''ed25519'' then Inl (ConfigError (''Unsupported key curve: '' @ dk_curve k @ '' (expected ed25519)''))
      else res_bind (map_err (\<lambda>e. InvalidPublicKey (''Failed to decode hex public key: '' @ e)) (hex_decode E (dk_public_key k)))
        (\<lambda>pubkey_bytes. if length pubkey_bytes = 32 then Inr (dk_id k, Pubkey pubkey_bytes)
          else Inl (InvalidPublicKey ''Invalid public key length (expected 32 bytes)'')))"

definition dfns_init :: "('x dfns_env_scheme) \<Rightarrow> dfns_signer \<Rightarrow> (trace, dfns_signer) signer_io" where
  "dfns_init E self =
     io_bind (get_wallet E self) (\<lambda>w.
     io_bind (io_lift (dfns_wallet_key E w)) (\<lambda>(key_id, pk).
     io_lift (Inr (self\<lparr>df_public_key := Some pk, df_key_id := key_id\<rparr>))))"

definition combine_signature :: "('x dfns_env_scheme) \<Rightarrow> string \<Rightarrow> string \<Rightarrow> signature result" where
  "combine_signature E r s =
     res_bind (map_err (\<lambda>e. SerializationError (''Failed to decode signature r: '' @ e))
       (hex_decode E (unwrap_or r (strip_prefix ''0x'' r)))) (\<lambda>r_bytes.
     res_bind (map_err (\<lambda>e. SerializationError (''Failed to decode signature s: '' @ e))
       (hex_decode E (unwrap_or s (strip_prefix ''0x'' s)))) (\<lambda>s_bytes.
     signature_from_bytes (r_bytes @ s_bytes)))"

definition dfns_signature_answer :: "('x dfns_env_scheme) \<Rightarrow> http_response \<Rightarrow> signature result" where
  "dfns_signature_answer E response =
     res_bind (parse_json_response (dfns_signature_decode E) response ''Dfns generate_signature'') (\<lambda>sig_response.
     if ds_status sig_response = ''Failed'' then Inl (SigningFailed ''Dfns signing failed'')
     else if ds_status sig_response \<noteq> ''Signed'' then Inl (SigningFailed
       (''Unexpected signature status: '' @ ds_status sig_response @ '' (may require policy approval)''))
     else res_bind (ok_or (SigningFailed ''Signature components missing from response'') (ds_signature sig_response)) (\<lambda>(r, s).
       combine_signature E r s))"

definition send_signature_request ::
  "('x dfns_env_scheme) \<Rightarrow> dfns_signer \<Rightarrow> generate_signature_request \<Rightarrow> (trace, signature) signer_io" where
  "send_signature_request E self request_body =
     (let http_path = ''/keys/'' @ encode_uri_component (df_key_id self) @ ''/signatures'';
          body_json = json_to_string E (generate_signature_json request_body) in
      io_bind (sign_user_action E (df_client self) (df_api_base_url self) (df_auth_token self) (df_cred_id self)
        (df_private_key_pem self) ''POST'' http_path body_json) (\<lambda>user_action.
      io_bind (dfns_post E (df_client self) (df_api_base_url self @ http_path) (df_auth_token self)
        [(''x-dfns-useraction'', user_action)] body_json) (\<lambda>response.
      io_lift (dfns_signature_answer E response))))"

definition dfns_sign_bytes :: "('x dfns_env_scheme) \<Rightarrow> dfns_signer \<Rightarrow> bytes \<Rightarrow> (trace, signature) signer_io" where
  "dfns_sign_bytes E self message =
     io_bind (io_lift (dfns_initialized_pubkey self)) (\<lambda>public_key.
     io_bind (send_signature_request E self (MessageRequest (''0x'' @ hex_encode message))) (\<lambda>sig.
     io_lift (res_bind (verify_or_reject E sig public_key message) (\<lambda>_. Inr sig))))"

definition sign_transaction_bytes ::
  "('x dfns_env_scheme) \<Rightarrow> dfns_signer \<Rightarrow> versioned_transaction \<Rightarrow> (trace, signature) signer_io" where
  "sign_transaction_bytes E self transaction =
     io_bind (io_lift (serialize_wire_transaction E transaction)) (\<lambda>tx_bytes.
     io_bind (io_lift (dfns_initialized_pubkey self)) (\<lambda>public_key.
     io_bind (send_signature_request E self (TransactionRequest (''0x'' @ hex_encode tx_bytes) ''Solana'')) (\<lambda>sig.
     io_lift (res_bind (verify_or_reject E sig public_key (message_serialize E (tx_message transaction))) (\<lambda>_. Inr sig)))))"

text \<open>\<^verbatim>\<open>pubkey\<close> panics, modelled as \<open>None\<close>, before \<^verbatim>\<open>init\<close>.\<close>

definition dfns_pubkey :: "dfns_signer \<Rightarrow> pubkey option" where
  "dfns_pubkey self = df_public_key self"

definition dfns_sign_and_serialize ::
  "('x dfns_env_scheme) \<Rightarrow> dfns_signer \<Rightarrow> (versioned_transaction \<times> trace, signed_transaction) signer_io" where
  "dfns_sign_and_serialize E self =
     serialize_obtained E (unwrap_or (Pubkey []) (dfns_pubkey self)) (sign_transaction_bytes E self)"

definition dfns_sign_transaction ::
  "('x dfns_env_scheme) \<Rightarrow> dfns_signer \<Rightarrow> (versioned_transaction \<times> trace, sign_transaction_result) signer_io" where
  "dfns_sign_transaction E self = classify_signed (dfns_sign_and_serialize E self)"

definition dfns_sign_message :: "('x dfns_env_scheme) \<Rightarrow> dfns_signer \<Rightarrow> bytes \<Rightarrow> (trace, signature) signer_io" where
  "dfns_sign_message E self = dfns_sign_bytes E self"

definition dfns_is_available :: "('x dfns_env_scheme) \<Rightarrow> dfns_signer \<Rightarrow> trace \<Rightarrow> bool \<times> trace" where
  "dfns_is_available E self =
     io_check (get_wallet E self) (\<lambda>w.
     Pair (dw_status w = ''Active'' \<and> dk_scheme (dw_signing_key w) = ''EdDSA'' \<and> dk_curve (dw_signing_key w) = ''ed25519''))"

section \<open>Contract\<close>

lemma dfns_signed_verified:
  "dfns_sign_bytes E self m t = (Inr sig, t') \<Longrightarrow> verifies E sig (unwrap_or (Pubkey []) (dfns_pubkey self)) m"
  "sign_transaction_bytes E self tx t = (Inr sig, t') \<Longrightarrow>
     verifies E sig (unwrap_or (Pubkey []) (dfns_pubkey self)) (message_serialize E (tx_message tx))"
  by (auto simp: dfns_sign_bytes_def sign_transaction_bytes_def dfns_initialized_pubkey_def dfns_pubkey_def unwrap_or_def
      result_simps)

interpretation dfns: verified_signer E "unwrap_or (Pubkey []) (dfns_pubkey self)" "dfns_sign_message E self"
  "sign_transaction_bytes E self"
  rewrites "attach_obtained E (unwrap_or (Pubkey []) (dfns_pubkey self)) (sign_transaction_bytes E self) =
    dfns_sign_transaction E self"
  for E :: "'x dfns_env_scheme" and self :: dfns_signer
  by unfold_locales (auto simp: dfns_sign_message_def dfns_sign_transaction_def
      dfns_sign_and_serialize_def attach_obtained_def dest: dfns_signed_verified)

section \<open>Calls\<close>

lemma send_signature_request_calls [calls_intros]:
  "makes_calls 3 (calls_url (df_api_base_url self)) (send_signature_request E self request)"
  unfolding send_signature_request_def sign_user_action_def dfns_post_def Let_def
  by (rule makes_calls_mono, (rule calls_intros | simp)+)

lemma dfns_sign_calls: "makes_calls 3 (calls_url (df_api_base_url self)) (dfns_sign_bytes E self m)"
  unfolding dfns_sign_bytes_def by (rule makes_calls_mono, (rule calls_intros | simp)+)

lemma dfns_obtain_calls: "makes_calls 3 (calls_url (df_api_base_url self)) (sign_transaction_bytes E self tx)"
  unfolding sign_transaction_bytes_def by (rule makes_calls_mono, (rule calls_intros | simp)+)

lemma dfns_available_calls: "makes_calls 1 (calls_url (df_api_base_url self)) (dfns_is_available E self)"
  unfolding dfns_is_available_def get_wallet_def by (rule makes_calls_mono, (rule calls_intros | simp)+)

end
