(* ===== verification/Para_Signer.thy ===== *)
theory Para_Signer
  imports Remote_Calls Response_Decoding Traits_Send
begin

text \<open>
  \<^verbatim>\<open>src/rust/src/para\<close>: the Para wallet backend. The
  warning that \<^verbatim>\<open>init\<close> logs for an inactive wallet is no effect of the model.
\<close>

record para_wallet_response =
  pw_address :: "string option"
  pw_wallet_type :: string
  pw_status :: string

definition de_para_wallet :: "json \<Rightarrow> para_wallet_response option" where
  "de_para_wallet j = do {
     m \<leftarrow> as_struct [(''id'', False), (''address'', False), (''type'', False), (''status'', False)] j;
     _ \<leftarrow> required de_string (m ''id'');
     a \<leftarrow> optional de_string (m ''address'');
     ty \<leftarrow> required de_string (m ''type'');
     st \<leftarrow> required de_string (m ''status'');
     Some \<lparr>pw_address = a, pw_wallet_type = ty, pw_status = st\<rparr> }"

definition de_para_sign :: "json \<Rightarrow> string option option" where
  "de_para_sign j = do {
     m \<leftarrow> as_struct [(''signature'', False)] j;
     sig \<leftarrow> optional de_string (m ''signature'');
     Some sig }"

definition para_wallet_decode :: "('x net_env_scheme) \<Rightarrow> bytes \<Rightarrow> string + para_wallet_response" where
  "para_wallet_decode E = serde_from_slice E ''WalletResponse'' de_para_wallet"

definition para_sign_decode :: "('x net_env_scheme) \<Rightarrow> bytes \<Rightarrow> string + string option" where
  "para_sign_decode E = serde_from_slice E ''SignRawResponse'' de_para_sign"

lemma order_free_para_wallet [order_free_intros]: "order_free de_para_wallet"
  unfolding de_para_wallet_def [abs_def] by (rule order_free_intros)+

lemma order_free_para_sign [order_free_intros]: "order_free de_para_sign"
  unfolding de_para_sign_def [abs_def] by (rule order_free_intros)+

definition sign_raw_json :: "string \<Rightarrow> json" where
  "sign_raw_json data = JObject [(''data'', JString data), (''encoding'', JString ''hex'')]"

definition PARA_BASE_URL :: string where "PARA_BASE_URL = ''https://api.getpara.com''"

record para_signer =
  pa_api_key :: string
  pa_wallet_id :: string
  pa_api_base_url :: string
  pa_client :: client_settings
  pa_public_key :: "pubkey option"

record para_config =
  pac_api_key :: string
  pac_wallet_id :: string
  pac_api_base_url :: "string option"

definition is_ascii_hexdigit :: "char \<Rightarrow> bool" where
  "is_ascii_hexdigit c = (let n = of_char c :: nat in 48 \<le> n \<and> n \<le> 57 \<or> 65 \<le> n \<and> n \<le> 70 \<or> 97 \<le> n \<and> n \<le> 102)"

definition is_valid_uuid :: "string \<Rightarrow> bool" where
  "is_valid_uuid s \<longleftrightarrow>
     length s = 36 \<and> s ! 8 = CHR ''-'' \<and> s ! 13 = CHR ''-'' \<and> s ! 18 = CHR ''-'' \<and> s ! 23 = CHR ''-'' \<and>
     list_all is_ascii_hexdigit (filter (\<lambda>c. c \<noteq> CHR ''-'') s)"

definition para_from_config :: "('x net_env_scheme) \<Rightarrow> para_config \<Rightarrow> para_signer result" where
  "para_from_config E config =
     (if pac_api_key config = [] \<or> pac_wallet_id config = [] then Inl (ConfigError ''apiKey and walletId must not be empty'')
      else if \<not> prefix ''sk_'' (pac_api_key config)
      then Inl (ConfigError ''apiKey must be a Para secret key (starts with sk_)'')
      else if \<not> is_valid_uuid (pac_wallet_id config) then Inl (ConfigError ''walletId must be a valid UUID'')
      else res_bind (case pac_api_base_url config of Some url \<Rightarrow> validate_https_url E url | None \<Rightarrow> Inr ()) (\<lambda>_.
        res_bind (build_client E http_client_config_default) (\<lambda>client.
        Inr \<lparr>pa_api_key = pac_api_key config, pa_wallet_id = pac_wallet_id config,
             pa_api_base_url = normalize_base_url (unwrap_or PARA_BASE_URL (pac_api_base_url config)),
             pa_client = client, pa_public_key = None\<rparr>)))"

definition para_new :: "('x net_env_scheme) \<Rightarrow> string \<Rightarrow> string \<Rightarrow> string option \<Rightarrow> para_signer result" where
  "para_new E api_key wallet_id api_base_url =
     para_from_config E \<lparr>pac_api_key = api_key, pac_wallet_id = wallet_id, pac_api_base_url = api_base_url\<rparr>"

definition para_fetch_wallet :: "('x net_env_scheme) \<Rightarrow> para_signer \<Rightarrow> (trace, para_wallet_response) signer_io" where
  "para_fetch_wallet E self =
     io_bind (send_or_http_error E (pa_client self)
       (get_request (pa_api_base_url self @ ''/v1/wallets/'' @ pa_wallet_id self) [(''X-API-Key'', pa_api_key self)])) (\<lambda>response.
     io_lift (parse_json_response (para_wallet_decode E) response ''Para API fetch_wallet''))"

definition para_init :: "('x net_env_scheme) \<Rightarrow> para_signer \<Rightarrow> (trace, para_signer) signer_io" where
  "para_init E self =
     io_bind (para_fetch_wallet E self) (\<lambda>wallet.
     io_lift (if \<not> eq_ignore_ascii_case (pw_wallet_type wallet) ''SOLANA''
       then Inl (ConfigError (''Expected SOLANA wallet, got: '' @ pw_wallet_type wallet))
       else res_bind (ok_or (ConfigError ''Wallet does not have an address (may still be creating)'') (pw_address wallet)) (\<lambda>address.
         res_bind (map_err (\<lambda>_. InvalidPublicKey ''Invalid Solana public key from Para API'') (pubkey_from_str E address)) (\<lambda>pk.
         Inr (self\<lparr>pa_public_key := Some pk\<rparr>)))))"

definition para_initialized_pubkey :: "para_signer \<Rightarrow> pubkey result" where
  "para_initialized_pubkey self =
     ok_or (ConfigError ''ParaSigner is not initialized; call init() before signing'') (pa_public_key self)"

definition para_sign_bytes :: "('x net_env_scheme) \<Rightarrow> para_signer \<Rightarrow> bytes \<Rightarrow> (trace, signature) signer_io" where
  "para_sign_bytes E self data =
     io_bind (io_lift (para_initialized_pubkey self)) (\<lambda>public_key.
     io_bind (send_or_http_error E (pa_client self)
       (post_json E (pa_api_base_url self @ ''/v1/wallets/'' @ pa_wallet_id self @ ''/sign-raw'') [(''X-API-Key'', pa_api_key self)]
         (sign_raw_json (hex_encode data)))) (\<lambda>response.
     io_lift (res_bind (parse_json_response (para_sign_decode E) response ''Para API sign_bytes'') (\<lambda>sign_response.
       res_bind (ok_or (SigningFailed ''Missing signature in response'') sign_response) (\<lambda>hex_sig.
       res_bind (signature_from_hex E hex_sig) (\<lambda>sig.
       res_bind (verify_or_reject E sig public_key data) (\<lambda>_. Inr sig)))))))"

text \<open>\<^verbatim>\<open>pubkey\<close> panics, modelled as \<open>None\<close>, before \<^verbatim>\<open>init\<close>; \<^verbatim>\<open>sign_transaction\<close> gets that far only after it.\<close>

definition para_pubkey :: "para_signer \<Rightarrow> pubkey option" where
  "para_pubkey self = pa_public_key self"

definition para_sign_and_serialize ::
  "('x net_env_scheme) \<Rightarrow> para_signer \<Rightarrow> (versioned_transaction \<times> trace, signed_transaction) signer_io" where
  "para_sign_and_serialize E self =
     serialize_obtained E (unwrap_or (Pubkey []) (para_pubkey self)) (\<lambda>tx. para_sign_bytes E self (message_serialize E (tx_message tx)))"

definition para_sign_transaction ::
  "('x net_env_scheme) \<Rightarrow> para_signer \<Rightarrow> (versioned_transaction \<times> trace, sign_transaction_result) signer_io" where
  "para_sign_transaction E self = classify_signed (para_sign_and_serialize E self)"

definition para_sign_message :: "('x net_env_scheme) \<Rightarrow> para_signer \<Rightarrow> bytes \<Rightarrow> (trace, signature) signer_io" where
  "para_sign_message E self = para_sign_bytes E self"

definition para_is_available :: "('x net_env_scheme) \<Rightarrow> para_signer \<Rightarrow> trace \<Rightarrow> bool \<times> trace" where
  "para_is_available E self =
     within_deadline E AVAILABILITY_TIMEOUT (io_check (para_fetch_wallet E self) (\<lambda>wallet.
       Pair (eq_ignore_ascii_case (pw_wallet_type wallet) ''SOLANA'' \<and>
         (eq_ignore_ascii_case (pw_status wallet) ''ACTIVE'' \<or> eq_ignore_ascii_case (pw_status wallet) ''READY''))))"

section \<open>Contract\<close>

lemma para_sign_bytes_verified:
  "para_sign_bytes E self m t = (Inr sig, t') \<Longrightarrow> verifies E sig (unwrap_or (Pubkey []) (para_pubkey self)) m"
  by (auto simp: para_sign_bytes_def para_initialized_pubkey_def para_pubkey_def unwrap_or_def result_simps)

interpretation para: verified_signer E "unwrap_or (Pubkey []) (para_pubkey self)" "para_sign_message E self"
  "\<lambda>tx. para_sign_bytes E self (message_serialize E (tx_message tx))"
  rewrites "attach_obtained E (unwrap_or (Pubkey []) (para_pubkey self))
      (\<lambda>tx. para_sign_bytes E self (message_serialize E (tx_message tx))) = para_sign_transaction E self"
  for E :: "'x net_env_scheme" and self :: para_signer
  by unfold_locales (auto simp: para_sign_message_def para_sign_transaction_def
      para_sign_and_serialize_def attach_obtained_def dest: para_sign_bytes_verified)

text \<open>
  The check removes every dash before it looks at the digits, so dashes in place of digits pass too: 36 dashes are a
  valid wallet id.
\<close>

lemma dashes_are_a_valid_uuid: "is_valid_uuid (replicate 36 (CHR ''-''))"
  by (simp add: is_valid_uuid_def)

section \<open>Calls\<close>

lemma para_sign_calls: "makes_calls 1 (calls_url (pa_api_base_url self)) (para_sign_bytes E self m)"
  unfolding para_sign_bytes_def by (rule makes_calls_mono, (rule calls_intros | simp)+)

lemma para_available_calls: "makes_calls 1 (calls_url (pa_api_base_url self)) (para_is_available E self)"
  unfolding para_is_available_def para_fetch_wallet_def by (rule makes_calls_mono, (rule calls_intros | simp)+)

end
