(* ===== verification/Crossmint.thy ===== *)
theory Crossmint
  imports Remote_Calls Response_Decoding Traits_Send
begin

text \<open>
  \<^verbatim>\<open>src/rust/src/crossmint\<close>: the Crossmint managed-wallet backend, which creates a transaction at the provider,
  answers its approval challenge once, polls until it has landed and reports the landed transaction.

  Fields of \<open>crossmint_env\<close>: the error texts of \<^verbatim>\<open>serde_json::from_value\<close>, HKDF-SHA256, and the
  Ed25519 operations of \<^verbatim>\<open>ed25519_dalek\<close>, with a signing key as its 32 bytes.
\<close>

section \<open>Types (types.rs)\<close>

record wallet_response =
  wallet_chain_type :: string
  wallet_type :: string
  wallet_address :: string

record pending_approval =
  approval_message :: "string option"
  approval_locator :: "string option"

record on_chain_data =
  on_chain_transaction :: "string option"
  on_chain_tx_id :: "string option"

record transaction_response =
  resp_id :: string
  resp_state :: string
  resp_on_chain :: "on_chain_data option"
  resp_approvals :: "pending_approval list option"
  resp_error :: "json option"

record crossmint_env = net_env +
  value_error :: "string \<Rightarrow> json \<Rightarrow> string"
  hkdf_expand :: "bytes \<Rightarrow> bytes \<Rightarrow> bytes \<Rightarrow> string + bytes"
  ed25519_verifying_key :: "bytes \<Rightarrow> bytes"
  ed25519_sign :: "bytes \<Rightarrow> bytes \<Rightarrow> bytes"

definition de_wallet :: "json \<Rightarrow> wallet_response option" where
  "de_wallet j = do {
     m \<leftarrow> as_struct [(''chainType'', False), (''type'', False), (''address'', False)] j;
     c \<leftarrow> required de_string (m ''chainType'');
     ty \<leftarrow> required de_string (m ''type'');
     a \<leftarrow> required de_string (m ''address'');
     Some \<lparr>wallet_chain_type = c, wallet_type = ty, wallet_address = a\<rparr> }"

definition de_approval_signer :: "json \<Rightarrow> string option option" where
  "de_approval_signer j = do {
     m \<leftarrow> as_struct [(''locator'', True)] j;
     l \<leftarrow> optional de_string (m ''locator'');
     Some l }"

definition de_pending_approval :: "json \<Rightarrow> pending_approval option" where
  "de_pending_approval j = do {
     m \<leftarrow> as_struct [(''message'', True), (''signer'', True)] j;
     msg \<leftarrow> optional de_string (m ''message'');
     sg \<leftarrow> optional de_approval_signer (m ''signer'');
     Some \<lparr>approval_message = msg, approval_locator = Option.bind sg id\<rparr> }"

definition de_approvals :: "json \<Rightarrow> pending_approval list option" where
  "de_approvals j = do {
     m \<leftarrow> as_struct [(''pending'', True)] j;
     ps \<leftarrow> defaulted [] (de_vec de_pending_approval) (m ''pending'');
     Some ps }"

definition de_on_chain :: "json \<Rightarrow> on_chain_data option" where
  "de_on_chain j = do {
     m \<leftarrow> as_struct [(''transaction'', True), (''txId'', True)] j;
     tx \<leftarrow> optional de_string (m ''transaction'');
     i \<leftarrow> optional de_string (m ''txId'');
     Some \<lparr>on_chain_transaction = tx, on_chain_tx_id = i\<rparr> }"

definition de_transaction :: "json \<Rightarrow> transaction_response option" where
  "de_transaction j = do {
     m \<leftarrow> as_struct [(''id'', False), (''status'', False), (''onChain'', True), (''approvals'', True),
       (''error'', True)] j;
     i \<leftarrow> required de_string (m ''id'');
     st \<leftarrow> required de_string (m ''status'');
     on_chain \<leftarrow> optional de_on_chain (m ''onChain'');
     approvals \<leftarrow> optional de_approvals (m ''approvals'');
     err \<leftarrow> optional Some (m ''error'');
     Some \<lparr>resp_id = i, resp_state = st, resp_on_chain = on_chain, resp_approvals = approvals, resp_error = err\<rparr> }"

definition wallet_from_value :: "('x crossmint_env_scheme) \<Rightarrow> json \<Rightarrow> string + wallet_response" where
  "wallet_from_value E v = ok_or (value_error E ''WalletResponse'' v) (de_wallet v)"

definition transaction_from_value :: "('x crossmint_env_scheme) \<Rightarrow> json \<Rightarrow> string + transaction_response" where
  "transaction_from_value E v = ok_or (value_error E ''TransactionResponse'' v) (de_transaction v)"

lemma order_free_wallet [order_free_intros]: "order_free de_wallet"
  unfolding de_wallet_def [abs_def] by (rule order_free_intros)+

lemma order_free_approval_signer [order_free_intros]: "order_free de_approval_signer"
  unfolding de_approval_signer_def [abs_def] by (rule order_free_intros)+

lemma order_free_pending_approval [order_free_intros]: "order_free de_pending_approval"
  unfolding de_pending_approval_def [abs_def] by (rule order_free_intros)+

lemma order_free_approvals [order_free_intros]: "order_free de_approvals"
  unfolding de_approvals_def [abs_def] by (rule order_free_intros)+

lemma order_free_on_chain [order_free_intros]: "order_free de_on_chain"
  unfolding de_on_chain_def [abs_def] by (rule order_free_intros)+

text \<open>The \<^verbatim>\<open>error\<close> of a transaction is kept as it came; all else is read alike whatever the order of entries.\<close>

lemma order_free_transaction [order_free_intros]:
  "order_free (\<lambda>j. map_option (\<lambda>r. r\<lparr>resp_error := e\<rparr>) (de_transaction j))"
  unfolding de_transaction_def map_option_bind comp_def option.map transaction_response.simps optional_value
  by (rule order_free_intros)+

definition create_request_json :: "string \<Rightarrow> string option \<Rightarrow> json" where
  "create_request_json transaction signer = JObject [(''params'', JObject
     ((''transaction'', JString transaction) # (case signer of Some s \<Rightarrow> [(''signer'', JString s)] | None \<Rightarrow> [])))]"

section \<open>Construction\<close>

definition CROSSMINT_BASE_URL :: string where "CROSSMINT_BASE_URL = ''https://www.crossmint.com/api''"
definition CLIENT_TIMEOUT :: duration where "CLIENT_TIMEOUT = 60 * 1000"
definition CROSSMINT_POLL_INTERVAL_MS :: u64 where "CROSSMINT_POLL_INTERVAL_MS = 1000"
definition CROSSMINT_MAX_POLL_ATTEMPTS :: u32 where "CROSSMINT_MAX_POLL_ATTEMPTS = 60"

record crossmint_config =
  cmc_api_key :: string
  cmc_wallet_locator :: string
  cmc_signer_secret :: "string option"
  cmc_signer :: "string option"
  cmc_api_base_url :: "string option"
  cmc_poll_interval_ms :: "u64 option"
  cmc_max_poll_attempts :: "u32 option"

record crossmint_signer =
  cm_api_key :: string
  cm_wallet_locator :: string
  cm_signer :: "string option"
  cm_api_base_url :: string
  cm_client :: client_settings
  cm_public_key :: "pubkey option"
  cm_poll_interval_ms :: u64
  cm_max_poll_attempts :: u32
  cm_signing_key :: "bytes option"
  cm_pending_transaction_id :: bool

text \<open>\<^verbatim>\<open>parse_api_key\<close>: \<^verbatim>\<open>splitn(3, '_')\<close> leaves the third piece whole.\<close>

definition parse_api_key :: "('x crossmint_env_scheme) \<Rightarrow> string \<Rightarrow> (string \<times> string) result" where
  "parse_api_key E api_key =
     (case split_on (CHR ''_'') api_key of
        _ # environment # p # ps \<Rightarrow>
          res_bind (map_err (\<lambda>e. ConfigError (''Failed to decode API key data: '' @ e))
            (bs58_decode E (join_with ''_'' (p # ps)))) (\<lambda>decoded.
          res_bind (map_err (\<lambda>e. ConfigError (''API key data is not valid UTF-8: '' @ utf8_error_text e))
            (utf8_check 0 decoded)) (\<lambda>_.
          res_bind (ok_or (ConfigError ''Could not extract projectId from API key'')
            (first (split_on (CHR '':'') (bytes_str decoded)))) (\<lambda>project_id.
          Inr (project_id, environment))))
      | _ \<Rightarrow> Inl (ConfigError ''Invalid API key format''))"

text \<open>\<^verbatim>\<open>u8::from_str_radix(pair, 16)\<close> on two bytes: a plus sign and a digit is a number too.\<close>

definition hex_digit :: "char \<Rightarrow> nat option" where
  "hex_digit c = (let n = of_char c :: nat in
     if 48 \<le> n \<and> n \<le> 57 then Some (n - 48)
     else if 97 \<le> n \<and> n \<le> 102 then Some (n - 87)
     else if 65 \<le> n \<and> n \<le> 70 then Some (n - 55) else None)"

definition hex_pair :: "char \<Rightarrow> char \<Rightarrow> u8 option" where
  "hex_pair a b =
     (if a = CHR ''+'' then map_option word_of_nat (hex_digit b)
      else case (hex_digit a, hex_digit b) of
        (Some x, Some y) \<Rightarrow> Some (word_of_nat (16 * x + y))
      | _ \<Rightarrow> None)"

fun hex_pairs :: "string \<Rightarrow> bytes option" where
  "hex_pairs (a # b # cs) =
     (case hex_pair a b of
        None \<Rightarrow> None
      | Some v \<Rightarrow> map_option (\<lambda>vs. v # vs) (hex_pairs cs))"
| "hex_pairs _ = Some []"

definition derive_signing_key :: "('x crossmint_env_scheme) \<Rightarrow> string \<Rightarrow> string \<Rightarrow> bytes result" where
  "derive_signing_key E secret api_key =
     res_bind (parse_api_key E api_key) (\<lambda>(project_id, environment).
       let raw_secret = unwrap_or secret (strip_prefix ''xmsk1_'' secret) in
       if length raw_secret \<noteq> 64 then Inl (ConfigError
         (''signer_secret must be a 64-char hex string (got '' @ show_nat (length raw_secret) @ '')''))
       else res_bind (ok_or (ConfigError ''signer_secret is not valid hex'') (hex_pairs raw_secret)) (\<lambda>ikm.
         map_err (\<lambda>e. ConfigError (''HKDF expand failed: '' @ e))
           (hkdf_expand E (str_bytes ''crossmint'') ikm (str_bytes (project_id @ '':'' @ environment @ '':solana-ed25519'')))))"

definition crossmint_new :: "('x crossmint_env_scheme) \<Rightarrow> crossmint_config \<Rightarrow> crossmint_signer result" where
  "crossmint_new E config =
     (if cmc_api_key config = [] then Inl (ConfigError ''api_key must not be empty'')
      else if cmc_wallet_locator config = [] then Inl (ConfigError ''wallet_locator must not be empty'')
      else let api_base_url = normalize_base_url (unwrap_or CROSSMINT_BASE_URL (cmc_api_base_url config)) in
      res_bind (validate_https_url E api_base_url) (\<lambda>_.
      let interval = unwrap_or CROSSMINT_POLL_INTERVAL_MS (cmc_poll_interval_ms config);
          attempts = unwrap_or CROSSMINT_MAX_POLL_ATTEMPTS (cmc_max_poll_attempts config) in
      if interval = 0 then Inl (ConfigError ''poll_interval_ms must be greater than 0'')
      else if attempts = 0 then Inl (ConfigError ''max_poll_attempts must be greater than 0'')
      else res_bind (build_client E \<lparr>request_timeout = Some CLIENT_TIMEOUT, connect_timeout = None\<rparr>) (\<lambda>client.
      res_bind (case cmc_signer_secret config of
          Some secret \<Rightarrow>
            res_bind (derive_signing_key E secret (cmc_api_key config)) (\<lambda>key.
              Inr (Some key, Some (unwrap_or (''server:'' @ bs58_encode E (ed25519_verifying_key E key)) (cmc_signer config))))
        | None \<Rightarrow> Inr (None, cmc_signer config)) (\<lambda>(signing_key, signer).
      Inr \<lparr>cm_api_key = cmc_api_key config, cm_wallet_locator = cmc_wallet_locator config, cm_signer = signer,
           cm_api_base_url = api_base_url, cm_client = client, cm_public_key = None,
           cm_poll_interval_ms = interval, cm_max_poll_attempts = attempts,
           cm_signing_key = signing_key, cm_pending_transaction_id = False\<rparr>))))"

definition crossmint_with_pending :: "crossmint_signer \<Rightarrow> crossmint_signer" where
  "crossmint_with_pending self = self\<lparr>cm_pending_transaction_id := True\<rparr>"

definition initialized_pubkey :: "crossmint_signer \<Rightarrow> pubkey result" where
  "initialized_pubkey self =
     ok_or (ConfigError ''CrossmintSigner is not initialized; call init() before signing'') (cm_public_key self)"

section \<open>Requests\<close>

definition build_wallets_api_url ::
  "('x crossmint_env_scheme) \<Rightarrow> crossmint_signer \<Rightarrow> string list \<Rightarrow> string result" where
  "build_wallets_api_url E self segments =
     res_bind (map_err (\<lambda>e. ConfigError (''Invalid api_base_url: '' @ e)) (url_parse E (cm_api_base_url self))) (\<lambda>base.
       if url_cannot_be_a_base base then Inl (ConfigError ''api_base_url cannot be used as a base URL'')
       else Inr (trim_end_matches (CHR ''/'') (url_as_str base) @ ''/2025-06-09/wallets/'' @
              encode_uri_component (cm_wallet_locator self) @
              concat (map (\<lambda>segment. ''/'' @ encode_uri_component segment) segments)))"

definition crossmint_get :: "crossmint_signer \<Rightarrow> string \<Rightarrow> http_request" where
  "crossmint_get self url =
     \<lparr>req_method = ''GET'', req_url = url, req_headers = [(''X-API-KEY'', cm_api_key self)], req_body = []\<rparr>"

definition crossmint_post :: "crossmint_signer \<Rightarrow> string \<Rightarrow> (string \<times> string) list \<Rightarrow> string \<Rightarrow> http_request" where
  "crossmint_post self url extra body =
     \<lparr>req_method = ''POST'', req_url = url,
      req_headers = [(''Content-Type'', ''application/json''), (''X-API-KEY'', cm_api_key self)] @ extra,
      req_body = str_bytes body\<rparr>"

definition extract_error_message :: "json \<Rightarrow> string option" where
  "extract_error_message value =
     (case Option.bind (json_get ''message'' value) json_as_str of
        Some m \<Rightarrow> Some m
      | None \<Rightarrow>
          (case Option.bind (json_get ''error'' value) json_as_str of
             Some m \<Rightarrow> Some m
           | None \<Rightarrow> Option.bind (Option.bind (json_get ''error'' value) (json_get ''message'')) json_as_str))"

definition read_json_value :: "('x crossmint_env_scheme) \<Rightarrow> http_response \<Rightarrow> json result" where
  "read_json_value E response =
     res_bind (read_body_capped response) (\<lambda>body.
       Inr (case json_from_slice E body of Inl _ \<Rightarrow> JNull | Inr v \<Rightarrow> v))"

definition value_to_typed ::
  "(json \<Rightarrow> string + 'a) \<Rightarrow> u16 \<Rightarrow> json \<Rightarrow> string \<Rightarrow> string \<Rightarrow> 'a result" where
  "value_to_typed from_value status value required_field context =
     (if status \<ge> 400 then Inl (remote_api (context @ '': '' @
        unwrap_or (''Crossmint API error '' @ show_nat (unat status)) (extract_error_message value)))
      else let field = json_get required_field value in
        if field = None \<or> (case Option.bind field json_as_str of Some s \<Rightarrow> trim s = [] | None \<Rightarrow> False) then
          (case extract_error_message value of
             Some m \<Rightarrow> Inl (remote_api (context @ '': '' @ m))
           | None \<Rightarrow> Inl (SerializationError (context @ '': missing expected field '' @ [CHR 0x27] @ required_field @
               [CHR 0x27] @ '' in response'')))
        else map_err (\<lambda>e. SerializationError (context @ '': failed to parse JSON response: '' @ e)) (from_value value))"

definition parse_response_with_required_field ::
  "('x crossmint_env_scheme) \<Rightarrow> (json \<Rightarrow> string + 'a) \<Rightarrow> http_response \<Rightarrow> string \<Rightarrow> string \<Rightarrow> 'a result" where
  "parse_response_with_required_field E from_value response required_field context =
     res_bind (read_json_value E response) (\<lambda>value.
       value_to_typed from_value (resp_status response) value required_field context)"

definition fetch_wallet :: "('x crossmint_env_scheme) \<Rightarrow> crossmint_signer \<Rightarrow> (trace, wallet_response) signer_io" where
  "fetch_wallet E self =
     io_bind (io_lift (build_wallets_api_url E self [])) (\<lambda>url.
     io_bind (send_or_http_error E (cm_client self) (crossmint_get self url)) (\<lambda>response.
     io_lift (parse_response_with_required_field E (wallet_from_value E) response ''address'' ''fetch_wallet'')))"

definition crossmint_init :: "('x crossmint_env_scheme) \<Rightarrow> crossmint_signer \<Rightarrow> (trace, crossmint_signer) signer_io" where
  "crossmint_init E self =
     io_bind (fetch_wallet E self) (\<lambda>wallet.
     io_lift (if \<not> eq_ignore_ascii_case (wallet_chain_type wallet) ''solana''
        then Inl (ConfigError (''Expected Solana wallet, got chainType='' @ wallet_chain_type wallet))
        else if \<not> eq_ignore_ascii_case (wallet_type wallet) ''smart'' \<and> \<not> eq_ignore_ascii_case (wallet_type wallet) ''mpc''
        then Inl (ConfigError (''Unsupported Crossmint wallet type: '' @ wallet_type wallet))
        else res_bind (map_err (\<lambda>_. InvalidPublicKey ''Invalid Solana public key returned by Crossmint wallet'')
          (pubkey_from_str E (wallet_address wallet))) (\<lambda>pk. Inr (self\<lparr>cm_public_key := Some pk\<rparr>))))"

definition create_answer ::
  "('x crossmint_env_scheme) \<Rightarrow> string \<Rightarrow> http_response \<Rightarrow> transaction_response result" where
  "create_answer E key response =
     (let status = resp_status response in
      res_bind (map_err (unconfirmed_unless_rejected (Some status) None (Some key)) (read_json_value E response)) (\<lambda>value.
        map_err (unconfirmed_unless_rejected (Some status) (usable_id value) (Some key))
          (value_to_typed (transaction_from_value E) status value ''id'' ''create_transaction'')))"

definition create_transaction ::
  "('x crossmint_env_scheme) \<Rightarrow> crossmint_signer \<Rightarrow> string \<Rightarrow> string \<Rightarrow> (trace, transaction_response) signer_io" where
  "create_transaction E self transaction key =
     io_bind (io_lift (build_wallets_api_url E self [''transactions''])) (\<lambda>url.
     io_bind (io_map_err (\<lambda>e. unconfirmed_unless_rejected None None (Some key) (HttpError e))
       (send_request E (cm_client self)
         (crossmint_post self url [(''x-idempotency-key'', key)]
           (json_to_string E (create_request_json transaction (cm_signer self)))))) (\<lambda>response.
     io_lift (create_answer E key response)))"

definition get_transaction ::
  "('x crossmint_env_scheme) \<Rightarrow> crossmint_signer \<Rightarrow> string \<Rightarrow> (trace, transaction_response) signer_io" where
  "get_transaction E self transaction_id =
     io_bind (io_lift (build_wallets_api_url E self [''transactions'', transaction_id])) (\<lambda>url.
     io_bind (send_or_http_error E (cm_client self) (crossmint_get self url)) (\<lambda>response.
     io_lift (parse_response_with_required_field E (transaction_from_value E) response ''id'' ''get_transaction'')))"

section \<open>Approval and polling\<close>

definition transaction_failure :: "('x crossmint_env_scheme) \<Rightarrow> transaction_response \<Rightarrow> signer_error" where
  "transaction_failure E response =
     SigningFailed (''Crossmint transaction failed: '' @
       unwrap_or ''unknown error'' (map_option (json_to_string E) (resp_error response)))"

definition approvals_required :: signer_error where
  "approvals_required =
     SigningFailed ''Crossmint transaction is awaiting approval; additional signer approvals are required''"

definition approval_request ::
  "('x crossmint_env_scheme) \<Rightarrow> crossmint_signer \<Rightarrow> string \<Rightarrow> string \<Rightarrow> bytes \<Rightarrow> http_request" where
  "approval_request E self url signer_locator signature =
     crossmint_post self url [] (json_to_string E (JObject [(''approvals'', JArray [JObject
       [(''signer'', JString signer_locator), (''signature'', JString (bs58_encode E signature))]])]))"

definition submit_approval ::
  "('x crossmint_env_scheme) \<Rightarrow> crossmint_signer \<Rightarrow> string \<Rightarrow> string \<Rightarrow> string \<Rightarrow> bytes \<Rightarrow>
   (trace, transaction_response) signer_io" where
  "submit_approval E self transaction_id signer_locator message signing_key =
     io_bind (io_lift (map_err (\<lambda>e. SigningFailed (''Failed to decode approval message as base58: '' @ e))
       (bs58_decode E message))) (\<lambda>message_bytes.
     io_bind (io_lift (build_wallets_api_url E self [''transactions'', transaction_id, ''approvals''])) (\<lambda>url.
     io_bind (send_or_http_error E (cm_client self)
       (approval_request E self url signer_locator (ed25519_sign E signing_key message_bytes))) (\<lambda>response.
     io_lift (parse_response_with_required_field E (transaction_from_value E) response ''id'' ''submit_approval''))))"

text \<open>The challenge addressed to this signer, if the response lists one.\<close>

definition own_challenge :: "string \<Rightarrow> transaction_response \<Rightarrow> pending_approval option" where
  "own_challenge signer_locator response =
     Option.bind (resp_approvals response) (List.find (\<lambda>p. approval_locator p = Some signer_locator))"

definition handle_awaiting_approval ::
  "('x crossmint_env_scheme) \<Rightarrow> crossmint_signer \<Rightarrow> transaction_response \<Rightarrow> (trace, transaction_response) signer_io" where
  "handle_awaiting_approval E self response =
     (case (cm_signing_key self, cm_signer self) of
        (Some signing_key, Some signer_locator) \<Rightarrow>
          io_bind (io_lift (ok_or approvals_required (own_challenge signer_locator response))) (\<lambda>pending.
          io_bind (io_lift (ok_or (SigningFailed ''Crossmint transaction awaiting approval but no pending message found'')
            (approval_message pending))) (\<lambda>message.
          submit_approval E self (resp_id response) signer_locator message signing_key))
      | _ \<Rightarrow> io_lift (Inl approvals_required))"

text \<open>\<^verbatim>\<open>poll_transaction\<close>: the verdict after the last round, and the rounds.\<close>

definition poll_verdict ::
  "('x crossmint_env_scheme) \<Rightarrow> crossmint_signer \<Rightarrow> bool \<Rightarrow> transaction_response \<Rightarrow> transaction_response result" where
  "poll_verdict E self approval_submitted response =
     (if resp_state response = ''success'' then Inr response
      else if resp_state response = ''failed'' then Inl (transaction_failure E response)
      else if resp_state response = ''awaiting-approval'' \<and> \<not> approval_submitted then Inl approvals_required
      else Inl (remote_api (''Crossmint transaction polling timed out after '' @
        show_nat (unat (cm_max_poll_attempts self)) @ '' attempts'')))"

fun poll_rounds ::
  "('x crossmint_env_scheme) \<Rightarrow> crossmint_signer \<Rightarrow> nat \<Rightarrow> bool \<Rightarrow> transaction_response \<Rightarrow>
   (trace, transaction_response) signer_io" where
  "poll_rounds E self 0 approval_submitted response = io_lift (poll_verdict E self approval_submitted response)"
| "poll_rounds E self (Suc n) approval_submitted response =
     (if resp_state response = ''success'' then io_lift (Inr response)
      else if resp_state response = ''failed'' then io_lift (Inl (transaction_failure E response))
      else if resp_state response = ''awaiting-approval'' \<and> \<not> approval_submitted then
        io_bind (handle_awaiting_approval E self response) (poll_rounds E self n True)
      else
        io_bind (emit (Slept (unat (cm_poll_interval_ms self)))) (\<lambda>_.
        io_bind (get_transaction E self (resp_id response)) (poll_rounds E self n approval_submitted)))"

definition poll_transaction ::
  "('x crossmint_env_scheme) \<Rightarrow> crossmint_signer \<Rightarrow> transaction_response \<Rightarrow> (trace, transaction_response) signer_io" where
  "poll_transaction E self = poll_rounds E self (unat (cm_max_poll_attempts self)) False"

section \<open>The landed transaction\<close>

definition namespaced_key_input :: "crossmint_signer \<Rightarrow> bytes \<Rightarrow> bytes" where
  "namespaced_key_input self message_bytes =
     (let locator = unwrap_or [] (cm_signer self) in
      str_bytes (''crossmint:solana:'' @ show_nat (length locator) @ '':'' @ locator @ '':'') @ message_bytes)"

definition fee_payer_signature_from_serialized_transaction ::
  "('x crossmint_env_scheme) \<Rightarrow> string \<Rightarrow> (signature \<times> pubkey \<times> bytes) result" where
  "fee_payer_signature_from_serialized_transaction E serialized_transaction =
     res_bind (map_err (\<lambda>e. SerializationError (''Failed to decode Crossmint onChain.transaction as base58: '' @ e))
       (bs58_decode E serialized_transaction)) (\<lambda>bytes.
     res_bind (map_err (\<lambda>e. SerializationError (''Failed to deserialize Crossmint onChain.transaction: '' @ display_error e))
       (deserialize_wire_transaction E bytes)) (\<lambda>transaction.
     if length (account_keys transaction) < num_required transaction
     then Inl (SigningFailed ''Invalid account index: not enough account keys'')
     else res_bind (ok_or (SigningFailed ''Crossmint transaction carries no account keys'')
       (first (account_keys transaction))) (\<lambda>fee_payer.
     res_bind (ok_or (SigningFailed ''Crossmint transaction carries no signer signature'')
       (opt_filter (\<lambda>s. s \<noteq> default_signature) (first (tx_signatures transaction)))) (\<lambda>sig.
     Inr (sig, fee_payer, message_serialize E (tx_message transaction))))))"

definition extract_signature_from_response ::
  "('x crossmint_env_scheme) \<Rightarrow> transaction_response \<Rightarrow> signature result" where
  "extract_signature_from_response E response =
     (let unable = SigningFailed ''Unable to extract signature from Crossmint transaction response'' in
      case resp_on_chain response of
        None \<Rightarrow> Inl unable
      | Some on_chain \<Rightarrow>
          (let by_tx_id = (case on_chain_tx_id on_chain of
                 Some tx_id \<Rightarrow> map_err (\<lambda>_. SigningFailed ''Crossmint onChain.txId was not a valid Solana signature'')
                   (signature_from_base58 E tx_id)
               | None \<Rightarrow> Inl unable) in
           case on_chain_transaction on_chain of
             None \<Rightarrow> by_tx_id
           | Some serialized \<Rightarrow>
               (case fee_payer_signature_from_serialized_transaction E serialized of
                  Inr (sig, fee_payer, message) \<Rightarrow> res_bind (verify_or_reject E sig fee_payer message) (\<lambda>_. Inr sig)
                | Inl err \<Rightarrow> if on_chain_tx_id on_chain = None then Inl err else by_tx_id)))"

definition finish_managed_transaction ::
  "('x crossmint_env_scheme) \<Rightarrow> crossmint_signer \<Rightarrow> transaction_response \<Rightarrow> (trace, signature) signer_io" where
  "finish_managed_transaction E self create_response =
     io_bind (poll_transaction E self create_response) (\<lambda>final. io_lift (extract_signature_from_response E final))"

definition crossmint_key :: "('x crossmint_env_scheme) \<Rightarrow> crossmint_signer \<Rightarrow> versioned_transaction \<Rightarrow> string" where
  "crossmint_key E self tx =
     idempotency_key_from_message E (namespaced_key_input self (message_serialize E (tx_message tx)))"

text \<open>The steps of \<^verbatim>\<open>execute_managed_transaction\<close> up to the accepted create, and the rest.\<close>

definition submit_managed ::
  "('x crossmint_env_scheme) \<Rightarrow> crossmint_signer \<Rightarrow> versioned_transaction \<Rightarrow> (trace, transaction_response) signer_io" where
  "submit_managed E self tx =
     io_bind (io_lift (initialized_pubkey self)) (\<lambda>_.
     io_bind (io_lift (serialize_wire_transaction E tx)) (\<lambda>serialized.
     create_transaction E self (bs58_encode E serialized) (crossmint_key E self tx)))"

definition crossmint_note :: "crossmint_signer \<Rightarrow> event \<Rightarrow> trace \<Rightarrow> trace" where
  "crossmint_note self e t = (if cm_pending_transaction_id self then t @ [e] else t)"

definition execute_managed_transaction ::
  "('x crossmint_env_scheme) \<Rightarrow> crossmint_signer \<Rightarrow> versioned_transaction \<Rightarrow> (trace, signature) signer_io" where
  "execute_managed_transaction E self tx =
     io_bind (submit_managed E self tx) (\<lambda>create_response t.
       let provider_id = resp_id create_response in
       case io_map_err (\<lambda>e. BroadcastUnconfirmed (Some provider_id) None (Some (crossmint_key E self tx)) None (detail_string e))
              (finish_managed_transaction E self create_response) (crossmint_note self (PendingSet provider_id) t) of
         (result, t1) \<Rightarrow> (result, crossmint_note self (PendingCleared provider_id) t1))"

definition crossmint_sign_and_send_transaction ::
  "('x crossmint_env_scheme) \<Rightarrow> crossmint_signer \<Rightarrow> versioned_transaction \<Rightarrow> (trace, signature) signer_io" where
  [simp]: "crossmint_sign_and_send_transaction E self tx = execute_managed_transaction E self tx"

section \<open>The trait methods\<close>

text \<open>\<^verbatim>\<open>pubkey\<close> panics, modelled as \<open>None\<close>, before \<^verbatim>\<open>init\<close>.\<close>

definition crossmint_pubkey :: "crossmint_signer \<Rightarrow> pubkey option" where
  "crossmint_pubkey self = cm_public_key self"

definition crossmint_sign_message :: "crossmint_signer \<Rightarrow> bytes \<Rightarrow> (trace, signature) signer_io" where
  "crossmint_sign_message self message = io_lift (Inl
     (SigningFailed ''Crossmint sign_message is not supported for Solana wallets in this signer''))"

definition crossmint_is_available :: "('x crossmint_env_scheme) \<Rightarrow> crossmint_signer \<Rightarrow> trace \<Rightarrow> bool \<times> trace" where
  "crossmint_is_available E self =
     within_deadline E AVAILABILITY_TIMEOUT (io_check (fetch_wallet E self) (\<lambda>_. Pair True))"

section \<open>Traces of a managed transaction\<close>

text \<open>The requests of a trace, those of them that submit something, and the responses the provider delivered in it.\<close>

fun requests :: "trace \<Rightarrow> http_request list" where
  "requests [] = []"
| "requests (Requested req # t) = req # requests t"
| "requests (_ # t) = requests t"

definition posts :: "trace \<Rightarrow> http_request list" where
  "posts t = filter (\<lambda>req. req_method req = ''POST'') (requests t)"

definition delivered :: "('x crossmint_env_scheme) \<Rightarrow> crossmint_signer \<Rightarrow> trace \<Rightarrow> transaction_response \<Rightarrow> bool" where
  "delivered E self t response \<longleftrightarrow>
     (\<exists>t0 req rest http v. t = t0 @ Requested req # rest \<and> http_send E (cm_client self) t0 req = Inr http \<and>
        read_json_value E http = Inr v \<and> transaction_from_value E v = Inr response)"

text \<open>An approval of this signer: its key's signature over a challenge that was delivered for its own locator.\<close>

definition own_approval :: "('x crossmint_env_scheme) \<Rightarrow> crossmint_signer \<Rightarrow> trace \<Rightarrow> http_request \<Rightarrow> bool" where
  "own_approval E self t req \<longleftrightarrow>
     (\<exists>key locator response p message bytes url. cm_signing_key self = Some key \<and> cm_signer self = Some locator \<and>
        delivered E self t response \<and> resp_state response = ''awaiting-approval'' \<and>
        own_challenge locator response = Some p \<and> approval_message p = Some message \<and> bs58_decode E message = Inr bytes \<and>
        req = approval_request E self url locator (ed25519_sign E key bytes))"

lemma requests_append [simp]: "requests (t @ u) = requests t @ requests u"
  by (induction t rule: requests.induct) simp_all

lemma posts_simps [simp]:
  "posts [] = []" "posts (t @ u) = posts t @ posts u"
  "posts (Requested req # t) = (if req_method req = ''POST'' then [req] else []) @ posts t"
  "posts (Slept n # t) = posts t" "posts (PendingSet i # t) = posts t" "posts (PendingCleared i # t) = posts t"
  by (simp_all add: posts_def)

lemma delivered_mono: "delivered E self t response \<Longrightarrow> delivered E self (t @ u) response"
  unfolding delivered_def by fastforce

lemma own_approval_mono: "own_approval E self t req \<Longrightarrow> own_approval E self (t @ u) req"
  unfolding own_approval_def using delivered_mono by blast

lemma value_to_typed_Inr:
  assumes "value_to_typed from_value status v field context = Inr x"
  shows "status < 400 \<and> from_value v = Inr x"
  using assms by (auto simp: value_to_typed_def Let_def result_simps split: if_splits option.splits)

lemma value_to_typed_field:
  assumes "value_to_typed from_value status v field context = Inr x"
  shows "json_get field v \<noteq> None" "\<And>s. json_get field v = Some (JString s) \<Longrightarrow> trim s \<noteq> []"
  using assms by (auto simp: value_to_typed_def Let_def split: if_splits option.splits)

lemma de_transaction_id:
  assumes "de_transaction v = Some r" "json_get ''id'' v \<noteq> None"
  shows "json_get ''id'' v = Some (JString (resp_id r))"
proof -
  from assms(2) obtain entries where v: "v = JObject entries" by (cases v) auto
  from assms(1) obtain m where m: "as_struct [(''id'', False), (''status'', False), (''onChain'', True), (''approvals'', True),
      (''error'', True)] v = Some m"
    and i: "required de_string (m ''id'') = Some (resp_id r)"
    unfolding de_transaction_def by (auto simp: bind_eq_Some_conv simp del: as_struct.simps)
  from as_struct_entry [OF m [unfolded v], of "''id''"] have "m ''id'' = json_get ''id'' v" by (simp add: v)
  with i show ?thesis by (auto simp: required_def bind_eq_Some_conv elim: de_string.elims)
qed

lemma answer_delivered:
  assumes "http_send E (cm_client self) t req = Inr http"
    and "parse_response_with_required_field E (transaction_from_value E) http field context = Inr response"
  shows "delivered E self (t @ [Requested req]) response"
  using assms value_to_typed_Inr unfolding delivered_def parse_response_with_required_field_def
  by (fastforce simp: result_simps)

text \<open>
  What a stretch of polling may add to the trace: sleeps of the configured interval, and at most \<open>b\<close> requests, each a read or an
  approval of this signer, of which at most \<open>p\<close> submit something.
\<close>

definition poll_event :: "('x crossmint_env_scheme) \<Rightarrow> crossmint_signer \<Rightarrow> trace \<Rightarrow> event \<Rightarrow> bool" where
  "poll_event E self t e \<longleftrightarrow> e = Slept (unat (cm_poll_interval_ms self)) \<or> (\<exists>url. e = Requested (crossmint_get self url)) \<or>
     (\<exists>q. e = Requested q \<and> own_approval E self t q)"

lemma poll_event_mono: "poll_event E self t e \<Longrightarrow> poll_event E self (t @ u) e"
  unfolding poll_event_def using own_approval_mono by blast

lemma crossmint_get_simps [simp]:
  "req_method (crossmint_get self url) = ''GET''" "fst ` set (req_headers (crossmint_get self url)) = {''X-API-KEY''}"
  by (simp_all add: crossmint_get_def)

lemma own_approval_headers: "own_approval E self t q \<Longrightarrow> fst ` set (req_headers q) = {''Content-Type'', ''X-API-KEY''}"
  unfolding own_approval_def by (elim exE conjE) (simp add: approval_request_def crossmint_post_def)

lemma poll_event_request:
  assumes "poll_event E self t (Requested q)"
  shows "(req_method q = ''GET'' \<or> own_approval E self t q) \<and> ''x-idempotency-key'' \<notin> fst ` set (req_headers q)"
proof -
  from assms consider url where "q = crossmint_get self url" | "own_approval E self t q" unfolding poll_event_def by blast
  then show ?thesis by cases (simp_all add: own_approval_headers)
qed

lemma posts_events: "q \<in> set (posts es) \<longleftrightarrow> Requested q \<in> set es \<and> req_method q = ''POST''"
  unfolding posts_def by (induction es rule: requests.induct) auto

lemma poll_event_posts: "list_all (poll_event E self t) es \<Longrightarrow> q \<in> set (posts es) \<Longrightarrow> own_approval E self t q"
  using poll_event_request [of E self t q] by (auto simp: posts_events list_all_iff)


definition polling_effects ::
  "('x crossmint_env_scheme) \<Rightarrow> crossmint_signer \<Rightarrow> nat \<Rightarrow> nat \<Rightarrow> trace \<Rightarrow> trace \<Rightarrow> bool" where
  "polling_effects E self b p t t' \<longleftrightarrow>
     (\<exists>es. t' = t @ es \<and> length (requests es) \<le> b \<and> length (posts es) \<le> p \<and>
        list_all (poll_event E self t') es)"

lemma polling_effects_refl: "polling_effects E self b p t t"
  by (auto simp: polling_effects_def)

lemma polling_effects_sleep: "polling_effects E self 0 0 t (t @ [Slept (unat (cm_poll_interval_ms self))])"
  by (auto simp: polling_effects_def poll_event_def)

lemma polling_effects_trans:
  assumes "polling_effects E self b p t t1" "polling_effects E self c q t1 t2"
  shows "polling_effects E self (b + c) (p + q) t t2"
proof -
  from assms obtain es fs where es: "t1 = t @ es" "length (requests es) \<le> b" "length (posts es) \<le> p"
      "list_all (poll_event E self t1) es"
    and fs: "t2 = t1 @ fs" "length (requests fs) \<le> c" "length (posts fs) \<le> q" "list_all (poll_event E self t2) fs"
    unfolding polling_effects_def by blast
  have "list_all (poll_event E self t2) es" using es(4) unfolding fs(1) list_all_iff by (blast intro: poll_event_mono)
  then show ?thesis using es(1-3) fs unfolding polling_effects_def by (intro exI [of _ "es @ fs"]) auto
qed

lemma get_transaction_effects:
  assumes "get_transaction E self i t = (r, t')"
  shows "polling_effects E self 1 0 t t' \<and> (\<forall>response. r = Inr response \<longrightarrow> delivered E self t' response)"
proof (cases "build_wallets_api_url E self [''transactions'', i]")
  case (Inl e)
  then show ?thesis using assms by (auto simp: get_transaction_def io_bind_def io_lift_def polling_effects_refl)
next
  case (Inr url)
  let ?q = "crossmint_get self url"
  have t': "t' = t @ [Requested ?q]"
    using assms Inr by (auto simp: get_transaction_def io_bind_def io_lift_def send_or_http_error_def io_map_err_def
        send_request_def split: sum.splits)
  then have "polling_effects E self 1 0 t t'" by (auto simp: polling_effects_def poll_event_def)
  moreover have "delivered E self t' response" if "r = Inr response" for response
    using assms Inr that answer_delivered unfolding t'
    by (auto simp: get_transaction_def result_simps)
  ultimately show ?thesis by simp
qed

lemma handle_awaiting_effects:
  assumes "handle_awaiting_approval E self response t = (r, t')" and "delivered E self t response"
    and "resp_state response = ''awaiting-approval''"
  shows "polling_effects E self 1 1 t t' \<and> (\<forall>response. r = Inr response \<longrightarrow> delivered E self t' response)"
proof -
  consider (early) e where "r = Inl e" "t' = t"
    | (sent) key locator p message bytes url where "cm_signing_key self = Some key" "cm_signer self = Some locator"
        "own_challenge locator response = Some p" "approval_message p = Some message" "bs58_decode E message = Inr bytes"
        "io_bind (send_or_http_error E (cm_client self) (approval_request E self url locator (ed25519_sign E key bytes)))
          (\<lambda>http. io_lift (parse_response_with_required_field E (transaction_from_value E) http ''id'' ''submit_approval'')) t = (r, t')"
    using assms(1)
    by (auto simp: handle_awaiting_approval_def submit_approval_def io_bind_lift result_simps io_lift_def [of "Inl _"]
        split: option.splits sum.splits)
  then show ?thesis
  proof cases
    case sent
    let ?q = "approval_request E self url locator (ed25519_sign E key bytes)"
    have t': "t' = t @ [Requested ?q]"
      using sent(6) by (auto simp: io_bind_def io_lift_def send_or_http_error_def io_map_err_def send_request_def split: sum.splits)
    have "own_approval E self t ?q"
      unfolding own_approval_def using sent(1-5) assms(2,3) by blast
    then have "own_approval E self t' ?q" unfolding t' by (rule own_approval_mono)
    then have "polling_effects E self 1 1 t t'" using t' by (auto simp: polling_effects_def poll_event_def)
    moreover have "delivered E self t' response" if "r = Inr response" for response
      using sent(6) that answer_delivered unfolding t' by (auto simp: result_simps)
    ultimately show ?thesis by simp
  qed (auto simp: polling_effects_refl)
qed

lemma poll_rounds_effects:
  assumes "poll_rounds E self n submitted response t = (r, t')" and "delivered E self t response"
  shows "polling_effects E self n (if submitted then 0 else 1) t t' \<and>
    (\<forall>final. r = Inr final \<longrightarrow> delivered E self t' final \<and> resp_state final = ''success'')"
  using assms
proof (induction n arbitrary: submitted response t)
  case 0
  then show ?case by (auto simp: io_lift_def poll_verdict_def polling_effects_refl split: if_splits)
next
  case (Suc n)
  have step: ?case
    if first: "polling_effects E self 1 p t t1" "\<forall>response. r1 = Inr response \<longrightarrow> delivered E self t1 response"
      and rest: "io_bind (\<lambda>_. (r1, t1)) (poll_rounds E self n submitted') t = (r, t')"
      and posts: "p + (if submitted' then 0 else 1) = (if submitted then 0 else 1)" for p t1 r1 submitted'
  proof (cases r1)
    case (Inl e)
    then show ?thesis using first(1) rest posts polling_effects_trans [OF first(1) polling_effects_refl]
      by (auto simp: io_bind_def) metis
  next
    case (Inr next_response)
    with Suc.IH [of submitted' next_response t1] first rest show ?thesis
      using polling_effects_trans [OF first(1), of n "if submitted' then 0 else 1" t'] posts by (simp add: io_bind_def)
  qed
  consider "resp_state response = ''success''" | "resp_state response = ''failed''"
    | (approve) "resp_state response = ''awaiting-approval''" "\<not> submitted"
    | (wait) "resp_state response \<noteq> ''success''" "resp_state response \<noteq> ''failed''"
        "\<not> (resp_state response = ''awaiting-approval'' \<and> \<not> submitted)" by blast
  then show ?case
  proof cases
    case approve
    obtain ra t1 where ha: "handle_awaiting_approval E self response t = (ra, t1)" by (metis surj_pair)
    show ?thesis
      by (rule step [of 1 t1 ra True])
         (use handle_awaiting_effects [OF ha Suc.prems(2) approve(1)] Suc.prems(1) approve ha in \<open>simp_all add: io_bind_def\<close>)
  next
    case wait
    obtain rg t1 where ga: "get_transaction E self (resp_id response) (t @ [Slept (unat (cm_poll_interval_ms self))]) = (rg, t1)"
      by (metis surj_pair)
    note effects = get_transaction_effects [OF ga]
    show ?thesis
      by (rule step [of 0 t1 rg submitted])
         (use effects polling_effects_trans [OF polling_effects_sleep conjunct1 [OF effects]] Suc.prems(1) wait ga
           in \<open>simp_all add: io_bind_def emit_def\<close>)
  qed (use Suc.prems in \<open>auto simp: io_lift_def polling_effects_refl\<close>)
qed

lemma note_append: "crossmint_note self e t = t @ (if cm_pending_transaction_id self then [e] else [])"
  by (simp add: crossmint_note_def)

lemma execute_cases:
  assumes "execute_managed_transaction E self tx t = (r, t')"
  obtains (refused) e where "submit_managed E self tx t = (Inl e, t')" "r = Inl e"
    | (accepted) response t1 rf t2 where "submit_managed E self tx t = (Inr response, t1)"
        "finish_managed_transaction E self response (crossmint_note self (PendingSet (resp_id response)) t1) = (rf, t2)"
        "r = map_err (\<lambda>e. BroadcastUnconfirmed (Some (resp_id response)) None (Some (crossmint_key E self tx)) None (detail_string e)) rf"
        "t' = crossmint_note self (PendingCleared (resp_id response)) t2"
proof -
  obtain rs t1 where submit: "submit_managed E self tx t = (rs, t1)" by (metis surj_pair)
  show ?thesis
  proof (cases rs)
    case (Inl e)
    then show ?thesis using assms submit refused by (auto simp: execute_managed_transaction_def io_bind_def)
  next
    case (Inr response)
    obtain rf t2 where fin:
      "finish_managed_transaction E self response (crossmint_note self (PendingSet (resp_id response)) t1) = (rf, t2)"
      by (metis surj_pair)
    show ?thesis
      by (rule accepted [OF _ fin])
         (use assms submit Inr fin in \<open>auto simp: execute_managed_transaction_def io_bind_def io_map_err_def Let_def\<close>)
  qed
qed

lemma submit_managed_cases:
  assumes "submit_managed E self tx t = (r, t')"
  obtains (unsent) e where "r = Inl e" "t' = t"
    | (sent) req where "t' = t @ [Requested req]" "req_method req = ''POST''"
        "(''x-idempotency-key'', crossmint_key E self tx) \<in> set (req_headers req)"
        "r = (case http_send E (cm_client self) t req of
                Inl e \<Rightarrow> Inl (unconfirmed_unless_rejected None None (Some (crossmint_key E self tx)) (HttpError e))
              | Inr http \<Rightarrow> create_answer E (crossmint_key E self tx) http)"
proof (cases "initialized_pubkey self")
  case (Inl e)
  then show ?thesis using assms unsent by (auto simp: submit_managed_def io_bind_lift)
next
  case init: (Inr pk)
  show ?thesis
  proof (cases "serialize_wire_transaction E tx")
    case (Inl e)
    then show ?thesis using assms init unsent by (auto simp: submit_managed_def io_bind_lift)
  next
    case ser: (Inr wire)
    show ?thesis
    proof (cases "build_wallets_api_url E self [''transactions'']")
      case (Inl e)
      then show ?thesis using assms init ser unsent by (auto simp: submit_managed_def create_transaction_def io_bind_lift)
    next
      case url: (Inr url)
      define body where "body = json_to_string E (create_request_json (bs58_encode E wire) (cm_signer self))"
      define key where "key = crossmint_key E self tx"
      have run: "io_bind (io_map_err (\<lambda>e. unconfirmed_unless_rejected None None (Some key) (HttpError e))
           (send_request E (cm_client self) (crossmint_post self url [(''x-idempotency-key'', key)] body)))
           (\<lambda>http. io_lift (create_answer E key http)) t = (r, t')"
        using assms by (simp add: submit_managed_def create_transaction_def io_bind_lift init ser url key_def body_def)
      show ?thesis
        by (rule sent [of "crossmint_post self url [(''x-idempotency-key'', key)] body"])
           (use run in \<open>auto simp: io_bind_def io_map_err_def send_request_def io_lift_def crossmint_post_def key_def
             split: sum.splits\<close>)
    qed
  qed
qed

lemma create_answer_delivered:
  assumes "http_send E (cm_client self) t req = Inr http" "create_answer E key http = Inr response"
  shows "delivered E self (t @ [Requested req]) response"
  using assms value_to_typed_Inr unfolding delivered_def create_answer_def by (fastforce simp: result_simps Let_def)

lemma create_answer_unconfirmed:
  assumes "create_answer E key http = Inl e" "\<not> refusal http"
  shows "\<exists>i st d. e = BroadcastUnconfirmed i st (Some key) None d"
proof -
  obtain tid e0 where "e = unconfirmed_unless_rejected (Some (resp_status http)) tid (Some key) e0"
    using assms(1) by (auto simp: create_answer_def Let_def result_simps)
  with assms(2) show ?thesis by (auto simp: unconfirmed_unless_rejected_def refusal_def split: if_splits)
qed

lemma create_answer_id:
  assumes "create_answer E key http = Inr response"
  shows "resp_status http < 400 \<and> (\<exists>v. read_json_value E http = Inr v \<and> usable_id v = Some (resp_id response) \<and> trim (resp_id response) \<noteq> [])"
proof -
  from assms obtain v where v: "read_json_value E http = Inr v"
    and typed: "value_to_typed (transaction_from_value E) (resp_status http) v ''id'' ''create_transaction'' = Inr response"
    by (auto simp: create_answer_def Let_def result_simps)
  from value_to_typed_Inr [OF typed] have typed_value: "resp_status http < 400" "transaction_from_value E v = Inr response"
    by simp_all
  then have "json_get ''id'' v = Some (JString (resp_id response))"
    using value_to_typed_field(1) [OF typed] by (intro de_transaction_id) (auto simp: transaction_from_value_def ok_or_def split: option.splits)
  with v value_to_typed_field(2) [OF typed] typed_value show ?thesis by (simp add: usable_id_def opt_filter_def)
qed

lemma submit_managed_delivered:
  assumes "submit_managed E self tx t = (Inr response, t1)"
  shows "delivered E self t1 response"
  using assms
proof (cases rule: submit_managed_cases)
  case (sent req)
  then obtain http where "http_send E (cm_client self) t req = Inr http"
    "create_answer E (crossmint_key E self tx) http = Inr response" by (auto split: sum.splits)
  then show ?thesis using create_answer_delivered sent(1) by blast
qed auto



text \<open>
  Without a readable landed transaction the signature is the reported \<^verbatim>\<open>txId\<close>, decoded and not verified against anything.
\<close>

lemma extract_signature_by_tx_id:
  assumes "resp_on_chain final = Some \<lparr>on_chain_transaction = None, on_chain_tx_id = Some tx_id\<rparr>"
    and "signature_from_base58 E tx_id = Inr s"
  shows "extract_signature_from_response E final = Inr s"
  using assms by (simp add: extract_signature_from_response_def Let_def)

text \<open>
  The id under which Crossmint answers that it took the transaction on, when the call is made after \<open>t\<close>: the answer to the first
  request of the call is not an error and its body names an id.
\<close>

definition crossmint_answered_id :: "('x crossmint_env_scheme) \<Rightarrow> http_response \<Rightarrow> string option" where
  "crossmint_answered_id E http =
     (if resp_status http \<ge> 400 then None
      else case read_json_value E http of Inl _ \<Rightarrow> None | Inr v \<Rightarrow> usable_id v)"

definition crossmint_accepted ::
  "('x crossmint_env_scheme) \<Rightarrow> crossmint_signer \<Rightarrow> versioned_transaction \<Rightarrow> trace \<Rightarrow> string option" where
  "crossmint_accepted E self tx t =
     Option.bind (first_answer E (cm_client self) t (snd (execute_managed_transaction E self tx t))) (crossmint_answered_id E)"

lemma create_answer_failed_id:
  assumes "create_answer E key http = Inl e" "crossmint_answered_id E http = Some i"
  shows "\<exists>st d. e = BroadcastUnconfirmed (Some i) st (Some key) None d"
proof -
  from assms(2) obtain v where v: "resp_status http < 400" "read_json_value E http = Inr v" "usable_id v = Some i"
    by (auto simp: crossmint_answered_id_def split: if_splits sum.splits)
  with assms(1) show ?thesis
    by (auto simp: create_answer_def Let_def result_simps unconfirmed_unless_rejected_def split: if_splits)
qed

lemma finish_managed_trace:
  assumes "finish_managed_transaction E self response t = (rf, t')" "delivered E self t response"
  shows "\<exists>es. t' = t @ es"
proof -
  obtain rp t3 where poll: "poll_transaction E self response t = (rp, t3)" by (metis surj_pair)
  then have "t3 = t'" using assms(1) by (cases rp) (auto simp: finish_managed_transaction_def io_bind_def io_lift_def)
  with poll_rounds_effects [OF poll [unfolded poll_transaction_def] assms(2)] show ?thesis
    by (auto simp: polling_effects_def)
qed

text \<open>What a run tells of acceptance: an accepted create, an unconfirmed one, or a refusal.\<close>

lemma crossmint_accepted_cases:
  assumes run: "execute_managed_transaction E self tx t = (r, t')"
  obtains (unsent) e where "r = Inl e" "t' = t" "crossmint_accepted E self tx t = None"
    | (unconfirmed) req i st d where "r = Inl (BroadcastUnconfirmed i st (Some (crossmint_key E self tx)) None d)"
        "t' = t @ [Requested req]" "req_method req = ''POST''"
        "(''x-idempotency-key'', crossmint_key E self tx) \<in> set (req_headers req)" "crossmint_accepted E self tx t \<in> {None, i}"
    | (refused) req e http where "r = Inl e" "t' = t @ [Requested req]" "req_method req = ''POST''"
        "(''x-idempotency-key'', crossmint_key E self tx) \<in> set (req_headers req)" "crossmint_accepted E self tx t = None"
        "http_send E (cm_client self) t req = Inr http" "refusal http"
    | (accepted) req response rf t2 where "submit_managed E self tx t = (Inr response, t @ [Requested req])"
        "req_method req = ''POST''" "(''x-idempotency-key'', crossmint_key E self tx) \<in> set (req_headers req)"
        "crossmint_accepted E self tx t = Some (resp_id response)"
        "finish_managed_transaction E self response (crossmint_note self (PendingSet (resp_id response)) (t @ [Requested req])) = (rf, t2)"
        "r = map_err (\<lambda>e. BroadcastUnconfirmed (Some (resp_id response)) None (Some (crossmint_key E self tx)) None (detail_string e)) rf"
        "t' = crossmint_note self (PendingCleared (resp_id response)) t2"
  using run
proof (cases rule: execute_cases)
  case (refused e)
  from refused(1) show thesis
  proof (cases rule: submit_managed_cases)
    case (unsent e')
    with refused run show thesis by (intro that(1)) (auto simp: crossmint_accepted_def)
  next
    case (sent req)
    let ?key = "crossmint_key E self tx"
    show thesis
    proof (cases "http_send E (cm_client self) t req")
      case (Inl d)
      then have "e = unconfirmed_unless_rejected None None (Some ?key) (HttpError d)" using sent(4) by simp
      then show thesis using refused run sent(1-3) Inl
        by (intro that(2)) (auto simp: unconfirmed_unless_rejected_def crossmint_accepted_def opt_filter_def)
    next
      case (Inr http)
      then have answer: "create_answer E ?key http = Inl e" using sent(4) by simp
      have acc: "crossmint_accepted E self tx t = crossmint_answered_id E http"
        using run sent(1) Inr by (simp add: crossmint_accepted_def)
      show thesis
      proof (cases "refusal http")
        case True
        then have "crossmint_answered_id E http = None" by (auto simp: refusal_def crossmint_answered_id_def)
        with True acc refused sent(1-3) Inr show thesis by (intro that(3)) auto
      next
        case False
        from create_answer_unconfirmed [OF answer False] obtain i st d
          where "e = BroadcastUnconfirmed i st (Some ?key) None d" by blast
        moreover from this have "crossmint_answered_id E http \<in> {None, i}"
          using create_answer_failed_id [OF answer] by (cases "crossmint_answered_id E http") auto
        ultimately show thesis using acc refused sent(1-3) by (intro that(2)) auto
      qed
    qed
  qed
next
  case (accepted response t1 rf t2)
  from accepted(1) show thesis
  proof (cases rule: submit_managed_cases)
    case (sent req)
    then obtain http where http: "http_send E (cm_client self) t req = Inr http"
      "create_answer E (crossmint_key E self tx) http = Inr response" by (auto split: sum.splits)
    obtain es where "t2 = crossmint_note self (PendingSet (resp_id response)) t1 @ es"
      using finish_managed_trace [OF accepted(2)] delivered_mono [OF submit_managed_delivered [OF accepted(1)]]
      unfolding note_append by blast
    then have "first_answer E (cm_client self) t t' = Some http" using accepted(4) sent(1) http(1) by (simp add: note_append)
    then have "crossmint_accepted E self tx t = crossmint_answered_id E http" using run by (simp add: crossmint_accepted_def)
    also have "\<dots> = Some (resp_id response)" using create_answer_id [OF http(2)] by (auto simp: crossmint_answered_id_def)
    finally show thesis using accepted sent(1-3) that(4) by simp
  qed simp
qed

interpretation crossmint: sending_signer "execute_managed_transaction E self" "crossmint_accepted E self"
    "calls_refused E (cm_client self)"
  for E :: "'x crossmint_env_scheme" and self :: crossmint_signer
proof
  fix tx w s w'
  assume "execute_managed_transaction E self tx w = (Inr s, w')"
  then show "crossmint_accepted E self tx w \<noteq> None" by (cases rule: crossmint_accepted_cases) simp_all
next
  fix tx w e w' i
  assume run: "execute_managed_transaction E self tx w = (Inl e, w')" and acc: "crossmint_accepted E self tx w = Some i"
  from run show "\<exists>st key sig d. e = BroadcastUnconfirmed (Some i) st key sig d"
  proof (cases rule: crossmint_accepted_cases)
    case (accepted req response rf t2)
    with acc show ?thesis by (cases rf) (auto simp: map_err_def)
  qed (use acc in auto)
next
  fix tx w e w'
  assume run: "execute_managed_transaction E self tx w = (Inl e, w')" and definite: "\<not> is_unconfirmed e"
  from run show "calls_refused E (cm_client self) w w'"
  proof (cases rule: crossmint_accepted_cases)
    case (accepted req response rf t2)
    with definite show ?thesis by (cases rf) (auto simp: map_err_def is_unconfirmed_def)
  qed (use definite in \<open>auto simp: is_unconfirmed_def\<close>)
qed

text \<open>What happens after the create was accepted.\<close>

lemma accepted_effects:
  assumes "submit_managed E self tx t = (Inr response, t1)"
    and "finish_managed_transaction E self response (crossmint_note self (PendingSet (resp_id response)) t1) = (rf, t2)"
  obtains es where "t2 = crossmint_note self (PendingSet (resp_id response)) t1 @ es"
    "length (requests es) \<le> unat (cm_max_poll_attempts self)" "length (posts es) \<le> 1"
    "list_all (poll_event E self t2) es"
    "\<forall>s. rf = Inr s \<longrightarrow> (\<exists>final. delivered E self t2 final \<and> resp_state final = ''success'' \<and>
       extract_signature_from_response E final = Inr s)"
proof -
  let ?t = "crossmint_note self (PendingSet (resp_id response)) t1"
  obtain rp t3 where poll: "poll_transaction E self response ?t = (rp, t3)" by (metis surj_pair)
  have "t3 = t2" and rf: "rf = res_bind rp (extract_signature_from_response E)"
    using assms(2) poll by (cases rp; auto simp: finish_managed_transaction_def io_bind_def io_lift_def)+
  have "delivered E self ?t response" unfolding note_append using submit_managed_delivered [OF assms(1)] by (rule delivered_mono)
  from poll_rounds_effects [OF poll [unfolded poll_transaction_def] this] obtain es where es:
    "t3 = ?t @ es" "length (requests es) \<le> unat (cm_max_poll_attempts self)" "length (posts es) \<le> (if False then 0 else 1)"
    "list_all (poll_event E self t3) es"
    "\<forall>final. rp = Inr final \<longrightarrow> delivered E self t3 final \<and> resp_state final = ''success''"
    unfolding polling_effects_def by blast
  show ?thesis
  proof (rule that [of es])
    show "\<forall>s. rf = Inr s \<longrightarrow> (\<exists>final. delivered E self t2 final \<and> resp_state final = ''success'' \<and>
       extract_signature_from_response E final = Inr s)"
      using es(5) unfolding rf \<open>t3 = t2\<close> res_bind_Inr by metis
  qed (use es \<open>t3 = t2\<close> in simp_all)
qed

section \<open>Calls\<close>

definition crossmint_wallet_url :: "crossmint_signer \<Rightarrow> parsed_url \<Rightarrow> string" where
  "crossmint_wallet_url self base =
     trim_end_matches (CHR ''/'') (url_as_str base) @ ''/2025-06-09/wallets/'' @ encode_uri_component (cm_wallet_locator self)"

fun crossmint_endpoint :: "('x crossmint_env_scheme) \<Rightarrow> crossmint_signer \<Rightarrow> event \<Rightarrow> bool" where
  "crossmint_endpoint E self (Requested req) =
     (case url_parse E (cm_api_base_url self) of Inl _ \<Rightarrow> False | Inr base \<Rightarrow> prefix (crossmint_wallet_url self base) (req_url req))"
| "crossmint_endpoint E self _ = False"

lemma wallets_url_endpoint:
  assumes "build_wallets_api_url E self segments = Inr url" "req_url req = url"
  shows "crossmint_endpoint E self (Requested req)"
proof -
  from assms obtain base where "url_parse E (cm_api_base_url self) = Inr base"
    and url: "req_url req = crossmint_wallet_url self base @ concat (map (\<lambda>segment. ''/'' @ encode_uri_component segment) segments)"
    by (auto simp: build_wallets_api_url_def crossmint_wallet_url_def result_simps split: if_splits)
  then show ?thesis by simp
qed

lemma crossmint_request_url [simp]: "req_url (crossmint_get self url) = url" "req_url (crossmint_post self url extra body) = url"
  "req_url (approval_request E self url locator sig) = url"
  by (simp_all add: crossmint_get_def crossmint_post_def approval_request_def)

lemma fetch_wallet_calls [calls_intros]: "makes_calls 1 (crossmint_endpoint E self) (fetch_wallet E self)"
  unfolding fetch_wallet_def
  by (rule makes_calls_mono, rule calls_bind_lift, (rule calls_intros | erule wallets_url_endpoint | simp)+)

lemma create_transaction_calls [calls_intros]: "makes_calls 1 (crossmint_endpoint E self) (create_transaction E self transaction key)"
  unfolding create_transaction_def
  by (rule makes_calls_mono, rule calls_bind_lift, (rule calls_intros | erule wallets_url_endpoint | simp)+)

lemma get_transaction_calls [calls_intros]: "makes_calls 1 (crossmint_endpoint E self) (get_transaction E self transaction_id)"
  unfolding get_transaction_def
  by (rule makes_calls_mono, rule calls_bind_lift, (rule calls_intros | erule wallets_url_endpoint | simp)+)

lemma submit_approval_calls [calls_intros]:
  "makes_calls 1 (crossmint_endpoint E self) (submit_approval E self transaction_id locator message key)"
  unfolding submit_approval_def
  by (rule makes_calls_mono, rule calls_bind_lift, rule calls_bind_lift, (rule calls_intros | erule wallets_url_endpoint | simp)+)

lemma handle_awaiting_approval_calls [calls_intros]:
  "makes_calls 1 (crossmint_endpoint E self) (handle_awaiting_approval E self response)"
proof (cases "\<exists>k l. cm_signing_key self = Some k \<and> cm_signer self = Some l")
  case True
  then obtain k l where "cm_signing_key self = Some k" "cm_signer self = Some l" by blast
  then show ?thesis unfolding handle_awaiting_approval_def
    by simp (rule makes_calls_mono, (rule calls_intros | simp)+)
next
  case False
  then have "handle_awaiting_approval E self response = io_lift (Inl approvals_required)"
    by (auto simp: handle_awaiting_approval_def split: option.split)
  then show ?thesis using makes_calls_mono [OF calls_lift] by simp
qed

lemma poll_rounds_calls:
  "makes_calls n (crossmint_endpoint E self) (poll_rounds E self n approval_submitted response)"
proof (induction n arbitrary: approval_submitted response)
  case 0
  then show ?case by (simp add: calls_lift)
next
  case (Suc n)
  show ?case unfolding poll_rounds.simps
    by (rule makes_calls_mono, (rule calls_intros Suc.IH | simp)+)
qed

lemma crossmint_note_calls: "\<not> is_call e \<Longrightarrow> calls_between 0 P t (crossmint_note self e t)"
  by (simp add: crossmint_note_def calls_between_append)

lemma execute_managed_calls:
  "makes_calls (1 + unat (cm_max_poll_attempts self)) (crossmint_endpoint E self) (execute_managed_transaction E self tx)"
  unfolding execute_managed_transaction_def submit_managed_def finish_managed_transaction_def poll_transaction_def Let_def
  by (rule makes_calls_mono, (rule calls_intros poll_rounds_calls crossmint_note_calls | simp)+)

lemma crossmint_available_calls: "makes_calls 1 (crossmint_endpoint E self) (crossmint_is_available E self)"
  unfolding crossmint_is_available_def by (rule makes_calls_mono, (rule calls_intros | simp)+)

section \<open>Properties\<close>


text \<open>
  C11: how a Crossmint broadcast uses its approval key. Apart from the create, it posts at most one request, and that
  one carries the key's signature over a challenge that Crossmint delivered in this call as pending for the signer's own
  locator: challenges of other approvers are never signed, and an approval that is slow to register is not repeated.
\<close>

theorem crossmint_approves_own_challenge_once:
  assumes "execute_managed_transaction E self tx [] = (r, t')"
  shows "length (posts t') \<le> 2 \<and> (\<forall>q \<in> set (tl (posts t')). own_approval E self t' q)"
  using assms
proof (cases rule: execute_cases)
  case (refused e)
  from refused(1) show ?thesis by (cases rule: submit_managed_cases) auto
next
  case (accepted response t1 rf t2)
  from accepted(1) obtain req where req: "t1 = [Requested req]" "req_method req = ''POST''"
    by (cases rule: submit_managed_cases) auto
  from accepted(1,2) obtain es where es: "t2 = crossmint_note self (PendingSet (resp_id response)) t1 @ es"
    "length (posts es) \<le> 1" "list_all (poll_event E self t2) es" by (rule accepted_effects)
  have "own_approval E self t' q" if "q \<in> set (posts es)" for q
    using poll_event_posts [OF es(3) that] own_approval_mono unfolding accepted(4) note_append by blast
  moreover have "posts t' = req # posts es" using es(1) req accepted(4) by (simp add: note_append)
  ultimately show ?thesis using es(2) by simp
qed


text \<open>
  A definite error from a Crossmint broadcast, one that is not reported as unconfirmed, means that Crossmint
  accepted nothing, so the caller may build a new transaction and send it.
\<close>

theorem crossmint_definite_error_not_accepted:
  assumes "execute_managed_transaction E self tx t = (Inl e, t')" and "\<not> is_unconfirmed e"
  shows "crossmint_accepted E self tx t = None"
  using assms by (rule crossmint.definite_error_not_accepted)

text \<open>
  C25: The input of the Crossmint idempotency key determines the signer locator and the message: whatever bytes the
  locator holds, two creates are hashed from the same input only when both agree.
\<close>

theorem crossmint_key_input_separates:
  "namespaced_key_input self m = namespaced_key_input self' m' \<longleftrightarrow>
     unwrap_or [] (cm_signer self) = unwrap_or [] (cm_signer self') \<and> m = m'"
proof
  let ?l = "unwrap_or [] (cm_signer self)" and ?l' = "unwrap_or [] (cm_signer self')"
  have digits: "CHR '':'' \<notin> set (show_nat n)" for n
    using show_nat_digits [of n] by (auto simp: list_all_iff is_digit_char_def)
  assume "namespaced_key_input self m = namespaced_key_input self' m'"
  then have "bytes_str (namespaced_key_input self m) = bytes_str (namespaced_key_input self' m')" by simp
  then have "show_nat (length ?l) @ CHR '':'' # ?l @ CHR '':'' # bytes_str m =
      show_nat (length ?l') @ CHR '':'' # ?l' @ CHR '':'' # bytes_str m'"
    unfolding namespaced_key_input_def Let_def bytes_str_append bytes_str_str_bytes by simp
  then show "?l = ?l' \<and> m = m'" by (simp only: split_first_eq digits not_False_eq_True show_nat_inject) auto
qed (simp add: namespaced_key_input_def)

text \<open>
  A plus sign is read as a leading zero of a hex pair: 64 characters that are not a hex string are taken as
  \<^verbatim>\<open>signer_secret\<close>, and two different secrets then give one approval key.
\<close>

lemma plus_sign_is_hex: "hex_pairs (CHR ''+'' # c # cs) = hex_pairs (CHR ''0'' # c # cs)"
proof -
  have "hex_pair (CHR ''+'') c = hex_pair (CHR ''0'') c"
    by (cases "hex_digit c") (simp_all add: hex_pair_def hex_digit_def [of "CHR ''0''"])
  then show ?thesis by simp
qed

text \<open>
  C15: The id of an accepted create, read through the type of the response, is not blank and is the one the error paths read from the untyped
  body, so that an error reported for this answer names the same transaction.
\<close>

theorem crossmint_created_id:
  assumes "create_answer E key response = Inr created"
  shows "\<exists>v. read_json_value E response = Inr v \<and> usable_id v = Some (resp_id created) \<and> trim (resp_id created) \<noteq> []"
  using create_answer_id [OF assms] by blast

section \<open>Witness runs\<close>

text \<open>A provider that answers every request with the same transaction, written as the API does: absent data has no entry.\<close>

definition entry :: "string \<Rightarrow> ('a \<Rightarrow> json) \<Rightarrow> 'a option \<Rightarrow> (string \<times> json) list" where
  "entry n f v = (case v of None \<Rightarrow> [] | Some x \<Rightarrow> [(n, f x)])"

definition approval_json :: "pending_approval \<Rightarrow> json" where
  "approval_json p = JObject (entry ''message'' JString (approval_message p) @
     entry ''signer'' (\<lambda>l. JObject [(''locator'', JString l)]) (approval_locator p))"

definition on_chain_json :: "on_chain_data \<Rightarrow> json" where
  "on_chain_json d = JObject (entry ''transaction'' JString (on_chain_transaction d) @ entry ''txId'' JString (on_chain_tx_id d))"

definition response_json :: "transaction_response \<Rightarrow> json" where
  "response_json r = JObject ([(''id'', JString (resp_id r)), (''status'', JString (resp_state r))] @
     entry ''onChain'' on_chain_json (resp_on_chain r) @
     entry ''approvals'' (\<lambda>ps. JObject [(''pending'', JArray (map approval_json ps))]) (resp_approvals r) @
     entry ''error'' id (resp_error r))"

definition demo_crossmint :: "transaction_response \<Rightarrow> crossmint_env" where
  "demo_crossmint response = net_env.extend (demo_net\<lparr>json_from_slice := (\<lambda>b. Inr (response_json response))\<rparr>)
     (crossmint_env.fields (\<lambda>n v. ''none'') (\<lambda>salt ikm info. Inr (replicate 32 7)) (\<lambda>k. k) (\<lambda>k m. m))"

definition demo_awaiting :: transaction_response where
  "demo_awaiting = \<lparr>resp_id = ''tx1'', resp_state = ''awaiting-approval'', resp_on_chain = None,
     resp_approvals = Some [\<lparr>approval_message = Some ''other'', approval_locator = Some ''someone''\<rparr>,
       \<lparr>approval_message = Some ''mine'', approval_locator = Some ''me''\<rparr>], resp_error = None\<rparr>"

definition demo_landed :: transaction_response where
  "demo_landed = \<lparr>resp_id = ''tx1'', resp_state = ''success'',
     resp_on_chain = Some \<lparr>on_chain_transaction = Some ''00'', on_chain_tx_id = None\<rparr>, resp_approvals = None, resp_error = None\<rparr>"

definition demo_wallet :: crossmint_signer where
  "demo_wallet = \<lparr>cm_api_key = ''key'', cm_wallet_locator = ''wallet'', cm_signer = Some ''me'', cm_api_base_url = ''https://c'',
     cm_client = \<lparr>client_timeout = 1, client_connect_timeout = 1, client_https_only = True, client_redirect = RefuseRedirect [],
       client_user_agent = None\<rparr>,
     cm_public_key = Some (demo_key 1), cm_poll_interval_ms = 1, cm_max_poll_attempts = 2, cm_signing_key = Some [1],
     cm_pending_transaction_id = True\<rparr>"




lemma demo_awaiting_posts:
  "length (posts (snd (execute_managed_transaction (demo_crossmint demo_awaiting) demo_wallet demo_tx1 []))) = 2"
  by code_simp

theorem crossmint_approves_own_challenge_once_witness:
  "let t' = snd (execute_managed_transaction (demo_crossmint demo_awaiting) demo_wallet demo_tx1 []) in
   length (posts t') = 2 \<and> own_approval (demo_crossmint demo_awaiting) demo_wallet t' (posts t' ! 1)"
proof -
  obtain r t' where run: "execute_managed_transaction (demo_crossmint demo_awaiting) demo_wallet demo_tx1 [] = (r, t')"
    by (metis surj_pair)
  have two: "length (posts t') = 2" using demo_awaiting_posts run by simp
  then have "posts t' ! 1 \<in> set (tl (posts t'))" by (cases "posts t'") auto
  then show ?thesis using crossmint_approves_own_challenge_once [OF run] run two by simp
qed


lemma demo_uninitialized:
  "execute_managed_transaction (demo_crossmint demo_landed) (demo_wallet\<lparr>cm_public_key := None\<rparr>) demo_tx1 [] =
     (Inl (ConfigError ''CrossmintSigner is not initialized; call init() before signing''), [])"
  by code_simp

theorem crossmint_definite_error_not_accepted_witness:
  "crossmint_accepted (demo_crossmint demo_landed) (demo_wallet\<lparr>cm_public_key := None\<rparr>) demo_tx1 [] = None"
  by (rule crossmint_definite_error_not_accepted [OF demo_uninitialized]) simp

lemma demo_create_answer:
  "create_answer (demo_crossmint demo_landed) ''key'' \<lparr>resp_status = 200, resp_chunks = [], resp_chunk_error = None\<rparr> = Inr demo_landed"
  by code_simp

theorem crossmint_created_id_witness:
  "\<exists>v. read_json_value (demo_crossmint demo_landed) \<lparr>resp_status = 200, resp_chunks = [], resp_chunk_error = None\<rparr> = Inr v \<and>
     usable_id v = Some ''tx1''"
  using crossmint_created_id [OF demo_create_answer] by (auto simp: demo_landed_def)

end
