(* ===== verification/Utila_Signer.thy ===== *)
theory Utila_Signer
  imports Wallet_Jwt Traits_Send
begin

text \<open>
  \<^verbatim>\<open>src/rust/src/utila\<close>: the Utila backend, which initiates a transaction without publishing it and polls until Utila has signed it.
\<close>

datatype transaction_state =
    AwaitingApproval | AwaitingAmlPolicyCheck | DeclinedByAmlPolicy | AwaitingPolicyCheck | AwaitingSignature | Signed
  | AwaitingPublish | Published | Mined | MinedFailed | Failed | Declined | Replaced | Canceled | Dropped | Confirmed
  | Expired | Unknown

definition is_terminal_failure :: "transaction_state \<Rightarrow> bool" where
  "is_terminal_failure state \<longleftrightarrow>
     state \<in> {DeclinedByAmlPolicy, MinedFailed, Failed, Declined, Replaced, Canceled, Dropped, Expired}"

text \<open>The derived \<^verbatim>\<open>Debug\<close> of the states: the name of the variant.\<close>

fun debug_state :: "transaction_state \<Rightarrow> string" where
  "debug_state DeclinedByAmlPolicy = ''DeclinedByAmlPolicy''"
| "debug_state MinedFailed = ''MinedFailed''"
| "debug_state Failed = ''Failed''"
| "debug_state Declined = ''Declined''"
| "debug_state Replaced = ''Replaced''"
| "debug_state Canceled = ''Canceled''"
| "debug_state Dropped = ''Dropped''"
| "debug_state Expired = ''Expired''"
| "debug_state AwaitingApproval = ''AwaitingApproval''"
| "debug_state AwaitingAmlPolicyCheck = ''AwaitingAmlPolicyCheck''"
| "debug_state AwaitingPolicyCheck = ''AwaitingPolicyCheck''"
| "debug_state AwaitingSignature = ''AwaitingSignature''"
| "debug_state Signed = ''Signed''"
| "debug_state AwaitingPublish = ''AwaitingPublish''"
| "debug_state Published = ''Published''"
| "debug_state Mined = ''Mined''"
| "debug_state Confirmed = ''Confirmed''"
| "debug_state Unknown = ''Unknown''"

record utila_transaction =
  ut_name :: string
  ut_state :: transaction_state
  ut_raw_transaction :: "string option"

section \<open>Responses (types.rs)\<close>

text \<open>The names of the states; any other name is \<^verbatim>\<open>#[serde(other)]\<close>. The object form of a unit variant is accepted too.\<close>

definition state_names :: "(string \<times> transaction_state) list" where
  "state_names =
     [(''AWAITING_APPROVAL'', AwaitingApproval), (''AWAITING_AML_POLICY_CHECK'', AwaitingAmlPolicyCheck), (''DECLINED_BY_AML_POLICY'', DeclinedByAmlPolicy),
      (''AWAITING_POLICY_CHECK'', AwaitingPolicyCheck), (''AWAITING_SIGNATURE'', AwaitingSignature), (''SIGNED'', Signed),
      (''AWAITING_PUBLISH'', AwaitingPublish), (''PUBLISHED'', Published), (''MINED'', Mined),
      (''MINED_FAILED'', MinedFailed), (''FAILED'', Failed), (''DECLINED'', Declined),
      (''REPLACED'', Replaced), (''CANCELED'', Canceled), (''DROPPED'', Dropped),
      (''CONFIRMED'', Confirmed), (''EXPIRED'', Expired)]"

definition state_of :: "string \<Rightarrow> transaction_state" where
  "state_of state_name = unwrap_or Unknown (map_of state_names state_name)"

fun de_state :: "json \<Rightarrow> transaction_state option" where
  "de_state (JString state_name) = Some (state_of state_name)"
| "de_state (JObject [(state_name, JNull)]) = Some (state_of state_name)"
| "de_state _ = None"

definition de_solana_details :: "json \<Rightarrow> string option" where
  "de_solana_details j = do {
     m \<leftarrow> as_struct [(''address'', False)] j;
     a \<leftarrow> required de_string (m ''address'');
     Some a }"

definition de_utila_wallet :: "json \<Rightarrow> string option option" where
  "de_utila_wallet j = do {
     m \<leftarrow> as_struct [(''solanaDetails'', False)] j;
     details \<leftarrow> optional de_solana_details (m ''solanaDetails'');
     Some details }"

definition de_wallet_response :: "json \<Rightarrow> string option option" where
  "de_wallet_response j = do {
     m \<leftarrow> as_struct [(''wallet'', False)] j;
     w \<leftarrow> required de_utila_wallet (m ''wallet'');
     Some w }"

definition de_utila_solana_transaction :: "json \<Rightarrow> string option option" where
  "de_utila_solana_transaction j = do {
     m \<leftarrow> as_struct [(''rawTransaction'', False)] j;
     raw \<leftarrow> optional de_string (m ''rawTransaction'');
     Some raw }"

definition de_utila_transaction :: "json \<Rightarrow> utila_transaction option" where
  "de_utila_transaction j = do {
     m \<leftarrow> as_struct [(''name'', False), (''state'', False), (''solanaTransaction'', False)] j;
     n \<leftarrow> required de_string (m ''name'');
     st \<leftarrow> required de_state (m ''state'');
     tx \<leftarrow> optional de_utila_solana_transaction (m ''solanaTransaction'');
     Some \<lparr>ut_name = n, ut_state = st, ut_raw_transaction = Option.bind tx id\<rparr> }"

definition de_transaction_envelope :: "json \<Rightarrow> utila_transaction option" where
  "de_transaction_envelope j = do {
     m \<leftarrow> as_struct [(''transaction'', False)] j;
     tx \<leftarrow> required de_utila_transaction (m ''transaction'');
     Some tx }"

definition utila_wallet_decode :: "('x net_env_scheme) \<Rightarrow> bytes \<Rightarrow> string + string option" where
  "utila_wallet_decode E = serde_from_slice E ''WalletResponse'' de_wallet_response"

definition utila_transaction_decode :: "('x net_env_scheme) \<Rightarrow> bytes \<Rightarrow> string + utila_transaction" where
  "utila_transaction_decode E = serde_from_slice E ''TransactionEnvelope'' de_transaction_envelope"

lemma de_state_object:
  "de_state (JObject es) = (case es of [e] \<Rightarrow> if snd e = JNull then Some (state_of (fst e)) else None | _ \<Rightarrow> None)"
proof (cases es)
  case (Cons e rest)
  then show ?thesis by (cases e; cases "snd e"; cases rest) simp_all
qed simp

lemma order_free_state [order_free_intros]: "order_free de_state"
  unfolding order_free_def
proof (intro allI impI)
  fix j j' assume "same_json j j'"
  then show "de_state j = de_state j'"
  proof cases
    case (same_object es gs' gs)
    show ?thesis
    proof (cases gs')
      case (Cons e rest)
      with same_object(5) obtain g more where g: "gs = g # more" "fst e = fst g" "same_json (snd e) (snd g)" "length rest = length more"
        by (auto simp: list_all2_Cons1 list_all2_lengthD)
      have "length es = length gs'" using same_object(4) by (metis size_mset)
      moreover have "es = [e]" if "rest = []" using same_object(4) that Cons by simp
      ultimately show ?thesis
        using g Cons same_json_null [OF g(3)] unfolding same_object(1,2) de_state_object
        by (cases rest; cases more; cases es) (auto split: list.splits)
    qed (use same_object in \<open>simp add: de_state_object\<close>)
  qed simp_all
qed

lemma order_free_solana_details [order_free_intros]: "order_free de_solana_details"
  unfolding de_solana_details_def [abs_def] by (rule order_free_intros)+

lemma order_free_utila_wallet [order_free_intros]: "order_free de_utila_wallet"
  unfolding de_utila_wallet_def [abs_def] by (rule order_free_intros)+

lemma order_free_wallet_response [order_free_intros]: "order_free de_wallet_response"
  unfolding de_wallet_response_def [abs_def] by (rule order_free_intros)+

lemma order_free_utila_solana_transaction [order_free_intros]: "order_free de_utila_solana_transaction"
  unfolding de_utila_solana_transaction_def [abs_def] by (rule order_free_intros)+

lemma order_free_utila_transaction [order_free_intros]: "order_free de_utila_transaction"
  unfolding de_utila_transaction_def [abs_def] by (rule order_free_intros)+

lemma order_free_transaction_envelope [order_free_intros]: "order_free de_transaction_envelope"
  unfolding de_transaction_envelope_def [abs_def] by (rule order_free_intros)+

section \<open>Requests (types.rs)\<close>

definition initiate_request_json :: "string \<Rightarrow> string \<Rightarrow> string list \<Rightarrow> json" where
  "initiate_request_json network raw_transaction designated_signers =
     JObject ((''details'', JObject [(''solanaSerializedTransaction'', JObject [(''network'', JString network),
         (''rawTransaction'', JString raw_transaction), (''publish'', JBool False), (''replaceBlockhash'', JBool False),
         (''tryReplaceBlockhash'', JBool False)])]) #
       (if designated_signers = [] then [] else [(''designatedSigners'', JArray (map JString designated_signers))]))"

definition UTILA_BASE_URL :: string where "UTILA_BASE_URL = ''https://api.utila.io''"
definition UTILA_API_AUDIENCE :: string where "UTILA_API_AUDIENCE = ''https://api.utila.io/''"
definition UTILA_POLL_INTERVAL_MS :: u64 where "UTILA_POLL_INTERVAL_MS = 1000"
definition UTILA_MAX_POLL_ATTEMPTS :: u32 where "UTILA_MAX_POLL_ATTEMPTS = 60"
definition TOKEN_TTL_MINUTES :: int where "TOKEN_TTL_MINUTES = 55"

record utila_config =
  utc_service_account_email :: string
  utc_service_account_private_key_pem :: string
  utc_vault_id :: string
  utc_wallet_id :: string
  utc_network :: string
  utc_api_base_url :: "string option"
  utc_poll_interval_ms :: "u64 option"
  utc_max_poll_attempts :: "u32 option"
  utc_designated_signers :: "string list option"
  utc_http_client_config :: "http_client_config option"

record utila_signer =
  ut_service_account_email :: string
  ut_signing_key :: bytes
  ut_vault_id :: string
  ut_wallet_id :: string
  ut_network :: string
  ut_api_base_url :: string
  ut_client :: client_settings
  ut_public_key :: "pubkey option"
  ut_poll_interval_ms :: u64
  ut_max_poll_attempts :: u32
  ut_designated_signers :: "string list"

definition validate_required :: "string \<Rightarrow> string \<Rightarrow> unit result" where
  "validate_required field value = (if trim value = [] then Inl (ConfigError (field @ '' must not be empty'')) else Inr ())"

definition normalize_api_base_url :: "('x auth_env_scheme) \<Rightarrow> string option \<Rightarrow> string result" where
  "normalize_api_base_url E value =
     (let api_base_url = normalize_base_url (unwrap_or UTILA_BASE_URL value) in
      res_bind (map_err (\<lambda>e. ConfigError (''Invalid api_base_url: '' @ e)) (url_parse E api_base_url)) (\<lambda>parsed.
      if url_scheme parsed \<noteq> ''https'' then Inl (ConfigError ''api_base_url must use HTTPS'') else Inr api_base_url))"

definition extract_transaction_id :: "string \<Rightarrow> string result" where
  "extract_transaction_id name =
     ok_or (SerializationError ''Utila transaction response missing transaction id'')
       (opt_filter (\<lambda>v. v \<noteq> []) (Some (last (split_on (CHR ''/'') name))))"

definition trim_resource_prefix :: "string \<Rightarrow> string \<Rightarrow> string" where
  "trim_resource_prefix value pre = unwrap_or value (strip_prefix pre value)"

definition trim_wallet_id :: "string \<Rightarrow> string \<Rightarrow> string result" where
  "trim_wallet_id value vault_id =
     (case rsplit_once ''/wallets/'' value of
        None \<Rightarrow> Inr value
      | Some (parent, wallet_id) \<Rightarrow>
          if parent \<noteq> ''vaults/'' @ vault_id \<or> CHR ''/'' \<in> set wallet_id
          then Inl (ConfigError ''wallet_id resource name must belong to the configured vault_id'')
          else Inr wallet_id)"

definition utila_new :: "('x auth_env_scheme) \<Rightarrow> utila_config \<Rightarrow> utila_signer result" where
  "utila_new E config =
     res_bind (validate_required ''service_account_email'' (utc_service_account_email config)) (\<lambda>_.
     res_bind (validate_required ''service_account_private_key_pem'' (utc_service_account_private_key_pem config)) (\<lambda>_.
     res_bind (validate_required ''vault_id'' (utc_vault_id config)) (\<lambda>_.
     res_bind (validate_required ''wallet_id'' (utc_wallet_id config)) (\<lambda>_.
     res_bind (validate_required ''network'' (utc_network config)) (\<lambda>_.
     res_bind (normalize_api_base_url E (utc_api_base_url config)) (\<lambda>api_base_url.
     let interval = unwrap_or UTILA_POLL_INTERVAL_MS (utc_poll_interval_ms config);
         attempts = unwrap_or UTILA_MAX_POLL_ATTEMPTS (utc_max_poll_attempts config);
         pem = str_replace [CHR 13] [] (str_replace (CHR 92 # ''n'') [CHR 10] (utc_service_account_private_key_pem config)) in
     if interval = 0 then Inl (ConfigError ''poll_interval_ms must be greater than 0'')
     else if attempts = 0 then Inl (ConfigError ''max_poll_attempts must be greater than 0'')
     else res_bind (map_err (\<lambda>_. InvalidPrivateKey ''Failed to parse Utila service account RSA private key'')
       (key_from_rsa_pem E (str_bytes (trim pem)))) (\<lambda>key.
     res_bind (build_client E (unwrap_or http_client_config_default (utc_http_client_config config))) (\<lambda>client.
     let designated_signers = unwrap_or [''users/'' @ utc_service_account_email config] (utc_designated_signers config);
         vault_id = trim_resource_prefix (utc_vault_id config) ''vaults/'' in
     res_bind (trim_wallet_id (utc_wallet_id config) vault_id) (\<lambda>wallet_id.
     Inr \<lparr>ut_service_account_email = utc_service_account_email config, ut_signing_key = key, ut_vault_id = vault_id,
          ut_wallet_id = wallet_id, ut_network = utc_network config, ut_api_base_url = api_base_url, ut_client = client,
          ut_public_key = None, ut_poll_interval_ms = interval, ut_max_poll_attempts = attempts,
          ut_designated_signers = designated_signers\<rparr>)))))))))"

definition utila_initialized_pubkey :: "utila_signer \<Rightarrow> pubkey result" where
  "utila_initialized_pubkey self =
     ok_or (ConfigError ''UtilaSigner is not initialized; call init() before signing'') (ut_public_key self)"

text \<open>\<^verbatim>\<open>(Utc::now() + Duration::minutes(55)).timestamp()\<close>.\<close>

definition create_access_token :: "('x auth_env_scheme) \<Rightarrow> utila_signer \<Rightarrow> (trace, string) signer_io" where
  "create_access_token E self t =
     (map_err (\<lambda>_. SigningFailed ''Failed to create Utila access token'')
        (jwt_encode E (JObject [(''typ'', JString ''JWT''), (''alg'', JString ''RS256'')])
          (JObject [(''sub'', JString (ut_service_account_email self)), (''aud'', JString UTILA_API_AUDIENCE),
            (''exp'', JNumber (show_int ((utc_now_ms E t + TOKEN_TTL_MINUTES * 60 * 1000) div 1000)))]) (ut_signing_key self)), t)"

definition build_url :: "utila_signer \<Rightarrow> string \<Rightarrow> string" where
  "build_url self path = ut_api_base_url self @ path"

definition utila_get_json ::
  "('x auth_env_scheme) \<Rightarrow> utila_signer \<Rightarrow> string \<Rightarrow> (bytes \<Rightarrow> string + 'a) \<Rightarrow> string \<Rightarrow> (trace, 'a) signer_io" where
  "utila_get_json E self path decode context =
     io_bind (create_access_token E self) (\<lambda>token.
     io_bind (send_or_http_error E (ut_client self) (get_request (build_url self path) [(''Authorization'', ''Bearer '' @ token)]))
       (\<lambda>response. io_lift (parse_json_response decode response (''Utila API '' @ context))))"

definition utila_post_json ::
  "('x auth_env_scheme) \<Rightarrow> utila_signer \<Rightarrow> string \<Rightarrow> json \<Rightarrow> (bytes \<Rightarrow> string + 'a) \<Rightarrow> string \<Rightarrow> (trace, 'a) signer_io" where
  "utila_post_json E self path body decode context =
     io_bind (create_access_token E self) (\<lambda>token.
     io_bind (send_or_http_error E (ut_client self) (post_json E (build_url self path) [(''Authorization'', ''Bearer '' @ token)] body))
       (\<lambda>response. io_lift (parse_json_response decode response (''Utila API '' @ context))))"

definition fetch_wallet_address :: "('x auth_env_scheme) \<Rightarrow> utila_signer \<Rightarrow> (trace, string) signer_io" where
  "fetch_wallet_address E self =
     io_bind (utila_get_json E self (''/v2/vaults/'' @ encode_uri_component (ut_vault_id self) @ ''/wallets/'' @
       encode_uri_component (ut_wallet_id self)) (utila_wallet_decode E) ''fetch_wallet'') (\<lambda>solana_address.
     io_lift (ok_or (InvalidPublicKey ''Utila wallet response did not include solanaDetails'') solana_address))"

definition utila_init :: "('x auth_env_scheme) \<Rightarrow> utila_signer \<Rightarrow> (trace, utila_signer) signer_io" where
  "utila_init E self =
     io_bind (fetch_wallet_address E self) (\<lambda>address.
     io_lift (res_bind (map_err (\<lambda>_. InvalidPublicKey ''Invalid Solana address returned by Utila wallet'')
       (pubkey_from_str E address)) (\<lambda>pk. Inr (self\<lparr>ut_public_key := Some pk\<rparr>))))"

definition initiate_transaction :: "('x auth_env_scheme) \<Rightarrow> utila_signer \<Rightarrow> string \<Rightarrow> (trace, utila_transaction) signer_io" where
  "initiate_transaction E self raw_transaction =
     utila_post_json E self (''/v2/vaults/'' @ encode_uri_component (ut_vault_id self) @ ''/transactions:initiate'')
       (initiate_request_json (ut_network self) raw_transaction (ut_designated_signers self))
       (utila_transaction_decode E) ''initiate_transaction''"

definition utila_get_transaction :: "('x auth_env_scheme) \<Rightarrow> utila_signer \<Rightarrow> string \<Rightarrow> (trace, utila_transaction) signer_io" where
  "utila_get_transaction E self transaction_id =
     utila_get_json E self (''/v2/vaults/'' @ encode_uri_component (ut_vault_id self) @ ''/transactions/'' @
       encode_uri_component transaction_id @ ''?view=FULL'') (utila_transaction_decode E) ''get_transaction''"

text \<open>The loop \<^verbatim>\<open>for attempt in 0..=max_poll_attempts\<close>: the first round looks at the given transaction, each later one fetches it.\<close>

fun poll_signed :: "('x auth_env_scheme) \<Rightarrow> utila_signer \<Rightarrow> string \<Rightarrow> nat \<Rightarrow> utila_transaction \<Rightarrow> (trace, utila_transaction) signer_io" where
  "poll_signed E self transaction_id rest transaction =
     (if ut_state transaction = Signed then io_lift (Inr transaction)
      else if is_terminal_failure (ut_state transaction) then
        io_lift (Inl (SigningFailed (''Utila transaction reached terminal state '' @ debug_state (ut_state transaction))))
      else case rest of
        0 \<Rightarrow> io_lift (Inl (remote_api (''Utila transaction polling timed out after '' @
          show_nat (unat (ut_max_poll_attempts self)) @ '' attempts'')))
      | Suc n \<Rightarrow>
          io_bind (emit (Slept (unat (ut_poll_interval_ms self)))) (\<lambda>_.
          io_bind (utila_get_transaction E self transaction_id) (poll_signed E self transaction_id n)))"

declare poll_signed.simps [simp del]

definition poll_signed_transaction ::
  "('x auth_env_scheme) \<Rightarrow> utila_signer \<Rightarrow> utila_transaction \<Rightarrow> (trace, utila_transaction) signer_io" where
  "poll_signed_transaction E self transaction =
     io_bind (io_lift (extract_transaction_id (ut_name transaction))) (\<lambda>transaction_id.
     poll_signed E self transaction_id (unat (ut_max_poll_attempts self)) transaction)"

definition extract_signature_from_raw_transaction ::
  "('x auth_env_scheme) \<Rightarrow> utila_signer \<Rightarrow> string \<Rightarrow> bytes \<Rightarrow> signature result" where
  "extract_signature_from_raw_transaction E self raw_transaction expected_message =
     res_bind (utila_initialized_pubkey self) (\<lambda>public_key.
     res_bind (map_err (\<lambda>_. SerializationError ''Failed to decode Utila rawTransaction as base64'')
       (b64_decode E raw_transaction)) (\<lambda>bytes.
     extract_and_verify_returned_signature E bytes public_key expected_message))"

definition utila_obtain :: "('x auth_env_scheme) \<Rightarrow> utila_signer \<Rightarrow> versioned_transaction \<Rightarrow> (trace, signature) signer_io" where
  "utila_obtain E self transaction =
     io_bind (io_lift (utila_initialized_pubkey self)) (\<lambda>_.
     io_bind (io_lift (serialize_wire_transaction E transaction)) (\<lambda>wire.
     io_bind (initiate_transaction E self (b64_encode E wire)) (\<lambda>initiated.
     io_bind (poll_signed_transaction E self initiated) (\<lambda>signed.
     io_lift (res_bind (ok_or (SigningFailed ''Utila signed transaction response missing solanaTransaction.rawTransaction'')
         (ut_raw_transaction signed)) (\<lambda>raw.
       extract_signature_from_raw_transaction E self raw (message_serialize E (tx_message transaction))))))))"

text \<open>\<^verbatim>\<open>pubkey\<close> panics, modelled as \<open>None\<close>, before \<^verbatim>\<open>init\<close>.\<close>

definition utila_pubkey :: "utila_signer \<Rightarrow> pubkey option" where
  "utila_pubkey self = ut_public_key self"

definition utila_sign_and_serialize ::
  "('x auth_env_scheme) \<Rightarrow> utila_signer \<Rightarrow> (versioned_transaction \<times> trace, signed_transaction) signer_io" where
  "utila_sign_and_serialize E self = serialize_obtained E (unwrap_or (Pubkey []) (utila_pubkey self)) (utila_obtain E self)"

definition utila_sign_transaction ::
  "('x auth_env_scheme) \<Rightarrow> utila_signer \<Rightarrow> (versioned_transaction \<times> trace, sign_transaction_result) signer_io" where
  "utila_sign_transaction E self = classify_signed (utila_sign_and_serialize E self)"

definition utila_sign_message :: "utila_signer \<Rightarrow> bytes \<Rightarrow> (trace, signature) signer_io" where
  "utila_sign_message self message = io_lift (Inl
     (SigningFailed ''Utila sign_message is not supported for Solana wallets in this signer''))"

definition utila_is_available :: "('x auth_env_scheme) \<Rightarrow> utila_signer \<Rightarrow> trace \<Rightarrow> bool \<times> trace" where
  "utila_is_available E self =
     (case utila_initialized_pubkey self of
        Inl _ \<Rightarrow> Pair False
      | Inr public_key \<Rightarrow> within_deadline E AVAILABILITY_TIMEOUT
          (io_check (fetch_wallet_address E self) (\<lambda>address. Pair (pubkey_from_str E address = Inr public_key))))"

section \<open>Contract\<close>

lemma utila_obtain_verified:
  "utila_obtain E self tx t = (Inr sig, t') \<Longrightarrow>
     verifies E sig (unwrap_or (Pubkey []) (utila_pubkey self)) (message_serialize E (tx_message tx))"
  by (auto simp: utila_obtain_def extract_signature_from_raw_transaction_def utila_initialized_pubkey_def utila_pubkey_def
      unwrap_or_def result_simps dest: returned_signature_verified)

interpretation utila: verified_signer E "unwrap_or (Pubkey []) (utila_pubkey self)" "utila_sign_message self" "utila_obtain E self"
  rewrites "attach_obtained E (unwrap_or (Pubkey []) (utila_pubkey self)) (utila_obtain E self) = utila_sign_transaction E self"
  for E :: "'x auth_env_scheme" and self :: utila_signer
  by unfold_locales (auto simp: utila_sign_message_def utila_sign_transaction_def
      utila_sign_and_serialize_def attach_obtained_def io_lift_def dest: utila_obtain_verified)

text \<open>
  When the polls run out the request Utila accepted is still pending, and the error does not name it.
\<close>

lemma utila_timeout_without_id:
  assumes "ut_state tx \<noteq> Signed" "\<not> is_terminal_failure (ut_state tx)"
  shows "\<exists>d. poll_signed E self i 0 tx t = (Inl (RemoteApiError d None), t)"
  using assms by (simp add: poll_signed.simps io_lift_def remote_api_def)

section \<open>Calls\<close>

lemma create_access_token_calls [calls_intros]: "makes_calls 0 P (create_access_token E self)"
  by (rule calls_quiet) (simp add: create_access_token_def)

lemma utila_get_json_calls [calls_intros]:
  "prefix ''/'' path \<Longrightarrow> makes_calls 1 (calls_url (ut_api_base_url self)) (utila_get_json E self path decode context)"
  unfolding utila_get_json_def build_url_def by (rule makes_calls_mono, (rule calls_intros | simp)+)

lemma initiate_calls [calls_intros]: "makes_calls 1 (calls_url (ut_api_base_url self)) (initiate_transaction E self raw)"
  unfolding initiate_transaction_def utila_post_json_def build_url_def by (rule makes_calls_mono, (rule calls_intros | simp)+)

lemma utila_get_transaction_calls [calls_intros]:
  "makes_calls 1 (calls_url (ut_api_base_url self)) (utila_get_transaction E self transaction_id)"
  unfolding utila_get_transaction_def by (rule calls_intros) simp

lemma poll_signed_calls: "makes_calls rest (calls_url (ut_api_base_url self)) (poll_signed E self transaction_id rest tx)"
proof (induction rest arbitrary: tx)
  case 0
  then show ?case
    by (subst poll_signed.simps) (simp add: calls_lift)
next
  case (Suc n)
  have "makes_calls (Suc n) (calls_url (ut_api_base_url self)) (io_bind (emit (Slept (unat (ut_poll_interval_ms self)))) (\<lambda>_.
    io_bind (utila_get_transaction E self transaction_id) (poll_signed E self transaction_id n)))"
    by (rule makes_calls_mono, (rule calls_intros Suc.IH | simp)+)
  then show ?case
    by (subst poll_signed.simps, simp) (auto intro: makes_calls_mono [OF calls_lift])
qed

lemma utila_obtain_calls:
  "makes_calls (1 + unat (ut_max_poll_attempts self)) (calls_url (ut_api_base_url self)) (utila_obtain E self tx)"
  unfolding utila_obtain_def poll_signed_transaction_def
  by (rule makes_calls_mono, (rule calls_intros poll_signed_calls | simp)+)

lemma utila_available_calls: "makes_calls 1 (calls_url (ut_api_base_url self)) (utila_is_available E self)"
  unfolding utila_is_available_def fetch_wallet_address_def by (rule makes_calls_mono, (rule calls_intros | simp)+)

section \<open>States\<close>

lemma state_names_distinct: "distinct (map fst state_names)"
  by (simp add: state_names_def)

text \<open>
  The rule \<^verbatim>\<open>rename_all = "SCREAMING_SNAKE_CASE"\<close> on the name of a variant: an underscore before every capital but the first letter, and
  everything in capitals.
\<close>

definition upper_char :: "char \<Rightarrow> char" where
  "upper_char c = (if of_char c \<in> {97 .. (122 :: nat)} then char_of (of_char c - (32 :: nat)) else c)"

fun snake :: "string \<Rightarrow> string" where
  "snake [] = []"
| "snake (c # cs) = (if of_char c \<in> {65 .. (90 :: nat)} then [CHR ''_''] else []) @ upper_char c # snake cs"

fun screaming_snake_case :: "string \<Rightarrow> string" where
  "screaming_snake_case [] = []"
| "screaming_snake_case (c # cs) = upper_char c # snake cs"

lemma state_names_renamed:
  "state_names = map (\<lambda>s. (screaming_snake_case (debug_state s), s))
     [AwaitingApproval, AwaitingAmlPolicyCheck, DeclinedByAmlPolicy, AwaitingPolicyCheck, AwaitingSignature, Signed, AwaitingPublish,
      Published, Mined, MinedFailed, Failed, Declined, Replaced, Canceled, Dropped, Confirmed, Expired]"
  by code_simp

lemma in_state_names_iff: "(n, s) \<in> set state_names \<longleftrightarrow> s \<noteq> Unknown \<and> n = screaming_snake_case (debug_state s)"
  unfolding state_names_renamed by (cases s) auto

lemma known_names: "fst ` set state_names = (\<lambda>s. screaming_snake_case (debug_state s)) ` (UNIV - {Unknown})"
  using in_state_names_iff by (force simp: image_iff)

text \<open>
  C39: How a state is read: exactly the name the renaming rule gives to a variant is read as that variant, and every name that no other variant
  has is the unknown state, which does not count as failed. The table of names therefore has no typing error and leaves out no state.
\<close>

theorem utila_state_iff:
  "(de_state (JString n) = Some s \<longleftrightarrow>
     (s \<noteq> Unknown \<and> n = screaming_snake_case (debug_state s)) \<or>
     (s = Unknown \<and> n \<notin> (\<lambda>s. screaming_snake_case (debug_state s)) ` (UNIV - {Unknown}))) \<and>
   \<not> is_terminal_failure Unknown"
proof -
  have "de_state (JString n) = Some s \<longleftrightarrow> (n, s) \<in> set state_names \<or> (s = Unknown \<and> n \<notin> fst ` set state_names)"
  proof (cases "map_of state_names n")
    case None
    then have out: "n \<notin> fst ` set state_names" by (simp add: map_of_eq_None_iff)
    then have "(n, s) \<notin> set state_names" by force
    with out show ?thesis by (auto simp add: state_of_def None unwrap_or_def)
  next
    case (Some s')
    then have "(n, s) \<in> set state_names \<longleftrightarrow> s = s'" using map_of_eq_Some_iff [OF state_names_distinct, of n s] by auto
    moreover have "n \<in> fst ` set state_names" using Some by (metis domI dom_map_of_conv_image_fst)
    ultimately show ?thesis using Some by (auto simp: state_of_def unwrap_or_def)
  qed
  then show ?thesis by (simp add: in_state_names_iff known_names is_terminal_failure_def)
qed

end
