(* ===== verification/Fordefi.thy ===== *)
theory Fordefi
  imports Remote_Calls Response_Decoding Traits_Send
begin

text \<open>
  \<^verbatim>\<open>src/rust/src/fordefi\<close>: the Fordefi custody backend with its three signers, black box, native
  auto-broadcast and native manual.

  Taken from elsewhere, as fields of \<open>fordefi_env\<close>: the P-256 key parsers and signing of the \<^verbatim>\<open>p256\<close> crate. A custom request signer is a function of the trace and the payload. The registered slot of pending
  ids is visible in the trace as \<open>PendingSet\<close> and \<open>PendingCleared\<close> events.
\<close>

section \<open>Types (types.rs, request\_signer.rs)\<close>

datatype solana_chain = SolanaDevnet | SolanaMainnet

fun chain_as_str :: "solana_chain \<Rightarrow> string" where
  "chain_as_str SolanaDevnet = ''solana_devnet''"
| "chain_as_str SolanaMainnet = ''solana_mainnet''"

datatype push_mode = Auto | Manual

datatype priority_level = Low | Medium | High

datatype solana_fee =
    Custom (unit_price: "string option") (priority_fee: "string option")
  | Priority priority_level

record status_response =
  status_state :: string
  status_signatures :: "string list option"
  status_raw_transaction :: "string option"

record vault_response =
  vault_address :: "string option"
  vault_public_key_compressed :: "string option"

record fordefi_env = net_env +
  from_pkcs8_pem :: "string \<Rightarrow> bytes option"
  from_sec1_pem :: "string \<Rightarrow> bytes option"
  p256_sign_der :: "bytes \<Rightarrow> bytes \<Rightarrow> bytes"

definition de_fordefi_create :: "json \<Rightarrow> string option" where
  "de_fordefi_create j = do {
     m \<leftarrow> as_struct [(''id'', False)] j;
     i \<leftarrow> required de_string (m ''id'');
     Some i }"

definition de_signature_entry :: "json \<Rightarrow> string option" where
  "de_signature_entry j = do {
     m \<leftarrow> as_struct [(''data'', False)] j;
     d \<leftarrow> required de_string (m ''data'');
     Some d }"

definition de_status_response :: "json \<Rightarrow> status_response option" where
  "de_status_response j = do {
     m \<leftarrow> as_struct [(''state'', False), (''signatures'', False), (''raw_transaction'', False)] j;
     st \<leftarrow> required de_string (m ''state'');
     sigs \<leftarrow> optional (de_vec de_signature_entry) (m ''signatures'');
     raw \<leftarrow> optional de_string (m ''raw_transaction'');
     Some \<lparr>status_state = st, status_signatures = sigs, status_raw_transaction = raw\<rparr> }"

definition de_vault_response :: "json \<Rightarrow> vault_response option" where
  "de_vault_response j = do {
     m \<leftarrow> as_struct [(''id'', False), (''address'', False), (''public_key_compressed'', False)] j;
     _ \<leftarrow> required de_string (m ''id'');
     a \<leftarrow> optional de_string (m ''address'');
     k \<leftarrow> optional de_string (m ''public_key_compressed'');
     Some \<lparr>vault_address = a, vault_public_key_compressed = k\<rparr> }"

definition create_from_slice :: "('x net_env_scheme) \<Rightarrow> bytes \<Rightarrow> string + string" where
  "create_from_slice E = serde_from_slice E ''CreateTransactionResponse'' de_fordefi_create"

definition status_from_slice :: "('x net_env_scheme) \<Rightarrow> bytes \<Rightarrow> string + status_response" where
  "status_from_slice E = serde_from_slice E ''TransactionStatusResponse'' de_status_response"

definition vault_from_slice :: "('x net_env_scheme) \<Rightarrow> bytes \<Rightarrow> string + vault_response" where
  "vault_from_slice E = serde_from_slice E ''VaultResponse'' de_vault_response"

lemma order_free_fordefi_create [order_free_intros]: "order_free de_fordefi_create"
  unfolding de_fordefi_create_def [abs_def] by (rule order_free_intros)+

lemma order_free_signature_entry [order_free_intros]: "order_free de_signature_entry"
  unfolding de_signature_entry_def [abs_def] by (rule order_free_intros)+

lemma order_free_status_response [order_free_intros]: "order_free de_status_response"
  unfolding de_status_response_def [abs_def] by (rule order_free_intros)+

lemma order_free_vault_response [order_free_intros]: "order_free de_vault_response"
  unfolding de_vault_response_def [abs_def] by (rule order_free_intros)+

datatype request_signer =
    PemRequestSigner bytes
  | CustomRequestSigner "trace \<Rightarrow> bytes \<Rightarrow> string result"

definition from_pem :: "('x fordefi_env_scheme) \<Rightarrow> string \<Rightarrow> request_signer result" where
  "from_pem E pem =
     (case from_pkcs8_pem E pem of
        Some k \<Rightarrow> Inr (PemRequestSigner k)
      | None \<Rightarrow>
          (case from_sec1_pem E pem of
             Some k \<Rightarrow> Inr (PemRequestSigner k)
           | None \<Rightarrow> Inl (InvalidPrivateKey ''Failed to parse PEM as ECDSA P-256 key (tried PKCS#8 and SEC1)'')))"

fun request_signer_sign ::
  "('x fordefi_env_scheme) \<Rightarrow> request_signer \<Rightarrow> bytes \<Rightarrow> (trace, string) signer_io" where
  "request_signer_sign E (PemRequestSigner k) payload t = (Inr (b64_encode E (p256_sign_der E k payload)), t)"
| "request_signer_sign E (CustomRequestSigner f) payload t = (f t payload, t)"

text \<open>The request bodies, in the field order and with the names serde writes.\<close>

fun fee_json :: "solana_fee \<Rightarrow> json" where
  "fee_json (Custom up pf) = JObject
     ((''type'', JString ''custom'') #
      (case up of Some s \<Rightarrow> [(''unit_price'', JString s)] | None \<Rightarrow> []) @
      (case pf of Some s \<Rightarrow> [(''priority_fee'', JString s)] | None \<Rightarrow> []))"
| "fee_json (Priority l) = JObject
     [(''type'', JString ''priority''),
      (''priority_level'', JString (case l of Low \<Rightarrow> ''low'' | Medium \<Rightarrow> ''medium'' | High \<Rightarrow> ''high''))]"

definition request_json :: "string \<Rightarrow> string \<Rightarrow> (string \<times> json) list \<Rightarrow> json" where
  "request_json vault_id tx_type details = JObject
     [(''vault_id'', JString vault_id), (''signer_type'', JString ''api_signer''), (''sign_mode'', JString ''auto''),
      (''type'', JString tx_type), (''details'', JObject details)]"

definition black_box_request :: "string \<Rightarrow> string \<Rightarrow> json" where
  "black_box_request vault_id data = request_json vault_id ''black_box_signature''
     [(''format'', JString ''hash_binary''), (''hash_binary'', JString data)]"

definition solana_transaction_request ::
  "string \<Rightarrow> solana_chain \<Rightarrow> string \<Rightarrow> push_mode \<Rightarrow> solana_fee option \<Rightarrow> json" where
  "solana_transaction_request vault_id chain data mode fee = request_json vault_id ''solana_transaction''
     ([(''type'', JString ''solana_serialized_transaction_message''), (''chain'', JString (chain_as_str chain)),
       (''data'', JString data),
       (''push_mode'', JString (case mode of Auto \<Rightarrow> ''auto'' | Manual \<Rightarrow> ''manual''))] @
      (case fee of Some f \<Rightarrow> [(''fee'', fee_json f)] | None \<Rightarrow> []))"

definition solana_message_request :: "string \<Rightarrow> solana_chain \<Rightarrow> string \<Rightarrow> json" where
  "solana_message_request vault_id chain data = request_json vault_id ''solana_message''
     [(''type'', JString ''personal_message_type''), (''chain'', JString (chain_as_str chain)),
      (''raw_data'', JString data)]"

section \<open>Configuration\<close>

definition DEFAULT_BASE_URL :: string where "DEFAULT_BASE_URL = ''https://api.fordefi.com''"
definition DEFAULT_POLL_INTERVAL_MS :: u64 where "DEFAULT_POLL_INTERVAL_MS = 2000"
definition DEFAULT_MAX_POLL_ATTEMPTS :: u32 where "DEFAULT_MAX_POLL_ATTEMPTS = 50"

fun canonical_fee :: "solana_fee option \<Rightarrow> string" where
  "canonical_fee None = []"
| "canonical_fee (Some (Custom up pf)) =
     ''custom||'' @ (case up of Some s \<Rightarrow> s | None \<Rightarrow> []) @ ''|'' @ (case pf of Some s \<Rightarrow> s | None \<Rightarrow> [])"
| "canonical_fee (Some (Priority l)) =
     ''priority|'' @ (case l of Low \<Rightarrow> ''low'' | Medium \<Rightarrow> ''medium'' | High \<Rightarrow> ''high'') @ ''||''"

record fordefi_config =
  ffc_access_token :: string
  ffc_vault_id :: string
  ffc_private_key_pem :: "string option"
  ffc_request_signer :: "request_signer option"
  ffc_public_key :: string
  ffc_api_base_url :: "string option"
  ffc_poll_interval_ms :: "u64 option"
  ffc_max_poll_attempts :: "u32 option"
  ffc_http_client_config :: "http_client_config option"
  ffc_chain :: "solana_chain option"
  ffc_fee :: "solana_fee option"
  ffc_push_mode :: "push_mode option"

record fordefi_core =
  ff_access_token :: string
  ff_vault_id :: string
  ff_request_signer :: request_signer
  ff_api_base_url :: string
  ff_client :: client_settings
  ff_public_key :: pubkey
  ff_poll_interval_ms :: u64
  ff_max_poll_attempts :: u32

definition resolve_request_signer ::
  "('x fordefi_env_scheme) \<Rightarrow> fordefi_config \<Rightarrow> request_signer result" where
  "resolve_request_signer E config =
     (case (ffc_private_key_pem config, ffc_request_signer config) of
        (Some _, Some _) \<Rightarrow> Inl (ConfigError ''provide exactly one of private_key_pem or request_signer, not both'')
      | (None, None) \<Rightarrow> Inl (ConfigError ''one of private_key_pem or request_signer must be provided'')
      | (Some pem, None) \<Rightarrow> from_pem E pem
      | (None, Some s) \<Rightarrow> Inr s)"

definition fordefi_build :: "('x fordefi_env_scheme) \<Rightarrow> fordefi_config \<Rightarrow> fordefi_core result" where
  "fordefi_build E config =
     (if ffc_access_token config = [] then Inl (ConfigError ''access_token must not be empty'')
      else if ffc_vault_id config = [] then Inl (ConfigError ''vault_id must not be empty'')
      else if ffc_public_key config = [] then Inl (ConfigError ''public_key must not be empty'')
      else res_bind (resolve_request_signer E config) (\<lambda>signer.
        let api_base_url = normalize_base_url (unwrap_or DEFAULT_BASE_URL (ffc_api_base_url config)) in
        res_bind (map_err (\<lambda>_. ConfigError ''api_base_url must be a valid URL'') (url_parse E api_base_url)) (\<lambda>parsed.
        if url_scheme parsed \<noteq> ''https'' then Inl (ConfigError ''api_base_url must use HTTPS'')
        else let interval = unwrap_or DEFAULT_POLL_INTERVAL_MS (ffc_poll_interval_ms config);
                 attempts = unwrap_or DEFAULT_MAX_POLL_ATTEMPTS (ffc_max_poll_attempts config) in
        if interval = 0 then Inl (ConfigError ''poll_interval_ms must be greater than zero'')
        else if attempts = 0 then Inl (ConfigError ''max_poll_attempts must be greater than zero'')
        else res_bind (map_err (\<lambda>_. InvalidPublicKey ''Invalid Solana public key'')
               (pubkey_from_str E (ffc_public_key config))) (\<lambda>public_key.
        res_bind (build_client E (unwrap_or http_client_config_default (ffc_http_client_config config))) (\<lambda>client.
        Inr \<lparr>ff_access_token = ffc_access_token config, ff_vault_id = ffc_vault_id config,
             ff_request_signer = signer, ff_api_base_url = api_base_url, ff_client = client,
             ff_public_key = public_key, ff_poll_interval_ms = interval, ff_max_poll_attempts = attempts\<rparr>)))))"

section \<open>Requests and polling (FordefiCore)\<close>

definition sign_request ::
  "('x fordefi_env_scheme) \<Rightarrow> fordefi_core \<Rightarrow> string \<Rightarrow> u64 \<Rightarrow> string \<Rightarrow> (trace, string) signer_io" where
  "sign_request E core path timestamp body =
     request_signer_sign E (ff_request_signer core)
       (str_bytes (path @ ''|'' @ show_nat (unat timestamp) @ ''|'' @ body))"

definition timestamp_ms :: "('x net_env_scheme) \<Rightarrow> (trace, u64) signer_io" where
  "timestamp_ms E t =
     (map_sum (\<lambda>e. Other (''System time error: '' @ e)) word_of_nat (system_time_ms E t), t)"

definition classify_submit ::
  "bool \<Rightarrow> string option \<Rightarrow> u16 option \<Rightarrow> string option \<Rightarrow> signer_error \<Rightarrow> signer_error" where
  "classify_submit broadcast_managed idempotence_id status tid err =
     (if broadcast_managed then unconfirmed_unless_rejected status tid idempotence_id err else err)"

definition submit_http ::
  "fordefi_core \<Rightarrow> string option \<Rightarrow> string \<Rightarrow> u64 \<Rightarrow> string \<Rightarrow> http_request" where
  "submit_http core idempotence_id sig timestamp body =
     \<lparr>req_method = ''POST'', req_url = ff_api_base_url core @ ''/api/v1/transactions'',
      req_headers =
        [(''Authorization'', ''Bearer '' @ ff_access_token core), (''x-signature'', sig),
         (''x-timestamp'', show_nat (unat timestamp)), (''Content-Type'', ''application/json'')] @
        (case idempotence_id of Some i \<Rightarrow> [(''x-idempotence-id'', i)] | None \<Rightarrow> []),
      req_body = str_bytes body\<rparr>"

text \<open>What \<^verbatim>\<open>submit_request\<close> makes of the answer to its POST.\<close>

definition submit_answer ::
  "('x fordefi_env_scheme) \<Rightarrow> (u16 option \<Rightarrow> string option \<Rightarrow> signer_error \<Rightarrow> signer_error) \<Rightarrow> http_response \<Rightarrow> string result" where
  "submit_answer E classify response =
     (let status = resp_status response in
      if \<not> is_success response then
        (case extract_api_error_with_transaction_id E response ''Fordefi API submit_request'' of
           (err, tid) \<Rightarrow> Inl (classify (Some status) tid err))
      else res_bind (map_err (classify (Some status) None) (read_body_capped response)) (\<lambda>body.
        let tid = transaction_id_in_body E body in
        res_bind (map_err (\<lambda>e. classify (Some status) tid (SerializationError e)) (create_from_slice E body)) (\<lambda>i.
        if trim i = [] then Inl (classify (Some status) tid
          (SerializationError ''Fordefi API submit_request returned no transaction id''))
        else Inr i)))"

definition submit_request ::
  "('x fordefi_env_scheme) \<Rightarrow> fordefi_core \<Rightarrow> json \<Rightarrow> string option \<Rightarrow> bool \<Rightarrow> (trace, string) signer_io" where
  "submit_request E core request idempotence_id broadcast_managed =
     (let body = json_to_string E request;
          classify = classify_submit broadcast_managed idempotence_id
      in io_bind (timestamp_ms E) (\<lambda>timestamp.
         io_bind (sign_request E core ''/api/v1/transactions'' timestamp body) (\<lambda>sig.
         io_bind (io_map_err (\<lambda>e. classify None None (HttpError e))
           (send_request E (ff_client core) (submit_http core idempotence_id sig timestamp body))) (\<lambda>response.
         io_lift (submit_answer E classify response)))))"

definition poll_http :: "fordefi_core \<Rightarrow> string \<Rightarrow> http_request" where
  "poll_http core tx_id =
     \<lparr>req_method = ''GET'', req_url = ff_api_base_url core @ ''/api/v1/transactions/'' @ tx_id,
      req_headers = [(''Authorization'', ''Bearer '' @ ff_access_token core)], req_body = []\<rparr>"

definition fordefi_error_states :: "string list" where
  "fordefi_error_states =
     [''aborted'', ''cancelled'', ''dropped'', ''completed_reverted'', ''error_pushing_to_blockchain'',
      ''error_signing'', ''insufficient_funds'', ''mined_reverted'']"

definition fordefi_success_state :: "bool \<Rightarrow> string \<Rightarrow> bool" where
  "fordefi_success_state pushable s = (if pushable then s = ''completed'' else s = ''signed'' \<or> s = ''completed'')"

definition poll_attempt ::
  "('x fordefi_env_scheme) \<Rightarrow> fordefi_core \<Rightarrow> string \<Rightarrow> bool \<Rightarrow> (trace, status_response poll_outcome) signer_io" where
  "poll_attempt E core tx_id pushable =
     io_bind (send_or_http_error E (ff_client core) (poll_http core tx_id)) (\<lambda>response.
     io_bind (io_lift (parse_json_response (status_from_slice E) response ''Fordefi API poll_result'')) (\<lambda>tx_data.
     io_lift (if fordefi_success_state pushable (status_state tx_data) then Inr (Done tx_data)
              else if status_state tx_data \<in> set fordefi_error_states
              then Inl (SigningFailed (''Transaction '' @ tx_id @ '' reached terminal state: '' @ status_state tx_data))
              else Inr Pending)))"

definition poll_for_result ::
  "('x fordefi_env_scheme) \<Rightarrow> fordefi_core \<Rightarrow> string \<Rightarrow> bool \<Rightarrow> (trace, status_response) signer_io" where
  "poll_for_result E core tx_id pushable =
     poll_until (ff_max_poll_attempts core) (ff_poll_interval_ms core)
       (RemoteApiError (''Polling timeout after '' @ show_nat (unat (ff_max_poll_attempts core)) @ '' attempts'') (Some tx_id))
       (poll_attempt E core tx_id pushable)"

definition extract_signature_from_result :: "('x fordefi_env_scheme) \<Rightarrow> status_response \<Rightarrow> signature result" where
  "extract_signature_from_result E result =
     res_bind (ok_or (SigningFailed ''Transaction signed but no signatures in response'')
       (Option.bind (status_signatures result) first))
       (signature_from_base64 E)"

definition poll_for_signature ::
  "('x fordefi_env_scheme) \<Rightarrow> fordefi_core \<Rightarrow> string \<Rightarrow> (trace, signature) signer_io" where
  "poll_for_signature E core tx_id =
     io_bind (poll_for_result E core tx_id False) (\<lambda>result. io_lift (extract_signature_from_result E result))"

definition sign_black_box ::
  "('x fordefi_env_scheme) \<Rightarrow> fordefi_core \<Rightarrow> bytes \<Rightarrow> (trace, signature) signer_io" where
  "sign_black_box E core data =
     io_bind (submit_request E core (black_box_request (ff_vault_id core) (b64_encode E data)) None False)
       (poll_for_signature E core)"

definition idempotency_namespace ::
  "push_mode \<Rightarrow> solana_chain \<Rightarrow> string \<Rightarrow> solana_fee option \<Rightarrow> string" where
  "idempotency_namespace mode chain vault_id fee =
     ''fordefi:solana:'' @ (case mode of Auto \<Rightarrow> ''auto'' | Manual \<Rightarrow> ''manual'') @ '':'' @ chain_as_str chain @ '':'' @
     vault_id @ '':'' @ canonical_fee fee @ '':''"

definition solana_idempotency_key ::
  "('x sdk_scheme) \<Rightarrow> push_mode \<Rightarrow> solana_chain \<Rightarrow> string \<Rightarrow> solana_fee option \<Rightarrow> bytes \<Rightarrow> string" where
  "solana_idempotency_key S mode chain vault_id fee data =
     idempotency_key_from_message S (str_bytes (idempotency_namespace mode chain vault_id fee) @ data)"

definition submit_solana_transaction ::
  "('x fordefi_env_scheme) \<Rightarrow> fordefi_core \<Rightarrow> solana_chain \<Rightarrow> solana_fee option \<Rightarrow> push_mode \<Rightarrow> bytes \<Rightarrow>
   (trace, string) signer_io" where
  "submit_solana_transaction E core chain fee mode data =
     submit_request E core
       (solana_transaction_request (ff_vault_id core) chain (b64_encode E data) mode fee)
       (Some (solana_idempotency_key E mode chain (ff_vault_id core) fee data))
       (mode = Auto)"

definition submit_solana_message ::
  "('x fordefi_env_scheme) \<Rightarrow> fordefi_core \<Rightarrow> solana_chain \<Rightarrow> bytes \<Rightarrow> (trace, string) signer_io" where
  "submit_solana_message E core chain message =
     submit_request E core (solana_message_request (ff_vault_id core) chain (b64_encode E message)) None False"

definition decode_raw_transaction :: "('x fordefi_env_scheme) \<Rightarrow> status_response \<Rightarrow> bytes result" where
  "decode_raw_transaction E result =
     res_bind (ok_or (SigningFailed ''Fordefi solana_transaction response missing raw_transaction'')
       (status_raw_transaction result))
       (\<lambda>raw. map_err (\<lambda>e. SerializationError (''Failed to decode raw_transaction base64: '' @ e)) (b64_decode E raw))"

definition fordefi_verify_signature ::
  "('x fordefi_env_scheme) \<Rightarrow> fordefi_core \<Rightarrow> signature \<Rightarrow> bytes \<Rightarrow> unit result" where
  "fordefi_verify_signature E core sig message =
     (if verifies E sig (ff_public_key core) message then Inr ()
      else Inl (SigningFailed ''Signature verification failed''))"

definition vault_http :: "fordefi_core \<Rightarrow> http_request" where
  "vault_http core =
     \<lparr>req_method = ''GET'', req_url = ff_api_base_url core @ ''/api/v1/vaults/'' @ ff_vault_id core,
      req_headers = [(''Authorization'', ''Bearer '' @ ff_access_token core)], req_body = []\<rparr>"

definition fetch_vault :: "('x fordefi_env_scheme) \<Rightarrow> fordefi_core \<Rightarrow> (trace, vault_response) signer_io" where
  "fetch_vault E core =
     io_bind (send_or_http_error E (ff_client core) (vault_http core)) (\<lambda>response.
     io_lift (parse_json_response (vault_from_slice E) response ''Fordefi API fetch_vault''))"

definition vault_matches_public_key :: "('x fordefi_env_scheme) \<Rightarrow> fordefi_core \<Rightarrow> vault_response \<Rightarrow> bool" where
  "vault_matches_public_key E core vault =
     (case vault_address vault of
        Some address \<Rightarrow> bs58_decode E address = Inr (pubkey_bytes (ff_public_key core))
      | None \<Rightarrow>
          (case vault_public_key_compressed vault of
             Some encoded \<Rightarrow> b64_decode E encoded = Inr (pubkey_bytes (ff_public_key core))
           | None \<Rightarrow> False))"

text \<open>The readiness check; a deadline that passes first makes the answer \<^verbatim>\<open>false\<close>.\<close>

definition fordefi_readiness :: "('x fordefi_env_scheme) \<Rightarrow> fordefi_core \<Rightarrow> (trace, unit) signer_io" where
  "fordefi_readiness E core =
     io_bind (fetch_vault E core) (\<lambda>vault.
     io_bind (io_lift (if vault_matches_public_key E core vault then Inr ()
        else Inl (InvalidPublicKey ''Configured public key does not belong to the Fordefi vault''))) (\<lambda>_.
     io_bind (timestamp_ms E) (\<lambda>timestamp.
     io_bind (sign_request E core ''/api/v1/vaults'' timestamp []) (\<lambda>_. io_lift (Inr ())))))"

definition fordefi_is_available :: "('x fordefi_env_scheme) \<Rightarrow> fordefi_core \<Rightarrow> trace \<Rightarrow> bool \<times> trace" where
  "fordefi_is_available E core =
     within_deadline E AVAILABILITY_TIMEOUT (io_check (fordefi_readiness E core) (\<lambda>_. Pair True))"

section \<open>Black-box signer\<close>

definition black_box_from_config :: "('x fordefi_env_scheme) \<Rightarrow> fordefi_config \<Rightarrow> fordefi_core result" where
  "black_box_from_config E config =
     (if ffc_chain config \<noteq> None \<or> ffc_fee config \<noteq> None
      then Inl (ConfigError ''chain and fee select native Solana mode; use FordefiNativeAutoSigner'')
      else if ffc_push_mode config \<noteq> None
      then Inl (ConfigError ''push_mode applies to native Solana mode only; it requires chain'')
      else fordefi_build E config)"

definition black_box_sign_message ::
  "('x fordefi_env_scheme) \<Rightarrow> fordefi_core \<Rightarrow> bytes \<Rightarrow> (trace, signature) signer_io" where
  "black_box_sign_message E core message =
     io_bind (sign_black_box E core message) (\<lambda>sig.
     io_bind (io_lift (fordefi_verify_signature E core sig message)) (\<lambda>_. io_lift (Inr sig)))"

definition black_box_pubkey :: "fordefi_core \<Rightarrow> pubkey" where
  [simp]: "black_box_pubkey self = ff_public_key self"

definition black_box_sign_and_serialize ::
  "('x fordefi_env_scheme) \<Rightarrow> fordefi_core \<Rightarrow> (versioned_transaction \<times> trace, signed_transaction) signer_io" where
  "black_box_sign_and_serialize E core st =
     (let message_data = message_serialize E (tx_message (fst st)) in
      io_bind (io_world (sign_black_box E core message_data)) (\<lambda>sig.
      io_bind (io_lift (fordefi_verify_signature E core sig message_data)) (\<lambda>_.
      io_place (attach_and_serialize E (ff_public_key core) sig))) st)"

definition black_box_sign_transaction ::
  "('x fordefi_env_scheme) \<Rightarrow> fordefi_core \<Rightarrow> (versioned_transaction \<times> trace, sign_transaction_result) signer_io" where
  "black_box_sign_transaction E core = classify_signed (black_box_sign_and_serialize E core)"

lemma black_box_sign_transaction_eq:
  "black_box_sign_transaction E core st =
     (let message_data = message_serialize E (tx_message (fst st)) in
      io_bind (io_world (sign_black_box E core message_data)) (\<lambda>sig.
      io_bind (io_lift (fordefi_verify_signature E core sig message_data)) (\<lambda>_.
      io_place (attach_and_classify E (ff_public_key core) sig))) st)"
  by (auto simp: black_box_sign_transaction_def classify_signed_def black_box_sign_and_serialize_def attach_and_classify_def io_bind_def
      io_place_def Let_def split: prod.split sum.split)

section \<open>Native auto-broadcast signer\<close>

record native_auto =
  na_core :: fordefi_core
  na_chain :: solana_chain
  na_fee :: "solana_fee option"
  na_pending_transaction_id :: bool

definition native_auto_from_config :: "('x fordefi_env_scheme) \<Rightarrow> fordefi_config \<Rightarrow> native_auto result" where
  "native_auto_from_config E config =
     (case ffc_chain config of
        None \<Rightarrow> Inl (ConfigError ''chain must be set for native Solana mode; use FordefiBlackBoxSigner without it'')
      | Some chain \<Rightarrow>
          if ffc_push_mode config = Some Manual
          then Inl (ConfigError ''manual push_mode does not broadcast; use FordefiNativeManualSigner'')
          else res_bind (fordefi_build E config) (\<lambda>core.
            Inr \<lparr>na_core = core, na_chain = chain, na_fee = ffc_fee config, na_pending_transaction_id = False\<rparr>))"

definition with_pending_transaction_id :: "native_auto \<Rightarrow> native_auto" where
  "with_pending_transaction_id self = self\<lparr>na_pending_transaction_id := True\<rparr>"

definition native_auto_validate :: "native_auto \<Rightarrow> versioned_transaction \<Rightarrow> unit result" where
  "native_auto_validate self tx =
     (if num_required tx \<noteq> 1 \<or> first (account_keys tx) \<noteq> Some (ff_public_key (na_core self)) then
        Inl (SigningFailed
          (''Fordefi native auto-broadcast currently supports only transactions whose sole required '' @
           ''signer is the configured vault''))
      else if list_ex (\<lambda>s. s \<noteq> default_signature) (tx_signatures tx) then
        Inl (SigningFailed ''Fordefi native auto-broadcast must run before any transaction signatures are applied'')
      else Inr ())"

text \<open>What \<^verbatim>\<open>finish_broadcast\<close> makes of the completed transaction.\<close>

definition broadcast_signature ::
  "('x fordefi_env_scheme) \<Rightarrow> native_auto \<Rightarrow> status_response \<Rightarrow> signature result" where
  "broadcast_signature E self result =
     (let missing = SigningFailed
            ''Fordefi wire transaction carries no fee-payer signature to identify the broadcast by'' in
      res_bind (decode_raw_transaction E result) (\<lambda>wire.
      res_bind (extract_and_verify_rewritten_transaction E wire (ff_public_key (na_core self))) (\<lambda>(returned, _).
      res_bind (ok_or missing (opt_filter (\<lambda>s. s \<noteq> default_signature) (first (tx_signatures returned)))) (\<lambda>sig.
      res_bind (ok_or missing (first (account_keys returned))) (\<lambda>fee_payer.
      res_bind (verify_or_reject E sig fee_payer (message_serialize E (tx_message returned))) (\<lambda>_. Inr sig))))))"

definition finish_broadcast ::
  "('x fordefi_env_scheme) \<Rightarrow> native_auto \<Rightarrow> string \<Rightarrow> (trace, signature) signer_io" where
  "finish_broadcast E self tx_id =
     io_bind (poll_for_result E (na_core self) tx_id True) (\<lambda>result. io_lift (broadcast_signature E self result))"

definition note_pending :: "native_auto \<Rightarrow> event \<Rightarrow> trace \<Rightarrow> trace" where
  "note_pending self e t = (if na_pending_transaction_id self then t @ [e] else t)"

definition sign_and_broadcast ::
  "('x fordefi_env_scheme) \<Rightarrow> native_auto \<Rightarrow> versioned_transaction \<Rightarrow> (trace, signature) signer_io" where
  "sign_and_broadcast E self tx =
     io_bind (io_lift (native_auto_validate self tx)) (\<lambda>_.
     io_bind (submit_solana_transaction E (na_core self) (na_chain self) (na_fee self) Auto
       (message_serialize E (tx_message tx))) (\<lambda>tx_id t.
       case io_map_err (\<lambda>e. BroadcastUnconfirmed (Some tx_id) None None None (detail_string e))
              (finish_broadcast E self tx_id) (note_pending self (PendingSet tx_id) t) of
         (result, t1) \<Rightarrow> (result, note_pending self (PendingCleared tx_id) t1)))"

definition native_auto_sign_and_send_transaction ::
  "('x fordefi_env_scheme) \<Rightarrow> native_auto \<Rightarrow> versioned_transaction \<Rightarrow> (trace, signature) signer_io" where
  [simp]: "native_auto_sign_and_send_transaction E self tx = sign_and_broadcast E self tx"

definition native_sign_message ::
  "('x fordefi_env_scheme) \<Rightarrow> fordefi_core \<Rightarrow> solana_chain \<Rightarrow> bytes \<Rightarrow> (trace, signature) signer_io" where
  "native_sign_message E core chain message =
     io_bind (submit_solana_message E core chain message) (\<lambda>tx_id.
     io_bind (poll_for_signature E core tx_id) (\<lambda>sig.
     io_bind (io_lift (fordefi_verify_signature E core sig message)) (\<lambda>_. io_lift (Inr sig))))"

definition native_auto_pubkey :: "native_auto \<Rightarrow> pubkey" where
  [simp]: "native_auto_pubkey self = ff_public_key (na_core self)"

definition native_auto_sign_message ::
  "('x fordefi_env_scheme) \<Rightarrow> native_auto \<Rightarrow> bytes \<Rightarrow> (trace, signature) signer_io" where
  "native_auto_sign_message E self = native_sign_message E (na_core self) (na_chain self)"

section \<open>Native manual signer\<close>

record native_manual =
  nm_core :: fordefi_core
  nm_chain :: solana_chain
  nm_fee :: "solana_fee option"

definition native_manual_from_config :: "('x fordefi_env_scheme) \<Rightarrow> fordefi_config \<Rightarrow> native_manual result" where
  "native_manual_from_config E config =
     (case ffc_chain config of
        None \<Rightarrow> Inl (ConfigError ''manual push_mode requires chain to be set (native Solana mode)'')
      | Some chain \<Rightarrow>
          if ffc_push_mode config \<noteq> Some Manual
          then Inl (ConfigError ''manual push_mode must be set explicitly; use FordefiNativeAutoSigner to broadcast'')
          else res_bind (fordefi_build E config) (\<lambda>core.
            Inr \<lparr>nm_core = core, nm_chain = chain, nm_fee = ffc_fee config\<rparr>))"

definition native_manual_validate :: "native_manual \<Rightarrow> versioned_transaction \<Rightarrow> unit result" where
  "native_manual_validate self tx =
     (if first (account_keys tx) \<noteq> Some (ff_public_key (nm_core self)) then
        Inl (SigningFailed
          ''Fordefi native manual signing requires the configured vault to be the transaction fee payer'')
      else Inr ())"

text \<open>\<^verbatim>\<open>modify_and_serialize\<close>: the caller's transaction is replaced only once the rewritten one has been encoded.\<close>

definition modify_and_serialize ::
  "('x fordefi_env_scheme) \<Rightarrow> native_manual \<Rightarrow> (versioned_transaction \<times> trace, signed_transaction) signer_io" where
  "modify_and_serialize E self st =
     (let message_data = message_serialize E (tx_message (fst st)) in
      io_bind (io_lift (native_manual_validate self (fst st))) (\<lambda>_.
      io_bind (io_world (submit_solana_transaction E (nm_core self) (nm_chain self) (nm_fee self) Manual message_data)) (\<lambda>tx_id.
      io_bind (io_world (poll_for_result E (nm_core self) tx_id False)) (\<lambda>result.
      io_bind (io_lift (decode_raw_transaction E result)) (\<lambda>wire.
      io_bind (io_lift (extract_and_verify_rewritten_transaction E wire (ff_public_key (nm_core self)))) (\<lambda>(returned_tx, sig).
      io_bind (io_lift (serialize_transaction E returned_tx)) (\<lambda>encoded st1.
        (Inr (encoded, sig), (returned_tx, snd st1)))))))) st)"

definition native_manual_modify_and_sign ::
  "('x fordefi_env_scheme) \<Rightarrow> native_manual \<Rightarrow> (versioned_transaction \<times> trace, sign_transaction_result) signer_io" where
  "native_manual_modify_and_sign E self =
     io_bind (modify_and_serialize E self) (\<lambda>signed st. (Inr (classify_signed_transaction (fst st) signed), st))"

definition native_manual_pubkey :: "native_manual \<Rightarrow> pubkey" where
  [simp]: "native_manual_pubkey self = ff_public_key (nm_core self)"

definition native_manual_sign_message ::
  "('x fordefi_env_scheme) \<Rightarrow> native_manual \<Rightarrow> bytes \<Rightarrow> (trace, signature) signer_io" where
  "native_manual_sign_message E self = native_sign_message E (nm_core self) (nm_chain self)"

section \<open>The signers keep their contracts\<close>

lemma verify_signature_Inr [result_simps]:
  "fordefi_verify_signature E core sig m = Inr u \<longleftrightarrow> verifies E sig (ff_public_key core) m"
  by (simp add: fordefi_verify_signature_def)

lemma sign_then_verify_Inr:
  "io_bind m (\<lambda>sig. io_bind (io_lift (fordefi_verify_signature E core sig msg)) (\<lambda>_. io_lift (Inr sig))) t = (Inr s, t') \<longleftrightarrow>
     m t = (Inr s, t') \<and> verifies E s (ff_public_key core) msg"
  by (auto simp: result_simps)

interpretation black_box: transaction_signer
  "\<lambda>sig b. verifies E sig (ff_public_key core) b" "\<lambda>msg b. b = msg"
  "black_box_sign_message E core" E "ff_public_key core" "black_box_sign_transaction E core"
  for E :: "'x fordefi_env_scheme" and core :: fordefi_core
proof
  fix msg sig w w'
  assume "black_box_sign_message E core msg w = (Inr sig, w')"
  then show "\<exists>b. b = msg \<and> verifies E sig (ff_public_key core) b"
    by (simp add: black_box_sign_message_def sign_then_verify_Inr)
next
  fix tx tx' res w w'
  assume "black_box_sign_transaction E core (tx, w) = (Inr res, (tx', w'))"
  then show "\<exists>enc sig. own_slot_signed E (ff_public_key core) sig tx tx' \<and>
      verifies E sig (ff_public_key core) (message_serialize E (tx_message tx)) \<and>
      serialize_transaction E tx' = Inr enc \<and> res = classify_signed_transaction tx' (enc, sig)"
    by (auto simp: black_box_sign_transaction_eq Let_def result_simps)
next
  fix tx tx' e w w'
  assume "black_box_sign_transaction E core (tx, w) = (Inl e, (tx', w'))"
  then show "tx' = tx \<or> (\<exists>sig. own_slot_signed E (ff_public_key core) sig tx tx' \<and>
      verifies E sig (ff_public_key core) (message_serialize E (tx_message tx)))"
    by (auto simp: black_box_sign_transaction_eq Let_def result_simps dest: attach_and_classify_Inl)
qed

lemma rewritten_Inr [result_simps]:
  "extract_and_verify_rewritten_transaction S wire pk = Inr (tx, s) \<longleftrightarrow>
     wire_deserialize S wire = Inr tx \<and>
     (\<exists>p. get_signing_keypair_position S tx pk = Inr p \<and> p < length (tx_signatures tx) \<and> tx_signatures tx ! p = s) \<and>
     s \<noteq> default_signature \<and> verifies S s pk (message_serialize S (tx_message tx))"
  by (auto simp: extract_and_verify_rewritten_transaction_def result_simps)

interpretation native_manual: modifying_signer
  "\<lambda>sig b. verifies E sig (ff_public_key (nm_core self)) b" "\<lambda>msg b. b = msg"
  "native_manual_sign_message E self" E "ff_public_key (nm_core self)" "native_manual_modify_and_sign E self"
  for E :: "'x fordefi_env_scheme" and self :: native_manual
proof
  fix msg sig w w'
  assume "native_manual_sign_message E self msg w = (Inr sig, w')"
  then show "\<exists>b. b = msg \<and> verifies E sig (ff_public_key (nm_core self)) b"
    by (auto simp: native_manual_sign_message_def native_sign_message_def result_simps)
next
  fix tx tx' res w w'
  assume "native_manual_modify_and_sign E self (tx, w) = (Inr res, (tx', w'))"
  then show "\<exists>enc sig p. get_signing_keypair_position E tx' (ff_public_key (nm_core self)) = Inr p \<and>
      p < length (tx_signatures tx') \<and> tx_signatures tx' ! p = sig \<and>
      verifies E sig (ff_public_key (nm_core self)) (message_serialize E (tx_message tx')) \<and>
      serialize_transaction E tx' = Inr enc \<and> res = classify_signed_transaction tx' (enc, sig)"
    by (auto simp: native_manual_modify_and_sign_def modify_and_serialize_def Let_def result_simps split: prod.splits)
next
  fix tx tx' e w w'
  assume "native_manual_modify_and_sign E self (tx, w) = (Inl e, (tx', w'))"
  then show "tx' = tx"
    by (auto simp: native_manual_modify_and_sign_def modify_and_serialize_def Let_def result_simps split: prod.splits)
qed

interpretation fordefi_poll: one_request_attempt "poll_attempt E core tx_id pushable" "poll_http core tx_id"
  for E :: "'x fordefi_env_scheme" and core tx_id pushable
  by unfold_locales
     (auto simp: poll_attempt_def io_bind_def io_lift_def send_or_http_error_def io_map_err_def send_request_def
      split: prod.splits sum.splits)

lemma sign_and_broadcast_cases:
  assumes "sign_and_broadcast E self tx t = (r, t')"
  obtains (invalid) e where "native_auto_validate self tx = Inl e" "r = Inl e" "t' = t"
    | (refused) e where "r = Inl e"
        "submit_solana_transaction E (na_core self) (na_chain self) (na_fee self) Auto (message_serialize E (tx_message tx)) t = (Inl e, t')"
    | (accepted) i t1 rf t2 where
        "submit_solana_transaction E (na_core self) (na_chain self) (na_fee self) Auto (message_serialize E (tx_message tx)) t = (Inr i, t1)"
        "finish_broadcast E self i (note_pending self (PendingSet i) t1) = (rf, t2)"
        "r = map_err (\<lambda>e. BroadcastUnconfirmed (Some i) None None None (detail_string e)) rf"
        "t' = note_pending self (PendingCleared i) t2"
proof (cases "native_auto_validate self tx")
  case (Inl e)
  then show ?thesis using assms invalid by (auto simp: sign_and_broadcast_def io_bind_def io_lift_def)
next
  case (Inr u)
  let ?submit = "submit_solana_transaction E (na_core self) (na_chain self) (na_fee self) Auto (message_serialize E (tx_message tx)) t"
  obtain rs t1 where submit: "?submit = (rs, t1)" by fastforce
  show ?thesis
  proof (cases rs)
    case (Inl e)
    then show ?thesis using assms \<open>native_auto_validate self tx = Inr u\<close> submit refused
      by (auto simp: sign_and_broadcast_def io_bind_def io_lift_def)
  next
    case (Inr i)
    obtain rf t2 where fin: "finish_broadcast E self i (note_pending self (PendingSet i) t1) = (rf, t2)" by fastforce
    show ?thesis
      by (rule accepted [OF _ fin])
         (use assms \<open>native_auto_validate self tx = Inr u\<close> submit Inr fin in
           \<open>auto simp: sign_and_broadcast_def io_bind_def io_lift_def io_map_err_def\<close>)
  qed
qed

lemma broadcast_signature_Inr:
  "broadcast_signature E self result = Inr s \<longleftrightarrow>
     (\<exists>wire tx vault_sig fee_payer p. decode_raw_transaction E result = Inr wire \<and> wire_deserialize E wire = Inr tx \<and>
        get_signing_keypair_position E tx (ff_public_key (na_core self)) = Inr p \<and> p < length (tx_signatures tx) \<and>
        tx_signatures tx ! p = vault_sig \<and> vault_sig \<noteq> default_signature \<and>
        verifies E vault_sig (ff_public_key (na_core self)) (message_serialize E (tx_message tx)) \<and>
        first (tx_signatures tx) = Some s \<and> s \<noteq> default_signature \<and> first (account_keys tx) = Some fee_payer \<and>
        verifies E s fee_payer (message_serialize E (tx_message tx)))"
  by (auto simp: broadcast_signature_def Let_def result_simps opt_filter_Some_iff split: prod.splits)

lemma finish_broadcast_Inr:
  assumes "finish_broadcast E self tx_id t = (Inr s, t')"
  obtains result where "poll_for_result E (na_core self) tx_id True t = (Inr result, t')" "broadcast_signature E self result = Inr s"
  using assms by (auto simp: finish_broadcast_def io_bind_Inr io_lift_iff)

lemma broadcast_signature_nondefault: "broadcast_signature E self result = Inr s \<Longrightarrow> s \<noteq> default_signature"
  by (auto simp: broadcast_signature_Inr)

section \<open>Calls\<close>

lemma note_pending_calls: "\<not> is_call e \<Longrightarrow> calls_between 0 P t (note_pending self e t)"
  by (simp add: note_pending_def calls_between_append)

lemma timestamp_calls [calls_intros]: "makes_calls 0 P (timestamp_ms E)"
  by (rule calls_quiet) (simp add: timestamp_ms_def)

lemma sign_request_calls [calls_intros]: "makes_calls 0 P (sign_request E core path timestamp body)"
  by (rule calls_quiet) (cases "ff_request_signer core"; simp add: sign_request_def)

lemma submit_request_calls [calls_intros]:
  "makes_calls 1 (calls_url (ff_api_base_url core)) (submit_request E core request idempotence_id broadcast_managed)"
  unfolding submit_request_def submit_http_def Let_def by (rule makes_calls_mono, (rule calls_intros | simp)+)

lemma poll_for_result_calls [calls_intros]:
  "makes_calls (unat (ff_max_poll_attempts core)) (calls_url (ff_api_base_url core)) (poll_for_result E core tx_id pushable)"
  unfolding poll_for_result_def poll_attempt_def poll_http_def by (rule makes_calls_mono, (rule calls_intros | simp)+)

lemma sign_black_box_calls [calls_intros]:
  "makes_calls (1 + unat (ff_max_poll_attempts core)) (calls_url (ff_api_base_url core)) (sign_black_box E core data)"
  unfolding sign_black_box_def poll_for_signature_def by (rule makes_calls_mono, (rule calls_intros | simp)+)

lemma black_box_message_calls:
  "makes_calls (1 + unat (ff_max_poll_attempts core)) (calls_url (ff_api_base_url core)) (black_box_sign_message E core m)"
  unfolding black_box_sign_message_def by (rule makes_calls_mono, (rule calls_intros | simp)+)

lemma native_message_calls:
  "makes_calls (1 + unat (ff_max_poll_attempts core)) (calls_url (ff_api_base_url core)) (native_sign_message E core chain m)"
  unfolding native_sign_message_def submit_solana_message_def poll_for_signature_def
  by (rule makes_calls_mono, (rule calls_intros | simp)+)

lemma sign_and_broadcast_calls:
  "makes_calls (1 + unat (ff_max_poll_attempts (na_core self))) (calls_url (ff_api_base_url (na_core self)))
     (sign_and_broadcast E self tx)"
  unfolding sign_and_broadcast_def submit_solana_transaction_def finish_broadcast_def
  by (rule makes_calls_mono, (rule calls_intros note_pending_calls | simp)+)

lemma fordefi_available_calls: "makes_calls 1 (calls_url (ff_api_base_url core)) (fordefi_is_available E core)"
  unfolding fordefi_is_available_def fordefi_readiness_def fetch_vault_def vault_http_def
  by (rule makes_calls_mono, (rule calls_intros | simp)+)

section \<open>Properties\<close>

lemma timestamp_trace: "snd (timestamp_ms E t) = t"
  by (simp add: timestamp_ms_def)

lemma sign_request_trace: "snd (sign_request E core path ts body t) = t"
  by (cases "ff_request_signer core") (simp_all add: sign_request_def)

lemma submit_request_cases:
  assumes "submit_request E core request key managed t = (r, t')"
  obtains (unsent) e where "r = Inl e" "t' = t"
    | (sent) sig ts where
        "t' = t @ [Requested (submit_http core key sig ts (json_to_string E request))]"
        "r = (case http_send E (ff_client core) t (submit_http core key sig ts (json_to_string E request)) of
                Inl e \<Rightarrow> Inl (classify_submit managed key None None (HttpError e))
              | Inr response \<Rightarrow> submit_answer E (classify_submit managed key) response)"
proof -
  obtain rt where ts: "timestamp_ms E t = (rt, t)" using timestamp_trace by (metis prod.collapse)
  show ?thesis
  proof (cases rt)
    case (Inl e)
    then show ?thesis using assms ts unsent by (auto simp: submit_request_def Let_def io_bind_def)
  next
    case (Inr stamp)
    obtain rs where sr: "sign_request E core ''/api/v1/transactions'' stamp (json_to_string E request) t = (rs, t)"
      using sign_request_trace by (metis prod.collapse)
    show ?thesis
    proof (cases rs)
      case (Inl e)
      then show ?thesis using assms ts \<open>rt = Inr stamp\<close> sr unsent by (auto simp: submit_request_def Let_def io_bind_def)
    next
      case (Inr sig)
      show ?thesis
        by (rule sent [of sig stamp])
           (use assms ts \<open>rt = Inr stamp\<close> sr Inr in
             \<open>auto simp: submit_request_def Let_def io_bind_def io_lift_def io_map_err_def send_request_def map_err_def
               split: sum.splits\<close>)
    qed
  qed
qed

text \<open>
  The id under which Fordefi answers that it took the transaction on, when the call is made after \<open>t\<close>: the answer to the first
  request of the call is a success and its body names an id.
\<close>

definition fordefi_answered_id :: "('x fordefi_env_scheme) \<Rightarrow> http_response \<Rightarrow> string option" where
  "fordefi_answered_id E http =
     (if \<not> is_success http then None
      else case read_body_capped http of
        Inl _ \<Rightarrow> None
      | Inr body \<Rightarrow>
          (case create_from_slice E body of
             Inr i \<Rightarrow> if trim i \<noteq> [] then Some i else transaction_id_in_body E body
           | Inl _ \<Rightarrow> transaction_id_in_body E body))"

definition fordefi_accepted ::
  "('x fordefi_env_scheme) \<Rightarrow> native_auto \<Rightarrow> versioned_transaction \<Rightarrow> trace \<Rightarrow> string option" where
  "fordefi_accepted E self tx t =
     Option.bind (first_answer E (ff_client (na_core self)) t (snd (sign_and_broadcast E self tx t))) (fordefi_answered_id E)"

lemma submit_answer_accepted: "submit_answer E classify http = Inr i \<Longrightarrow> fordefi_answered_id E http = Some i"
  by (auto simp: submit_answer_def fordefi_answered_id_def Let_def result_simps split: if_splits prod.splits)

lemma submit_answer_failed:
  assumes "submit_answer E (classify_submit True key) http = Inl e"
  shows "refusal http \<and> fordefi_answered_id E http = None \<or>
    (\<exists>i st d. e = BroadcastUnconfirmed i st key None d \<and> fordefi_answered_id E http \<in> {None, i})"
proof (cases "refusal http")
  case True
  then have "\<not> is_success http"
    using le_less_trans [of 400 "resp_status http" 300] by (auto simp: refusal_def is_success_def)
  with True show ?thesis by (simp add: fordefi_answered_id_def)
next
  case False
  then have unconfirmed: "unconfirmed_unless_rejected (Some (resp_status http)) tid key err =
      BroadcastUnconfirmed tid (opt_filter (\<lambda>s. 400 \<le> s) (Some (resp_status http))) key None (detail_string err)" for tid err
    by (auto simp: unconfirmed_unless_rejected_def refusal_def)
  from assms show ?thesis
    by (auto simp: submit_answer_def fordefi_answered_id_def classify_submit_def unconfirmed Let_def res_bind_def map_err_def
        split: if_splits prod.splits sum.splits)
qed

text \<open>The create request of an auto-broadcast: its method, its idempotence id, and what becomes of its answer.\<close>

lemma submit_solana_cases:
  fixes core :: fordefi_core
  assumes "submit_solana_transaction E core chain fee Auto message t = (r, t')"
  defines "key \<equiv> solana_idempotency_key E Auto chain (ff_vault_id core) fee message"
  obtains (unsent) e where "r = Inl e" "t' = t"
    | (sent) req where "t' = t @ [Requested req]" "req_method req = ''POST''" "(''x-idempotence-id'', key) \<in> set (req_headers req)"
        "r = (case http_send E (ff_client core) t req of
                Inl e \<Rightarrow> Inl (BroadcastUnconfirmed None None (Some key) None (detail_string (HttpError e)))
              | Inr http \<Rightarrow> submit_answer E (classify_submit True (Some key)) http)"
proof -
  have "submit_request E core (solana_transaction_request (ff_vault_id core) chain (b64_encode E message) Auto fee) (Some key) True t = (r, t')"
    using assms by (simp add: submit_solana_transaction_def)
  then show ?thesis
  proof (cases rule: submit_request_cases)
    case (sent sig ts)
    show ?thesis
      by (rule that(2) [OF sent(1)])
         (use sent(2) in \<open>auto simp: submit_http_def classify_submit_def unconfirmed_unless_rejected_def opt_filter_def
           split: sum.splits\<close>)
  qed (rule that(1))
qed

lemma finish_broadcast_trace:
  assumes "finish_broadcast E self i t = (rf, t')"
  shows "\<exists>k \<le> unat (ff_max_poll_attempts (na_core self)).
    t' = t @ attempts_trace (unat (ff_poll_interval_ms (na_core self))) (poll_http (na_core self) i) k"
proof -
  have "t' = snd (poll_for_result E (na_core self) i True t)"
    using assms by (auto simp: finish_broadcast_def io_bind_def io_lift_def split: prod.splits sum.splits)
  then show ?thesis unfolding poll_for_result_def using fordefi_poll.poll_until_trace by (metis (no_types, lifting))
qed

text \<open>What a run tells of acceptance: nothing was sent, the create is unconfirmed, it was refused, or it was accepted.\<close>

lemma fordefi_accepted_cases:
  fixes self :: native_auto
  assumes run: "sign_and_broadcast E self tx t = (r, t')"
  defines "core \<equiv> na_core self"
    and "key \<equiv> solana_idempotency_key E Auto (na_chain self) (ff_vault_id (na_core self)) (na_fee self)
      (message_serialize E (tx_message tx))"
  obtains (unsent) e where "r = Inl e" "t' = t" "fordefi_accepted E self tx t = None"
    | (unconfirmed) req i st d where "r = Inl (BroadcastUnconfirmed i st (Some key) None d)" "t' = t @ [Requested req]"
        "req_method req = ''POST''" "(''x-idempotence-id'', key) \<in> set (req_headers req)" "fordefi_accepted E self tx t \<in> {None, i}"
    | (refused) req e http where "r = Inl e" "t' = t @ [Requested req]" "req_method req = ''POST''"
        "(''x-idempotence-id'', key) \<in> set (req_headers req)" "fordefi_accepted E self tx t = None"
        "http_send E (ff_client core) t req = Inr http" "refusal http"
    | (accepted) req i k rf where "req_method req = ''POST''" "(''x-idempotence-id'', key) \<in> set (req_headers req)"
        "fordefi_accepted E self tx t = Some i" "k \<le> unat (ff_max_poll_attempts core)"
        "finish_broadcast E self i (note_pending self (PendingSet i) (t @ [Requested req])) =
          (rf, note_pending self (PendingSet i) (t @ [Requested req]) @ attempts_trace (unat (ff_poll_interval_ms core)) (poll_http core i) k)"
        "r = map_err (\<lambda>e. BroadcastUnconfirmed (Some i) None None None (detail_string e)) rf"
        "t' = note_pending self (PendingCleared i)
          (note_pending self (PendingSet i) (t @ [Requested req]) @ attempts_trace (unat (ff_poll_interval_ms core)) (poll_http core i) k)"
  using run
proof (cases rule: sign_and_broadcast_cases)
  case (invalid e)
  with run show thesis by (intro that(1)) (auto simp: fordefi_accepted_def)
next
  case (refused e)
  from refused(2) show thesis
  proof (cases rule: submit_solana_cases)
    case (unsent e')
    with refused run show thesis by (intro that(1)) (auto simp: fordefi_accepted_def)
  next
    case (sent req)
    show thesis
    proof (cases "http_send E (ff_client core) t req")
      case (Inl d)
      with sent refused run show thesis by (intro that(2)) (auto simp: fordefi_accepted_def core_def key_def)
    next
      case (Inr http)
      have acc: "fordefi_accepted E self tx t = fordefi_answered_id E http"
        using run sent(1) Inr by (simp add: fordefi_accepted_def core_def)
      have "submit_answer E (classify_submit True (Some key)) http = Inl e" using sent(4) Inr by (simp add: core_def key_def)
      from submit_answer_failed [OF this] show thesis
      proof
        assume "refusal http \<and> fordefi_answered_id E http = None"
        then show thesis using sent(1-3) refused acc Inr by (intro that(3)) (auto simp: key_def)
      next
        assume "\<exists>i st d. e = BroadcastUnconfirmed i st (Some key) None d \<and> fordefi_answered_id E http \<in> {None, i}"
        then show thesis using sent(1-3) refused acc that(2) by (auto simp: key_def)
      qed
    qed
  qed
next
  case (accepted i t1 rf t2)
  from accepted(1) show thesis
  proof (cases rule: submit_solana_cases)
    case (sent req)
    then obtain http where http: "http_send E (ff_client core) t req = Inr http" "submit_answer E (classify_submit True (Some key)) http = Inr i"
      by (auto simp: core_def key_def split: sum.splits)
    from finish_broadcast_trace [OF accepted(2)] obtain k where k: "k \<le> unat (ff_max_poll_attempts core)"
      "t2 = note_pending self (PendingSet i) t1 @ attempts_trace (unat (ff_poll_interval_ms core)) (poll_http core i) k"
      unfolding core_def by blast
    then have "first_answer E (ff_client core) t t' = Some http" using accepted(4) sent(1) http(1) by (simp add: note_pending_def)
    then have "fordefi_accepted E self tx t = Some i"
      using run submit_answer_accepted [OF http(2)] by (simp add: fordefi_accepted_def core_def)
    then show thesis using accepted sent(1-3) k by (intro that(4)) (auto simp: key_def)
  qed simp
qed

interpretation native_auto: sending_signer "sign_and_broadcast E self" "fordefi_accepted E self"
    "calls_refused E (ff_client (na_core self))"
  for E :: "'x fordefi_env_scheme" and self :: native_auto
proof
  fix tx w s w'
  assume run: "sign_and_broadcast E self tx w = (Inr s, w')"
  then show "fordefi_accepted E self tx w \<noteq> None"
    by (cases rule: fordefi_accepted_cases) simp_all
next
  fix tx w e w' i
  assume run: "sign_and_broadcast E self tx w = (Inl e, w')" and acc: "fordefi_accepted E self tx w = Some i"
  from run show "\<exists>st key sig d. e = BroadcastUnconfirmed (Some i) st key sig d"
  proof (cases rule: fordefi_accepted_cases)
    case (accepted req i' k rf)
    with acc show ?thesis by (cases rf) (auto simp: map_err_def)
  qed (use acc in auto)
next
  fix tx w e w'
  assume run: "sign_and_broadcast E self tx w = (Inl e, w')" and definite: "\<not> is_unconfirmed e"
  from run show "calls_refused E (ff_client (na_core self)) w w'"
  proof (cases rule: fordefi_accepted_cases)
    case (accepted req i' k rf)
    with definite show ?thesis by (cases rf) (auto simp: map_err_def is_unconfirmed_def)
  qed (use definite in \<open>auto simp: is_unconfirmed_def\<close>)
qed


text \<open>A failure after an accepted create carries the provider's id and no idempotency key.\<close>

lemma accepted_failure_without_key:
  assumes "finish_broadcast E self i (note_pending self (PendingSet i) t1) = (Inl e, t2)"
    and "native_auto_validate self tx = Inr ()"
    and "submit_solana_transaction E (na_core self) (na_chain self) (na_fee self) Auto (message_serialize E (tx_message tx)) t = (Inr i, t1)"
  shows "fst (sign_and_broadcast E self tx t) = Inl (BroadcastUnconfirmed (Some i) None None None (detail_string e))"
  using assms by (simp add: sign_and_broadcast_def io_bind_def io_lift_def io_map_err_def)

lemma poll_for_result_Inr:
  assumes "poll_for_result E core tx_id pushable t = (Inr result, t')"
  obtains t0 http body where "t' = t0 @ [Requested (poll_http core tx_id)]" "http_send E (ff_client core) t0 (poll_http core tx_id) = Inr http"
    "is_success http" "read_body_capped http = Inr body" "status_from_slice E body = Inr result"
    "fordefi_success_state pushable (status_state result)"
proof -
  from poll_from_outcome [OF assms [unfolded poll_for_result_def poll_until_def]] obtain t0
    where attempt: "poll_attempt E core tx_id pushable t0 = (Inr (Done result), t')" by auto
  then show thesis using that
    by (auto simp: poll_attempt_def result_simps parse_json_response_def split: if_splits)
qed

text \<open>
  C13: The signature a Fordefi auto-broadcast returns identifies the broadcast transaction. The last request of the call polled the
  id under which Fordefi accepted the transaction, and was answered with state \<^verbatim>\<open>completed\<close> and a raw transaction; the signature is the
  first one of that wire transaction, it verifies under that transaction's own fee payer over that transaction's own message, and
  the vault's key signed that message too.
\<close>

theorem fordefi_broadcast_signature_verified:
  assumes "sign_and_broadcast E self tx t = (Inr s, t')"
  shows "\<exists>i t0 rest http body status raw wire returned fee_payer vault_sig.
    fordefi_accepted E self tx t = Some i \<and>
    t' = t0 @ Requested (poll_http (na_core self) i) # rest \<and> list_all (\<lambda>e. \<not> is_call e) rest \<and>
    http_send E (ff_client (na_core self)) t0 (poll_http (na_core self) i) = Inr http \<and> is_success http \<and>
    read_body_capped http = Inr body \<and> status_from_slice E body = Inr status \<and> status_state status = ''completed'' \<and>
    status_raw_transaction status = Some raw \<and> b64_decode E raw = Inr wire \<and> wire_deserialize E wire = Inr returned \<and>
    first (tx_signatures returned) = Some s \<and> s \<noteq> default_signature \<and>
    first (account_keys returned) = Some fee_payer \<and>
    verifies E s fee_payer (message_serialize E (tx_message returned)) \<and>
    vault_sig \<in> set (tx_signatures returned) \<and>
    verifies E vault_sig (ff_public_key (na_core self)) (message_serialize E (tx_message returned))"
  using assms
proof (cases rule: fordefi_accepted_cases)
  case (accepted req i k rf)
  then have "rf = Inr s" by (cases rf) (auto simp: map_err_def)
  with accepted(5) obtain result t2 where poll: "poll_for_result E (na_core self) i True (note_pending self (PendingSet i) (t @ [Requested req])) =
      (Inr result, t2)" "t' = note_pending self (PendingCleared i) t2" and sig: "broadcast_signature E self result = Inr s"
    using accepted(7) by (metis finish_broadcast_Inr)
  from poll(1) obtain t0 http body where polled: "t2 = t0 @ [Requested (poll_http (na_core self) i)]"
    "http_send E (ff_client (na_core self)) t0 (poll_http (na_core self) i) = Inr http" "is_success http"
    "read_body_capped http = Inr body" "status_from_slice E body = Inr result" "status_state result = ''completed''"
    by (auto simp: fordefi_success_state_def elim: poll_for_result_Inr)
  obtain rest where "t' = t0 @ Requested (poll_http (na_core self) i) # rest" "list_all (\<lambda>e. \<not> is_call e) rest"
    using poll(2) polled(1) by (auto simp: note_pending_def split: if_splits)
  moreover from sig obtain raw wire returned fee_payer vault_sig where "status_raw_transaction result = Some raw"
    "b64_decode E raw = Inr wire" "wire_deserialize E wire = Inr returned"
    "first (tx_signatures returned) = Some s" "s \<noteq> default_signature" "first (account_keys returned) = Some fee_payer"
    "verifies E s fee_payer (message_serialize E (tx_message returned))" "vault_sig \<in> set (tx_signatures returned)"
    "verifies E vault_sig (ff_public_key (na_core self)) (message_serialize E (tx_message returned))"
    unfolding broadcast_signature_Inr by (auto simp: decode_raw_transaction_def result_simps) (metis nth_mem)
  ultimately show ?thesis using accepted(3) polled(2-6) by blast
qed simp_all

text \<open>
  A definite error from a Fordefi auto-broadcast, one that is not reported as unconfirmed, means that
  Fordefi accepted nothing, so the caller may build a new transaction and send it.
\<close>

theorem fordefi_definite_error_not_accepted:
  assumes "sign_and_broadcast E self tx t = (Inl e, t')" and "\<not> is_unconfirmed e"
  shows "fordefi_accepted E self tx t = None"
  using assms by (rule native_auto.definite_error_not_accepted)

text \<open>
  Sending a transaction that Fordefi rewrites and signs without broadcasting: when it succeeds, what was handed to
  the caller's send is the encoding of the transaction now in the caller's hands, complete, and the vault's
  signature in it verifies over the message that transaction carries.
\<close>

theorem fordefi_modify_and_send_ok:
  assumes "modify_and_send (native_manual_modify_and_sign E self) send (tx, t) = (Inr s, (tx', t'))"
  shows "has_all_required_signatures tx' \<and>
    (\<exists>t1 enc sig. native_manual_modify_and_sign E self (tx, t) = (Inr (Complete (enc, sig)), (tx', t1)) \<and>
      verifies E sig (ff_public_key (nm_core self)) (message_serialize E (tx_message tx')) \<and>
      sig \<in> set (tx_signatures tx') \<and> serialize_transaction E tx' = Inr enc \<and> send enc t1 = (Inr s, t'))"
  using assms by (rule native_manual.modify_and_send_ok)

section \<open>Idempotence ids separate different terms\<close>

definition plain_amount :: "string option \<Rightarrow> bool" where
  "plain_amount v \<longleftrightarrow> (\<forall>s. v = Some s \<longrightarrow> s \<noteq> [] \<and> CHR '':'' \<notin> set s \<and> CHR ''|'' \<notin> set s)"

fun plain_fee :: "solana_fee option \<Rightarrow> bool" where
  "plain_fee (Some (Custom up pf)) \<longleftrightarrow> plain_amount up \<and> plain_amount pf"
| "plain_fee _ \<longleftrightarrow> True"

lemma amount_eq:
  assumes "plain_amount u" "plain_amount v"
    "(case u of Some s \<Rightarrow> s | None \<Rightarrow> []) = (case v of Some s \<Rightarrow> s | None \<Rightarrow> [])"
  shows "u = v"
  using assms by (cases u; cases v) (auto simp: plain_amount_def)

lemma amount_bar: "plain_amount u \<Longrightarrow> CHR ''|'' \<notin> set (case u of Some s \<Rightarrow> s | None \<Rightarrow> [])"
  and amount_colon: "plain_amount u \<Longrightarrow> CHR '':'' \<notin> set (case u of Some s \<Rightarrow> s | None \<Rightarrow> [])"
  by (auto simp: plain_amount_def split: option.splits)

lemma canonical_fee_colon: "plain_fee f \<Longrightarrow> CHR '':'' \<notin> set (canonical_fee f)"
  by (induction f rule: canonical_fee.induct) (auto dest: amount_colon split: priority_level.splits)

lemma canonical_fee_inj: "plain_fee f \<Longrightarrow> plain_fee g \<Longrightarrow> canonical_fee f = canonical_fee g \<Longrightarrow> f = g"
proof (induction f rule: canonical_fee.induct)
  case 1
  then show ?case by (cases g rule: canonical_fee.cases) auto
next
  case (2 u p)
  then show ?case
    by (cases g rule: canonical_fee.cases)
       (auto simp: append_Cons_eq_iff [OF amount_bar amount_bar] intro: amount_eq split: priority_level.splits)
next
  case (3 l)
  then show ?case by (cases g rule: canonical_fee.cases) (auto split: priority_level.splits)
qed

text \<open>
  C24: The input of the idempotence id of a native create determines everything the create is about: push mode,
  chain, vault, fee and message bytes, for vault ids without colons and fee amounts that are present only when
  not empty and hold neither colons nor bars. So the same message under other terms is hashed from another input.
\<close>

theorem idempotence_input_separates:
  assumes "CHR '':'' \<notin> set v" "CHR '':'' \<notin> set v'" "plain_fee f" "plain_fee f'"
  shows "str_bytes (idempotency_namespace m c v f) @ d = str_bytes (idempotency_namespace m' c' v' f') @ d' \<longleftrightarrow>
    m = m' \<and> c = c' \<and> v = v' \<and> f = f' \<and> d = d'"
proof
  let ?mode = "\<lambda>m. case m of Auto \<Rightarrow> ''auto'' | Manual \<Rightarrow> ''manual''"
  have modes: "CHR '':'' \<notin> set (?mode x)" for x by (simp split: push_mode.split)
  have chains: "CHR '':'' \<notin> set (chain_as_str x)" for x by (cases x) simp_all
  assume "str_bytes (idempotency_namespace m c v f) @ d = str_bytes (idempotency_namespace m' c' v' f') @ d'"
  then have "bytes_str (str_bytes (idempotency_namespace m c v f) @ d) =
      bytes_str (str_bytes (idempotency_namespace m' c' v' f') @ d')" by simp
  then have "?mode m @ CHR '':'' # chain_as_str c @ CHR '':'' # v @ CHR '':'' # canonical_fee f @ CHR '':'' # bytes_str d =
      ?mode m' @ CHR '':'' # chain_as_str c' @ CHR '':'' # v' @ CHR '':'' # canonical_fee f' @ CHR '':'' # bytes_str d'"
    unfolding bytes_str_append bytes_str_str_bytes idempotency_namespace_def by simp
  then have parts: "?mode m = ?mode m' \<and> chain_as_str c = chain_as_str c' \<and> v = v' \<and>
      canonical_fee f = canonical_fee f' \<and> d = d'"
    using assms canonical_fee_colon
    by (simp only: split_first_eq modes chains not_False_eq_True bytes_str_inject simp_thms)
  moreover have "m = m'" using parts by (simp split: push_mode.splits)
  moreover have "c = c'" using parts by (cases c; cases c') simp_all
  ultimately show "m = m' \<and> c = c' \<and> v = v' \<and> f = f' \<and> d = d'"
    using canonical_fee_inj assms(3,4) by blast
qed simp

theorem idempotence_input_separates_witness:
  "str_bytes (idempotency_namespace Auto SolanaMainnet ''vault'' (Some (Custom (Some ''10'') None))) @ [1] \<noteq>
   str_bytes (idempotency_namespace Auto SolanaMainnet ''vault'' (Some (Custom None (Some ''10'')))) @ [1]"
proof -
  have plain: "CHR '':'' \<notin> set ''vault''" "plain_fee (Some (Custom (Some ''10'') None))"
    "plain_fee (Some (Custom None (Some ''10'')))"
    by (simp_all add: plain_amount_def)
  show ?thesis
    by (simp only: idempotence_input_separates [OF plain(1) plain(1) plain(2,3)]) simp
qed

text \<open>
  The fee's canonical form does not tell an absent amount from an empty one: two creates whose request bodies
  differ in that respect, and so carry different terms, get the same idempotence id.
\<close>

theorem idempotence_key_collision:
  "solana_idempotency_key S m c v (Some (Custom None None)) d = solana_idempotency_key S m c v (Some (Custom (Some []) None)) d \<and>
   solana_transaction_request v c b m (Some (Custom None None)) \<noteq> solana_transaction_request v c b m (Some (Custom (Some []) None))"
  by (simp add: solana_idempotency_key_def idempotency_namespace_def solana_transaction_request_def request_json_def)

section \<open>Configuration selects one signer\<close>

lemma fordefi_build_Inr:
  assumes "fordefi_build E config = Inr core"
  shows "ffc_access_token config \<noteq> [] \<and> ffc_vault_id config \<noteq> [] \<and>
    (ffc_private_key_pem config = None) \<noteq> (ffc_request_signer config = None) \<and>
    ff_poll_interval_ms core \<noteq> 0 \<and> ff_max_poll_attempts core \<noteq> 0 \<and>
    pubkey_from_str E (ffc_public_key config) = Inr (ff_public_key core) \<and>
    (\<exists>u. url_parse E (ff_api_base_url core) = Inr u \<and> url_scheme u = ''https'') \<and>
    client_https_only (ff_client core) \<and> client_redirect (ff_client core) = no_redirect_policy"
proof -
  from assms obtain signer where signer: "resolve_request_signer E config = Inr signer"
    by (auto simp: fordefi_build_def result_simps split: if_splits)
  then have "(ffc_private_key_pem config = None) \<noteq> (ffc_request_signer config = None)"
    by (auto simp: resolve_request_signer_def split: option.splits)
  with assms signer show ?thesis
    by (auto simp: fordefi_build_def Let_def result_simps build_client_def client_builder_def split: if_splits)
qed

text \<open>
  C26: Which of the three Fordefi signers a configuration builds. A configuration whose common part is valid, and
  that names a fee or push mode only together with a chain, builds exactly one of them: the black-box signer
  without a chain, the manual one with a chain and manual push mode, and the auto-broadcasting one otherwise. Its
  base URL is HTTPS, its client refuses redirects and plain HTTP, exactly one request-signing mechanism was
  given, and both polling bounds are positive.
\<close>

theorem fordefi_config_selects_one_signer:
  assumes "fordefi_build E config = Inr core"
    and "ffc_chain config = None \<Longrightarrow> ffc_fee config = None \<and> ffc_push_mode config = None"
  shows "(is_ok (black_box_from_config E config) \<longleftrightarrow> ffc_chain config = None) \<and>
    (is_ok (native_manual_from_config E config) \<longleftrightarrow> ffc_chain config \<noteq> None \<and> ffc_push_mode config = Some Manual) \<and>
    (is_ok (native_auto_from_config E config) \<longleftrightarrow> ffc_chain config \<noteq> None \<and> ffc_push_mode config \<noteq> Some Manual) \<and>
    (\<exists>u. url_parse E (ff_api_base_url core) = Inr u \<and> url_scheme u = ''https'') \<and>
    client_https_only (ff_client core) \<and> client_redirect (ff_client core) = no_redirect_policy \<and>
    (ffc_private_key_pem config = None) \<noteq> (ffc_request_signer config = None) \<and>
    ff_poll_interval_ms core \<noteq> 0 \<and> ff_max_poll_attempts core \<noteq> 0"
proof (intro conjI)
  show "is_ok (black_box_from_config E config) \<longleftrightarrow> ffc_chain config = None"
    using assms by (cases "ffc_chain config") (auto simp: black_box_from_config_def is_ok_def)
  show "is_ok (native_manual_from_config E config) \<longleftrightarrow> ffc_chain config \<noteq> None \<and> ffc_push_mode config = Some Manual"
    using assms(1) by (auto simp: native_manual_from_config_def is_ok_def res_bind_def split: option.splits)
  show "is_ok (native_auto_from_config E config) \<longleftrightarrow> ffc_chain config \<noteq> None \<and> ffc_push_mode config \<noteq> Some Manual"
    using assms(1) by (auto simp: native_auto_from_config_def is_ok_def res_bind_def split: option.splits)
qed (use fordefi_build_Inr [OF assms(1)] in simp_all)

section \<open>Witness runs\<close>

text \<open>Every answer has the fields of a created and of a completed transaction.\<close>

definition demo_fordefi :: fordefi_env where
  "demo_fordefi = net_env.extend (demo_net\<lparr>json_tokens := (\<lambda>b. Some (JObject [(''id'', JString ''tx1''),
       (''state'', JString ''completed''), (''raw_transaction'', JString ''00'')]))\<rparr>) (fordefi_env.fields (\<lambda>s. Some [1]) (\<lambda>s. None) (\<lambda>k p. [2]))"

definition demo_core :: fordefi_core where
  "demo_core = \<lparr>ff_access_token = ''token'', ff_vault_id = ''vault'', ff_request_signer = PemRequestSigner [1],
     ff_api_base_url = ''https://f'',
     ff_client = \<lparr>client_timeout = 1, client_connect_timeout = 1, client_https_only = True, client_redirect = RefuseRedirect [],
       client_user_agent = None\<rparr>,
     ff_public_key = demo_key 1, ff_poll_interval_ms = 1, ff_max_poll_attempts = 2\<rparr>"

definition demo_auto :: native_auto where
  "demo_auto = \<lparr>na_core = demo_core, na_chain = SolanaDevnet, na_fee = None, na_pending_transaction_id = True\<rparr>"

lemma demo_auto_run: "is_ok (fst (sign_and_broadcast demo_fordefi demo_auto demo_tx1 []))"
  by code_simp

lemma demo_auto_ends:
  obtains s t' where "sign_and_broadcast demo_fordefi demo_auto demo_tx1 [] = (Inr s, t')"
  using demo_auto_run
  by (cases "sign_and_broadcast demo_fordefi demo_auto demo_tx1 []") (auto simp: is_ok_def split: sum.splits)


theorem fordefi_broadcast_signature_verified_witness:
  "\<exists>s returned fee_payer. first (tx_signatures returned) = Some s \<and> s \<noteq> default_signature \<and>
     first (account_keys returned) = Some fee_payer \<and>
     verifies demo_fordefi s fee_payer (message_serialize demo_fordefi (tx_message returned))"
proof -
  obtain s t' where run: "sign_and_broadcast demo_fordefi demo_auto demo_tx1 [] = (Inr s, t')" by (rule demo_auto_ends)
  from fordefi_broadcast_signature_verified [OF run] show ?thesis by blast
qed

lemma demo_auto_invalid:
  "sign_and_broadcast demo_fordefi demo_auto demo_tx [] = (Inl (SigningFailed
     (''Fordefi native auto-broadcast currently supports only transactions whose sole required '' @
      ''signer is the configured vault'')), [])"
  by code_simp

theorem fordefi_definite_error_not_accepted_witness:
  "fordefi_accepted demo_fordefi demo_auto demo_tx [] = None"
  by (rule fordefi_definite_error_not_accepted [OF demo_auto_invalid]) simp

definition demo_manual :: native_manual where
  "demo_manual = \<lparr>nm_core = demo_core, nm_chain = SolanaDevnet, nm_fee = None\<rparr>"

lemma demo_manual_run:
  "is_ok (fst (modify_and_send (native_manual_modify_and_sign demo_fordefi demo_manual)
     (\<lambda>enc t. (Inr (Signature [7]), t)) (demo_tx1, [])))"
  by code_simp

theorem fordefi_modify_and_send_ok_witness:
  "\<exists>tx'. has_all_required_signatures tx' \<and>
     (\<exists>sig. verifies demo_fordefi sig (demo_key 1) (message_serialize demo_fordefi (tx_message tx')))"
proof -
  let ?run = "modify_and_send (native_manual_modify_and_sign demo_fordefi demo_manual)
     (\<lambda>enc t. (Inr (Signature [7]), t)) (demo_tx1, [])"
  obtain s tx' t' where run: "?run = (Inr s, (tx', t'))"
    using demo_manual_run by (cases ?run) (auto simp: is_ok_def split: sum.splits)
  have "ff_public_key (nm_core demo_manual) = demo_key 1" by (simp add: demo_manual_def demo_core_def)
  with fordefi_modify_and_send_ok [OF run] show ?thesis by auto
qed

definition demo_fordefi_config :: fordefi_config where
  "demo_fordefi_config = \<lparr>ffc_access_token = ''token'', ffc_vault_id = ''vault'', ffc_private_key_pem = Some ''pem'',
     ffc_request_signer = None, ffc_public_key = replicate 32 (CHR ''a''), ffc_api_base_url = Some ''https://f'',
     ffc_poll_interval_ms = None, ffc_max_poll_attempts = None,
     ffc_http_client_config = Some \<lparr>request_timeout = Some 1, connect_timeout = Some 1\<rparr>,
     ffc_chain = Some SolanaMainnet, ffc_fee = None, ffc_push_mode = None\<rparr>"

lemma demo_fordefi_build: "is_ok (fordefi_build demo_fordefi demo_fordefi_config)"
  by code_simp

theorem fordefi_config_selects_one_signer_witness:
  "is_ok (native_auto_from_config demo_fordefi demo_fordefi_config) \<and>
   \<not> is_ok (native_manual_from_config demo_fordefi demo_fordefi_config) \<and>
   \<not> is_ok (black_box_from_config demo_fordefi demo_fordefi_config)"
proof -
  obtain core where build: "fordefi_build demo_fordefi demo_fordefi_config = Inr core"
    using demo_fordefi_build by (auto simp: is_ok_def split: sum.splits)
  show ?thesis using fordefi_config_selects_one_signer [OF build] by (simp add: demo_fordefi_config_def)
qed

end
