(* ===== verification/Keychain_Signer.thy ===== *)
theory Keychain_Signer
  imports Memory_Signer Ledger_Claim Vault_Signer Privy_Signer Turnkey_Signer Kms_Signers Fireblocks_Signer Cdp_Signer
    Dfns_Signer Openfort_Signer Para_Signer Crossmint Utila_Signer Fordefi
begin

text \<open>
  \<^verbatim>\<open>src/rust/src/lib.rs\<close>: the enum over all backends, its constructors, the capabilities each backend has, and the one call
  that signs a transaction and gets it on chain.

  The world is the trace of remote effects together with the process that owns the Ledger thread; a backend leaves the half
  it does not use alone. Each backend has its own environment in \<open>keychain_env\<close>, of which \<open>signer_sdk\<close> is the SDK part. A
  \<^verbatim>\<open>&dyn TransactionSigner\<close> is the method it is called for.
\<close>

section \<open>The enum\<close>

datatype 'k signer =
    Memory "'k memory_signer"
  | Vault vault_signer
  | Privy privy_signer
  | Turnkey turnkey_signer
  | AwsKms aws_kms_signer
  | Fireblocks fireblocks_signer
  | GcpKms gcp_kms_signer
  | Cdp cdp_signer
  | Dfns dfns_signer
  | Openfort openfort_signer
  | Para para_signer
  | Crossmint crossmint_signer
  | Utila utila_signer
  | FordefiBlackBox fordefi_core
  | FordefiNativeAuto native_auto
  | FordefiNativeManual native_manual
  | Ledger ledger_signer

record 'k keychain_env =
  kc_sdk :: sdk
  kc_local :: "'k local_env"
  kc_net :: net_env
  kc_privy :: privy_env
  kc_turnkey :: turnkey_env
  kc_kms :: kms_env
  kc_fireblocks :: fireblocks_env
  kc_cdp :: cdp_env
  kc_dfns :: dfns_env
  kc_openfort :: auth_env
  kc_para :: net_env
  kc_crossmint :: crossmint_env
  kc_utila :: auth_env
  kc_fordefi :: fordefi_env
  kc_ledger :: ledger_rt
  kc_connect_join_error :: "dev_trace \<Rightarrow> string option"

type_synonym world = "trace \<times> ledger_process"

definition on_trace ::
  "(versioned_transaction \<times> trace, 'a) signer_io \<Rightarrow> (versioned_transaction \<times> world, 'a) signer_io" where
  "on_trace m st = (case m (fst st, fst (snd st)) of (r, (tx, t)) \<Rightarrow> (r, (tx, (t, snd (snd st)))))"

definition on_ledger ::
  "(versioned_transaction \<times> ledger_process, 'a) signer_io \<Rightarrow> (versioned_transaction \<times> world, 'a) signer_io" where
  "on_ledger m st = (case m (fst st, snd (snd st)) of (r, (tx, p)) \<Rightarrow> (r, (tx, (fst (snd st), p))))"

section \<open>Construction\<close>

definition from_memory :: "'k keychain_env \<Rightarrow> string \<Rightarrow> 'k signer result" where
  "from_memory K private_key =
     res_bind (memory_from_private_key_string (kc_sdk K) (kc_local K) private_key) (\<lambda>s. Inr (Memory s))"

definition from_memory_file :: "'k keychain_env \<Rightarrow> string \<Rightarrow> 'k signer result" where
  "from_memory_file K path = res_bind (memory_from_private_key_file (kc_local K) path) (\<lambda>s. Inr (Memory s))"

definition from_vault ::
  "'k keychain_env \<Rightarrow> string \<Rightarrow> string \<Rightarrow> string \<Rightarrow> string \<Rightarrow> http_client_config option \<Rightarrow> 'k signer result" where
  "from_vault K vault_addr vault_token key_name pk http =
     res_bind (vault_from_config (kc_net K) \<lparr>vtc_api_base_url = vault_addr, vtc_token = vault_token, vtc_key_name = key_name,
       vtc_public_key = pk, vtc_http_client_config = http\<rparr>) (\<lambda>s. Inr (Vault s))"

definition from_privy ::
  "'k keychain_env \<Rightarrow> string \<Rightarrow> string \<Rightarrow> string \<Rightarrow> http_client_config option \<Rightarrow> (trace, 'k signer) signer_io" where
  "from_privy K app_id app_secret wallet_ref http =
     io_bind (io_lift (privy_from_config (kc_privy K) \<lparr>pvc_app_id = app_id, pvc_app_secret = app_secret,
       pvc_wallet_id = wallet_ref, pvc_api_base_url = None, pvc_http_client_config = http, pvc_authorization_context = None,
       pvc_authorization_request_expiry = DefaultExpiry\<rparr>)) (\<lambda>s.
     io_bind (privy_init (kc_privy K) s) (\<lambda>s. io_lift (Inr (Privy s))))"

definition from_turnkey ::
  "'k keychain_env \<Rightarrow> string \<Rightarrow> string \<Rightarrow> string \<Rightarrow> string \<Rightarrow> string \<Rightarrow> http_client_config option \<Rightarrow> 'k signer result" where
  "from_turnkey K api_public_key api_private_key organization_id private_key_id public_key http =
     res_bind (turnkey_from_config (kc_turnkey K) \<lparr>tkc_api_public_key = api_public_key, tkc_api_private_key = api_private_key,
       tkc_organization_id = organization_id, tkc_private_key_id = private_key_id, tkc_public_key = public_key,
       tkc_api_base_url = None, tkc_http_client_config = http\<rparr>) (\<lambda>s. Inr (Turnkey s))"

definition from_aws_kms :: "'k keychain_env \<Rightarrow> string \<Rightarrow> string \<Rightarrow> string option \<Rightarrow> 'k signer result" where
  "from_aws_kms K key_id public_key region =
     res_bind (aws_from_config (kc_kms K) \<lparr>awsc_key_id = key_id, awsc_public_key = public_key, awsc_region = region\<rparr>)
       (\<lambda>s. Inr (AwsKms s))"

definition from_fireblocks :: "'k keychain_env \<Rightarrow> fireblocks_config \<Rightarrow> (trace, 'k signer) signer_io" where
  "from_fireblocks K config =
     io_bind (io_lift (fireblocks_new (kc_fireblocks K) config)) (\<lambda>s.
     io_bind (fireblocks_init (kc_fireblocks K) s) (\<lambda>s. io_lift (Inr (Fireblocks s))))"

definition from_gcp_kms :: "'k keychain_env \<Rightarrow> string \<Rightarrow> string \<Rightarrow> 'k signer result" where
  "from_gcp_kms K key_name public_key =
     res_bind (gcp_from_config (kc_kms K) \<lparr>gcpc_key_name = key_name, gcpc_public_key = public_key\<rparr>) (\<lambda>s. Inr (GcpKms s))"

definition from_para :: "'k keychain_env \<Rightarrow> string \<Rightarrow> string \<Rightarrow> string option \<Rightarrow> (trace, 'k signer) signer_io" where
  "from_para K api_key wallet_ref api_base_url =
     io_bind (io_lift (para_from_config (kc_para K)
       \<lparr>pac_api_key = api_key, pac_wallet_id = wallet_ref, pac_api_base_url = api_base_url\<rparr>)) (\<lambda>s.
     io_bind (para_init (kc_para K) s) (\<lambda>s. io_lift (Inr (Para s))))"

definition from_cdp :: "'k keychain_env \<Rightarrow> cdp_config \<Rightarrow> 'k signer result" where
  "from_cdp K config = res_bind (cdp_from_config (kc_cdp K) config) (\<lambda>s. Inr (Cdp s))"

definition from_dfns :: "'k keychain_env \<Rightarrow> dfns_config \<Rightarrow> (trace, 'k signer) signer_io" where
  "from_dfns K config =
     io_bind (io_lift (dfns_new (kc_dfns K) config)) (\<lambda>s.
     io_bind (dfns_init (kc_dfns K) s) (\<lambda>s. io_lift (Inr (Dfns s))))"

definition from_crossmint :: "'k keychain_env \<Rightarrow> crossmint_config \<Rightarrow> (trace, 'k signer) signer_io" where
  "from_crossmint K config =
     io_bind (io_lift (crossmint_new (kc_crossmint K) config)) (\<lambda>s.
     io_bind (crossmint_init (kc_crossmint K) s) (\<lambda>s. io_lift (Inr (Crossmint s))))"

definition from_openfort ::
  "'k keychain_env \<Rightarrow> string \<Rightarrow> string \<Rightarrow> string \<Rightarrow> http_client_config option \<Rightarrow> (trace, 'k signer) signer_io" where
  "from_openfort K secret_key account_id wallet_secret http =
     io_bind (io_lift (openfort_from_config (kc_openfort K) \<lparr>ofc_secret_key = secret_key, ofc_account_id = account_id,
       ofc_wallet_secret = wallet_secret, ofc_api_base_url = None, ofc_http_client_config = http\<rparr>)) (\<lambda>s.
     io_bind (openfort_init (kc_openfort K) s) (\<lambda>s. io_lift (Inr (Openfort s))))"

definition from_utila :: "'k keychain_env \<Rightarrow> utila_config \<Rightarrow> (trace, 'k signer) signer_io" where
  "from_utila K config =
     io_bind (io_lift (utila_new (kc_utila K) config)) (\<lambda>s.
     io_bind (utila_init (kc_utila K) s) (\<lambda>s. io_lift (Inr (Utila s))))"

definition from_ledger :: "'k keychain_env \<Rightarrow> ledger_config \<Rightarrow> (ledger_process, 'k signer) signer_io" where
  "from_ledger K config p =
     (case kc_connect_join_error K (snd (device_state p)) of
        Some e \<Rightarrow> (Inl (Other (''Ledger connect task failed: '' @ e)), p)
      | None \<Rightarrow> io_bind (connect_with (kc_ledger K) config) (\<lambda>s. io_lift (Inr (Ledger s))) p)"

definition from_fordefi :: "'k keychain_env \<Rightarrow> fordefi_config \<Rightarrow> 'k signer result" where
  "from_fordefi K config =
     (if ffc_chain config = None then res_bind (black_box_from_config (kc_fordefi K) config) (\<lambda>s. Inr (FordefiBlackBox s))
      else if ffc_push_mode config = Some Manual
      then res_bind (native_manual_from_config (kc_fordefi K) config) (\<lambda>s. Inr (FordefiNativeManual s))
      else res_bind (native_auto_from_config (kc_fordefi K) config) (\<lambda>s. Inr (FordefiNativeAuto s)))"

section \<open>Capabilities\<close>

fun as_transaction_signer ::
  "'k keychain_env \<Rightarrow> 'k signer \<Rightarrow> (versioned_transaction \<times> world, sign_transaction_result) signer_io option" where
  "as_transaction_signer K (Memory s) = Some (memory_sign_transaction (kc_sdk K) (kc_local K) s)"
| "as_transaction_signer K (Vault s) = Some (on_trace (vault_sign_transaction (kc_net K) s))"
| "as_transaction_signer K (Privy s) = Some (on_trace (privy_sign_transaction (kc_privy K) s))"
| "as_transaction_signer K (Turnkey s) = Some (on_trace (turnkey_sign_transaction (kc_turnkey K) s))"
| "as_transaction_signer K (AwsKms s) = Some (on_trace (aws_sign_transaction (kc_kms K) s))"
| "as_transaction_signer K (Fireblocks s) = Some (on_trace (fireblocks_sign_transaction (kc_fireblocks K) s))"
| "as_transaction_signer K (GcpKms s) = Some (on_trace (gcp_sign_transaction (kc_kms K) s))"
| "as_transaction_signer K (Cdp s) = Some (on_trace (cdp_sign_transaction (kc_cdp K) s))"
| "as_transaction_signer K (Dfns s) = Some (on_trace (dfns_sign_transaction (kc_dfns K) s))"
| "as_transaction_signer K (Openfort s) = Some (on_trace (openfort_sign_transaction (kc_openfort K) s))"
| "as_transaction_signer K (Para s) = Some (on_trace (para_sign_transaction (kc_para K) s))"
| "as_transaction_signer K (Utila s) = Some (on_trace (utila_sign_transaction (kc_utila K) s))"
| "as_transaction_signer K (FordefiBlackBox s) = Some (on_trace (black_box_sign_transaction (kc_fordefi K) s))"
| "as_transaction_signer K (Ledger s) = Some (on_ledger (ledger_sign_transaction (kc_ledger K) s))"
| "as_transaction_signer K (Crossmint _) = None"
| "as_transaction_signer K (FordefiNativeAuto _) = None"
| "as_transaction_signer K (FordefiNativeManual _) = None"

fun as_modifying_signer ::
  "'k keychain_env \<Rightarrow> 'k signer \<Rightarrow> (versioned_transaction \<times> world, sign_transaction_result) signer_io option" where
  "as_modifying_signer K (FordefiNativeManual s) = Some (on_trace (native_manual_modify_and_sign (kc_fordefi K) s))"
| "as_modifying_signer K _ = None"

fun as_sending_signer :: "'k keychain_env \<Rightarrow> 'k signer \<Rightarrow> (versioned_transaction \<Rightarrow> (world, signature) signer_io) option" where
  "as_sending_signer K (Crossmint s) = Some (\<lambda>tx. io_place (crossmint_sign_and_send_transaction (kc_crossmint K) s tx))"
| "as_sending_signer K (FordefiNativeAuto s) = Some (\<lambda>tx. io_place (native_auto_sign_and_send_transaction (kc_fordefi K) s tx))"
| "as_sending_signer K _ = None"

text \<open>\<^verbatim>\<open>Signer::sign_and_send\<close>.\<close>

definition signer_sign_and_send ::
  "'k keychain_env \<Rightarrow> 'k signer \<Rightarrow> (string \<Rightarrow> (world, signature) signer_io) \<Rightarrow>
   (versioned_transaction \<times> world, signature) signer_io" where
  "signer_sign_and_send K self send =
     (case as_sending_signer K self of
        Some sign_and_send_transaction \<Rightarrow>
          (\<lambda>st. io_bind (io_world (sign_and_send_transaction (fst st))) (\<lambda>s. io_lift (require_broadcast_signature s)) st)
      | None \<Rightarrow>
          (case as_transaction_signer K self of
             Some sign_transaction \<Rightarrow> sign_and_send sign_transaction send
           | None \<Rightarrow>
               (case as_modifying_signer K self of
                  Some modify_and_sign \<Rightarrow> modify_and_send modify_and_sign send
                | None \<Rightarrow> io_lift (Inl (SigningFailed
                    ''This signer supports neither sign_transaction nor sign_and_send_transaction'')))))"

section \<open>Dispatch of the base trait\<close>

text \<open>\<^verbatim>\<open>pubkey\<close>, which panics (\<open>None\<close>) for a backend that has not fetched its key yet.\<close>

fun signer_pubkey :: "'k keychain_env \<Rightarrow> 'k signer \<Rightarrow> pubkey option" where
  "signer_pubkey K (Memory s) = Some (memory_pubkey (kc_local K) s)"
| "signer_pubkey K (Vault s) = Some (vault_pubkey s)"
| "signer_pubkey K (Privy s) = privy_pubkey s"
| "signer_pubkey K (Turnkey s) = Some (turnkey_pubkey s)"
| "signer_pubkey K (AwsKms s) = Some (aws_pubkey s)"
| "signer_pubkey K (Fireblocks s) = fireblocks_pubkey s"
| "signer_pubkey K (GcpKms s) = Some (gcp_pubkey s)"
| "signer_pubkey K (Cdp s) = Some (cdp_pubkey s)"
| "signer_pubkey K (Dfns s) = dfns_pubkey s"
| "signer_pubkey K (Openfort s) = openfort_pubkey s"
| "signer_pubkey K (Para s) = para_pubkey s"
| "signer_pubkey K (Crossmint s) = crossmint_pubkey s"
| "signer_pubkey K (Utila s) = utila_pubkey s"
| "signer_pubkey K (FordefiBlackBox s) = Some (black_box_pubkey s)"
| "signer_pubkey K (FordefiNativeAuto s) = Some (native_auto_pubkey s)"
| "signer_pubkey K (FordefiNativeManual s) = Some (native_manual_pubkey s)"
| "signer_pubkey K (Ledger s) = Some (ledger_pubkey s)"

fun signer_sign_message :: "'k keychain_env \<Rightarrow> 'k signer \<Rightarrow> bytes \<Rightarrow> (world, signature) signer_io" where
  "signer_sign_message K (Memory s) m = memory_sign_message (kc_local K) s m"
| "signer_sign_message K (Vault s) m = io_place (vault_sign_message (kc_net K) s m)"
| "signer_sign_message K (Privy s) m = io_place (privy_sign_message (kc_privy K) s m)"
| "signer_sign_message K (Turnkey s) m = io_place (turnkey_sign_message (kc_turnkey K) s m)"
| "signer_sign_message K (AwsKms s) m = io_place (aws_sign_message (kc_kms K) s m)"
| "signer_sign_message K (Fireblocks s) m = io_place (fireblocks_sign_message (kc_fireblocks K) s m)"
| "signer_sign_message K (GcpKms s) m = io_place (gcp_sign_message (kc_kms K) s m)"
| "signer_sign_message K (Cdp s) m = io_place (cdp_sign_message (kc_cdp K) s m)"
| "signer_sign_message K (Dfns s) m = io_place (dfns_sign_message (kc_dfns K) s m)"
| "signer_sign_message K (Openfort s) m = io_place (openfort_sign_message (kc_openfort K) s m)"
| "signer_sign_message K (Para s) m = io_place (para_sign_message (kc_para K) s m)"
| "signer_sign_message K (Crossmint s) m = io_place (crossmint_sign_message s m)"
| "signer_sign_message K (Utila s) m = io_place (utila_sign_message s m)"
| "signer_sign_message K (FordefiBlackBox s) m = io_place (black_box_sign_message (kc_fordefi K) s m)"
| "signer_sign_message K (FordefiNativeAuto s) m = io_place (native_auto_sign_message (kc_fordefi K) s m)"
| "signer_sign_message K (FordefiNativeManual s) m = io_place (native_manual_sign_message (kc_fordefi K) s m)"
| "signer_sign_message K (Ledger s) m = io_world (ledger_sign_message (kc_ledger K) s m)"

definition place_answer :: "(trace \<Rightarrow> bool \<times> trace) \<Rightarrow> world \<Rightarrow> bool \<times> world" where
  "place_answer m w = (case m (fst w) of (b, t) \<Rightarrow> (b, (t, snd w)))"

fun signer_is_available :: "'k keychain_env \<Rightarrow> 'k signer \<Rightarrow> world \<Rightarrow> bool \<times> world" where
  "signer_is_available K (Memory s) w = (memory_is_available s, w)"
| "signer_is_available K (Vault s) w = place_answer (vault_is_available (kc_net K) s) w"
| "signer_is_available K (Privy s) w = place_answer (privy_is_available (kc_privy K) s) w"
| "signer_is_available K (Turnkey s) w = place_answer (turnkey_is_available (kc_turnkey K) s) w"
| "signer_is_available K (AwsKms s) w = place_answer (aws_is_available (kc_kms K) s) w"
| "signer_is_available K (Fireblocks s) w = place_answer (fireblocks_is_available (kc_fireblocks K) s) w"
| "signer_is_available K (GcpKms s) w = place_answer (gcp_is_available (kc_kms K) s) w"
| "signer_is_available K (Cdp s) w = place_answer (cdp_is_available (kc_cdp K) s) w"
| "signer_is_available K (Dfns s) w = place_answer (dfns_is_available (kc_dfns K) s) w"
| "signer_is_available K (Openfort s) w = place_answer (openfort_is_available (kc_openfort K) s) w"
| "signer_is_available K (Para s) w = place_answer (para_is_available (kc_para K) s) w"
| "signer_is_available K (Crossmint s) w = place_answer (crossmint_is_available (kc_crossmint K) s) w"
| "signer_is_available K (Utila s) w = place_answer (utila_is_available (kc_utila K) s) w"
| "signer_is_available K (FordefiBlackBox s) w = place_answer (fordefi_is_available (kc_fordefi K) s) w"
| "signer_is_available K (FordefiNativeAuto s) w = place_answer (fordefi_is_available (kc_fordefi K) (na_core s)) w"
| "signer_is_available K (FordefiNativeManual s) w = place_answer (fordefi_is_available (kc_fordefi K) (nm_core s)) w"
| "signer_is_available K (Ledger s) w = (case ledger_is_available (kc_ledger K) s (snd w) of (b, p) \<Rightarrow> (b, (fst w, p)))"

section \<open>Signers the constructors build\<close>

text \<open>The signers a program obtains from the constructors of the enum.\<close>

inductive constructed :: "'k keychain_env \<Rightarrow> 'k signer \<Rightarrow> bool" for K :: "'k keychain_env" where
  memory: "from_memory K private_key = Inr s \<Longrightarrow> constructed K s"
| memory_file: "from_memory_file K path = Inr s \<Longrightarrow> constructed K s"
| vault: "from_vault K addr token key pk http = Inr s \<Longrightarrow> constructed K s"
| privy: "from_privy K app secret wallet http t = (Inr s, t') \<Longrightarrow> constructed K s"
| turnkey: "from_turnkey K api_pub api_priv org key pk http = Inr s \<Longrightarrow> constructed K s"
| aws_kms: "from_aws_kms K key pk region = Inr s \<Longrightarrow> constructed K s"
| fireblocks: "from_fireblocks K fireblocks_cfg t = (Inr s, t') \<Longrightarrow> constructed K s"
| gcp_kms: "from_gcp_kms K key pk = Inr s \<Longrightarrow> constructed K s"
| para: "from_para K api_key wallet url t = (Inr s, t') \<Longrightarrow> constructed K s"
| cdp: "from_cdp K cdp_cfg = Inr s \<Longrightarrow> constructed K s"
| dfns: "from_dfns K dfns_cfg t = (Inr s, t') \<Longrightarrow> constructed K s"
| crossmint: "from_crossmint K crossmint_cfg t = (Inr s, t') \<Longrightarrow> constructed K s"
| openfort: "from_openfort K secret account wallet_secret http t = (Inr s, t') \<Longrightarrow> constructed K s"
| utila: "from_utila K utila_cfg t = (Inr s, t') \<Longrightarrow> constructed K s"
| ledger: "from_ledger K ledger_cfg p = (Inr s, p') \<Longrightarrow> constructed K s"
| fordefi: "from_fordefi K fordefi_cfg = Inr s \<Longrightarrow> constructed K s"

lemmas constructor_defs = from_memory_def from_memory_file_def from_vault_def from_privy_def from_turnkey_def from_aws_kms_def
  from_fireblocks_def from_gcp_kms_def from_para_def from_cdp_def from_dfns_def from_crossmint_def from_openfort_def
  from_utila_def from_ledger_def from_fordefi_def

lemmas init_defs = privy_init_def privy_pubkey_def fireblocks_init_def fireblocks_pubkey_def para_init_def para_pubkey_def
  dfns_init_def dfns_pubkey_def crossmint_init_def crossmint_pubkey_def openfort_init_def openfort_pubkey_def utila_init_def
  utila_pubkey_def

lemma constructed_pubkey: "constructed K s \<Longrightarrow> \<exists>pk. signer_pubkey K s = Some pk"
  by (induction rule: constructed.induct)
     (auto simp: constructor_defs init_defs result_simps split: if_splits option.splits prod.splits)

section \<open>The SDK of a backend\<close>

fun signer_sdk :: "'k keychain_env \<Rightarrow> 'k signer \<Rightarrow> sdk" where
  "signer_sdk K (Memory _) = kc_sdk K"
| "signer_sdk K (Vault _) = sdk.truncate (kc_net K)"
| "signer_sdk K (Privy _) = sdk.truncate (kc_privy K)"
| "signer_sdk K (Turnkey _) = sdk.truncate (kc_turnkey K)"
| "signer_sdk K (AwsKms _) = sdk.truncate (kc_kms K)"
| "signer_sdk K (Fireblocks _) = sdk.truncate (kc_fireblocks K)"
| "signer_sdk K (GcpKms _) = sdk.truncate (kc_kms K)"
| "signer_sdk K (Cdp _) = sdk.truncate (kc_cdp K)"
| "signer_sdk K (Dfns _) = sdk.truncate (kc_dfns K)"
| "signer_sdk K (Openfort _) = sdk.truncate (kc_openfort K)"
| "signer_sdk K (Para _) = sdk.truncate (kc_para K)"
| "signer_sdk K (Crossmint _) = sdk.truncate (kc_crossmint K)"
| "signer_sdk K (Utila _) = sdk.truncate (kc_utila K)"
| "signer_sdk K (FordefiBlackBox _) = sdk.truncate (kc_fordefi K)"
| "signer_sdk K (FordefiNativeAuto _) = sdk.truncate (kc_fordefi K)"
| "signer_sdk K (FordefiNativeManual _) = sdk.truncate (kc_fordefi K)"
| "signer_sdk K (Ledger _) = sdk.truncate (kc_ledger K)"

lemma truncate_sdk [simp]:
  "message_serialize (sdk.truncate E) = message_serialize E"
  "verifies (sdk.truncate E) = verifies E"
  "serialize_transaction (sdk.truncate E) = serialize_transaction E"
  "get_signing_keypair_position (sdk.truncate E) = get_signing_keypair_position E"
  "own_slot_signed (sdk.truncate E) = own_slot_signed E"
  by (simp_all add: fun_eq_iff verifies_def serialize_transaction_def serialize_wire_transaction_def
      get_signing_keypair_position_def own_slot_signed_def sdk.defs cong: if_cong)

text \<open>What a backend vouches for: a local key signs, every other backend has verified the signature under its own key.\<close>

definition signer_vouches :: "'k keychain_env \<Rightarrow> 'k signer \<Rightarrow> pubkey \<Rightarrow> signature \<Rightarrow> bytes \<Rightarrow> bool" where
  "signer_vouches K s pk sig b =
     (case s of Memory m \<Rightarrow> sig = memory_sign_bytes (kc_local K) m b | _ \<Rightarrow> verifies (signer_sdk K s) sig pk b)"

text \<open>The bytes a message signature covers: the message, or the off-chain envelope a Ledger puts around it.\<close>

definition signer_covers :: "'k keychain_env \<Rightarrow> 'k signer \<Rightarrow> bytes \<Rightarrow> bytes \<Rightarrow> bool" where
  "signer_covers K s m b =
     (case s of Ledger l \<Rightarrow> ledger_offchain_envelope (kc_ledger K) (ledger_pubkey l) m = Inr b | _ \<Rightarrow> b = m)"

lemma on_trace_iff [result_simps]:
  "on_trace m (tx, w) = (r, (tx', w')) \<longleftrightarrow> m (tx, fst w) = (r, (tx', fst w')) \<and> snd w' = snd w"
  by (cases w') (auto simp: on_trace_def split: prod.splits)

lemma on_ledger_iff [result_simps]:
  "on_ledger m (tx, w) = (r, (tx', w')) \<longleftrightarrow> m (tx, snd w) = (r, (tx', snd w')) \<and> fst w' = fst w"
  by (cases w') (auto simp: on_ledger_def split: prod.splits)

lemma transaction_signer_on_trace:
  assumes "transaction_signer v c sm E pk f"
  shows "transaction_signer v c (\<lambda>m. io_place (sm m)) (sdk.truncate E) pk (on_trace f)"
proof -
  note ok = transaction_signer.sign_transaction_ok [OF assms] and err = transaction_signer.sign_transaction_error [OF assms]
    and msg = solana_signer.sign_message_vouched [OF transaction_signer.axioms(1) [OF assms]]
  show ?thesis
    by unfold_locales (auto simp: result_simps io_place_def split: prod.splits dest: ok err msg)
qed

lemma transaction_signer_on_ledger:
  assumes "transaction_signer v c sm E pk f"
  shows "transaction_signer v c (\<lambda>m. io_world (sm m)) (sdk.truncate E) pk (on_ledger f)"
proof -
  note ok = transaction_signer.sign_transaction_ok [OF assms] and err = transaction_signer.sign_transaction_error [OF assms]
    and msg = solana_signer.sign_message_vouched [OF transaction_signer.axioms(1) [OF assms]]
  show ?thesis
    by unfold_locales (auto simp: result_simps io_world_def split: prod.splits dest: ok err msg)
qed

lemmas on_trace_backends =
  vault.transaction_signer_axioms privy.transaction_signer_axioms turnkey.transaction_signer_axioms
  aws_kms.transaction_signer_axioms fireblocks.transaction_signer_axioms gcp_kms.transaction_signer_axioms
  cdp.transaction_signer_axioms dfns.transaction_signer_axioms openfort.transaction_signer_axioms
  para.transaction_signer_axioms utila.transaction_signer_axioms black_box.transaction_signer_axioms

lemmas backend_contracts = on_trace_backends [THEN transaction_signer_on_trace] memory.transaction_signer_axioms
  ledger.transaction_signer_axioms [THEN transaction_signer_on_ledger]

lemmas signer_sign_message_fun = signer_sign_message.simps [abs_def]

lemma transaction_backend_contract:
  assumes "as_transaction_signer K s = Some f"
  shows "transaction_signer (signer_vouches K s (unwrap_or (Pubkey []) (signer_pubkey K s))) (signer_covers K s)
    (signer_sign_message K s) (signer_sdk K s) (unwrap_or (Pubkey []) (signer_pubkey K s)) f"
  using assms
  by (cases s) (auto simp: signer_vouches_def [abs_def] signer_covers_def [abs_def] signer_sign_message_fun unwrap_or_def
     intro: backend_contracts [unfolded unwrap_or_def])

section \<open>The backends meet the contracts of their capabilities\<close>

lemma some_capability:
  "as_transaction_signer K s = None \<Longrightarrow> as_modifying_signer K s = None \<Longrightarrow> as_sending_signer K s \<noteq> None"
  by (cases s) auto

text \<open>
  For the backends that broadcast: the id under which the provider answers that it took the transaction on, and that it refused every
  request of a call.
\<close>

definition provider_accepted :: "'k keychain_env \<Rightarrow> 'k signer \<Rightarrow> versioned_transaction \<Rightarrow> world \<Rightarrow> string option" where
  "provider_accepted K s tx w =
     (case s of
        Crossmint c \<Rightarrow> crossmint_accepted (kc_crossmint K) c tx (fst w)
      | FordefiNativeAuto a \<Rightarrow> fordefi_accepted (kc_fordefi K) a tx (fst w)
      | _ \<Rightarrow> None)"

definition provider_refused :: "'k keychain_env \<Rightarrow> 'k signer \<Rightarrow> world \<Rightarrow> world \<Rightarrow> bool" where
  "provider_refused K s w w' =
     (case s of
        Crossmint c \<Rightarrow> calls_refused (kc_crossmint K) (cm_client c) (fst w) (fst w')
      | FordefiNativeAuto a \<Rightarrow> calls_refused (kc_fordefi K) (ff_client (na_core a)) (fst w) (fst w')
      | _ \<Rightarrow> False)"

lemma sending_signer_place:
  assumes "sending_signer f acc ref"
  shows "sending_signer (\<lambda>tx. io_place (f tx)) (\<lambda>tx w. acc tx (fst w)) (\<lambda>w w'. ref (fst w) (fst w'))"
  using sending_signer.success_accepted [OF assms] sending_signer.failure_after_accept [OF assms]
    sending_signer.definite_error_refused [OF assms]
  by unfold_locales (auto simp: io_place_def split: prod.splits)

lemma sending_backend_contract:
  assumes "as_sending_signer K s = Some f"
  shows "sending_signer f (provider_accepted K s) (provider_refused K s)"
  using assms
  by (cases s) (auto simp: provider_accepted_def [abs_def] provider_refused_def [abs_def]
    intro: sending_signer_place [OF crossmint.sending_signer_axioms] sending_signer_place [OF native_auto.sending_signer_axioms])

lemma modifying_signer_on_trace:
  assumes "modifying_signer v c sm E pk f"
  shows "modifying_signer v c (\<lambda>m. io_place (sm m)) (sdk.truncate E) pk (on_trace f)"
proof -
  note ok = modifying_signer.modify_ok [OF assms] and err = modifying_signer.modify_error [OF assms]
    and msg = solana_signer.sign_message_vouched [OF modifying_signer.axioms(1) [OF assms]]
  show ?thesis
    by unfold_locales (auto simp: result_simps io_place_def split: prod.splits dest: ok err msg)
qed

lemma modifying_backend_contract:
  assumes "as_modifying_signer K s = Some f"
  shows "modifying_signer (signer_vouches K s (unwrap_or (Pubkey []) (signer_pubkey K s))) (signer_covers K s)
    (signer_sign_message K s) (signer_sdk K s) (unwrap_or (Pubkey []) (signer_pubkey K s)) f"
  using assms
  by (cases s) (auto simp: signer_vouches_def [abs_def] signer_covers_def [abs_def] signer_sign_message_fun unwrap_or_def
     intro: modifying_signer_on_trace [OF native_manual.modifying_signer_axioms])

lemma own_slot_signed_in: "own_slot_signed S pk sig tx tx' \<Longrightarrow> sig \<in> set (tx_signatures tx')"
  by (auto simp: own_slot_signed_def signing_position_iff less_max_iff_disj intro!: set_update_memI)

text \<open>When the transaction left with the caller is incomplete, the broadcast step did not call \<^verbatim>\<open>send\<close>.\<close>

lemma broadcast_step_unsent:
  assumes "io_bind m (\<lambda>res st. io_world (broadcast_complete res (first (tx_signatures (fst st))) send) st) st = (r, st')"
    and "\<And>res st1. m st = (Inr res, st1) \<Longrightarrow> \<not> has_all_required_signatures (fst st1) \<Longrightarrow> \<exists>signed_tx. res = Partial signed_tx"
    and "\<not> has_all_required_signatures (fst st')"
  shows "io_bind m (\<lambda>res st. io_world (broadcast_complete res (first (tx_signatures (fst st))) send') st) st = (r, st')"
proof -
  obtain res st1 where Pair: "m st = (res, st1)" by (rule prod.exhaust)
  show ?thesis
  proof (cases res)
    case (Inr result)
    have "fst st1 = fst st'" using assms(1) Pair Inr by (auto simp: io_bind_def io_world_def split: prod.splits)
    then obtain p where "result = Partial p" using assms(2) [of result st1] assms(3) Pair Inr by auto
    then show ?thesis using assms(1) Pair Inr by (simp add: io_bind_def io_world_def broadcast_complete_def)
  qed (use assms(1) Pair in \<open>simp add: io_bind_def\<close>)
qed

section \<open>Signing before initialization\<close>

lemmas uninitialized_simps = privy_obtain_def privy_initialized_pubkey_def para_sign_bytes_def para_initialized_pubkey_def
  openfort_sign_bytes_def openfort_initialized_pubkey_def dfns_initialized_pubkey_def sign_transaction_bytes_def
  fireblocks_obtain_def fireblocks_initialized_pubkey_def sign_raw_bytes_def sign_program_call_def utila_obtain_def
  utila_initialized_pubkey_def execute_managed_transaction_def submit_managed_def initialized_pubkey_def

lemma serialize_wire_definite: "serialize_wire_transaction S tx = Inl e \<Longrightarrow> \<not> is_unconfirmed e"
  by (auto simp: serialize_wire_transaction_def is_unconfirmed_def result_simps)

end
