(* ===== verification/Keychain_Calls.thy ===== *)
theory Keychain_Calls
  imports Keychain_Signer
begin

text \<open>
  The outgoing calls of the unified signer: for each backend the endpoint it is configured for and the number of calls one
  method may make, and a relation \<open>signer_call\<close> with one rule per method of the traits.
\<close>


section \<open>Where a signer calls\<close>

fun signer_endpoint :: "'k keychain_env \<Rightarrow> 'k signer \<Rightarrow> event \<Rightarrow> bool" where
  "signer_endpoint K (Vault s) = calls_url (vt_api_base_url s)"
| "signer_endpoint K (Privy s) = calls_url (pv_api_base_url s)"
| "signer_endpoint K (Turnkey s) = calls_url (tk_api_base_url s)"
| "signer_endpoint K (AwsKms s) = calls_key (aws_key_id s)"
| "signer_endpoint K (Fireblocks s) = calls_url (fb_api_base_url s)"
| "signer_endpoint K (GcpKms s) = calls_key (gcp_key_name s)"
| "signer_endpoint K (Cdp s) = calls_url (cdp_api_base_url s)"
| "signer_endpoint K (Dfns s) = calls_url (df_api_base_url s)"
| "signer_endpoint K (Openfort s) = calls_url (of_api_base_url s)"
| "signer_endpoint K (Para s) = calls_url (pa_api_base_url s)"
| "signer_endpoint K (Crossmint s) = crossmint_endpoint (kc_crossmint K) s"
| "signer_endpoint K (Utila s) = calls_url (ut_api_base_url s)"
| "signer_endpoint K (FordefiBlackBox s) = calls_url (ff_api_base_url s)"
| "signer_endpoint K (FordefiNativeAuto s) = calls_url (ff_api_base_url (na_core s))"
| "signer_endpoint K (FordefiNativeManual s) = calls_url (ff_api_base_url (nm_core s))"
| "signer_endpoint K (Memory _) = (\<lambda>_. False)"
| "signer_endpoint K (Ledger _) = (\<lambda>_. False)"

fun signing_budget :: "'k signer \<Rightarrow> nat" where
  "signing_budget (Memory _) = 0"
| "signing_budget (Ledger _) = 0"
| "signing_budget (Dfns _) = 3"
| "signing_budget (Fireblocks s) = 1 + unat (fb_max_poll_attempts s)"
| "signing_budget (Crossmint s) = 1 + unat (cm_max_poll_attempts s)"
| "signing_budget (Utila s) = 1 + unat (ut_max_poll_attempts s)"
| "signing_budget (FordefiBlackBox s) = 1 + unat (ff_max_poll_attempts s)"
| "signing_budget (FordefiNativeAuto s) = 1 + unat (ff_max_poll_attempts (na_core s))"
| "signing_budget (FordefiNativeManual s) = 1 + unat (ff_max_poll_attempts (nm_core s))"
| "signing_budget _ = 1"

fun availability_budget :: "'k signer \<Rightarrow> nat" where
  "availability_budget (Memory _) = 0"
| "availability_budget (Ledger _) = 0"
| "availability_budget (Turnkey _) = 2"
| "availability_budget (AwsKms _) = 2"
| "availability_budget _ = 1"

inductive signer_call :: "'k keychain_env \<Rightarrow> 'k signer \<Rightarrow> nat \<Rightarrow> world \<Rightarrow> world \<Rightarrow> bool" for K s where
  sign_transaction: "as_transaction_signer K s = Some f \<Longrightarrow> f (tx, w) = (r, (tx', w')) \<Longrightarrow>
    signer_call K s (signing_budget s) w w'"
| modify_and_sign: "as_modifying_signer K s = Some f \<Longrightarrow> f (tx, w) = (r, (tx', w')) \<Longrightarrow>
    signer_call K s (signing_budget s) w w'"
| sign_and_send_transaction: "as_sending_signer K s = Some g \<Longrightarrow> g tx w = (sent, w') \<Longrightarrow>
    signer_call K s (signing_budget s) w w'"
| sign_message: "signer_sign_message K s m w = (sent, w') \<Longrightarrow> signer_call K s (signing_budget s) w w'"
| is_available: "signer_is_available K s w = (b, w') \<Longrightarrow> signer_call K s (availability_budget s) w w'"

section \<open>From operations to methods\<close>

lemma attach_obtained_calls:
  assumes "\<And>tx. makes_calls n P (ob tx)" "on_trace (attach_obtained S pk ob) (tx, w) = (r, (tx', w'))"
  shows "calls_between n P (fst w) (fst w')"
proof -
  from assms(2) have "attach_obtained S pk ob (tx, fst w) = (r, (tx', fst w'))" by (simp add: result_simps)
  then obtain r0 where "ob tx (fst w) = (r0, fst w')"
    by (cases r) (auto simp: attach_obtained_eq result_simps)
  then show ?thesis by (rule makes_callsD [OF assms(1)])
qed

lemma io_place_calls:
  "makes_calls n P m \<Longrightarrow> io_place m w = (r, w') \<Longrightarrow> calls_between n P (fst w) (fst w')"
  by (cases w; cases w') (auto simp: result_simps dest: makes_callsD)

lemma io_place_lift_world: "io_place (io_lift x) w = (r, w') \<Longrightarrow> w' = w"
  by (cases w; cases w') (simp add: result_simps)

lemma io_world_trace: "io_world m w = (r, w') \<Longrightarrow> fst w' = fst w"
  by (cases w; cases w') (simp add: result_simps)

lemma place_answer_calls:
  "makes_calls n P m \<Longrightarrow> place_answer m w = (b, w') \<Longrightarrow> calls_between n P (fst w) (fst w')"
  by (auto simp: place_answer_def dest: makes_callsD split: prod.splits)

lemma black_box_transaction_calls:
  assumes "on_trace (black_box_sign_transaction E core) (tx, w) = (r, (tx', w'))"
  shows "calls_between (1 + unat (ff_max_poll_attempts core)) (calls_url (ff_api_base_url core)) (fst w) (fst w')"
proof -
  from assms have "black_box_sign_transaction E core (tx, fst w) = (r, (tx', fst w'))" by (simp add: result_simps)
  then obtain r0 where "sign_black_box E core (message_serialize E (tx_message tx)) (fst w) = (r0, fst w')"
    by (cases r) (auto simp: black_box_sign_transaction_eq Let_def result_simps)
  then show ?thesis by (rule makes_callsD [OF sign_black_box_calls])
qed

lemma native_manual_calls:
  assumes "on_trace (native_manual_modify_and_sign E self) (tx, w) = (r, (tx', w'))"
  shows "calls_between (1 + unat (ff_max_poll_attempts (nm_core self))) (calls_url (ff_api_base_url (nm_core self))) (fst w) (fst w')"
proof -
  let ?P = "calls_url (ff_api_base_url (nm_core self))"
  let ?submit = "submit_solana_transaction E (nm_core self) (nm_chain self) (nm_fee self) Manual (message_serialize E (tx_message tx))"
  from assms have run: "native_manual_modify_and_sign E self (tx, fst w) = (r, (tx', fst w'))" by (simp add: result_simps)
  then consider "fst w' = fst w"
    | e where "?submit (fst w) = (Inl e, fst w')"
    | i u r0 where "?submit (fst w) = (Inr i, u)" "poll_for_result E (nm_core self) i False u = (r0, fst w')"
    by (cases r) (auto simp: native_manual_modify_and_sign_def modify_and_serialize_def Let_def result_simps split: prod.splits)
  moreover have "makes_calls 1 ?P ?submit" unfolding submit_solana_transaction_def by (rule calls_intros)
  ultimately show ?thesis
  proof cases
    case (2 e)
    with \<open>makes_calls 1 ?P ?submit\<close> show ?thesis by (auto intro: calls_between_mono dest: makes_callsD)
  next
    case (3 i u r0)
    with \<open>makes_calls 1 ?P ?submit\<close> show ?thesis
      by (intro calls_between_trans [OF makes_callsD makes_callsD [OF poll_for_result_calls]])
  qed simp
qed

lemmas signing_calls = vault_sign_calls para_sign_calls privy_sign_calls privy_obtain_calls turnkey_sign_calls turnkey_obtain_calls
  aws_sign_calls gcp_sign_calls sign_raw_bytes_calls fireblocks_obtain_calls cdp_sign_calls cdp_obtain_calls dfns_sign_calls
  dfns_obtain_calls openfort_sign_calls utila_obtain_calls black_box_message_calls native_message_calls

lemmas availability_calls = vault_available_calls para_available_calls privy_available_calls turnkey_available_calls
  aws_available_calls gcp_available_calls fireblocks_available_calls cdp_available_calls dfns_available_calls
  openfort_available_calls utila_available_calls crossmint_available_calls fordefi_available_calls

lemmas sign_method_defs = vault_sign_transaction_def para_sign_transaction_def privy_sign_transaction_def
  turnkey_sign_transaction_def aws_sign_transaction_def gcp_sign_transaction_def fireblocks_sign_transaction_def
  cdp_sign_transaction_def dfns_sign_transaction_def openfort_sign_transaction_def utila_sign_transaction_def
  vault_sign_and_serialize_def para_sign_and_serialize_def privy_sign_and_serialize_def turnkey_sign_and_serialize_def
  aws_sign_and_serialize_def gcp_sign_and_serialize_def fireblocks_sign_and_serialize_def cdp_sign_and_serialize_def
  dfns_sign_and_serialize_def openfort_sign_and_serialize_def utila_sign_and_serialize_def attach_obtained_def [symmetric]

lemmas message_method_defs = vault_sign_message_def para_sign_message_def privy_sign_message_def turnkey_sign_message_def
  aws_sign_message_def gcp_sign_message_def fireblocks_sign_message_def cdp_sign_message_def dfns_sign_message_def
  openfort_sign_message_def native_auto_sign_message_def native_manual_sign_message_def crossmint_sign_message_def utila_sign_message_def

lemmas transaction_calls = signing_calls [THEN attach_obtained_calls]

lemma memory_transaction_world:
  "memory_sign_transaction S L m (tx, w) = (r, (tx', w')) \<Longrightarrow> w' = w"
  by (simp add: memory_sign_transaction_def Let_def result_simps)

lemma sign_transaction_calls:
  assumes "as_transaction_signer K s = Some f" "f (tx, w) = (r, (tx', w'))"
  shows "calls_between (signing_budget s) (signer_endpoint K s) (fst w) (fst w')"
proof (cases s)
  case (Memory m)
  then show ?thesis using assms by (auto dest: memory_transaction_world)
next
  case (Ledger l)
  then show ?thesis using assms by (auto simp: result_simps)
next
  case (FordefiBlackBox c)
  then show ?thesis using assms black_box_transaction_calls [of "kc_fordefi K" c tx w r tx' w'] by auto
qed (use assms in \<open>auto simp: sign_method_defs simp del: One_nat_def intro: transaction_calls\<close>)

lemma sign_message_calls:
  assumes "signer_sign_message K s m w = (r, w')"
  shows "calls_between (signing_budget s) (signer_endpoint K s) (fst w) (fst w')"
  using assms
  by (cases s) (auto simp: message_method_defs memory_sign_message_def result_simps simp del: One_nat_def
    intro: signing_calls [THEN io_place_calls] dest: io_place_lift_world io_world_trace)

lemma available_calls:
  assumes "signer_is_available K s w = (b, w')"
  shows "calls_between (availability_budget s) (signer_endpoint K s) (fst w) (fst w')"
  using assms
  by (cases s) (auto simp del: One_nat_def split: prod.splits intro: availability_calls [THEN place_answer_calls])

lemma signer_call_calls: "signer_call K s n w w' \<Longrightarrow> calls_between n (signer_endpoint K s) (fst w) (fst w')"
proof (induction rule: signer_call.induct)
  case (modify_and_sign f tx w r tx' w')
  then show ?case by (cases s) (auto dest: native_manual_calls simp del: One_nat_def)
next
  case (sign_and_send_transaction g tx w sent w')
  then show ?case
    by (cases s) (auto simp del: One_nat_def intro: io_place_calls [OF execute_managed_calls] io_place_calls [OF sign_and_broadcast_calls])
qed (auto intro: sign_transaction_calls sign_message_calls available_calls)

section \<open>The client a signer calls with\<close>

fun signer_client :: "'k signer \<Rightarrow> client_settings option" where
  "signer_client (Vault s) = Some (vt_client s)"
| "signer_client (Privy s) = Some (pv_client s)"
| "signer_client (Turnkey s) = Some (tk_client s)"
| "signer_client (Fireblocks s) = Some (fb_client s)"
| "signer_client (Cdp s) = Some (cdp_client s)"
| "signer_client (Dfns s) = Some (df_client s)"
| "signer_client (Openfort s) = Some (of_client s)"
| "signer_client (Para s) = Some (pa_client s)"
| "signer_client (Crossmint s) = Some (cm_client s)"
| "signer_client (Utila s) = Some (ut_client s)"
| "signer_client (FordefiBlackBox s) = Some (ff_client s)"
| "signer_client (FordefiNativeAuto s) = Some (ff_client (na_core s))"
| "signer_client (FordefiNativeManual s) = Some (ff_client (nm_core s))"
| "signer_client _ = None"

definition hardened :: "client_settings \<Rightarrow> bool" where
  "hardened c \<longleftrightarrow> client_https_only c \<and> client_redirect c = no_redirect_policy"

lemma build_client_hardened: "build_client E c = Inr client \<Longrightarrow> hardened client"
  by (auto simp: build_client_def client_builder_def hardened_def result_simps)

lemma vault_client_hardened: "vault_from_config E config = Inr s \<Longrightarrow> hardened (vt_client s)"
  by (auto simp: vault_from_config_def vault_with_client_builder_def client_builder_def hardened_def Let_def result_simps)

lemmas config_defs = privy_from_config_def turnkey_from_config_def fireblocks_from_config_def cdp_from_config_def dfns_from_config_def
  openfort_from_config_def para_from_config_def crossmint_new_def utila_new_def

lemma fordefi_client_hardened: "fordefi_build E config = Inr s \<Longrightarrow> hardened (ff_client s)"
  by (auto simp: fordefi_build_def Let_def result_simps dest: build_client_hardened split: if_splits)

lemma config_client_hardened:
  "privy_from_config Ep privy_cfg = Inr pv \<Longrightarrow> hardened (pv_client pv)"
  "turnkey_from_config Et turnkey_cfg = Inr tk \<Longrightarrow> hardened (tk_client tk)"
  "fireblocks_from_config Ef fireblocks_cfg = Inr fb \<Longrightarrow> hardened (fb_client fb)"
  "cdp_from_config Ec cdp_cfg = Inr cdp \<Longrightarrow> hardened (cdp_client cdp)"
  "dfns_from_config Ed dfns_cfg = Inr df \<Longrightarrow> hardened (df_client df)"
  "openfort_from_config Eo openfort_cfg = Inr oft \<Longrightarrow> hardened (of_client oft)"
  "para_from_config Ea para_cfg = Inr pa \<Longrightarrow> hardened (pa_client pa)"
  "crossmint_new Em crossmint_cfg = Inr cm \<Longrightarrow> hardened (cm_client cm)"
  "utila_new Eu utila_cfg = Inr ut \<Longrightarrow> hardened (ut_client ut)"
  by (auto simp: config_defs Let_def result_simps dest: build_client_hardened simp: hardened_def client_builder_def split: if_splits)

lemmas client_hardened = vault_client_hardened fordefi_client_hardened config_client_hardened

lemma init_keeps_client:
  "privy_init Ep pv t = (Inr pv', t') \<Longrightarrow> pv_client pv' = pv_client pv"
  "fireblocks_init Ef fb t = (Inr fb', t') \<Longrightarrow> fb_client fb' = fb_client fb"
  "dfns_init Ed df t = (Inr df', t') \<Longrightarrow> df_client df' = df_client df"
  "openfort_init Eo oft t = (Inr oft', t') \<Longrightarrow> of_client oft' = of_client oft"
  "para_init Ea pa t = (Inr pa', t') \<Longrightarrow> pa_client pa' = pa_client pa"
  "crossmint_init Em cm t = (Inr cm', t') \<Longrightarrow> cm_client cm' = cm_client cm"
  "utila_init Eu ut t = (Inr ut', t') \<Longrightarrow> ut_client ut' = ut_client ut"
  by (auto simp: init_defs result_simps split: if_splits prod.splits)

lemma constructed_client_hardened: "constructed K s \<Longrightarrow> signer_client s = Some c \<Longrightarrow> hardened c"
  by (induction rule: constructed.induct)
     (auto simp: constructor_defs black_box_from_config_def native_auto_from_config_def native_manual_from_config_def result_simps
    dest!: client_hardened init_keeps_client split: if_splits option.splits)

end
