(* ===== verification/Keychain_Cosign.thy ===== *)
theory Keychain_Cosign
  imports Keychain_Signer
begin

text \<open>
  Several signers of the enum signing one transaction. \<open>co_signs\<close> is a sequence of \<^verbatim>\<open>sign_transaction\<close> calls on the caller's
  transaction, each call recorded with the signer and whether it succeeded; a caller may go on after an error.
\<close>

inductive co_signs ::
  "'k keychain_env \<Rightarrow> versioned_transaction \<Rightarrow> world \<Rightarrow> ('k signer \<times> bool) list \<Rightarrow> versioned_transaction \<Rightarrow> world \<Rightarrow> bool"
  for K :: "'k keychain_env" and tx :: versioned_transaction and w :: world where
  start: "co_signs K tx w [] tx w"
| call: "co_signs K tx w runs tx1 w1 \<Longrightarrow> as_transaction_signer K s = Some f \<Longrightarrow> f (tx1, w1) = (r, (tx2, w2)) \<Longrightarrow>
    co_signs K tx w ((s, is_ok r) # runs) tx2 w2"

section \<open>Slots\<close>

lemma position_same_message:
  "tx_message tx' = tx_message tx \<Longrightarrow> get_signing_keypair_position S tx' pk = get_signing_keypair_position S tx pk"
  by (simp add: get_signing_keypair_position_def Let_def)

text \<open>The signature in the slot of a key: one that a participant with that key vouches for.\<close>

definition vouched_slot ::
  "'k keychain_env \<Rightarrow> 'k signer set \<Rightarrow> versioned_transaction \<Rightarrow> pubkey \<Rightarrow> nat \<Rightarrow> versioned_transaction \<Rightarrow> bool" where
  "vouched_slot K parts tx pk p tx' \<longleftrightarrow>
     p < length (tx_signatures tx') \<and>
     (\<exists>s \<in> parts. signer_pubkey K s = Some pk \<and>
        signer_vouches K s pk (tx_signatures tx' ! p) (message_serialize (signer_sdk K s) (tx_message tx)))"

lemma own_slot_other:
  assumes "own_slot_signed S pk sig tx tx'" "i < length (tx_signatures tx)" "account_keys tx ! i \<noteq> pk"
  shows "tx_signatures tx' ! i = tx_signatures tx ! i \<and> i < length (tx_signatures tx')"
  using assms by (auto simp: own_slot_signed_def signing_position_iff resize_to_def nth_append nth_list_update)

lemma own_slot_own:
  assumes "own_slot_signed S pk sig tx tx'" "get_signing_keypair_position S' tx pk = Inr p"
  shows "tx_signatures tx' ! p = sig \<and> p < length (tx_signatures tx')"
proof -
  from assms(1) obtain q where q: "get_signing_keypair_position S tx pk = Inr q"
    and tx': "tx' = tx\<lparr>tx_signatures := (resize_to (num_required tx) default_signature (tx_signatures tx))[q := sig]\<rparr>"
    by (auto simp: own_slot_signed_def)
  from q assms(2) have "q = p" by (auto simp: signing_position_iff) (metis linorder_neqE_nat)
  with q tx' show ?thesis by (auto simp: signing_position_iff resize_to_def)
qed

lemma own_slot_position: "own_slot_signed S pk sig tx tx' \<Longrightarrow> \<exists>p. get_signing_keypair_position S' tx pk = Inr p"
  unfolding own_slot_signed_def signing_position_iff by blast

lemma vouched_slot_step:
  assumes slot: "vouched_slot K parts tx pk p tx1" and pos: "get_signing_keypair_position S tx pk = Inr p"
    and msg: "tx_message tx1 = tx_message tx"
    and step: "tx2 = tx1 \<or> (\<exists>sig. own_slot_signed S' pk' sig tx1 tx2 \<and>
      signer_vouches K s pk' sig (message_serialize (signer_sdk K s) (tx_message tx1)))"
    and key: "signer_pubkey K s = Some pk'"
  shows "vouched_slot K (insert s parts) tx pk p tx2"
proof (cases "tx2 = tx1")
  case True
  with slot show ?thesis by (auto simp: vouched_slot_def)
next
  case False
  with step obtain sig where own: "own_slot_signed S' pk' sig tx1 tx2"
    and v: "signer_vouches K s pk' sig (message_serialize (signer_sdk K s) (tx_message tx1))" by blast
  have pos1: "get_signing_keypair_position S tx1 pk = Inr p" using pos by (simp add: position_same_message [OF msg])
  show ?thesis
  proof (cases "pk = pk'")
    case True
    with own_slot_own [OF own] pos1 v key msg show ?thesis by (auto simp: vouched_slot_def)
  next
    case False
    then have "account_keys tx1 ! p \<noteq> pk'" using pos1 by (auto simp: signing_position_iff)
    with own_slot_other [OF own] slot show ?thesis by (auto simp: vouched_slot_def)
  qed
qed

lemma transaction_signer_outcome:
  assumes "constructed K s" "as_transaction_signer K s = Some f" "f (tx, w) = (r, (tx', w'))"
  obtains pk where "signer_pubkey K s = Some pk" "tx_message tx' = tx_message tx"
    "tx' = tx \<or> (\<exists>sig. own_slot_signed (signer_sdk K s) pk sig tx tx' \<and>
      signer_vouches K s pk sig (message_serialize (signer_sdk K s) (tx_message tx)))"
    "is_ok r \<Longrightarrow> \<exists>sig. own_slot_signed (signer_sdk K s) pk sig tx tx' \<and>
      signer_vouches K s pk sig (message_serialize (signer_sdk K s) (tx_message tx))"
proof -
  obtain pk where pk: "signer_pubkey K s = Some pk" using constructed_pubkey [OF assms(1)] by blast
  have c: "transaction_signer (signer_vouches K s pk) (signer_covers K s) (signer_sign_message K s) (signer_sdk K s) pk f"
    using transaction_backend_contract [OF assms(2)] pk by (simp add: unwrap_or_def)
  show ?thesis
  proof (rule that [OF pk transaction_signer.sign_transaction_message [OF c assms(3)]])
    show signed: "\<exists>sig. own_slot_signed (signer_sdk K s) pk sig tx tx' \<and>
      signer_vouches K s pk sig (message_serialize (signer_sdk K s) (tx_message tx))" if "is_ok r"
    proof -
      from that obtain res where "f (tx, w) = (Inr res, (tx', w'))" using assms(3) by (auto simp: is_ok_iff)
      from transaction_signer.sign_transaction_ok [OF c this] show ?thesis by blast
    qed
    show "tx' = tx \<or> (\<exists>sig. own_slot_signed (signer_sdk K s) pk sig tx tx' \<and>
      signer_vouches K s pk sig (message_serialize (signer_sdk K s) (tx_message tx)))"
    proof (cases r)
      case (Inl e)
      with assms(3) show ?thesis using transaction_signer.sign_transaction_error [OF c] by simp
    qed (use signed in simp)
  qed
qed

section \<open>What a sequence of calls leaves\<close>

lemma co_signs_inv:
  assumes "co_signs K tx w runs tx' w'" "\<And>s. s \<in> fst ` set runs \<Longrightarrow> constructed K s"
  shows "tx_message tx' = tx_message tx \<and>
    (\<forall>s. (s, True) \<in> set runs \<longrightarrow> (\<exists>pk p. signer_pubkey K s = Some pk \<and>
       get_signing_keypair_position (signer_sdk K s) tx pk = Inr p \<and> vouched_slot K (fst ` set runs) tx pk p tx')) \<and>
    (\<forall>i < length (tx_signatures tx). (\<forall>s \<in> fst ` set runs. signer_pubkey K s \<noteq> Some (account_keys tx ! i)) \<longrightarrow>
       i < length (tx_signatures tx') \<and> tx_signatures tx' ! i = tx_signatures tx ! i)"
  using assms
proof (induction rule: co_signs.induct)
  case (call runs tx1 w1 s f r tx2 w2)
  have IH: "tx_message tx1 = tx_message tx"
    "\<And>s. (s, True) \<in> set runs \<Longrightarrow> \<exists>pk p. signer_pubkey K s = Some pk \<and>
       get_signing_keypair_position (signer_sdk K s) tx pk = Inr p \<and> vouched_slot K (fst ` set runs) tx pk p tx1"
    "\<And>i. i < length (tx_signatures tx) \<Longrightarrow> \<forall>s \<in> fst ` set runs. signer_pubkey K s \<noteq> Some (account_keys tx ! i) \<Longrightarrow>
       i < length (tx_signatures tx1) \<and> tx_signatures tx1 ! i = tx_signatures tx ! i"
    using call.IH call.prems by auto
  have built: "constructed K s" using call.prems by simp
  obtain pk where pk: "signer_pubkey K s = Some pk" and msg: "tx_message tx2 = tx_message tx1"
    and step: "tx2 = tx1 \<or> (\<exists>sig. own_slot_signed (signer_sdk K s) pk sig tx1 tx2 \<and>
      signer_vouches K s pk sig (message_serialize (signer_sdk K s) (tx_message tx1)))"
    and ok: "is_ok r \<Longrightarrow> \<exists>sig. own_slot_signed (signer_sdk K s) pk sig tx1 tx2 \<and>
      signer_vouches K s pk sig (message_serialize (signer_sdk K s) (tx_message tx1))"
    using transaction_signer_outcome [OF built call.hyps(2,3)] by metis
  have keys: "account_keys tx1 = account_keys tx" using IH(1) by simp
  have slots: "\<exists>pk p. signer_pubkey K s' = Some pk \<and> get_signing_keypair_position (signer_sdk K s') tx pk = Inr p \<and>
      vouched_slot K (fst ` set ((s, is_ok r) # runs)) tx pk p tx2" if "(s', True) \<in> set ((s, is_ok r) # runs)" for s'
  proof (cases "(s', True) \<in> set runs")
    case True
    then show ?thesis using IH(2) vouched_slot_step [OF _ _ IH(1) step pk] by fastforce
  next
    case False
    with that have s': "s' = s" "is_ok r" by auto
    then obtain sig where own: "own_slot_signed (signer_sdk K s) pk sig tx1 tx2"
      and v: "signer_vouches K s pk sig (message_serialize (signer_sdk K s) (tx_message tx1))" using ok by blast
    obtain p where p: "get_signing_keypair_position (signer_sdk K s) tx1 pk = Inr p" using own_slot_position [OF own] by blast
    have p': "get_signing_keypair_position (signer_sdk K s) tx pk = Inr p" using p by (simp add: position_same_message [OF IH(1)])
    have "vouched_slot K (fst ` set ((s, is_ok r) # runs)) tx pk p tx2"
      using own_slot_own [OF own p] v pk IH(1) by (auto simp: vouched_slot_def)
    with p' pk s'(1) show ?thesis by blast
  qed
  have untouched: "i < length (tx_signatures tx2) \<and> tx_signatures tx2 ! i = tx_signatures tx ! i"
    if "i < length (tx_signatures tx)" "\<forall>s' \<in> fst ` set ((s, is_ok r) # runs). signer_pubkey K s' \<noteq> Some (account_keys tx ! i)" for i
    using that IH(3) [of i] step own_slot_other pk keys by fastforce
  show ?case by (intro conjI [OF _ conjI] allI impI) (simp add: IH(1) msg, erule slots, erule (1) untouched)
qed simp

lemma co_signing_completes:
  assumes run: "co_signs K tx w runs tx' w'" and built: "\<And>s. s \<in> fst ` set runs \<Longrightarrow> constructed K s"
    and all_sign: "\<And>k. k \<in> set (take (num_required tx) (account_keys tx)) \<Longrightarrow> \<exists>s. (s, True) \<in> set runs \<and> signer_pubkey K s = Some k"
    and keys: "distinct (take (num_required tx) (account_keys tx))" "num_required tx \<le> length (account_keys tx)"
    and nonzero: "\<And>s pk. s \<in> fst ` set runs \<Longrightarrow> signer_pubkey K s = Some pk \<Longrightarrow>
      \<not> signer_vouches K s pk default_signature (message_serialize (signer_sdk K s) (tx_message tx))"
  shows "has_all_required_signatures tx'"
proof -
  have msg: "tx_message tx' = tx_message tx" using co_signs_inv [OF run built] by simp
  have slot: "i < length (tx_signatures tx') \<and> tx_signatures tx' ! i \<noteq> default_signature" if i: "i < num_required tx" for i
  proof -
    let ?k = "account_keys tx ! i"
    have "?k \<in> set (take (num_required tx) (account_keys tx))" using i keys(2) by (auto simp: in_set_conv_nth)
    then obtain s where s: "(s, True) \<in> set runs" "signer_pubkey K s = Some ?k" using all_sign by blast
    then obtain p where p: "get_signing_keypair_position (signer_sdk K s) tx ?k = Inr p"
      and v: "vouched_slot K (fst ` set runs) tx ?k p tx'" using co_signs_inv [OF run built] by fastforce
    have "p = i"
      using p i keys unfolding signing_position_iff distinct_conv_nth by (metis length_take min.absorb2 nth_take)
    from v obtain s' where "s' \<in> fst ` set runs" "signer_pubkey K s' = Some ?k" "p < length (tx_signatures tx')"
      "signer_vouches K s' ?k (tx_signatures tx' ! p) (message_serialize (signer_sdk K s') (tx_message tx))"
      unfolding vouched_slot_def by blast
    with nonzero \<open>p = i\<close> show ?thesis by metis
  qed
  show ?thesis unfolding has_all_required_iff msg
    using slot by (metis not_less order_refl slot)
qed

end
