(* ===== verification/Signer_Debug.thy ===== *)
theory Signer_Debug
  imports Keychain_Signer
begin

text \<open>
  The \<^verbatim>\<open>Debug\<close> instances of the signers. What an instance hands to the formatter is the name, the fields in order and whether the
  listing is exhaustive; how the formatter lays them out depends on nothing else. A field is a public key, a text, a flag, or an
  optional one of these.
\<close>

section \<open>What is printed\<close>

datatype debug_value = DPubkey pubkey | DStr string | DBool bool | DOption "debug_value option"

record debug_struct =
  dbg_name :: string
  dbg_fields :: "(string \<times> debug_value) list"
  dbg_exhaustive :: bool

text \<open>\<^verbatim>\<open>f.debug_struct(name).field(..).finish_non_exhaustive()\<close>.\<close>

definition finish_non_exhaustive :: "string \<Rightarrow> (string \<times> debug_value) list \<Rightarrow> debug_struct" where
  "finish_non_exhaustive name entries = \<lparr>dbg_name = name, dbg_fields = entries, dbg_exhaustive = False\<rparr>"

definition debug_key :: "pubkey option \<Rightarrow> debug_value" where
  "debug_key pk = DOption (map_option DPubkey pk)"

definition memory_debug :: "('k, 'y) local_env_scheme \<Rightarrow> 'k memory_signer \<Rightarrow> debug_struct" where
  "memory_debug L self = finish_non_exhaustive ''MemorySigner'' [(''pubkey'', DPubkey (keypair_pubkey L (memory_keypair self)))]"

definition vault_debug :: "vault_signer \<Rightarrow> debug_struct" where
  "vault_debug self = finish_non_exhaustive ''VaultSigner'' [(''public_key'', DPubkey (vt_public_key self))]"

definition privy_debug :: "privy_signer \<Rightarrow> debug_struct" where
  "privy_debug self = finish_non_exhaustive ''PrivySigner'' [(''public_key'', debug_key (pv_public_key self))]"

definition turnkey_debug :: "turnkey_signer \<Rightarrow> debug_struct" where
  "turnkey_debug self = finish_non_exhaustive ''TurnkeySigner'' [(''public_key'', DPubkey (tk_public_key self))]"

definition aws_debug :: "aws_kms_signer \<Rightarrow> debug_struct" where
  "aws_debug self = finish_non_exhaustive ''AwsKmsSigner''
     [(''key_id'', DStr (aws_key_id self)), (''public_key'', DPubkey (aws_public_key self))]"

definition fireblocks_debug :: "fireblocks_signer \<Rightarrow> debug_struct" where
  "fireblocks_debug self = finish_non_exhaustive ''FireblocksSigner''
     [(''public_key'', debug_key (fb_public_key self)), (''vault_account_id'', DStr (fb_vault_account_id self)),
      (''asset_id'', DStr (fb_asset_id self)), (''use_program_call'', DBool (fb_use_program_call self))]"

definition gcp_debug :: "gcp_kms_signer \<Rightarrow> debug_struct" where
  "gcp_debug self = finish_non_exhaustive ''GcpKmsSigner''
     [(''key_name'', DStr (gcp_key_name self)), (''public_key'', DPubkey (gcp_public_key self))]"

definition cdp_debug :: "cdp_signer \<Rightarrow> debug_struct" where
  "cdp_debug self = finish_non_exhaustive ''CdpSigner''
     [(''public_key'', DPubkey (cdp_public_key self)), (''api_base_url'', DStr (cdp_api_base_url self))]"

definition dfns_debug :: "dfns_signer \<Rightarrow> debug_struct" where
  "dfns_debug self = finish_non_exhaustive ''DfnsSigner''
     [(''public_key'', debug_key (df_public_key self)), (''wallet_id'', DStr (df_wallet_id self)),
      (''key_id'', DStr (df_key_id self))]"

definition openfort_debug :: "openfort_signer \<Rightarrow> debug_struct" where
  "openfort_debug self = finish_non_exhaustive ''OpenfortSigner''
     [(''account_id'', DStr (of_account_id self)), (''public_key'', debug_key (of_public_key self)),
      (''api_base_url'', DStr (of_api_base_url self))]"

definition para_debug :: "para_signer \<Rightarrow> debug_struct" where
  "para_debug self = finish_non_exhaustive ''ParaSigner'' [(''public_key'', debug_key (pa_public_key self))]"

definition crossmint_debug :: "crossmint_signer \<Rightarrow> debug_struct" where
  "crossmint_debug self = finish_non_exhaustive ''CrossmintSigner''
     [(''public_key'', debug_key (cm_public_key self)), (''wallet_locator'', DStr (cm_wallet_locator self))]"

definition utila_debug :: "utila_signer \<Rightarrow> debug_struct" where
  "utila_debug self = finish_non_exhaustive ''UtilaSigner''
     [(''public_key'', debug_key (ut_public_key self)), (''vault_id'', DStr (ut_vault_id self)),
      (''wallet_id'', DStr (ut_wallet_id self)), (''network'', DStr (ut_network self))]"

definition fordefi_core_debug :: "fordefi_core \<Rightarrow> debug_struct" where
  "fordefi_core_debug self = finish_non_exhaustive ''FordefiCore'' [(''public_key'', DPubkey (ff_public_key self))]"

definition black_box_debug :: "fordefi_core \<Rightarrow> debug_struct" where
  "black_box_debug self = finish_non_exhaustive ''FordefiBlackBoxSigner'' [(''public_key'', DPubkey (ff_public_key self))]"

definition native_auto_debug :: "native_auto \<Rightarrow> debug_struct" where
  "native_auto_debug self =
     finish_non_exhaustive ''FordefiNativeAutoSigner'' [(''public_key'', DPubkey (ff_public_key (na_core self)))]"

definition native_manual_debug :: "native_manual \<Rightarrow> debug_struct" where
  "native_manual_debug self =
     finish_non_exhaustive ''FordefiNativeManualSigner'' [(''public_key'', DPubkey (ff_public_key (nm_core self)))]"

definition ledger_debug :: "ledger_signer \<Rightarrow> debug_struct" where
  "ledger_debug self = finish_non_exhaustive ''LedgerSigner'' [(''pubkey'', DPubkey (ledger_pubkey self))]"

text \<open>The instance of whichever signer the enum holds.\<close>

fun signer_debug :: "'k keychain_env \<Rightarrow> 'k signer \<Rightarrow> debug_struct" where
  "signer_debug K (Memory s) = memory_debug (kc_local K) s"
| "signer_debug K (Vault s) = vault_debug s"
| "signer_debug K (Privy s) = privy_debug s"
| "signer_debug K (Turnkey s) = turnkey_debug s"
| "signer_debug K (AwsKms s) = aws_debug s"
| "signer_debug K (Fireblocks s) = fireblocks_debug s"
| "signer_debug K (GcpKms s) = gcp_debug s"
| "signer_debug K (Cdp s) = cdp_debug s"
| "signer_debug K (Dfns s) = dfns_debug s"
| "signer_debug K (Openfort s) = openfort_debug s"
| "signer_debug K (Para s) = para_debug s"
| "signer_debug K (Crossmint s) = crossmint_debug s"
| "signer_debug K (Utila s) = utila_debug s"
| "signer_debug K (FordefiBlackBox s) = black_box_debug s"
| "signer_debug K (FordefiNativeAuto s) = native_auto_debug s"
| "signer_debug K (FordefiNativeManual s) = native_manual_debug s"
| "signer_debug K (Ledger s) = ledger_debug s"

section \<open>Credentials\<close>

text \<open>
  Two signers that differ only in what must stay secret: keys, tokens, API secrets, and the functions and vendor clients that
  carry them. Two local keypairs count when they have the same public key.
\<close>

inductive same_but_credentials :: "'k keychain_env \<Rightarrow> 'k signer \<Rightarrow> 'k signer \<Rightarrow> bool" for K where
  "memory_pubkey (kc_local K) a = memory_pubkey (kc_local K) b \<Longrightarrow> same_but_credentials K (Memory a) (Memory b)"
| "same_but_credentials K (Vault a) (Vault (a\<lparr>vt_token := secret\<rparr>))"
| "same_but_credentials K (Privy a) (Privy (a\<lparr>pv_app_id := name, pv_app_secret := secret, pv_authorization_context := auth\<rparr>))"
| "same_but_credentials K (Turnkey a) (Turnkey (a\<lparr>tk_api_public_key := name, tk_api_signing_key := key\<rparr>))"
| "same_but_credentials K (AwsKms a) (AwsKms (a\<lparr>aws_client := name\<rparr>))"
| "same_but_credentials K (Fireblocks a) (Fireblocks (a\<lparr>fb_api_key := name, fb_signing_key := key\<rparr>))"
| "same_but_credentials K (GcpKms a) (GcpKms (a\<lparr>gcp_client := name\<rparr>))"
| "same_but_credentials K (Cdp a) (Cdp (a\<lparr>cdp_api_key_id := name, cdp_api_key_secret := secret, cdp_wallet_secret := secret'\<rparr>))"
| "same_but_credentials K (Dfns a) (Dfns (a\<lparr>df_auth_token := name, df_cred_id := secret, df_private_key_pem := secret'\<rparr>))"
| "same_but_credentials K (Openfort a) (Openfort (a\<lparr>of_secret_key := secret, of_wallet_secret := secret'\<rparr>))"
| "same_but_credentials K (Para a) (Para (a\<lparr>pa_api_key := secret\<rparr>))"
| "same_but_credentials K (Crossmint a) (Crossmint (a\<lparr>cm_api_key := secret, cm_signing_key := seed\<rparr>))"
| "same_but_credentials K (Utila a) (Utila (a\<lparr>ut_signing_key := key\<rparr>))"
| "same_but_credentials K (FordefiBlackBox a) (FordefiBlackBox (a\<lparr>ff_access_token := secret, ff_request_signer := rs\<rparr>))"
| "same_but_credentials K (FordefiNativeAuto c)
     (FordefiNativeAuto (c\<lparr>na_core := (na_core c)\<lparr>ff_access_token := secret, ff_request_signer := rs\<rparr>\<rparr>))"
| "same_but_credentials K (FordefiNativeManual d)
     (FordefiNativeManual (d\<lparr>nm_core := (nm_core d)\<lparr>ff_access_token := secret, ff_request_signer := rs\<rparr>\<rparr>))"

lemmas debug_defs = memory_debug_def vault_debug_def privy_debug_def turnkey_debug_def aws_debug_def fireblocks_debug_def
  gcp_debug_def cdp_debug_def dfns_debug_def openfort_debug_def para_debug_def crossmint_debug_def utila_debug_def
  black_box_debug_def native_auto_debug_def native_manual_debug_def

end
