(* ===== verification/Build_Script.thy ===== *)
theory Build_Script
  imports Ledger_Device
begin

text \<open>
  \<^verbatim>\<open>src/rust/build.rs\<close>: the build script finds out which version of \<^verbatim>\<open>solana-remote-wallet\<close> the build resolved, by scanning the
  lockfile that governs it, and hands it to the crate as \<^verbatim>\<open>SOLANA_REMOTE_WALLET_VERSION\<close>, the field \<open>resolved_remote_wallet\<close> of
  the Ledger environment. The diagnosis of a device that does not enumerate depends on it.

  Cargo gives the manifest directory as an absolute path; a directory is the list of names below the root. Environment variables and
  the file system are fields of \<open>build_env\<close>; what the script prints for Cargo is the second component of its result.
\<close>

record build_env =
  build_var :: "string \<Rightarrow> string option"
  read_to_string :: "string \<Rightarrow> string option"

section \<open>Paths\<close>

definition path_names :: "string \<Rightarrow> string list" where
  "path_names dir = filter (\<lambda>c. c \<noteq> [] \<and> c \<noteq> ''.'') (split_on (CHR ''/'') dir)"

definition path_text :: "string list \<Rightarrow> string" where
  "path_text names = concat (map (\<lambda>c. CHR ''/'' # c) names)"

text \<open>\<^verbatim>\<open>Path::ancestors\<close>: the directory itself, then its parents up to the root.\<close>

definition ancestors :: "string list \<Rightarrow> string list list" where
  "ancestors names = rev (prefixes names)"

definition lock_path :: "string list \<Rightarrow> string" where
  "lock_path dir = path_text (dir @ [''Cargo.lock''])"

section \<open>The scan\<close>

definition package_line :: string where
  "package_line = CHR ''['' # ''[package]'' @ '']''"

definition name_line :: "string \<Rightarrow> string" where
  "name_line name = ''name = '' @ [CHR 0x22] @ name @ [CHR 0x22]"

definition version_prefix :: string where
  "version_prefix = ''version = '' @ [CHR 0x22]"

definition REMOTE_WALLET :: string where
  "REMOTE_WALLET = ''solana-remote-wallet''"

fun scan_lock :: "bool \<Rightarrow> string list \<Rightarrow> string option" where
  "scan_lock in_target [] = None"
| "scan_lock in_target (l # ls) =
     (let line = trim l in
      if line = package_line then scan_lock False ls
      else if line = name_line REMOTE_WALLET then scan_lock True ls
      else if in_target then
        (case Option.bind (strip_prefix version_prefix line) (strip_suffix [CHR 0x22]) of
           Some v \<Rightarrow> Some v
         | None \<Rightarrow> scan_lock in_target ls)
      else scan_lock in_target ls)"

fun search_locks :: "build_env \<Rightarrow> string list list \<Rightarrow> string \<times> string list" where
  "search_locks B [] = (''unknown'', [])"
| "search_locks B (dir # dirs) =
     (case read_to_string B (lock_path dir) of
        None \<Rightarrow> search_locks B dirs
      | Some lock \<Rightarrow> (unwrap_or ''not-in-graph'' (scan_lock False (str_lines lock)), [''cargo:rerun-if-changed='' @ lock_path dir]))"

definition resolved_remote_wallet_version :: "build_env \<Rightarrow> string \<times> string list" where
  "resolved_remote_wallet_version B =
     (case build_var B ''CARGO_MANIFEST_DIR'' of
        None \<Rightarrow> (''unknown'', [])
      | Some dir \<Rightarrow> search_locks B (take 6 (ancestors (path_names dir))))"

definition wasm_warning :: string where
  "wasm_warning =
     ''cargo:warning=solana-keychain: building for wasm32-unknown-unknown without a getrandom 0.3 backend. '' @
     ''Set RUSTFLAGS='' @ [CHR 0x27] @ ''--cfg getrandom_backend='' @ [CHR 0x22] @ ''wasm_js'' @ [CHR 0x22] @ [CHR 0x27] @
     '' in the final binary'' @ [CHR 0x27] @ ''s build, otherwise getrandom will fail to compile.''"

text \<open>\<^verbatim>\<open>main\<close>: the lines printed for Cargo.\<close>

definition build_main :: "build_env \<Rightarrow> string list" where
  "build_main B =
     (let (version, printed) = resolved_remote_wallet_version B;
          target_is_browser_wasm = (build_var B ''CARGO_CFG_TARGET_ARCH'' = Some ''wasm32'' \<and>
            build_var B ''CARGO_CFG_TARGET_OS'' = Some ''unknown'');
          js_backend_selected = (build_var B ''CARGO_CFG_GETRANDOM_BACKEND'' = Some ''wasm_js'')
      in printed @ [''cargo:rustc-env=SOLANA_REMOTE_WALLET_VERSION='' @ version] @
         (if target_is_browser_wasm \<and> \<not> js_backend_selected then [wasm_warning] else []))"

section \<open>Lockfiles\<close>

text \<open>
  What Cargo writes: some leading lines, then for every package of the graph a block with its name, its version and further lines
  (source, checksum, dependencies). No further line reads as a package name, and lines are ended by a newline.
\<close>

record lock_package =
  lock_name :: string
  lock_version :: string
  lock_rest :: "string list"

definition package_lines :: "lock_package \<Rightarrow> string list" where
  "package_lines p = [package_line, name_line (lock_name p), version_prefix @ lock_version p @ [CHR 0x22]] @ lock_rest p"

definition lock_text :: "string list \<Rightarrow> lock_package list \<Rightarrow> string" where
  "lock_text leading ps = concat (map (\<lambda>l. l @ [CHR 0x0A]) (leading @ concat (map package_lines ps)))"

definition plain_line :: "string \<Rightarrow> bool" where
  "plain_line l \<longleftrightarrow> CHR 0x0A \<notin> set l \<and> (l = [] \<or> last l \<noteq> CHR 0x0D) \<and> trim l \<noteq> name_line REMOTE_WALLET"

definition plain_package :: "lock_package \<Rightarrow> bool" where
  "plain_package p \<longleftrightarrow> CHR 0x0A \<notin> set (lock_name p) \<and> CHR 0x0A \<notin> set (lock_version p) \<and> list_all plain_line (lock_rest p)"

section \<open>The scan reads what Cargo wrote\<close>

lemma trim_marker_lines [simp]:
  "trim package_line = package_line" "trim (name_line n) = name_line n"
  "trim (version_prefix @ v @ [CHR 0x22]) = version_prefix @ v @ [CHR 0x22]"
  by (rule trim_graphic_ends; simp add: package_line_def name_line_def version_prefix_def is_graphic_def)+

lemma marker_lines_differ [simp]:
  "name_line n \<noteq> package_line" "version_prefix @ x \<noteq> package_line" "version_prefix @ x \<noteq> name_line n"
  "name_line n = name_line n' \<longleftrightarrow> n = n'"
  by (simp_all add: package_line_def name_line_def version_prefix_def)

lemma version_line_read [simp]:
  "Option.bind (strip_prefix version_prefix (version_prefix @ v @ [CHR 0x22])) (strip_suffix [CHR 0x22]) = Some v"
  by (simp add: strip_prefix_def strip_suffix_def)

lemma scan_plain_lines: "list_all plain_line ls \<Longrightarrow> scan_lock False (ls @ later) = scan_lock False later"
  by (induction ls) (auto simp: plain_line_def Let_def)

lemma scan_package:
  assumes "plain_package p"
  shows "scan_lock t (package_lines p @ later) = (if lock_name p = REMOTE_WALLET then Some (lock_version p) else scan_lock False later)"
  using assms scan_plain_lines [of "lock_rest p" later] by (auto simp: package_lines_def plain_package_def Let_def)

lemma scan_packages:
  "list_all plain_package ps \<Longrightarrow>
   scan_lock False (concat (map package_lines ps)) = map_option lock_version (List.find (\<lambda>p. lock_name p = REMOTE_WALLET) ps)"
  by (induction ps) (simp_all add: scan_package)

lemma package_lines_end:
  assumes "plain_package p" "l \<in> set (package_lines p)"
  shows "CHR 0x0A \<notin> set l \<and> (l = [] \<or> last l \<noteq> CHR 0x0D)"
proof -
  from assms(2) consider "l = package_line" | "l = name_line (lock_name p)" | "l = version_prefix @ lock_version p @ [CHR 0x22]"
    | "l \<in> set (lock_rest p)" by (auto simp: package_lines_def)
  then show ?thesis
    using assms(1) by cases (auto simp: plain_package_def plain_line_def list_all_iff package_line_def name_line_def version_prefix_def)
qed

lemma scan_lock_text:
  assumes "list_all plain_line leading" "list_all plain_package ps"
  shows "scan_lock False (str_lines (lock_text leading ps)) = map_option lock_version (List.find (\<lambda>p. lock_name p = REMOTE_WALLET) ps)"
proof -
  have "CHR 0x0A \<notin> set l \<and> (l = [] \<or> last l \<noteq> CHR 0x0D)" if l: "l \<in> set (leading @ concat (map package_lines ps))" for l
  proof (cases "l \<in> set leading")
    case True
    with assms(1) show ?thesis by (simp add: list_all_iff plain_line_def)
  next
    case False
    with l obtain p where "p \<in> set ps" "l \<in> set (package_lines p)" by auto
    with assms(2) show ?thesis by (intro package_lines_end) (auto simp: list_all_iff)
  qed
  then have "str_lines (lock_text leading ps) = leading @ concat (map package_lines ps)"
    unfolding lock_text_def by (rule str_lines_terminated)
  then show ?thesis using assms by (simp add: scan_plain_lines scan_packages)
qed

lemma search_locks_first:
  assumes "\<And>d. d \<in> set below \<Longrightarrow> read_to_string B (lock_path d) = None" "read_to_string B (lock_path dir) = Some lock"
  shows "search_locks B (below @ dir # dirs) =
    (unwrap_or ''not-in-graph'' (scan_lock False (str_lines lock)), [''cargo:rerun-if-changed='' @ lock_path dir])"
  using assms by (induction below) auto

lemma search_locks_result:
  "(\<exists>dir lock. dir \<in> set dirs \<and> read_to_string B (lock_path dir) = Some lock \<and> scan_lock False (str_lines lock) = Some v) \<or>
   v = ''unknown'' \<or> v = ''not-in-graph''" if "fst (search_locks B dirs) = v"
  using that by (induction dirs) (auto simp: unwrap_or_def split: option.splits)

lemma unread_unknown: "gen5_support ''unknown'' = Unknown" "gen5_support ''not-in-graph'' = Unknown"
  by (simp_all add: gen5_support_def)

section \<open>Properties\<close>

text \<open>
  C32: The version the build reports is the one the governing lockfile records: for the nearest directory, at most five above the
  manifest's, that holds a readable lockfile as Cargo writes them, it is the version of the first package of that name, and
  \<^verbatim>\<open>not-in-graph\<close> when there is none; and the crate is rebuilt when that file changes.
\<close>

theorem lockfile_version_reported:
  assumes "build_var B ''CARGO_MANIFEST_DIR'' = Some dir" "take 6 (ancestors (path_names dir)) = below @ found # further"
    and "list_all (\<lambda>d. read_to_string B (lock_path d) = None) below"
    and "read_to_string B (lock_path found) = Some (lock_text leading ps)"
    and "list_all plain_line leading" "list_all plain_package ps"
  shows "build_main B ! 0 = ''cargo:rerun-if-changed='' @ lock_path found \<and>
    build_main B ! 1 = ''cargo:rustc-env=SOLANA_REMOTE_WALLET_VERSION='' @
      (case List.find (\<lambda>p. lock_name p = REMOTE_WALLET) ps of None \<Rightarrow> ''not-in-graph'' | Some p \<Rightarrow> lock_version p)"
proof -
  have "search_locks B (below @ found # further) =
    (unwrap_or ''not-in-graph'' (scan_lock False (str_lines (lock_text leading ps))), [''cargo:rerun-if-changed='' @ lock_path found])"
    using assms(3,4) by (intro search_locks_first) (auto simp: list_all_iff)
  then show ?thesis
    using assms(1,2) scan_lock_text [OF assms(5,6)]
    by (simp add: build_main_def resolved_remote_wallet_version_def unwrap_or_def split: option.split)
qed

text \<open>
  C33: The diagnosis never blames or clears a version that was not read: when the build's version counts as known, with or without the
  product ids of a Nano Gen5, one of the six nearest lockfiles was read and its scan gave that version.
\<close>

theorem diagnosis_rests_on_lockfile:
  assumes "resolved_remote_wallet E = fst (resolved_remote_wallet_version B)" "gen5_support (resolved_remote_wallet E) \<noteq> Unknown"
  shows "\<exists>dir d lock. build_var B ''CARGO_MANIFEST_DIR'' = Some dir \<and> d \<in> set (take 6 (ancestors (path_names dir))) \<and>
    read_to_string B (lock_path d) = Some lock \<and> scan_lock False (str_lines lock) = Some (resolved_remote_wallet E)"
proof -
  have unread: "resolved_remote_wallet E \<noteq> ''unknown''" "resolved_remote_wallet E \<noteq> ''not-in-graph''"
    using assms(2) unread_unknown by metis+
  obtain dir where dir: "build_var B ''CARGO_MANIFEST_DIR'' = Some dir"
  proof (cases "build_var B ''CARGO_MANIFEST_DIR''")
    case None
    then have "resolved_remote_wallet E = ''unknown''" unfolding assms(1) resolved_remote_wallet_version_def None by (simp only: option.case fst_conv)
    with unread(1) show ?thesis by contradiction
  qed
  then have "fst (search_locks B (take 6 (ancestors (path_names dir)))) = resolved_remote_wallet E"
    unfolding assms(1) resolved_remote_wallet_version_def by (simp only: option.case)
  from search_locks_result [OF this] unread dir show ?thesis by metis
qed

section \<open>A build\<close>

text \<open>A crate two directories below its workspace, whose lockfile holds two packages.\<close>

definition demo_lock :: "lock_package list" where
  "demo_lock = [\<lparr>lock_name = ''serde'', lock_version = ''1.0.0'', lock_rest = [''dependencies = ['', '' serde_derive'', '']'', []]\<rparr>,
     \<lparr>lock_name = REMOTE_WALLET, lock_version = ''4.0.1'', lock_rest = [[]]\<rparr>]"

definition demo_build :: build_env where
  "demo_build =
     \<lparr>build_var = (\<lambda>v. if v = ''CARGO_MANIFEST_DIR'' then Some ''/repo/rust'' else None),
      read_to_string = (\<lambda>p. if p = ''/repo/Cargo.lock'' then Some (lock_text [''version = 4'', []] demo_lock) else None)\<rparr>"

lemma demo_ancestors: "take 6 (ancestors (path_names ''/repo/rust'')) = [[''repo'', ''rust'']] @ [''repo''] # [[]]"
  by code_simp

lemma demo_lock_paths [simp]:
  "lock_path [''repo'', ''rust''] = ''/repo/rust/Cargo.lock''" "lock_path [''repo''] = ''/repo/Cargo.lock''"
  by code_simp+

lemma demo_lock_plain: "list_all plain_line [''version = 4'', []]" "list_all plain_package demo_lock"
  by code_simp+

theorem lockfile_version_reported_witness:
  "build_main demo_build ! 1 = ''cargo:rustc-env=SOLANA_REMOTE_WALLET_VERSION=4.0.1''"
proof -
  have "build_var demo_build ''CARGO_MANIFEST_DIR'' = Some ''/repo/rust''" by (simp add: demo_build_def)
  from lockfile_version_reported [OF this demo_ancestors _ _ demo_lock_plain]
  have "build_main demo_build ! 1 = ''cargo:rustc-env=SOLANA_REMOTE_WALLET_VERSION='' @
      (case List.find (\<lambda>p. lock_name p = REMOTE_WALLET) demo_lock of None \<Rightarrow> ''not-in-graph'' | Some p \<Rightarrow> lock_version p)"
    by (simp add: demo_build_def)
  then show ?thesis by (simp add: demo_lock_def REMOTE_WALLET_def)
qed

lemma demo_version: "fst (resolved_remote_wallet_version demo_build) = ''4.0.1''"
proof -
  have "scan_lock False (str_lines (lock_text [''version = 4'', []] demo_lock)) = Some ''4.0.1''"
    unfolding scan_lock_text [OF demo_lock_plain] by (simp add: demo_lock_def REMOTE_WALLET_def)
  then show ?thesis
    by (simp add: resolved_remote_wallet_version_def demo_build_def demo_ancestors unwrap_or_def)
qed

lemma demo_support: "gen5_support ''4.0.1'' = Absent"
  by (simp add: gen5_support_def parse_uint_def is_digit_char_def digit_val_def)

theorem diagnosis_rests_on_lockfile_witness:
  "\<exists>d. read_to_string demo_build (lock_path d) = Some (lock_text [''version = 4'', []] demo_lock)"
proof -
  let ?E = "(demo_ledger [])\<lparr>resolved_remote_wallet := ''4.0.1''\<rparr>"
  have "\<exists>dir d lock. build_var demo_build ''CARGO_MANIFEST_DIR'' = Some dir \<and> d \<in> set (take 6 (ancestors (path_names dir))) \<and>
    read_to_string demo_build (lock_path d) = Some lock \<and> scan_lock False (str_lines lock) = Some (resolved_remote_wallet ?E)"
    by (rule diagnosis_rests_on_lockfile) (simp_all add: demo_version demo_support)
  then obtain d lock where "read_to_string demo_build (lock_path d) = Some lock" by blast
  then show ?thesis unfolding demo_build_def by (auto simp only: build_env.simps split: if_splits)
qed

end
