(* ===== verification/Spec2Isabelle.thy ===== *)
theory Spec2Isabelle
  imports Keychain_Calls Keychain_Cosign Signer_Debug Build_Script
begin

text \<open>
  A verification of the Rust crate \<^verbatim>\<open>solana-keychain\<close> (\<^verbatim>\<open>src/rust/src\<close>): one interface for signing Solana transactions and
  messages over many key custodians. A custodian is a \<^emph>\<open>backend\<close>: a local keypair, a Ledger device, two cloud KMS services and
  eleven remote APIs. Backends come in three shapes: a transaction signer signs the bytes it is given, a modifying signer
  may rewrite the transaction it signs, a sending signer broadcasts it itself. What matters is that a signature handed out
  covers what the caller asked for, that a transaction is not broadcast twice, and that no key material leaks.

  \<^bold>\<open>How the code is modelled.\<close> A struct is a record, an enum a datatype, \<^verbatim>\<open>Result\<close> a sum with \<open>signer_error\<close> on the left. A method
  that acts on the world is a function from the world to a result and the world after it (\<open>signer_io\<close>, with \<open>io_bind\<close> for
  \<^verbatim>\<open>?\<close> and \<^verbatim>\<open>await\<close>); the world of a remote backend is the \<open>trace\<close> of requests, sleeps and pending-slot updates made so far,
  the world of a Ledger is the process with its device thread. A \<^verbatim>\<open>&mut VersionedTransaction\<close> is the first half of the
  state, so what a failed call leaves in it is visible. A panic of \<^verbatim>\<open>pubkey\<close> is \<open>None\<close>. Fixed-width integers are words
  that wrap, as in a release build.
  Code outside the repository is a field of an environment record and an argument of every definition that calls it: the
  Solana SDK, ed25519, hashes and text encodings (\<open>sdk\<close>), the network, clock, JSON text and URL parsing (\<open>net_env\<close>), JWTs
  and UUIDs (\<open>auth_env\<close>), the keys and vendor SDKs of single providers (\<open>kms_env\<close>, \<open>privy_env\<close>, and so on), the HID and
  wallet libraries (\<open>ledger_env\<close>). Such a function may depend on the effects made so far, so a server may answer every
  request differently. No law is assumed of these functions except as a hypothesis of the theorem that needs it.

  \<^bold>\<open>Theories.\<close>
  \<^item> \<open>Keychain_Prelude\<close>: Rust's string, UTF-8 and number functions, results and effects, the collection \<open>result_simps\<close> that
    turns an outcome of a composed computation into the outcomes of its parts.
  \<^item> \<open>Sdk_Types\<close>, \<open>Signer_Error\<close> (\<^verbatim>\<open>error.rs\<close>), \<open>Transaction_Util\<close> (\<^verbatim>\<open>transaction_util.rs\<close>: attaching and classifying signatures,
    idempotency keys, the pending-id slot), \<open>Signature_Util\<close> (\<^verbatim>\<open>signature_util.rs\<close>: decoding, verification, extraction of
    returned signatures), \<open>Remote_Util\<close> (\<^verbatim>\<open>remote_util.rs\<close>, \<^verbatim>\<open>http_client_config.rs\<close>: clients, capped bodies, polling,
    percent-encoding), \<open>Sdk_Adapter\<close> (\<^verbatim>\<open>sdk_adapter\<close>: keypair functions over three versions of the SDK).
  \<^item> \<open>Response_Decoding\<close>: what the derived \<^verbatim>\<open>Deserialize\<close> instances make of a JSON tree (structs from objects and arrays, missing,
    repeated and unknown entries, defaults); each backend has a decoder \<open>de_\<dots>\<close> per struct of its \<^verbatim>\<open>types.rs\<close>, written from the
    declaration.
  \<^item> \<open>Remote_Calls\<close>: which calls a computation makes. \<open>makes_calls n P\<close> says at most \<open>n\<close> of them, all satisfying \<open>P\<close>; the rules
    \<open>calls_intros\<close> follow the structure of a method, so that the bound of a method is found by applying them.
  \<^item> \<open>Traits_Send\<close> (\<^verbatim>\<open>traits.rs\<close>, \<^verbatim>\<open>send.rs\<close>): the contracts as locales. \<open>solana_signer\<close>, \<open>transaction_signer\<close>,
    \<open>modifying_signer\<close> and \<open>sending_signer\<close> state what a backend promises (for the last one in terms of what the provider
    answered, which is read off the trace); what \<^verbatim>\<open>sign_and_send\<close> and \<^verbatim>\<open>modify_and_send\<close> make of
    it is proved once inside them. \<open>verified_signer\<close> is the shape of the remote backends, a sublocale of
    \<open>transaction_signer\<close>.
  \<^item> \<open>Memory_Signer\<close> (\<^verbatim>\<open>memory\<close>); \<open>Ledger_Dashboard\<close>, \<open>Ledger_Device\<close>, \<open>Ledger_Signer\<close>, \<open>Ledger_Claim\<close> (\<^verbatim>\<open>ledger\<close>: HID framing and
    device selection; the device thread and its cached session; the signer; the busy claim as a step relation over every
    interleaving of callers, deadlines and the thread).
  \<^item> \<open>Fordefi\<close> and \<open>Crossmint\<close>: the backends whose provider broadcasts, with submission, polling, approval and idempotency.
  \<^item> \<open>Vault_Signer\<close>, \<open>Kms_Signers\<close>, \<open>Para_Signer\<close>, \<open>Wallet_Jwt\<close>, \<open>Openfort_Signer\<close>, \<open>Cdp_Signer\<close>, \<open>Dfns_Signer\<close>, \<open>Turnkey_Signer\<close>,
    \<open>Fireblocks_Signer\<close>, \<open>Utila_Signer\<close>, \<open>Privy_Signer\<close>: the backends that return a signature, one per directory of the same
    name, each interpreted as a \<open>verified_signer\<close>, and each with the endpoint and the number of the calls its methods make.
  \<^item> \<open>Keychain_Signer\<close> (\<^verbatim>\<open>lib.rs\<close>): the enum, its constructors (\<open>constructed\<close> is the set of signers they build), the capability
    views and the unified \<^verbatim>\<open>sign_and_send\<close>; every backend meets the contract of its capability.
  \<^item> Over it: \<open>Keychain_Calls\<close> (the calls one method of a signer makes), \<open>Keychain_Cosign\<close> (sequences of signing calls on one
    transaction), \<open>Signer_Debug\<close> (the \<^verbatim>\<open>Debug\<close> instances). \<open>Build_Script\<close> is \<^verbatim>\<open>src/rust/build.rs\<close>, whose result the Ledger diagnosis
    uses. This theory holds the properties of the unified signer and the concrete environments in which they are run.

  \<^bold>\<open>What is shown.\<close> For the unified signer: a success means that the provider accepted the transaction, or that the caller's
  \<^verbatim>\<open>send\<close> got the complete encoding of the caller's transaction with a signature that verifies under the signer's key over
  its message (for a local keypair: that the keypair made); an error of a broadcasting backend that is
  not \<^verbatim>\<open>BroadcastUnconfirmed\<close> means that the provider refused every request of the call; an incomplete transaction never reaches
  \<^verbatim>\<open>send\<close>; a signer without a key does nothing; one call makes a bounded number of
  requests, all to the configured endpoint or key, through a client that refuses plain HTTP and redirects; signers of any kind
  can sign one transaction in turn without disturbing each other's slots, and when every required key has signed it is complete,
  unless a required key is repeated;
  the debug output depends on no credential. For the broadcasting backends: one create with
  its idempotency key, the id in the pending slot until the end, every failure after acceptance unconfirmed and with that id,
  one approval of the own challenge, and the landed transaction the returned signature is taken from. For the Ledger: one prompt at a
  time, a second request refused rather than queued, signing only on request, lossless framing, which device is chosen, and the
  off-chain envelope. For the shared code: which slot a signature goes to, when a transaction is complete, when a returned
  or rewritten transaction is accepted, round trips of encodings, caps on bodies, polling that ends within its budget, key parsing
  that leaks only a length, answers that are read alike whatever the order of their entries, and the version the build script reads from the lockfile.

  \<^bold>\<open>Bounds and termination.\<close> Loops are total functions on the bound the code counts to: polls by the attempt budget of the
  configuration (\<open>poll_from\<close>, \<open>poll_rounds\<close>, \<open>poll_signed\<close>), reconnection by the constant 20, the device thread by its command
  list, packets by the announced length. No fuel is introduced that the code does not have.

  \<^bold>\<open>Not modelled.\<close> Logging, \<^verbatim>\<open>cfg\<close> features other than the version of the SDK (all are on), the choice of TLS backend,
  the panic when the device thread cannot be started, getters of the fields of a signer, two device probes that are compiled for
  tests only, the tests, and the implementations in other languages. The types the crate re-exports from the Solana SDK, the reader of
  JSON text and the wording of its errors are parameters. The error paths of \<^verbatim>\<open>serde_json::to_string\<close> on the crate's own request types, which
  cannot fail, are left out. The requests of a check that a deadline cuts short all count as made.
\<close>

section \<open>A concrete keychain for witnesses\<close>

text \<open>
  The environments of the component theories together; a backend no witness runs gets decoders that fail. The AWS key signs
  with the seal of \<open>demo_sdk\<close>.
\<close>

definition demo_auth :: auth_env where
  "demo_auth = net_env.extend demo_net (auth_env.fields (\<lambda>t. 5) (\<lambda>u t. ''uuid'') (\<lambda>h c k. Inr ''jwt'')
     (\<lambda>b. Inr b) (\<lambda>b. Inr b) (\<lambda>b. Inr b) (\<lambda>h. True))"

text \<open>A landed transaction whose reported id is the signature of 64 zero bytes.\<close>

definition demo_zero_id :: transaction_response where
  "demo_zero_id = demo_landed\<lparr>resp_on_chain := Some \<lparr>on_chain_transaction = None, on_chain_tx_id = Some (bytes_str (replicate 64 0))\<rparr>\<rparr>"

definition demo_keychain :: "transaction_response \<Rightarrow> pubkey keychain_env" where
  "demo_keychain response =
     \<lparr>kc_sdk = demo_sdk, kc_local = demo_local, kc_net = demo_net,
      kc_privy = net_env.extend demo_net (privy_env.fields (\<lambda>s. Inl ''none'') (\<lambda>b. Inl ''none'') (\<lambda>k m. m)),
      kc_turnkey = net_env.extend demo_net (turnkey_env.fields (\<lambda>t. 5) (\<lambda>b. Inr b) (\<lambda>k m. m) bytes_str),
      kc_kms = net_env.extend demo_net (kms_env.fields (\<lambda>r. ''client'')
        (\<lambda>c t req. Inr (Some (demo_seal (replicate 32 1) (aws_req_message req))))
        (\<lambda>c t k. Inl ''none'') (\<lambda>c t k. Inl ''none'') (Inl ''none'') (\<lambda>c t k m. Inl ''none'') (\<lambda>c t k. Inl ''none'')),
      kc_fireblocks = auth_env.extend demo_auth (fireblocks_env.fields (\<lambda>m. False)),
      kc_cdp = auth_env.extend demo_auth (cdp_env.fields (\<lambda>b. Inl ''none'') (\<lambda>m. False)),
      kc_dfns = net_env.extend demo_net (dfns_env.fields bytes_str (\<lambda>s m. None) (\<lambda>s m. None) (\<lambda>s m. None) (\<lambda>s m. None)),
      kc_openfort = demo_auth,
      kc_para = demo_net,
      kc_crossmint = demo_crossmint response,
      kc_utila = demo_auth,
      kc_fordefi = demo_fordefi, kc_ledger = demo_rt Answered, kc_connect_join_error = (\<lambda>t. None)\<rparr>"

definition demo_aws :: "pubkey signer" where
  "demo_aws = AwsKms \<lparr>aws_client = ''client'', aws_key_id = ''k'', aws_public_key = demo_key 1\<rparr>"

lemma demo_aws_constructed: "constructed (demo_keychain demo_landed) demo_aws"
proof (rule constructed.aws_kms)
  have "aws_from_config (kc_kms (demo_keychain demo_landed))
      \<lparr>awsc_key_id = ''k'', awsc_public_key = bytes_str (replicate 32 1), awsc_region = None\<rparr> =
    Inr \<lparr>aws_client = ''client'', aws_key_id = ''k'', aws_public_key = demo_key 1\<rparr>"
    by code_simp
  then show "from_aws_kms (demo_keychain demo_landed) ''k'' (bytes_str (replicate 32 1)) None = Inr demo_aws"
    by (simp add: from_aws_kms_def demo_aws_def)
qed

section \<open>Properties of the unified signer\<close>

text \<open>
  C1: Signing a transaction and getting it on chain with any signer the constructors build. When the call succeeds on a backend
  that broadcasts, the provider accepted the transaction, the caller's transaction is untouched and the signature is not the
  empty one. On every other backend what the caller's \<^verbatim>\<open>send\<close> was given, in the world the signing left, is the encoding of the
  transaction now in the caller's hands: complete, carrying a signature that the backend vouches for over its message, and
  with the caller's own message unless the backend is a modifying one.
\<close>

theorem keychain_sign_and_send_ok:
  assumes built: "constructed K s" and run: "signer_sign_and_send K s send (tx, w) = (Inr sig, (tx', w'))"
  shows "if as_sending_signer K s \<noteq> None
    then tx' = tx \<and> sig \<noteq> default_signature \<and> provider_accepted K s tx w \<noteq> None
    else has_all_required_signatures tx' \<and>
      (tx_message tx' = tx_message tx \<or> as_modifying_signer K s \<noteq> None) \<and>
      (\<exists>pk own w1 enc sign. (as_transaction_signer K s = Some sign \<or> as_modifying_signer K s = Some sign) \<and>
         sign (tx, w) = (Inr (Complete (enc, own)), (tx', w1)) \<and>
         signer_pubkey K s = Some pk \<and> own \<in> set (tx_signatures tx') \<and>
         signer_vouches K s pk own (message_serialize (signer_sdk K s) (tx_message tx')) \<and>
         serialize_transaction (signer_sdk K s) tx' = Inr enc \<and> send enc w1 = (Inr sig, w'))"
proof -
  obtain pk where pk: "signer_pubkey K s = Some pk" using constructed_pubkey [OF built] by blast
  consider (sends) f where "as_sending_signer K s = Some f"
    | (signs) f where "as_sending_signer K s = None" "as_transaction_signer K s = Some f"
    | (modifies) f where "as_sending_signer K s = None" "as_transaction_signer K s = None" "as_modifying_signer K s = Some f"
    using some_capability [of K s] by (cases "as_sending_signer K s"; cases "as_transaction_signer K s") auto
  then show ?thesis
  proof cases
    case sends
    with run have "f tx w = (Inr sig, w')" "tx' = tx" "sig \<noteq> default_signature"
      by (auto simp: signer_sign_and_send_def result_simps require_broadcast_signature_def split: if_splits)
    then show ?thesis
      using sending_signer.success_accepted [OF sending_backend_contract [OF sends]] sends by auto
  next
    case signs
    with run have "sign_and_send f send (tx, w) = (Inr sig, (tx', w'))" by (simp add: signer_sign_and_send_def)
    from transaction_signer.sign_and_send_ok [OF transaction_backend_contract [OF signs(2)] this] signs(1)
    show ?thesis using pk signs(2) by (auto simp: unwrap_or_def dest: own_slot_signed_in) (metis own_slot_signed_in)
  next
    case modifies
    with run have "modify_and_send f send (tx, w) = (Inr sig, (tx', w'))" by (simp add: signer_sign_and_send_def)
    from modifying_signer.modify_and_send_ok [OF modifying_backend_contract [OF modifies(3)] this] modifies
    show ?thesis using pk by (auto simp: unwrap_or_def)
  qed
qed

text \<open>
  C2: What a definite error of a backend that broadcasts tells the caller who wants to try again. The unified call returns it
  unchanged, for every \<^verbatim>\<open>send\<close> and with the caller's transaction untouched; and every request of the call, if there was one, was answered
  by the provider with a refusal, a client error other than 408. A transport failure, a timeout, a server error or an unreadable answer
  to the create is therefore never reported as a definite error, nor is anything after an answer that named a transaction id.
\<close>

theorem keychain_definite_error:
  assumes sends: "as_sending_signer K s = Some f" and run: "f tx w = (Inl e, w')" and definite: "\<not> is_unconfirmed e"
  shows "signer_sign_and_send K s send (tx, w) = (Inl e, (tx, w')) \<and> provider_refused K s w w' \<and> provider_accepted K s tx w = None"
proof -
  have "signer_sign_and_send K s send (tx, w) = (Inl e, (tx, w'))"
    using sends run by (simp add: signer_sign_and_send_def io_bind_def io_world_def)
  then show ?thesis
    using sending_signer.definite_error_refused [OF sending_backend_contract [OF sends] run definite]
      sending_signer.definite_error_not_accepted [OF sending_backend_contract [OF sends] run definite] by simp
qed

text \<open>
  C3: The caller's \<^verbatim>\<open>send\<close> is given complete transactions only, and only on backends that do not broadcast themselves: when the backend
  broadcasts, or when the call leaves the caller with a transaction that lacks a required signature, the outcome of the call does not
  depend on \<^verbatim>\<open>send\<close> at all.
\<close>

theorem keychain_incomplete_not_sent:
  assumes run: "signer_sign_and_send K s send (tx, w) = (r, (tx', w'))"
    and unsent: "as_sending_signer K s \<noteq> None \<or> \<not> has_all_required_signatures tx'"
  shows "signer_sign_and_send K s send' (tx, w) = (r, (tx', w'))"
proof -
  consider (sends) f where "as_sending_signer K s = Some f"
    | (signs) f where "as_sending_signer K s = None" "as_transaction_signer K s = Some f"
    | (modifies) f where "as_sending_signer K s = None" "as_transaction_signer K s = None" "as_modifying_signer K s = Some f"
    using some_capability [of K s] by (cases "as_sending_signer K s"; cases "as_transaction_signer K s") auto
  then show ?thesis
  proof cases
    case sends
    with run show ?thesis by (simp add: signer_sign_and_send_def)
  next
    case signs
    have partial: "\<exists>p. res = Partial p" if call: "f (tx, w) = (Inr res, st1)" and lacks: "\<not> has_all_required_signatures (fst st1)" for res st1
    proof -
      obtain enc sig where "res = classify_signed_transaction (fst st1) (enc, sig)"
        using transaction_signer.sign_transaction_ok [OF transaction_backend_contract [OF signs(2)], of tx w res "fst st1" "snd st1"] call
        by (metis prod.collapse)
      with lacks show ?thesis by (simp add: classify_signed_transaction_def)
    qed
    have eq: "signer_sign_and_send K s g = sign_and_send f g" for g
      using signs by (simp add: signer_sign_and_send_def fun_eq_iff)
    have "\<not> has_all_required_signatures (fst (tx', w'))" using unsent signs(1) by simp
    from broadcast_step_unsent [OF run [unfolded eq sign_and_send_def] partial this] show ?thesis unfolding eq sign_and_send_def .
  next
    case modifies
    have partial: "\<exists>p. res = Partial p" if call: "f (tx, w) = (Inr res, st1)" and lacks: "\<not> has_all_required_signatures (fst st1)" for res st1
    proof -
      obtain enc sig where "res = classify_signed_transaction (fst st1) (enc, sig)"
        using modifying_signer.modify_ok [OF modifying_backend_contract [OF modifies(3)], of tx w res "fst st1" "snd st1"] call
        by (metis prod.collapse)
      with lacks show ?thesis by (simp add: classify_signed_transaction_def)
    qed
    have eq: "signer_sign_and_send K s g = modify_and_send f g" for g
      using modifies by (simp add: signer_sign_and_send_def fun_eq_iff)
    have "\<not> has_all_required_signatures (fst (tx', w'))" using unsent modifies(1) by simp
    from broadcast_step_unsent [OF run [unfolded eq modify_and_send_def] partial this] show ?thesis unfolding eq modify_and_send_def .
  qed
qed

text \<open>
  C36: A message signature returned by any signer the constructors build is one the backend vouches for, under the key
  \<^verbatim>\<open>pubkey\<close> gives, over the message itself or, on a Ledger, over the off-chain envelope of the message. A built signer has
  a key, so \<^verbatim>\<open>pubkey\<close> does not panic.
\<close>

theorem keychain_sign_message_vouched:
  assumes built: "constructed K s" and run: "signer_sign_message K s m w = (Inr sig, w')"
  shows "\<exists>pk b. signer_pubkey K s = Some pk \<and> signer_covers K s m b \<and> signer_vouches K s pk sig b"
proof -
  obtain pk where pk: "signer_pubkey K s = Some pk" using constructed_pubkey [OF built] by blast
  have "solana_signer (signer_vouches K s pk) (signer_covers K s) (signer_sign_message K s)"
    if "as_transaction_signer K s = Some f" for f
    using transaction_signer.axioms(1) [OF transaction_backend_contract [OF that]] pk by (simp add: unwrap_or_def)
  moreover have "solana_signer (signer_vouches K s pk) (signer_covers K s) (signer_sign_message K s)"
    if "as_transaction_signer K s = None"
    using that pk by (cases s; unfold_locales) (auto simp: signer_vouches_def signer_covers_def crossmint_sign_message_def
      native_auto_sign_message_def native_manual_sign_message_def native_sign_message_def io_place_def result_simps split: prod.splits)
  ultimately have "solana_signer (signer_vouches K s pk) (signer_covers K s) (signer_sign_message K s)"
    by (cases "as_transaction_signer K s") auto
  from solana_signer.sign_message_vouched [OF this run] pk show ?thesis by blast
qed

text \<open>
  C37: A signer that has not fetched its key yet does nothing: signing and sending returns a definite error without any request,
  without calling \<^verbatim>\<open>send\<close> and without touching the transaction.
\<close>

theorem keychain_uninitialized_does_nothing:
  assumes "signer_pubkey K s = None"
  shows "\<exists>e. signer_sign_and_send K s send (tx, w) = (Inl e, (tx, w)) \<and> \<not> is_unconfirmed e"
  using assms
  by (cases s) (auto simp: init_defs uninitialized_simps signer_sign_and_send_def sign_and_send_def privy_sign_transaction_def
     para_sign_transaction_def openfort_sign_transaction_def dfns_sign_transaction_def fireblocks_sign_transaction_def
     utila_sign_transaction_def privy_sign_and_serialize_def para_sign_and_serialize_def openfort_sign_and_serialize_def
     dfns_sign_and_serialize_def fireblocks_sign_and_serialize_def utila_sign_and_serialize_def classify_signed_def
     serialize_obtained_def io_bind_def io_lift_def io_world_def io_place_def on_trace_def Let_def ok_or_def
     split: sum.splits dest: serialize_wire_definite)

text \<open>
  C5: One call of a method on a signer the constructors build reaches out only to where the signer is configured for and only so often:
  every request goes to a path below the configured base URL, every KMS operation to the configured key, and there are at most as many
  as the method's budget, a constant or one create and the configured number of polls. A local keypair and a Ledger make none. The
  HTTP client refuses plain HTTP and redirects, so the credentials in those requests go nowhere else.
\<close>

theorem keychain_calls_bounded:
  assumes "constructed K s" and "signer_call K s n w w'"
  shows "(\<exists>es. fst w' = fst w @ es \<and> length (filter is_call es) \<le> n \<and> list_all (signer_endpoint K s) (filter is_call es)) \<and>
    (\<forall>c. signer_client s = Some c \<longrightarrow> client_https_only c \<and> client_redirect c = no_redirect_policy)"
  using signer_call_calls [OF assms(2)] constructed_client_hardened [OF assms(1)]
  by (auto simp: calls_between_def hardened_def)

text \<open>
  C4: Signers of any kind sign one transaction in turn, some calls failing. The message stays as it was; the slot of every signer that
  succeeded holds a signature that a participant with that key vouches for over this message; the slots of keys that took no part keep
  what they held.
\<close>

theorem keychain_co_signing:
  assumes "co_signs K tx w runs tx' w'" "\<And>s. s \<in> fst ` set runs \<Longrightarrow> constructed K s"
  shows "tx_message tx' = tx_message tx \<and>
    (\<forall>s. (s, True) \<in> set runs \<longrightarrow> (\<exists>pk p. signer_pubkey K s = Some pk \<and>
       get_signing_keypair_position (signer_sdk K s) tx pk = Inr p \<and> vouched_slot K (fst ` set runs) tx pk p tx')) \<and>
    (\<forall>i < length (tx_signatures tx). (\<forall>s \<in> fst ` set runs. signer_pubkey K s \<noteq> Some (account_keys tx ! i)) \<longrightarrow>
       i < length (tx_signatures tx') \<and> tx_signatures tx' ! i = tx_signatures tx ! i)"
  using co_signs_inv [OF assms] .

text \<open>
  C7: When every required key has signed, the transaction is classified as complete, whatever the order of the calls and the errors in
  between. This is for a transaction that has as many keys as its header requires signatures and in which no required key occurs twice,
  and for signers that do not vouch for the all-zero signature under their own key.
\<close>

theorem keychain_co_signing_completes:
  assumes run: "co_signs K tx w runs tx' w'" and built: "\<And>s. s \<in> fst ` set runs \<Longrightarrow> constructed K s"
    and all_sign: "\<And>k. k \<in> set (take (num_required tx) (account_keys tx)) \<Longrightarrow> \<exists>s. (s, True) \<in> set runs \<and> signer_pubkey K s = Some k"
    and keys: "distinct (take (num_required tx) (account_keys tx))" "num_required tx \<le> length (account_keys tx)"
    and nonzero: "\<And>s pk. s \<in> fst ` set runs \<Longrightarrow> signer_pubkey K s = Some pk \<Longrightarrow>
      \<not> signer_vouches K s pk default_signature (message_serialize (signer_sdk K s) (tx_message tx))"
  shows "classify_signed_transaction tx' st = Complete st"
proof -
  have "has_all_required_signatures tx'"
    using run built all_sign keys nonzero by (rule co_signing_completes)
  then show ?thesis by (simp add: classify_signed_transaction_def)
qed

text \<open>
  C31: The debug output of a signer tells nothing about its credentials: signers that differ only in them print the same.
\<close>

theorem debug_hides_credentials:
  "same_but_credentials K s s' \<Longrightarrow> signer_debug K s = signer_debug K s'"
  by (induction rule: same_but_credentials.induct) (simp_all add: debug_defs memory_pubkey_def)

text \<open>
  What a provider's answer is read as does not depend on the order in which it lists the entries of its objects, for every type of answer
  the backends read. (Only the error value that Crossmint reports is passed on as it came.)
\<close>

theorem responses_ignore_entry_order:
  assumes "same_json j j'"
  shows "de_activity_response j = de_activity_response j' \<and> de_get_private_key j = de_get_private_key j' \<and>
    de_privy_wallet j = de_privy_wallet j' \<and> de_privy_message j = de_privy_message j' \<and>
    de_privy_transaction j = de_privy_transaction j' \<and> de_cdp_transaction j = de_cdp_transaction j' \<and>
    de_cdp_message j = de_cdp_message j' \<and> de_dfns_wallet j = de_dfns_wallet j' \<and>
    de_dfns_signature j = de_dfns_signature j' \<and> de_user_action_challenge j = de_user_action_challenge j' \<and>
    de_user_action j = de_user_action j' \<and> de_vault_addresses j = de_vault_addresses j' \<and>
    de_fireblocks_create j = de_fireblocks_create j' \<and> de_fireblocks_transaction j = de_fireblocks_transaction j' \<and>
    de_openfort_sign j = de_openfort_sign j' \<and> de_account_info j = de_account_info j' \<and>
    de_para_wallet j = de_para_wallet j' \<and> de_para_sign j = de_para_sign j' \<and>
    de_wallet_response j = de_wallet_response j' \<and> de_transaction_envelope j = de_transaction_envelope j' \<and>
    de_fordefi_create j = de_fordefi_create j' \<and> de_status_response j = de_status_response j' \<and>
    de_vault_response j = de_vault_response j' \<and> de_wallet j = de_wallet j' \<and>
    map_option (\<lambda>r. r\<lparr>resp_error := None\<rparr>) (de_transaction j) = map_option (\<lambda>r. r\<lparr>resp_error := None\<rparr>) (de_transaction j')"
  by (intro conjI order_freeD [OF _ assms]; rule order_free_intros)

section \<open>Witness runs\<close>

definition demo_send :: "string \<Rightarrow> (world, signature) signer_io" where
  "demo_send enc w = (Inr (Signature [7]), w)"

definition demo_world :: world where
  "demo_world = ([], demo_process)"

lemma demo_aws_run:
  "is_ok (fst (signer_sign_and_send (demo_keychain demo_landed) demo_aws demo_send (demo_tx1, demo_world)))"
  "is_ok (fst (signer_sign_message (demo_keychain demo_landed) demo_aws [1, 2] demo_world))"
  by code_simp+

theorem keychain_sign_and_send_ok_witness:
  "\<exists>tx' own. has_all_required_signatures tx' \<and> tx_message tx' = tx_message demo_tx1 \<and> own \<in> set (tx_signatures tx') \<and>
     signer_vouches (demo_keychain demo_landed) demo_aws (demo_key 1) own
       (message_serialize (signer_sdk (demo_keychain demo_landed) demo_aws) (tx_message tx'))"
proof -
  let ?run = "signer_sign_and_send (demo_keychain demo_landed) demo_aws demo_send (demo_tx1, demo_world)"
  obtain sig tx' w' where run: "?run = (Inr sig, (tx', w'))"
    using demo_aws_run(1) by (cases ?run) (auto simp: is_ok_iff)
  have "as_sending_signer (demo_keychain demo_landed) demo_aws = None" "as_modifying_signer (demo_keychain demo_landed) demo_aws = None"
    "signer_pubkey (demo_keychain demo_landed) demo_aws = Some (demo_key 1)"
    by (simp_all add: demo_aws_def)
  with keychain_sign_and_send_ok [OF demo_aws_constructed run] show ?thesis by auto
qed

text \<open>A provider that refuses every request with status 403.\<close>

definition refusing_keychain :: "pubkey keychain_env" where
  "refusing_keychain = (demo_keychain demo_landed)\<lparr>kc_crossmint := (demo_crossmint demo_landed)\<lparr>http_send :=
     (\<lambda>c t r. Inr \<lparr>resp_status = 403, resp_chunks = [], resp_chunk_error = None\<rparr>)\<rparr>\<rparr>"

lemma demo_refused_run:
  "case execute_managed_transaction (kc_crossmint refusing_keychain) demo_wallet demo_tx1 [] of
     (Inl e, t') \<Rightarrow> \<not> is_unconfirmed e \<and> length t' = 1 | (Inr _, _) \<Rightarrow> False"
  by code_simp

theorem keychain_definite_error_witness:
  "\<exists>w'. length (fst w') = 1 \<and> provider_refused refusing_keychain (Crossmint demo_wallet) demo_world w' \<and>
     provider_accepted refusing_keychain (Crossmint demo_wallet) demo_tx1 demo_world = None"
proof -
  obtain e t' where run: "execute_managed_transaction (kc_crossmint refusing_keychain) demo_wallet demo_tx1 [] = (Inl e, t')"
    and e: "\<not> is_unconfirmed e" and one: "length t' = 1"
    using demo_refused_run by (auto split: prod.splits sum.splits)
  obtain f where f: "as_sending_signer refusing_keychain (Crossmint demo_wallet) = Some f" by simp
  with run have "f demo_tx1 demo_world = (Inl e, (t', demo_process))" by (auto simp: demo_world_def io_place_def)
  from keychain_definite_error [OF f this e, of demo_send] one show ?thesis by (metis fst_conv)
qed

theorem keychain_incomplete_not_sent_witness:
  "\<exists>r tx' w'. signer_sign_and_send (demo_keychain demo_landed) (Crossmint demo_wallet) demo_send (demo_tx1, demo_world) = (r, (tx', w')) \<and>
     signer_sign_and_send (demo_keychain demo_landed) (Crossmint demo_wallet) (\<lambda>enc w. (Inl (Other []), w)) (demo_tx1, demo_world) =
       (r, (tx', w'))"
proof -
  let ?K = "demo_keychain demo_landed" and ?s = "Crossmint demo_wallet"
  obtain r tx' w' where run: "signer_sign_and_send ?K ?s demo_send (demo_tx1, demo_world) = (r, (tx', w'))" by (metis surj_pair)
  have "as_sending_signer ?K ?s \<noteq> None \<or> \<not> has_all_required_signatures tx'" by simp
  from keychain_incomplete_not_sent [OF run this] run show ?thesis by blast
qed

theorem keychain_sign_message_vouched_witness:
  "\<exists>sig. signer_vouches (demo_keychain demo_landed) demo_aws (demo_key 1) sig [1, 2]"
proof -
  let ?run = "signer_sign_message (demo_keychain demo_landed) demo_aws [1, 2] demo_world"
  obtain sig w' where run: "?run = (Inr sig, w')"
    using demo_aws_run(2) by (cases ?run) (auto simp: is_ok_iff)
  show ?thesis using keychain_sign_message_vouched [OF demo_aws_constructed run] by (auto simp: demo_aws_def signer_covers_def)
qed

theorem keychain_uninitialized_does_nothing_witness:
  "\<exists>e. signer_sign_and_send (demo_keychain demo_landed) (Crossmint (demo_wallet\<lparr>cm_public_key := None\<rparr>)) demo_send
     (demo_tx1, demo_world) = (Inl e, (demo_tx1, demo_world))"
proof -
  have "signer_pubkey (demo_keychain demo_landed) (Crossmint (demo_wallet\<lparr>cm_public_key := None\<rparr>)) = None"
    by (simp add: crossmint_pubkey_def)
  from keychain_uninitialized_does_nothing [OF this, of demo_send demo_tx1 demo_world] show ?thesis by blast
qed

theorem keychain_calls_bounded_witness:
  "\<exists>es. fst (snd (signer_is_available (demo_keychain demo_landed) demo_aws demo_world)) = es \<and> length (filter is_call es) \<le> 2"
proof -
  have "signer_call (demo_keychain demo_landed) demo_aws (availability_budget demo_aws) demo_world
      (snd (signer_is_available (demo_keychain demo_landed) demo_aws demo_world))"
    by (rule signer_call.is_available [of _ _ _ "fst (signer_is_available (demo_keychain demo_landed) demo_aws demo_world)"]) simp
  from keychain_calls_bounded [OF demo_aws_constructed this] show ?thesis
    by (auto simp: demo_aws_def demo_world_def)
qed

lemma demo_co_signs:
  obtains tx' w' where "co_signs (demo_keychain demo_landed) demo_tx1 demo_world [(demo_aws, True)] tx' w'"
proof -
  let ?K = "demo_keychain demo_landed"
  obtain f where f: "as_transaction_signer ?K demo_aws = Some f" by (simp add: demo_aws_def)
  have "is_ok (fst (f (demo_tx1, demo_world)))"
  proof -
    have "is_ok (fst (on_trace (aws_sign_transaction (kc_kms ?K) \<lparr>aws_client = ''client'', aws_key_id = ''k'', aws_public_key = demo_key 1\<rparr>)
      (demo_tx1, demo_world)))" by code_simp
    with f show ?thesis by (simp add: demo_aws_def)
  qed
  moreover obtain r tx' w' where run: "f (demo_tx1, demo_world) = (r, (tx', w'))" by (metis prod.exhaust)
  ultimately have "is_ok r" by simp
  with co_signs.call [OF co_signs.start f run] that show thesis by simp
qed

theorem keychain_co_signing_witness:
  "\<exists>tx' p. tx_message tx' = tx_message demo_tx1 \<and> vouched_slot (demo_keychain demo_landed) {demo_aws} demo_tx1 (demo_key 1) p tx'"
proof -
  obtain tx' w' where run: "co_signs (demo_keychain demo_landed) demo_tx1 demo_world [(demo_aws, True)] tx' w'" by (rule demo_co_signs)
  have "constructed (demo_keychain demo_landed) s" if "s \<in> fst ` set [(demo_aws, True)]" for s
    using that demo_aws_constructed by simp
  from keychain_co_signing [OF run this] show ?thesis by (auto simp: demo_aws_def)
qed

theorem keychain_co_signing_completes_witness:
  "\<exists>tx'. tx_message tx' = tx_message demo_tx1 \<and> classify_signed_transaction tx' ([], default_signature) = Complete ([], default_signature)"
proof -
  let ?K = "demo_keychain demo_landed"
  obtain tx' w' where run: "co_signs ?K demo_tx1 demo_world [(demo_aws, True)] tx' w'" by (rule demo_co_signs)
  have built: "constructed ?K s" if "s \<in> fst ` set [(demo_aws, True)]" for s
    using that demo_aws_constructed by simp
  have keys: "take (num_required demo_tx1) (account_keys demo_tx1) = [demo_key 1]" "num_required demo_tx1 = 1" "length (account_keys demo_tx1) \<ge> 1"
    by code_simp+
  have "classify_signed_transaction tx' ([], default_signature) = Complete ([], default_signature)"
  proof (rule keychain_co_signing_completes [OF run built])
    show "\<exists>s. (s, True) \<in> set [(demo_aws, True)] \<and> signer_pubkey ?K s = Some k"
      if "k \<in> set (take (num_required demo_tx1) (account_keys demo_tx1))" for k
      using that by (simp add: keys(1) demo_aws_def)
    show "\<not> signer_vouches ?K s pk default_signature (message_serialize (signer_sdk ?K s) (tx_message demo_tx1))"
      if "s \<in> fst ` set [(demo_aws, True)]" "signer_pubkey ?K s = Some pk" for s pk
    proof -
      have "s = demo_aws" "pk = demo_key 1" using that by (auto simp: demo_aws_def)
      moreover have "\<not> signer_vouches ?K demo_aws (demo_key 1) default_signature
          (message_serialize (signer_sdk ?K demo_aws) (tx_message demo_tx1))"
        by code_simp
      ultimately show ?thesis by simp
    qed
  qed (use keys in simp_all)
  then show ?thesis using co_signs_inv [OF run built] by auto
qed

theorem responses_ignore_entry_order_witness:
  "de_status_response (JObject [(''state'', JString ''completed''), (''raw_transaction'', JNull)]) =
     de_status_response (JObject [(''raw_transaction'', JNull), (''state'', JString ''completed'')])"
proof -
  have "same_json (JObject [(''state'', JString ''completed''), (''raw_transaction'', JNull)])
      (JObject [(''raw_transaction'', JNull), (''state'', JString ''completed'')])"
    by (rule same_object [of _ "[(''raw_transaction'', JNull), (''state'', JString ''completed'')]"]) (simp_all add: same_refl)
  then show ?thesis using responses_ignore_entry_order by blast
qed

theorem debug_hides_credentials_witness:
  "signer_debug (demo_keychain demo_landed) (Crossmint demo_wallet) =
     signer_debug (demo_keychain demo_landed) (Crossmint (demo_wallet\<lparr>cm_api_key := ''other'', cm_signing_key := Some [1, 2]\<rparr>))"
  by (rule debug_hides_credentials) (rule same_but_credentials.intros)

text \<open>
  The exception of the error theorem happens: Crossmint accepts the transaction as \<open>tx1\<close>, reports it landed with a
  \<^verbatim>\<open>txId\<close> of zero bytes, and the caller gets a plain signing failure.
\<close>

lemma zero_id_reported_as_failed_signing:
  "fst (signer_sign_and_send (demo_keychain demo_zero_id) (Crossmint demo_wallet) demo_send (demo_tx1, demo_world)) =
     Inl (SigningFailed ''Signer returned no signature for the transaction it broadcast'')"
  "provider_accepted (demo_keychain demo_zero_id) (Crossmint demo_wallet) demo_tx1 demo_world = Some ''tx1''"
  by code_simp+


end
